(* ===== verification/Prelude.thy ===== *)
theory Prelude
  imports Main "HOL-Library.Multiset" "HOL-Library.List_Lexorder" "HOL-Library.Char_ord"
begin

text \<open>
  Shared ground of the development: Go error values, the computations of the
  controllers (a state passing monad with errors as values), weakest preconditions
  for them, association lists as Go maps, and stable sorting by a three-way
  comparison.

  A Go function \<open>f(...) (T, error)\<close> that touches state is a HOL function into
  \<open>('s, 'a) go\<close>: it maps a state to an error or a value, and to the state that is
  left behind in either case, since Go keeps the effects made before an error.
\<close>

named_theorems wp_simps "weakest precondition rules of the operations"
named_theorems quiet_rules "operations and programs that append no unexpected call"

section \<open>Error values\<close>

text \<open>
  \<open>Sentinel\<close> is an \<open>errors.New\<close> variable, identified by its message; \<open>Api\<close> an error
  of the Kubernetes API with its reason; \<open>Errorf\<close> the value of \<open>fmt.Errorf\<close>. Texts are
  kept as the format and its arguments, not expanded: nothing in the program reads
  one back. An error among the arguments is wrapped: the program formats every error
  it passes to \<open>fmt.Errorf\<close> with \<open>%w\<close>.
\<close>

datatype api_reason = NotFound | AlreadyExists | Conflict | OtherReason

datatype goerr =
    Sentinel string
  | Api api_reason string
  | Errorf string "goarg list"
and goarg =
    Str string
  | Num int
  | Err goerr

type_synonym message = "string \<times> goarg list"

text \<open>\<open>err.Error()\<close> as the text of a message.\<close>

definition err_text :: "goerr \<Rightarrow> message" where
  "err_text e = (''%s'', [Err e])"

text \<open>\<open>errors.Is\<close> and the reason tests of \<open>apierrors\<close> walk the wrapped errors.\<close>

fun err_is :: "goerr \<Rightarrow> goerr \<Rightarrow> bool"
  and arg_is :: "goarg \<Rightarrow> goerr \<Rightarrow> bool" where
  "err_is (Sentinel m) t = (Sentinel m = t)"
| "err_is (Api r m) t = (Api r m = t)"
| "err_is (Errorf m es) t = (Errorf m es = t \<or> list_ex (\<lambda>e. arg_is e t) es)"
| "arg_is (Err e) t = err_is e t"
| "arg_is (Str _) t = False"
| "arg_is (Num _) t = False"

fun has_reason :: "api_reason \<Rightarrow> goerr \<Rightarrow> bool"
  and arg_has_reason :: "api_reason \<Rightarrow> goarg \<Rightarrow> bool" where
  "has_reason r (Sentinel _) = False"
| "has_reason r (Api r' _) = (r = r')"
| "has_reason r (Errorf _ es) = list_ex (arg_has_reason r) es"
| "arg_has_reason r (Err e) = has_reason r e"
| "arg_has_reason r (Str _) = False"
| "arg_has_reason r (Num _) = False"

abbreviation IsNotFound :: "goerr \<Rightarrow> bool" where
  "IsNotFound \<equiv> has_reason NotFound"

abbreviation IsAlreadyExists :: "goerr \<Rightarrow> bool" where
  "IsAlreadyExists \<equiv> has_reason AlreadyExists"

section \<open>Computations\<close>

type_synonym ('s, 'a) go = "'s \<Rightarrow> (goerr + 'a) \<times> 's"

definition ret :: "'a \<Rightarrow> ('s, 'a) go" where
  "ret x = (\<lambda>s. (Inr x, s))"

definition fail :: "goerr \<Rightarrow> ('s, 'a) go" where
  "fail e = (\<lambda>s. (Inl e, s))"

definition bind_go :: "('s, 'a) go \<Rightarrow> ('a \<Rightarrow> ('s, 'b) go) \<Rightarrow> ('s, 'b) go" where
  "bind_go m f = (\<lambda>s. case m s of (Inl e, t) \<Rightarrow> (Inl e, t) | (Inr a, t) \<Rightarrow> f a t)"

text \<open>\<open>attempt m\<close> hands the error of \<open>m\<close> to the continuation, as \<open>x, err := m\<close> does
  before the code looks at \<open>err\<close>.\<close>

definition attempt :: "('s, 'a) go \<Rightarrow> ('s, goerr + 'a) go" where
  "attempt m = (\<lambda>s. (Inr (fst (m s)), snd (m s)))"

text \<open>For evaluation: \<open>m\<close> runs once.\<close>

lemma attempt_code [code]: "attempt m = (\<lambda>s. case m s of (x, t) \<Rightarrow> (Inr x, t))"
  by (auto simp: attempt_def split: prod.split)

definition on_error :: "('s, 'a) go \<Rightarrow> (goerr \<Rightarrow> ('s, 'a) go) \<Rightarrow> ('s, 'a) go" where
  "on_error m h = (\<lambda>s. case m s of (Inl e, t) \<Rightarrow> h e t | (Inr a, t) \<Rightarrow> (Inr a, t))"

definition lift :: "goerr + 'a \<Rightarrow> ('s, 'a) go" where
  "lift r = (\<lambda>s. (r, s))"

definition get_state :: "('s, 's) go" where
  "get_state = (\<lambda>s. (Inr s, s))"

definition modify :: "('s \<Rightarrow> 's) \<Rightarrow> ('s, unit) go" where
  "modify f = (\<lambda>s. (Inr (), f s))"

definition do_when :: "bool \<Rightarrow> ('s, unit) go \<Rightarrow> ('s, unit) go" where
  "do_when b m = (if b then m else ret ())"

text \<open>
  The weakest precondition: \<open>wp m Q E s\<close> says that \<open>m\<close> started in \<open>s\<close> ends in a state
  with \<open>Q\<close> of the value, or with \<open>E\<close> of the error.
\<close>

definition wp :: "('s, 'a) go \<Rightarrow> ('a \<Rightarrow> 's \<Rightarrow> bool) \<Rightarrow> (goerr \<Rightarrow> 's \<Rightarrow> bool) \<Rightarrow> 's \<Rightarrow> bool" where
  "wp m Q E s = (case m s of (Inl e, t) \<Rightarrow> E e t | (Inr a, t) \<Rightarrow> Q a t)"

lemma wp_ret [wp_simps]: "wp (ret x) Q E s = Q x s"
  by (simp add: wp_def ret_def)

lemma wp_fail [wp_simps]: "wp (fail e) Q E s = E e s"
  by (simp add: wp_def fail_def)

lemma wp_bind [wp_simps]: "wp (bind_go m f) Q E s = wp m (\<lambda>a. wp (f a) Q E) E s"
  by (auto simp: wp_def bind_go_def split: prod.splits sum.splits)

lemma wp_attempt [wp_simps]:
  "wp (attempt m) Q E s = wp m (\<lambda>a. Q (Inr a)) (\<lambda>e. Q (Inl e)) s"
  by (auto simp: wp_def attempt_def split: prod.splits sum.splits)

lemma wp_on_error [wp_simps]: "wp (on_error m h) Q E s = wp m Q (\<lambda>e. wp (h e) Q E) s"
  by (auto simp: wp_def on_error_def split: prod.splits sum.splits)

lemma wp_lift [wp_simps]:
  "wp (lift r) Q E s = (case r of Inl e \<Rightarrow> E e s | Inr a \<Rightarrow> Q a s)"
  by (simp add: wp_def lift_def split: sum.splits)

lemma wp_get_state [wp_simps]: "wp get_state Q E s = Q s s"
  by (simp add: wp_def get_state_def)

lemma wp_modify [wp_simps]: "wp (modify f) Q E s = Q () (f s)"
  by (simp add: wp_def modify_def)

lemma wp_when [wp_simps]: "wp (do_when b m) Q E s = (if b then wp m Q E s else Q () s)"
  by (simp add: do_when_def wp_ret)

lemma wp_if [wp_simps]: "wp (if b then m else n) Q E s = (if b then wp m Q E s else wp n Q E s)"
  by simp

lemma wp_mono:
  assumes "wp m Q E s"
    and "\<And>a t. Q a t \<Longrightarrow> Q' a t" and "\<And>e t. E e t \<Longrightarrow> E' e t"
  shows "wp m Q' E' s"
  using assms by (auto simp: wp_def split: prod.splits sum.splits)

lemma wp_conj:
  "wp m Q E s \<Longrightarrow> wp m Q' E' s \<Longrightarrow>
   wp m (\<lambda>a t. Q a t \<and> Q' a t) (\<lambda>e t. E e t \<and> E' e t) s"
  by (auto simp: wp_def split: prod.splits sum.splits)

lemma wp_result: "wp m Q E s \<Longrightarrow> m s = (Inr a, t) \<Longrightarrow> Q a t"
  by (simp add: wp_def)

lemma wp_error: "wp m Q E s \<Longrightarrow> m s = (Inl e, t) \<Longrightarrow> E e t"
  by (simp add: wp_def)

lemma bind_result: "m s = (Inr a, t) \<Longrightarrow> bind_go m f s = f a t"
  by (simp add: bind_go_def)

lemma bind_error: "m s = (Inl e, t) \<Longrightarrow> bind_go m f s = (Inl e, t)"
  by (simp add: bind_go_def)

lemma bind_ret: "bind_go (ret x) f = f x"
  by (rule ext) (simp add: bind_go_def ret_def)

lemma wp_same: "wp m (\<lambda>_. P) (\<lambda>_. P) s \<longleftrightarrow> P (snd (m s))"
  by (auto simp: wp_def split: prod.splits sum.splits)

section \<open>Go maps\<close>

text \<open>
  A Go map is an association list with \<open>map_of\<close> as its lookup; only the mapping it
  stands for matters, and \<open>map_eq\<close> compares two maps as \<open>DeepEqual\<close> does (a nil map
  equals an empty one, as in \<open>equality.Semantic\<close>).
\<close>

type_synonym 'v gomap = "(string \<times> 'v) list"

definition map_put :: "string \<Rightarrow> 'v \<Rightarrow> 'v gomap \<Rightarrow> 'v gomap" where
  "map_put k v m = (k, v) # filter (\<lambda>p. fst p \<noteq> k) m"

definition map_copy :: "'v gomap \<Rightarrow> 'v gomap \<Rightarrow> 'v gomap" where
  "map_copy dst src = fold (\<lambda>p m. map_put (fst p) (snd p) m) src dst"

definition map_eq :: "'v gomap \<Rightarrow> 'v gomap \<Rightarrow> bool" where
  "map_eq a b = list_all (\<lambda>k. map_of a k = map_of b k) (map fst a @ map fst b)"

definition lookup_str :: "string gomap \<Rightarrow> string \<Rightarrow> string" where
  "lookup_str m k = (case map_of m k of None \<Rightarrow> '''' | Some v \<Rightarrow> v)"

lemma map_of_filter_ne [simp]:
  "map_of (filter (\<lambda>p. fst p \<noteq> k) m) x = (if x = k then None else map_of m x)"
  by (induction m) auto

lemma map_of_map_put [simp]: "map_of (map_put k v m) = (map_of m)(k \<mapsto> v)"
  by (auto simp: map_put_def fun_eq_iff)

lemma map_of_map_copy_distinct:
  "distinct (map fst src) \<Longrightarrow> map_of (map_copy dst src) = map_of dst ++ map_of src"
proof (induction src arbitrary: dst)
  case Nil
  then show ?case by (simp add: map_copy_def)
next
  case (Cons p src)
  have "map_copy dst (p # src) = map_copy (map_put (fst p) (snd p) dst) src"
    by (simp add: map_copy_def)
  with Cons show ?case
    by (cases p) (auto simp: fun_eq_iff map_add_def map_of_eq_None_iff image_iff
        split: option.splits dest: map_of_SomeD)
qed

lemma map_eq_iff: "map_eq a b \<longleftrightarrow> map_of a = map_of b"
proof
  assume eq: "map_eq a b"
  show "map_of a = map_of b"
  proof
    fix k
    show "map_of a k = map_of b k"
    proof (cases "k \<in> set (map fst a @ map fst b)")
      case True
      with eq show ?thesis by (auto simp: map_eq_def list_all_iff)
    next
      case False
      then have "map_of a k = None" "map_of b k = None"
        by (auto simp: map_of_eq_None_iff)
      then show ?thesis by simp
    qed
  qed
qed (simp add: map_eq_def list_all_iff)

section \<open>Stable sorting by a comparison\<close>

text \<open>
  \<open>slices.SortStableFunc\<close> sorts by a three-way comparison, keeping equal elements in
  order. For a comparison that is a total preorder the result is determined, and
  insertion computes it.
\<close>

fun insert_stable :: "('a \<Rightarrow> 'a \<Rightarrow> int) \<Rightarrow> 'a \<Rightarrow> 'a list \<Rightarrow> 'a list" where
  "insert_stable cmp x [] = [x]"
| "insert_stable cmp x (y # ys) =
     (if cmp x y \<le> 0 then x # y # ys else y # insert_stable cmp x ys)"

fun SortStableFunc :: "('a \<Rightarrow> 'a \<Rightarrow> int) \<Rightarrow> 'a list \<Rightarrow> 'a list" where
  "SortStableFunc cmp [] = []"
| "SortStableFunc cmp (x # xs) = insert_stable cmp x (SortStableFunc cmp xs)"

lemma mset_insert_stable [simp]: "mset (insert_stable cmp x ys) = add_mset x (mset ys)"
  by (induction ys) auto

lemma mset_SortStableFunc [simp]: "mset (SortStableFunc cmp xs) = mset xs"
  by (induction xs) auto

lemma set_insert_stable [simp]: "set (insert_stable cmp x ys) = insert x (set ys)"
  by (induction ys) auto

lemma set_SortStableFunc [simp]: "set (SortStableFunc cmp xs) = set xs"
  by (induction xs) auto

lemma length_SortStableFunc [simp]: "length (SortStableFunc cmp xs) = length xs"
  by (metis mset_SortStableFunc size_mset)

lemma distinct_map_SortStableFunc:
  "distinct (map f (SortStableFunc cmp xs)) = distinct (map f xs)"
  by (metis (no_types) mset_SortStableFunc mset_eq_imp_distinct_iff mset_map)

locale comparison =
  fixes cmp :: "'a \<Rightarrow> 'a \<Rightarrow> int"
  assumes cmp_total: "cmp x y \<le> 0 \<or> cmp y x \<le> 0"
    and cmp_trans: "cmp x y \<le> 0 \<Longrightarrow> cmp y z \<le> 0 \<Longrightarrow> cmp x z \<le> 0"
begin

lemma cmp_refl: "cmp x x \<le> 0"
  using cmp_total by blast

lemma sorted_insert_stable:
  "sorted_wrt (\<lambda>a b. cmp a b \<le> 0) ys \<Longrightarrow>
   sorted_wrt (\<lambda>a b. cmp a b \<le> 0) (insert_stable cmp x ys)"
  by (induction ys) (auto intro: cmp_trans, use cmp_total in blast)

lemma sorted_SortStableFunc: "sorted_wrt (\<lambda>a b. cmp a b \<le> 0) (SortStableFunc cmp xs)"
  by (induction xs) (auto intro: sorted_insert_stable)

text \<open>A list that is sorted already is left alone; in particular sorting twice is
  sorting once.\<close>

lemma insert_stable_least:
  "\<forall>y\<in>set ys. cmp x y \<le> 0 \<Longrightarrow> insert_stable cmp x ys = x # ys"
  by (cases ys) auto

lemma SortStableFunc_sorted:
  "sorted_wrt (\<lambda>a b. cmp a b \<le> 0) xs \<Longrightarrow> SortStableFunc cmp xs = xs"
  by (induction xs) (auto simp: insert_stable_least)

lemma SortStableFunc_idem: "SortStableFunc cmp (SortStableFunc cmp xs) = SortStableFunc cmp xs"
  by (rule SortStableFunc_sorted[OF sorted_SortStableFunc])

text \<open>Stability: the elements that compare equal to \<open>z\<close> keep their order.\<close>

lemma insert_stable_filter_other:
  "\<not> P x \<Longrightarrow> filter P (insert_stable cmp x ys) = filter P ys"
  by (induction ys) auto

lemma insert_stable_filter_same:
  assumes "\<And>y. P y \<longleftrightarrow> cmp y z \<le> 0 \<and> cmp z y \<le> 0" and "P x"
  shows "filter P (insert_stable cmp x ys) = x # filter P ys"
  using assms by (induction ys) (auto intro: cmp_trans)

lemma SortStableFunc_stable:
  "filter (\<lambda>y. cmp y z \<le> 0 \<and> cmp z y \<le> 0) (SortStableFunc cmp xs) =
   filter (\<lambda>y. cmp y z \<le> 0 \<and> cmp z y \<le> 0) xs"
proof (induction xs)
  case (Cons x xs)
  then show ?case
    using insert_stable_filter_same[of "\<lambda>y. cmp y z \<le> 0 \<and> cmp z y \<le> 0" z x]
      insert_stable_filter_other[of "\<lambda>y. cmp y z \<le> 0 \<and> cmp z y \<le> 0" x]
    by (cases "cmp x z \<le> 0 \<and> cmp z x \<le> 0") auto
qed simp

end

section \<open>Seniority\<close>

text \<open>
  Several resources may claim the same thing (a BorgBase repository, a healthchecks
  slug); the older one wins. \<open>older\<close> is a strict order that is total on resources
  with different keys.
\<close>

locale seniority =
  fixes older :: "'a \<Rightarrow> 'a \<Rightarrow> bool" and key :: "'a \<Rightarrow> 'k"
  assumes older_irrefl: "\<not> older a a"
    and older_trans: "older a b \<Longrightarrow> older b c \<Longrightarrow> older a c"
    and older_total: "key a \<noteq> key b \<Longrightarrow> older a b \<or> older b a"
begin

lemma older_asym: "older a b \<Longrightarrow> \<not> older b a"
  using older_irrefl older_trans by blast

lemma eldest_exists:
  "finite A \<Longrightarrow> A \<noteq> {} \<Longrightarrow> \<exists>a\<in>A. \<forall>b\<in>A. \<not> older b a"
proof (induction A rule: finite_ne_induct)
  case (singleton x)
  then show ?case by (simp add: older_irrefl)
next
  case (insert x F)
  then obtain a where a: "a \<in> F" "\<forall>b\<in>F. \<not> older b a" by blast
  show ?case
  proof (cases "older x a")
    case True
    with a have "\<forall>b\<in>F. \<not> older b x" by (blast intro: older_trans)
    then show ?thesis by (auto simp: older_irrefl)
  next
    case False
    with a show ?thesis by auto
  qed
qed

text \<open>Among claimants with distinct keys exactly one has no older rival.\<close>

lemma eldest_unique:
  assumes "finite A" "A \<noteq> {}" "inj_on key A"
  shows "\<exists>!a. a \<in> A \<and> (\<forall>b\<in>A. key b \<noteq> key a \<longrightarrow> \<not> older b a)"
proof -
  from eldest_exists[OF assms(1,2)] obtain a where a: "a \<in> A" "\<forall>b\<in>A. \<not> older b a"
    by blast
  show ?thesis
  proof (rule ex1I)
    show "a \<in> A \<and> (\<forall>b\<in>A. key b \<noteq> key a \<longrightarrow> \<not> older b a)" using a by blast
  next
    fix c assume c: "c \<in> A \<and> (\<forall>b\<in>A. key b \<noteq> key c \<longrightarrow> \<not> older b c)"
    show "c = a"
    proof (rule ccontr)
      assume "c \<noteq> a"
      with assms(3) a(1) c have "key a \<noteq> key c" by (auto dest: inj_onD)
      with a c older_total show False by blast
    qed
  qed
qed

end

end
