(* ===== verification/GoStrings.thy ===== *)
theory GoStrings
  imports Prelude
begin

text \<open>
  The part of Go's \<open>strings\<close> and \<open>strconv\<close> packages the program uses. A Go string
  is a sequence of bytes, here a \<open>char list\<close>; white space is Unicode white space in
  its UTF-8 encoding, as in \<open>strings.TrimSpace\<close> and \<open>strings.Fields\<close>.
\<close>

abbreviation nl :: char where "nl \<equiv> CHR 0x0A"
abbreviation tab :: char where "tab \<equiv> CHR 0x09"

section \<open>Prefixes, suffixes, cutting and replacing\<close>

fun CutPrefix :: "string \<Rightarrow> string \<Rightarrow> string option" where
  "CutPrefix s [] = Some s"
| "CutPrefix [] (p # ps) = None"
| "CutPrefix (c # s) (p # ps) = (if c = p then CutPrefix s ps else None)"

definition HasPrefix :: "string \<Rightarrow> string \<Rightarrow> bool" where
  "HasPrefix s p = (CutPrefix s p \<noteq> None)"

definition TrimPrefix :: "string \<Rightarrow> string \<Rightarrow> string" where
  "TrimPrefix s p = (case CutPrefix s p of None \<Rightarrow> s | Some r \<Rightarrow> r)"

definition CutSuffix :: "string \<Rightarrow> string \<Rightarrow> string option" where
  "CutSuffix s p = map_option rev (CutPrefix (rev s) (rev p))"

lemma CutPrefix_append [simp]: "CutPrefix (p @ s) p = Some s"
  by (induction p) auto

lemma CutPrefix_Some: "CutPrefix s p = Some r \<longleftrightarrow> s = p @ r"
  by (induction s p rule: CutPrefix.induct) auto

lemma HasPrefix_iff: "HasPrefix s p \<longleftrightarrow> (\<exists>r. s = p @ r)"
  by (cases "CutPrefix s p") (auto simp: HasPrefix_def CutPrefix_Some)

lemma HasPrefix_append [simp]: "HasPrefix (p @ s) p"
  by (simp add: HasPrefix_def)

lemma CutSuffix_Some: "CutSuffix s p = Some r \<longleftrightarrow> s = r @ p"
  by (auto simp: CutSuffix_def CutPrefix_Some rev_swap)

text \<open>\<open>strings.Cut\<close>: around the first occurrence of a non-empty separator.\<close>

fun Cut :: "string \<Rightarrow> string \<Rightarrow> (string \<times> string) option" where
  "Cut [] sep = (if sep = [] then Some ([], []) else None)"
| "Cut (c # s) sep =
     (case CutPrefix (c # s) sep of
        Some r \<Rightarrow> Some ([], r)
      | None \<Rightarrow> map_option (\<lambda>(a, b). (c # a, b)) (Cut s sep))"

definition Contains :: "string \<Rightarrow> string \<Rightarrow> bool" where
  "Contains s sub = (Cut s sub \<noteq> None)"

lemma Cut_Some: "Cut s sep = Some (a, b) \<Longrightarrow> s = a @ sep @ b"
  by (induction s arbitrary: a b)
    (auto split: option.splits if_splits simp: CutPrefix_Some)

lemma Cut_char:
  "c \<notin> set a \<Longrightarrow> Cut (a @ c # b) [c] = Some (a, b)"
  by (induction a) auto

lemma Cut_char_None: "c \<notin> set a \<Longrightarrow> Cut a [c] = None"
  by (induction a) auto

text \<open>\<open>strings.ReplaceAll\<close> of one byte by a string.\<close>

definition ReplaceChar :: "string \<Rightarrow> char \<Rightarrow> string \<Rightarrow> string" where
  "ReplaceChar s c new = concat (map (\<lambda>x. if x = c then new else [x]) s)"

lemma ReplaceChar_Nil [simp]: "ReplaceChar [] c new = []"
  by (simp add: ReplaceChar_def)

lemma ReplaceChar_Cons [simp]:
  "ReplaceChar (x # s) c new = (if x = c then new else [x]) @ ReplaceChar s c new"
  by (simp add: ReplaceChar_def)

text \<open>\<open>strings.ReplaceAll\<close> and \<open>strings.Split\<close> for a nonempty pattern; the text read so far is reversed.\<close>

fun ReplaceAll :: "string \<Rightarrow> string \<Rightarrow> string \<Rightarrow> string" where
  "ReplaceAll old new [] = []"
| "ReplaceAll old new (c # s) =
     (case CutPrefix (c # s) old of
        Some _ \<Rightarrow> new @ ReplaceAll old new (drop (length old - 1) s)
      | None \<Rightarrow> c # ReplaceAll old new s)"

fun split_text :: "string \<Rightarrow> string \<Rightarrow> string \<Rightarrow> string list" where
  "split_text sep cur [] = [rev cur]"
| "split_text sep cur (c # s) =
     (case CutPrefix (c # s) sep of
        Some _ \<Rightarrow> rev cur # split_text sep [] (drop (length sep - 1) s)
      | None \<Rightarrow> split_text sep (c # cur) s)"

definition SplitText :: "string \<Rightarrow> string \<Rightarrow> string list" where
  "SplitText s sep = split_text sep [] s"

definition TrimRight :: "string \<Rightarrow> string \<Rightarrow> string" where
  "TrimRight s cutset = rev (dropWhile (\<lambda>c. c \<in> set cutset) (rev s))"

lemma TrimRight_same: "s \<noteq> [] \<Longrightarrow> last s \<notin> set chars \<Longrightarrow> TrimRight s chars = s"
  by (cases s rule: rev_cases) (simp_all add: TrimRight_def)

definition TrimSuffix :: "string \<Rightarrow> string \<Rightarrow> string" where
  "TrimSuffix s suffix = (case CutSuffix s suffix of Some r \<Rightarrow> r | None \<Rightarrow> s)"

fun Join :: "string list \<Rightarrow> string \<Rightarrow> string" where
  "Join [] sep = []"
| "Join [x] sep = x"
| "Join (x # y # xs) sep = x @ sep @ Join (y # xs) sep"

lemma Join_Cons: "xs \<noteq> [] \<Longrightarrow> Join (x # xs) sep = x @ sep @ Join xs sep"
  by (cases xs) auto

text \<open>\<open>strings.Split\<close> on one byte: always at least one piece.\<close>

fun SplitChar :: "string \<Rightarrow> char \<Rightarrow> string list" where
  "SplitChar [] d = [[]]"
| "SplitChar (c # s) d =
     (if c = d then [] # SplitChar s d
      else (case SplitChar s d of [] \<Rightarrow> [[c]] | w # ws \<Rightarrow> (c # w) # ws))"

lemma SplitChar_nonempty [simp]: "SplitChar s d \<noteq> []"
  by (induction s) (auto split: list.splits)

lemma SplitChar_line: "SplitChar (l @ d # s) d = SplitChar l d @ SplitChar s d"
  by (induction l) (auto split: list.split)

lemma SplitChar_single: "d \<notin> set w \<Longrightarrow> SplitChar w d = [w]"
  by (induction w) auto

lemma SplitChar_append: "d \<notin> set w \<Longrightarrow> SplitChar (w @ d # s) d = w # SplitChar s d"
  by (induction w) auto

lemma SplitChar_Join:
  "ws \<noteq> [] \<Longrightarrow> \<forall>w\<in>set ws. d \<notin> set w \<Longrightarrow> SplitChar (Join ws [d]) d = ws"
  by (induction ws "[d]" rule: Join.induct) (auto simp: SplitChar_single SplitChar_append)

section \<open>White space\<close>

text \<open>The UTF-8 encodings of the code points with the Unicode property White\_Space.\<close>

definition space_seqs :: "string list" where
  "space_seqs =
    [[CHR 0x20], [CHR 0x09], [CHR 0x0A], [CHR 0x0B], [CHR 0x0C], [CHR 0x0D],
     [CHR 0xC2, CHR 0x85], [CHR 0xC2, CHR 0xA0], [CHR 0xE1, CHR 0x9A, CHR 0x80],
     [CHR 0xE2, CHR 0x80, CHR 0x80], [CHR 0xE2, CHR 0x80, CHR 0x81],
     [CHR 0xE2, CHR 0x80, CHR 0x82], [CHR 0xE2, CHR 0x80, CHR 0x83],
     [CHR 0xE2, CHR 0x80, CHR 0x84], [CHR 0xE2, CHR 0x80, CHR 0x85],
     [CHR 0xE2, CHR 0x80, CHR 0x86], [CHR 0xE2, CHR 0x80, CHR 0x87],
     [CHR 0xE2, CHR 0x80, CHR 0x88], [CHR 0xE2, CHR 0x80, CHR 0x89],
     [CHR 0xE2, CHR 0x80, CHR 0x8A], [CHR 0xE2, CHR 0x80, CHR 0xA8],
     [CHR 0xE2, CHR 0x80, CHR 0xA9], [CHR 0xE2, CHR 0x80, CHR 0xAF],
     [CHR 0xE2, CHR 0x81, CHR 0x9F], [CHR 0xE3, CHR 0x80, CHR 0x80]]"

definition space_seqs_rev :: "string list" where
  "space_seqs_rev = map rev space_seqs"

fun strip_first :: "string list \<Rightarrow> string \<Rightarrow> string option" where
  "strip_first [] s = None"
| "strip_first (p # ps) s =
     (case CutPrefix s p of Some r \<Rightarrow> Some r | None \<Rightarrow> strip_first ps s)"

lemma strip_first_shorter:
  "strip_first ps s = Some r \<Longrightarrow> [] \<notin> set ps \<Longrightarrow> length r < length s"
  by (induction ps) (auto split: option.splits simp: CutPrefix_Some)

lemma space_seqs_nonempty [simp]: "[] \<notin> set space_seqs" "[] \<notin> set space_seqs_rev"
  by (auto simp: space_seqs_def space_seqs_rev_def)

text \<open>\<open>cut_space s\<close>: what follows the white space rune at the head of \<open>s\<close>, if there is one.\<close>

definition cut_space :: "string \<Rightarrow> string option" where
  "cut_space s = strip_first space_seqs s"

definition cut_space_rev :: "string \<Rightarrow> string option" where
  "cut_space_rev s = strip_first space_seqs_rev s"

lemma cut_space_shorter: "cut_space s = Some r \<Longrightarrow> length r < length s"
  by (simp add: cut_space_def strip_first_shorter)

lemma cut_space_rev_shorter: "cut_space_rev s = Some r \<Longrightarrow> length r < length s"
  by (simp add: cut_space_rev_def strip_first_shorter)

function trim_left :: "string \<Rightarrow> string" where
  "trim_left s = (case cut_space s of None \<Rightarrow> s | Some r \<Rightarrow> trim_left r)"
  by pat_completeness auto
termination by (relation "measure length") (auto dest: cut_space_shorter)

function trim_left_rev :: "string \<Rightarrow> string" where
  "trim_left_rev s = (case cut_space_rev s of None \<Rightarrow> s | Some r \<Rightarrow> trim_left_rev r)"
  by pat_completeness auto
termination by (relation "measure length") (auto dest: cut_space_rev_shorter)

declare trim_left.simps [simp del] trim_left_rev.simps [simp del]

definition TrimSpace :: "string \<Rightarrow> string" where
  "TrimSpace s = rev (trim_left_rev (rev (trim_left s)))"

text \<open>\<open>strings.Fields\<close>: \<open>w\<close> holds the bytes of the current field, last first.\<close>

function fields_from :: "string \<Rightarrow> string \<Rightarrow> string list" where
  "fields_from s w =
     (case cut_space s of
        Some r \<Rightarrow> (if w = [] then fields_from r [] else rev w # fields_from r [])
      | None \<Rightarrow>
          (case s of
             [] \<Rightarrow> (if w = [] then [] else [rev w])
           | c # t \<Rightarrow> fields_from t (c # w)))"
  by pat_completeness auto
termination
  by (relation "measure (\<lambda>(s, w). length s)") (auto dest: cut_space_shorter)

declare fields_from.simps [simp del]

definition Fields :: "string \<Rightarrow> string list" where
  "Fields s = fields_from s []"

text \<open>Bytes that start no white space rune, and bytes that end none.\<close>

definition plain_char :: "char \<Rightarrow> bool" where
  "plain_char c \<longleftrightarrow> (of_char c :: nat) \<in> {33 ..< 128}"

lemma cut_space_Nil [simp]: "cut_space [] = None"
  by (simp add: cut_space_def space_seqs_def)

lemma cut_space_rev_Nil [simp]: "cut_space_rev [] = None"
  by (simp add: cut_space_rev_def space_seqs_rev_def space_seqs_def)

lemma strip_first_None:
  "(\<And>p. p \<in> set ps \<Longrightarrow> p \<noteq> [] \<and> hd p \<noteq> c) \<Longrightarrow> strip_first ps (c # s) = None"
proof (induction ps)
  case (Cons p ps)
  have "p \<noteq> []" "hd p \<noteq> c" using Cons.prems[of p] by auto
  then show ?case using Cons by (cases p) auto
qed simp

lemma cut_space_plain [simp]: "plain_char c \<Longrightarrow> cut_space (c # s) = None"
  unfolding cut_space_def
  by (rule strip_first_None) (auto simp: plain_char_def space_seqs_def)

lemma cut_space_rev_plain [simp]: "plain_char c \<Longrightarrow> cut_space_rev (c # s) = None"
  unfolding cut_space_rev_def
  by (rule strip_first_None)
    (auto simp: plain_char_def space_seqs_def space_seqs_rev_def)

lemma cut_space_blank [simp]: "cut_space (CHR '' '' # s) = Some s"
  by (simp add: cut_space_def space_seqs_def)

lemma trim_left_plain: "plain_char c \<Longrightarrow> trim_left (c # s) = c # s"
  by (subst trim_left.simps) simp

lemma trim_left_rev_plain: "plain_char c \<Longrightarrow> trim_left_rev (c # s) = c # s"
  by (subst trim_left_rev.simps) simp

lemma trim_left_Nil [simp]: "trim_left [] = []"
  by (subst trim_left.simps) simp

lemma trim_left_rev_Nil [simp]: "trim_left_rev [] = []"
  by (subst trim_left_rev.simps) simp

lemma TrimSpace_plain:
  assumes "s \<noteq> []" "plain_char (hd s)" "plain_char (last s)"
  shows "TrimSpace s = s"
proof -
  from assms(1) obtain c t where s: "s = c # t" by (cases s) auto
  from assms(1) obtain u d where s': "s = u @ [d]" by (cases s rule: rev_cases) auto
  have "trim_left s = s" using assms(2) by (simp add: s trim_left_plain)
  moreover have "trim_left_rev (rev s) = rev s"
    using assms(3) by (simp add: s' trim_left_rev_plain)
  ultimately show ?thesis by (simp add: TrimSpace_def)
qed

lemma fields_from_plain:
  "\<forall>c\<in>set w. plain_char c \<Longrightarrow> fields_from (w @ s) v = fields_from s (rev w @ v)"
proof (induction w arbitrary: v)
  case (Cons c w)
  then have "fields_from ((c # w) @ s) v = fields_from (w @ s) (c # v)"
    by (subst fields_from.simps) simp
  with Cons show ?case by simp
qed simp

lemma fields_from_Nil: "fields_from [] w = (if w = [] then [] else [rev w])"
  by (subst fields_from.simps) simp

lemma Fields_word:
  "w \<noteq> [] \<Longrightarrow> \<forall>c\<in>set w. plain_char c \<Longrightarrow> Fields w = [w]"
  using fields_from_plain[of w "[]" "[]"] by (simp add: Fields_def fields_from_Nil)

lemma Fields_word_blank:
  assumes "w \<noteq> []" "\<forall>c\<in>set w. plain_char c"
  shows "Fields (w @ CHR '' '' # s) = w # Fields s"
proof -
  have "Fields (w @ CHR '' '' # s) = fields_from (CHR '' '' # s) (rev w)"
    using fields_from_plain[OF assms(2), of "CHR '' '' # s" "[]"] by (simp add: Fields_def)
  also have "\<dots> = w # Fields s"
    using assms(1) by (subst fields_from.simps) (simp add: Fields_def)
  finally show ?thesis .
qed

lemma Fields_Join:
  "\<forall>w\<in>set ws. w \<noteq> [] \<and> (\<forall>c\<in>set w. plain_char c) \<Longrightarrow> Fields (Join ws '' '') = ws"
proof (induction ws "'' ''" rule: Join.induct)
  case 1
  then show ?case by (simp add: Fields_def fields_from_Nil)
qed (simp_all add: Fields_word Fields_word_blank)

section \<open>Fields of a trimmed text\<close>

text \<open>No white space rune starts with a byte that occurs inside another one, so cutting
  one from the end of a text cuts no other.\<close>

lemma CutPrefix_append_other:
  "sp \<noteq> [] \<Longrightarrow> hd sp \<notin> set p \<Longrightarrow>
   CutPrefix (s @ sp) p = map_option (\<lambda>r. r @ sp) (CutPrefix s p)"
proof (induction s p rule: CutPrefix.induct)
  case (2 p ps)
  then show ?case by (cases sp) auto
qed auto

lemma CutPrefix_append_rune:
  assumes "s \<noteq> []" "p \<noteq> []" "sp \<noteq> []" "hd sp \<notin> set (tl p)"
  shows "CutPrefix (s @ sp) p = map_option (\<lambda>r. r @ sp) (CutPrefix s p)"
  using assms by (cases s; cases p) (auto simp: CutPrefix_append_other)

lemma strip_first_append:
  "s \<noteq> [] \<Longrightarrow> sp \<noteq> [] \<Longrightarrow> \<forall>p\<in>set ps. p \<noteq> [] \<and> hd sp \<notin> set (tl p) \<Longrightarrow>
   strip_first ps (s @ sp) = map_option (\<lambda>r. r @ sp) (strip_first ps s)"
  by (induction ps) (auto simp: CutPrefix_append_rune split: option.splits)

lemma space_seqs_apart:
  "\<forall>sp\<in>set space_seqs. sp \<noteq> [] \<and> (\<forall>p\<in>set space_seqs. p \<noteq> [] \<and> hd sp \<notin> set (tl p))"
  by (simp add: space_seqs_def)

lemma cut_space_append:
  "s \<noteq> [] \<Longrightarrow> sp \<in> set space_seqs \<Longrightarrow>
   cut_space (s @ sp) = map_option (\<lambda>r. r @ sp) (cut_space s)"
  unfolding cut_space_def using space_seqs_apart by (intro strip_first_append) auto

lemma strip_first_Some: "strip_first ps s = Some r \<Longrightarrow> \<exists>p\<in>set ps. s = p @ r"
  by (induction ps) (auto simp: CutPrefix_Some split: option.splits)

lemma cut_space_rune: "sp \<in> set space_seqs \<Longrightarrow> cut_space sp = Some []"
  by (auto simp: cut_space_def space_seqs_def)

lemma fields_from_space: "sp \<in> set space_seqs \<Longrightarrow> fields_from (s @ sp) w = fields_from s w"
proof (induction s w rule: fields_from.induct)
  case (1 s w)
  show ?case
  proof (cases s)
    case Nil
    with 1(4) show ?thesis
      by (subst fields_from.simps) (simp add: cut_space_rune fields_from_Nil)
  next
    case (Cons c t)
    note cut = cut_space_append[of s, OF _ 1(4)]
    show ?thesis
    proof (cases "cut_space s")
      case None
      with 1 Cons cut show ?thesis by (subst (1 2) fields_from.simps) simp
    next
      case (Some r)
      with 1 Cons cut show ?thesis by (subst (1 2) fields_from.simps) simp
    qed
  qed
qed

lemma Fields_trim_left: "Fields (trim_left s) = Fields s"
proof (induction s rule: trim_left.induct)
  case (1 s)
  then show ?case
    by (subst trim_left.simps)
      (auto simp: Fields_def fields_from.simps[of s] split: option.splits)
qed

lemma Fields_trim_left_rev: "Fields (rev (trim_left_rev t)) = Fields (rev t)"
proof (induction t rule: trim_left_rev.induct)
  case (1 t)
  show ?case
  proof (cases "cut_space_rev t")
    case None
    then show ?thesis by (subst trim_left_rev.simps) simp
  next
    case (Some r)
    then obtain p where p: "p \<in> set space_seqs_rev" "t = p @ r"
      using strip_first_Some[of space_seqs_rev t r] by (auto simp: cut_space_rev_def)
    then obtain sp where "sp \<in> set space_seqs" "p = rev sp" by (auto simp: space_seqs_rev_def)
    with p have "Fields (rev t) = Fields (rev r)" by (simp add: Fields_def fields_from_space)
    with 1 Some show ?thesis by (subst trim_left_rev.simps) simp
  qed
qed

lemma Fields_TrimSpace [simp]: "Fields (TrimSpace s) = Fields s"
  using Fields_trim_left_rev[of "rev (trim_left s)"] by (simp add: TrimSpace_def Fields_trim_left)

text \<open>The first field of a text that starts with a plain byte starts with it too.\<close>

lemma fields_from_start: "w \<noteq> [] \<Longrightarrow> \<exists>v fs. fields_from s w = (rev w @ v) # fs"
proof (induction s w rule: fields_from.induct)
  case (1 s w)
  show ?case
  proof (cases "cut_space s")
    case None
    show ?thesis
    proof (cases s)
      case Nil
      with 1(4) show ?thesis by (simp add: fields_from_Nil)
    next
      case (Cons c t)
      from 1(1)[OF None Cons] obtain v fs where "fields_from t (c # w) = (rev (c # w) @ v) # fs"
        by blast
      with None Cons show ?thesis by (subst fields_from.simps) auto
    qed
  next
    case (Some r)
    with 1(4) show ?thesis by (subst fields_from.simps) simp
  qed
qed

lemma Fields_start: "plain_char c \<Longrightarrow> \<exists>v fs. Fields (c # s) = (c # v) # fs"
  using fields_from_start[of "[c]" s] by (simp add: Fields_def fields_from.simps[of "c # s"])

section \<open>Numbers\<close>

definition digit_char :: "int \<Rightarrow> char" where
  "digit_char d = (if d < 10 then char_of (48 + d) else char_of (87 + d))"

text \<open>\<open>strconv.FormatInt\<close> for a base of at least 2; the other bases do not occur.\<close>

function show_base :: "int \<Rightarrow> int \<Rightarrow> string" where
  "show_base b n =
     (if b < 2 \<or> n < b then [digit_char n]
      else show_base b (n div b) @ [digit_char (n mod b)])"
  by pat_completeness auto
termination
proof (relation "measure (\<lambda>(b, n). nat n)")
  fix b n :: int
  assume "\<not> (b < 2 \<or> n < b)"
  then have "2 \<le> b" "0 < n" by auto
  then have "n div b < n" by (simp add: int_div_less_self)
  then show "((b, n div b), (b, n)) \<in> measure (\<lambda>(b, n). nat n)"
    using \<open>0 < n\<close> by simp
qed simp

declare show_base.simps [simp del]

definition FormatInt :: "int \<Rightarrow> int \<Rightarrow> string" where
  "FormatInt i b = (if i < 0 then CHR ''-'' # show_base b (- i) else show_base b i)"

definition Itoa :: "int \<Rightarrow> string" where
  "Itoa i = FormatInt i 10"

definition digit_val :: "char \<Rightarrow> int" where
  "digit_val c = of_char c - 48"

definition is_digit :: "char \<Rightarrow> bool" where
  "is_digit c \<longleftrightarrow> 0 \<le> digit_val c \<and> digit_val c \<le> 9"

definition digits_val :: "string \<Rightarrow> int" where
  "digits_val s = foldl (\<lambda>acc c. acc * 10 + digit_val c) 0 s"

text \<open>\<open>strconv.ParseInt(s, 10, bits)\<close>: an optional sign, digits, and the range check.\<close>

definition ParseInt :: "string \<Rightarrow> nat \<Rightarrow> int option" where
  "ParseInt s bits =
     (let (neg, ds) = (case s of
          [] \<Rightarrow> (False, [])
        | c # t \<Rightarrow> if c = CHR ''-'' then (True, t) else if c = CHR ''+'' then (False, t)
                 else (False, s));
          v = (if neg then - digits_val ds else digits_val ds)
      in if ds = [] \<or> \<not> list_all is_digit ds then None
         else if - (2 ^ (bits - 1)) \<le> v \<and> v < 2 ^ (bits - 1) then Some v else None)"

definition Atoi :: "string \<Rightarrow> int option" where
  "Atoi s = ParseInt s 64"

lemma digit_char_numeral [simp]:
  "digit_char 0 = CHR ''0''"
  "digit_char 1 = CHR ''1''"
  "digit_char 2 = CHR ''2''"
  "digit_char 3 = CHR ''3''"
  "digit_char 4 = CHR ''4''"
  "digit_char 5 = CHR ''5''"
  "digit_char 6 = CHR ''6''"
  "digit_char 7 = CHR ''7''"
  "digit_char 8 = CHR ''8''"
  "digit_char 9 = CHR ''9''"
  by (simp_all add: digit_char_def char_of_def)

lemmas Itoa_eval = Itoa_def FormatInt_def show_base.simps

lemma of_char_digit [simp]:
  "0 \<le> d \<Longrightarrow> d < 10 \<Longrightarrow> of_char (digit_char d) = 48 + d"
  by (simp add: digit_char_def)

lemma digit_val_digit_char [simp]: "0 \<le> d \<Longrightarrow> d < 10 \<Longrightarrow> digit_val (digit_char d) = d"
  by (simp add: digit_val_def)

lemma is_digit_digit_char [simp]: "0 \<le> d \<Longrightarrow> d < 10 \<Longrightarrow> is_digit (digit_char d)"
  by (simp add: is_digit_def)

lemma show_base_nonempty [simp]: "show_base b n \<noteq> []"
  by (subst show_base.simps) simp

lemma show_base_digits: "0 \<le> n \<Longrightarrow> list_all is_digit (show_base 10 n)"
proof (induction "10 :: int" n rule: show_base.induct)
  case (1 n)
  then show ?case by (subst show_base.simps) (auto simp: pos_imp_zdiv_nonneg_iff)
qed

lemma digits_val_snoc: "digits_val (s @ [c]) = digits_val s * 10 + digit_val c"
  by (simp add: digits_val_def)

lemma digits_val_nonneg: "list_all is_digit s \<Longrightarrow> 0 \<le> digits_val s"
proof (induction s rule: rev_induct)
  case Nil
  then show ?case by (simp add: digits_val_def)
qed (simp add: digits_val_snoc is_digit_def)

lemma digits_val_show: "0 \<le> n \<Longrightarrow> digits_val (show_base 10 n) = n"
proof (induction "10 :: int" n rule: show_base.induct)
  case (1 n)
  show ?case
  proof (cases "n < 10")
    case True
    with 1 show ?thesis by (subst show_base.simps) (simp add: digits_val_def)
  next
    case False
    with 1 show ?thesis
      by (subst show_base.simps) (simp add: digits_val_snoc pos_imp_zdiv_nonneg_iff)
  qed
qed

lemma is_digit_plain: "is_digit c \<Longrightarrow> plain_char c"
proof -
  assume "is_digit c"
  then have "(48 :: int) \<le> of_char c" "of_char c \<le> (57 :: int)"
    by (auto simp: is_digit_def digit_val_def)
  moreover have "(of_char c :: int) = int (of_char c)" by (simp add: of_nat_of_char)
  ultimately have "48 \<le> (of_char c :: nat)" "(of_char c :: nat) \<le> 57" by linarith+
  then show ?thesis by (simp add: plain_char_def)
qed

lemma is_digit_not_sign: "is_digit c \<Longrightarrow> c \<noteq> CHR ''-'' \<and> c \<noteq> CHR ''+''"
  by (auto simp: is_digit_def digit_val_def)

lemma Itoa_nat: "0 \<le> i \<Longrightarrow> Itoa i = show_base 10 i"
  by (simp add: Itoa_def FormatInt_def)

lemma Itoa_nonempty [simp]: "Itoa i \<noteq> []"
  by (simp add: Itoa_def FormatInt_def)

lemma Itoa_digits: "0 \<le> i \<Longrightarrow> list_all is_digit (Itoa i)"
  by (simp add: Itoa_nat show_base_digits)

lemma show_base_plain: "0 \<le> n \<Longrightarrow> c \<in> set (show_base 10 n) \<Longrightarrow> plain_char c"
  using show_base_digits[of n] by (auto simp: list_all_iff is_digit_plain)

lemma Itoa_plain: "c \<in> set (Itoa i) \<Longrightarrow> plain_char c"
  using show_base_plain[of "- i" c] show_base_plain[of i c]
  by (cases "i < 0") (auto simp: Itoa_def FormatInt_def plain_char_def)

lemma ParseInt_digits:
  assumes "ds \<noteq> []" "list_all is_digit ds" "digits_val ds < 2 ^ (bits - 1)"
  shows "ParseInt ds bits = Some (digits_val ds)"
proof -
  from assms obtain c t where ds: "ds = c # t" by (cases ds) auto
  with assms have "c \<noteq> CHR ''-''" "c \<noteq> CHR ''+''"
    by (auto dest: is_digit_not_sign)
  moreover have "- (2 ^ (bits - 1)) \<le> (0 :: int)" by simp
  then have "- (2 ^ (bits - 1)) \<le> digits_val ds"
    using digits_val_nonneg[OF assms(2)] by linarith
  ultimately show ?thesis using assms by (auto simp: ParseInt_def ds)
qed

lemma ParseInt_Itoa:
  assumes "0 \<le> i" "i < 2 ^ (bits - 1)"
  shows "ParseInt (Itoa i) bits = Some i"
  using assms ParseInt_digits[of "Itoa i" bits]
  by (simp add: Itoa_nat show_base_digits digits_val_show)

lemma Atoi_Itoa: "0 \<le> i \<Longrightarrow> i < 2 ^ 63 \<Longrightarrow> Atoi (Itoa i) = Some i"
  by (simp add: Atoi_def ParseInt_Itoa)

end
