(* ===== verification/GoTime.thy ===== *)
theory GoTime
  imports Complex_Main GoStrings
begin

text \<open>
  The part of Go's \<open>time\<close> package the program uses, and the rounding of \<open>float64\<close>
  that it needs. A \<open>time.Duration\<close> is its number of nanoseconds, a \<open>time.Time\<close> the
  number of nanoseconds since the Unix epoch.
\<close>

type_synonym duration = int
type_synonym time = int

section \<open>Rounding to float64\<close>

text \<open>
  A finite float64 is the rational it stands for. \<open>f64 x\<close> is the nearest value with a
  53-bit significand, ties to even. Exponents are unbounded: the program's values stay
  between \<open>1e-19\<close> and \<open>1e19\<close> wherever the rounding can be seen.
\<close>

definition round_half_even :: "rat \<Rightarrow> int" where
  "round_half_even x =
     (let n = \<lfloor>x\<rfloor>; r = x - of_int n
      in if r < 1 / 2 then n else if 1 / 2 < r then n + 1
         else if even n then n else n + 1)"

definition pow2 :: "int \<Rightarrow> rat" where
  "pow2 e = (if 0 \<le> e then 2 ^ nat e else 1 / 2 ^ nat (- e))"

function bit_length :: "int \<Rightarrow> int" where
  "bit_length n = (if n \<le> 0 then 0 else 1 + bit_length (n div 2))"
  by pat_completeness auto
termination by (relation "measure nat") auto

declare bit_length.simps [simp del]

definition f64 :: "rat \<Rightarrow> rat" where
  "f64 x =
     (if x = 0 then 0
      else
        (let (n, d) = quotient_of \<bar>x\<bar>;
             e0 = bit_length n - bit_length d - 53;
             e = (if 2 ^ 53 \<le> \<bar>x\<bar> / pow2 e0 then e0 + 1 else e0);
             m = of_int (round_half_even (\<bar>x\<bar> / pow2 e)) * pow2 e
         in if x < 0 then - m else m))"

section \<open>Durations\<close>

abbreviation Nanosecond :: duration where "Nanosecond \<equiv> 1"
abbreviation Millisecond :: duration where "Millisecond \<equiv> 1000000"
abbreviation Second :: duration where "Second \<equiv> 1000000000"
abbreviation Minute :: duration where "Minute \<equiv> 60000000000"
abbreviation Hour :: duration where "Hour \<equiv> 3600000000000"

definition unitMap :: "int gomap" where
  "unitMap =
     [(''ns'', 1), (''us'', 1000), ([CHR 0xC2, CHR 0xB5, CHR ''s''], 1000),
      ([CHR 0xCE, CHR 0xBC, CHR ''s''], 1000), (''ms'', Millisecond), (''s'', Second),
      (''m'', Minute), (''h'', Hour)]"

text \<open>\<open>leadingInt\<close>: the digits at the head; \<open>None\<close> when the value passes \<open>1 << 63\<close>.\<close>

fun leadingInt :: "int \<Rightarrow> string \<Rightarrow> (int \<times> string) option" where
  "leadingInt x [] = Some (x, [])"
| "leadingInt x (c # s) =
     (if \<not> is_digit c then Some (x, c # s)
      else if 2 ^ 63 div 10 < x then None
      else let y = x * 10 + (digit_val c) in
        if 2 ^ 63 < y then None else leadingInt y s)"

text \<open>\<open>leadingFraction\<close>: on overflow the further digits are read but not counted.\<close>

fun leadingFraction :: "int \<Rightarrow> int \<Rightarrow> bool \<Rightarrow> string \<Rightarrow> int \<times> int \<times> string" where
  "leadingFraction x scale over [] = (x, scale, [])"
| "leadingFraction x scale over (c # s) =
     (if \<not> is_digit c then (x, scale, c # s)
      else if over then leadingFraction x scale True s
      else if (2 ^ 63 - 1) div 10 < x then leadingFraction x scale True s
      else let y = x * 10 + (digit_val c) in
        if 2 ^ 63 < y then leadingFraction x scale True s
        else leadingFraction y (scale * 10) False s)"

definition unit_char :: "char \<Rightarrow> bool" where
  "unit_char c \<longleftrightarrow> c \<noteq> CHR ''.'' \<and> \<not> is_digit c"

lemma leadingInt_shorter: "leadingInt x s = Some (y, t) \<Longrightarrow> length t \<le> length s"
proof (induction s arbitrary: x)
  case (Cons c s)
  then show ?case
    by (cases "is_digit c") (auto simp: Let_def split: if_splits intro: le_SucI)
qed simp

lemma leadingFraction_shorter:
  "leadingFraction x sc ov s = (y, sc', t) \<Longrightarrow> length t \<le> length s"
proof (induction s arbitrary: x sc ov)
  case (Cons c s)
  then show ?case
    by (cases "is_digit c") (auto simp: Let_def split: if_splits intro: le_SucI)
qed simp

text \<open>
  One \<open><number><unit>\<close> group of \<open>time.ParseDuration\<close>: its nanoseconds and the rest of
  the text, \<open>None\<close> for every error.
\<close>

definition duration_group :: "string \<Rightarrow> (int \<times> string) option" where
  "duration_group s =
     (case s of [] \<Rightarrow> None
      | c # _ \<Rightarrow>
        if c \<noteq> CHR ''.'' \<and> \<not> is_digit c then None
        else (case leadingInt 0 s of None \<Rightarrow> None
          | Some (v, s1) \<Rightarrow>
            let pre = length s1 \<noteq> length s;
                (f, scale, s2, post) = (case s1 of
                    [] \<Rightarrow> (0, 1, s1, False)
                  | d # t \<Rightarrow>
                      if d = CHR ''.'' then
                        (let (f, scale, r) = leadingFraction 0 1 False t
                         in (f, scale, r, length r \<noteq> length t))
                      else (0, 1, s1, False));
                u = takeWhile unit_char s2; s3 = dropWhile unit_char s2
            in if \<not> pre \<and> \<not> post then None
               else if u = [] then None
               else (case map_of unitMap u of None \<Rightarrow> None
                 | Some unit \<Rightarrow>
                   if 2 ^ 63 div unit < v then None
                   else
                     let v1 = v * unit;
                         v2 = (if 0 < f
                               then v1 + \<lfloor>f64 (f64 (of_int f) * f64 (of_int unit / of_int scale))\<rfloor>
                               else v1)
                     in if 2 ^ 63 < v2 then None else Some (v2, s3))))"

lemma dropWhile_shorter:
  "takeWhile P s \<noteq> [] \<Longrightarrow> length (dropWhile P s) < length s"
  by (metis add_diff_cancel_left' length_0_conv length_append length_greater_0_conv
      less_add_same_cancel2 takeWhile_dropWhile_id)

lemma duration_group_shorter: "duration_group s = Some (v, t) \<Longrightarrow> length t < length s"
proof -
  assume eq: "duration_group s = Some (v, t)"
  then obtain x s1 where s1: "leadingInt 0 s = Some (x, s1)"
    by (auto simp: duration_group_def split: list.splits option.splits if_splits)
  obtain f scale s2 post where s2: "(case s1 of
        [] \<Rightarrow> (0, 1, s1, False)
      | d # t \<Rightarrow>
          if d = CHR ''.'' then
            (let (f, scale, r) = leadingFraction 0 1 False t
             in (f, scale, r, length r \<noteq> length t))
          else (0, 1, s1, False)) = (f, scale, s2, post)"
    by (rule prod_cases4)
  then have "length s2 \<le> length s1"
    by (auto split: list.splits if_splits prod.splits dest!: leadingFraction_shorter)
  with leadingInt_shorter[OF s1] have le: "length s2 \<le> length s" by simp
  from eq s1 s2 have "takeWhile unit_char s2 \<noteq> []" "t = dropWhile unit_char s2"
    by (auto simp: duration_group_def Let_def split: list.splits option.splits if_splits)
  with le dropWhile_shorter[of unit_char s2] show ?thesis by simp
qed

function duration_groups :: "int \<Rightarrow> string \<Rightarrow> int option" where
  "duration_groups d s =
     (if s = [] then Some d
      else (case duration_group s of None \<Rightarrow> None
        | Some (v, t) \<Rightarrow> if 2 ^ 63 < d + v then None else duration_groups (d + v) t))"
  by pat_completeness auto
termination by (relation "measure (\<lambda>(d, s). length s)") (auto dest: duration_group_shorter)

declare duration_groups.simps [simp del]

definition ParseDuration :: "string \<Rightarrow> duration option" where
  "ParseDuration orig =
     (let (neg, s) = (case orig of
          [] \<Rightarrow> (False, [])
        | c # t \<Rightarrow> if c = CHR ''-'' then (True, t) else if c = CHR ''+'' then (False, t)
                 else (False, orig))
      in if s = ''0'' then Some 0
         else if s = [] then None
         else (case duration_groups 0 s of None \<Rightarrow> None
           | Some d \<Rightarrow> if neg then Some (- d) else if 2 ^ 63 - 1 < d then None else Some d))"

text \<open>\<open>Duration.String\<close>; \<open>fmtFrac\<close> drops trailing zeros and the point if nothing is left.\<close>

fun fmtFrac :: "nat \<Rightarrow> int \<Rightarrow> bool \<Rightarrow> string \<Rightarrow> string \<times> int" where
  "fmtFrac 0 v pr acc = (if pr then CHR ''.'' # acc else acc, v)"
| "fmtFrac (Suc p) v pr acc =
     (let d = v mod 10; pr' = pr \<or> d \<noteq> 0
      in fmtFrac p (v div 10) pr' (if pr' then digit_char d # acc else acc))"

definition DurationString :: "duration \<Rightarrow> string" where
  "DurationString d =
     (let u = \<bar>d\<bar>;
          body =
           (if u = 0 then ''0s''
            else if u < 1000 then Itoa u @ ''ns''
            else if u < Millisecond then
              (let (f, v) = fmtFrac 3 u False [] in Itoa v @ f @ [CHR 0xC2, CHR 0xB5] @ ''s'')
            else if u < Second then
              (let (f, v) = fmtFrac 6 u False [] in Itoa v @ f @ ''ms'')
            else
              (let (f, v) = fmtFrac 9 u False []; m = v div 60; h = m div 60
               in (if 0 < h then Itoa h @ ''h'' else '''') @
                  (if 0 < m then Itoa (m mod 60) @ ''m'' else '''') @
                  Itoa (v mod 60) @ f @ ''s''))
      in if d < 0 then CHR ''-'' # body else body)"

section \<open>RFC 3339 timestamps\<close>

definition Unix :: "time \<Rightarrow> int" where
  "Unix t = t div Second"

definition leap_year :: "int \<Rightarrow> bool" where
  "leap_year y \<longleftrightarrow> y mod 4 = 0 \<and> (y mod 100 \<noteq> 0 \<or> y mod 400 = 0)"

definition days_in :: "int \<Rightarrow> int \<Rightarrow> int" where
  "days_in m y =
     (if m = 2 then (if leap_year y then 29 else 28)
      else if m \<in> {4, 6, 9, 11} then 30 else 31)"

definition days_before_month :: "int \<Rightarrow> int \<Rightarrow> int" where
  "days_before_month m y = sum_list (map (\<lambda>k. days_in k y) [1 .. m - 1])"

text \<open>Days from 1970-01-01, for years from 0.\<close>

definition epoch_day :: "int \<Rightarrow> int \<Rightarrow> int \<Rightarrow> int" where
  "epoch_day y m d =
     365 * y + (y + 3) div 4 - (y + 99) div 100 + (y + 399) div 400
       + days_before_month m y + (d - 1) - 719528"

fun getnum :: "bool \<Rightarrow> string \<Rightarrow> (int \<times> string) option" where
  "getnum fixed [] = None"
| "getnum fixed (c # s) =
     (if \<not> is_digit c then None
      else case s of
        d # t \<Rightarrow> if is_digit d then Some ((digit_val c) * 10 + (digit_val d), t)
                else if fixed then None else Some ((digit_val c), s)
      | [] \<Rightarrow> if fixed then None else Some ((digit_val c), s))"

text \<open>A number in a range after a literal separator.\<close>

definition numfield :: "string \<Rightarrow> bool \<Rightarrow> int \<Rightarrow> int \<Rightarrow> string \<Rightarrow> (int \<times> string) option" where
  "numfield sep fixed lo hi s =
     (case CutPrefix s sep of None \<Rightarrow> None
      | Some t \<Rightarrow> (case getnum fixed t of None \<Rightarrow> None
        | Some (n, r) \<Rightarrow> if lo \<le> n \<and> n \<le> hi then Some (n, r) else None))"

text \<open>
  Fractional seconds are taken even though the layout has none: a point or a comma
  and digits, of which nine count.
\<close>

definition fraction :: "string \<Rightarrow> int \<times> string" where
  "fraction s =
     (case s of
        p # c # t \<Rightarrow>
          if (p = CHR ''.'' \<or> p = CHR '','') \<and> is_digit c then
            (let ds = takeWhile is_digit (c # t); k = take 9 ds
             in ((digits_val k) * 10 ^ (9 - length k), dropWhile is_digit (c # t)))
          else (0, s)
      | _ \<Rightarrow> (0, s))"

definition zone :: "string \<Rightarrow> (int \<times> string) option" where
  "zone s =
     (case s of [] \<Rightarrow> None
      | z # t \<Rightarrow>
        if z = CHR ''Z'' then Some (0, t)
        else if length s < 6 \<or> s ! 3 \<noteq> CHR '':'' then None
        else (case (getnum True (take 2 (drop 1 s)), getnum True (take 2 (drop 4 s))) of
            (Some (hr, _), Some (mm, _)) \<Rightarrow>
              if 24 < hr \<or> 60 < mm then None
              else if z = CHR ''+'' then Some ((hr * 60 + mm) * 60, drop 6 s)
              else if z = CHR ''-'' then Some (- ((hr * 60 + mm) * 60), drop 6 s)
              else None
          | _ \<Rightarrow> None))"

definition year4 :: "string \<Rightarrow> (int \<times> string) option" where
  "year4 s = (if 4 \<le> length s \<and> list_all is_digit (take 4 s)
              then Some ((digits_val (take 4 s)), drop 4 s) else None)"

text \<open>\<open>time.Parse(time.RFC3339, s)\<close>; the bind of the option monad is written out.\<close>

definition ParseRFC3339 :: "string \<Rightarrow> time option" where
  "ParseRFC3339 s =
     Option.bind (year4 s) (\<lambda>(y, s).
     Option.bind (numfield ''-'' True 1 12 s) (\<lambda>(mo, s).
     Option.bind (numfield ''-'' True 0 99 s) (\<lambda>(d, s).
     Option.bind (numfield ''T'' False 0 23 s) (\<lambda>(h, s).
     Option.bind (numfield '':'' True 0 59 s) (\<lambda>(mi, s).
     Option.bind (numfield '':'' True 0 59 s) (\<lambda>(sec, s).
     let (ns, s) = fraction s in
     Option.bind (zone s) (\<lambda>(off, s).
       if s \<noteq> [] \<or> d < 1 \<or> days_in mo y < d then None
       else Some ((epoch_day y mo d * 86400 + h * 3600 + mi * 60 + sec - off) * Second + ns))))))))"

lemma ParseRFC3339_empty [simp]: "ParseRFC3339 [] = None"
  by (simp add: ParseRFC3339_def year4_def)

lemma fmtFrac_exact: "fmtFrac k (v * 10 ^ k) False [] = ([], v)"
proof (induction k arbitrary: v)
  case (Suc k)
  have "(v * 10 ^ Suc k) mod 10 = 0" "v * 10 ^ Suc k div 10 = v * 10 ^ k"
    by (simp_all add: mult.assoc)
  with Suc show ?case by (simp add: Let_def del: power_Suc)
qed simp

end
