(* ===== verification/KubeTypes.thy ===== *)
theory KubeTypes
  imports GoTime
begin

text \<open>
  The Kubernetes objects the program reads and writes, with the fields it uses. They
  are types of the API machinery, not of this repository; the records keep the names
  of the Go fields behind a prefix per struct.
\<close>

section \<open>Names and metadata\<close>

datatype nsname = NN (nn_Namespace: string) (nn_Name: string)

text \<open>Namespaced names are ordered by namespace and then by name, bytewise.\<close>

instantiation nsname :: linorder
begin

definition less_eq_nsname :: "nsname \<Rightarrow> nsname \<Rightarrow> bool" where
  "less_eq_nsname a b \<longleftrightarrow>
     nn_Namespace a < nn_Namespace b \<or>
     nn_Namespace a = nn_Namespace b \<and> nn_Name a \<le> nn_Name b"

definition less_nsname :: "nsname \<Rightarrow> nsname \<Rightarrow> bool" where
  "less_nsname a b \<longleftrightarrow>
     nn_Namespace a < nn_Namespace b \<or>
     nn_Namespace a = nn_Namespace b \<and> nn_Name a < nn_Name b"

instance
  by standard (auto simp: less_eq_nsname_def less_nsname_def intro: nsname.expand)

end

record owner_ref =
  or_Kind :: string
  or_Name :: string
  or_UID :: string
  or_Controller :: "bool option"

record object_meta =
  om_Name :: string
  om_Namespace :: string
  om_UID :: string
  om_Generation :: int
  om_CreationTimestamp :: time
  om_DeletionTimestamp :: "time option"
  om_Labels :: "string gomap"
  om_Annotations :: "string gomap"
  om_Finalizers :: "string list"
  om_OwnerReferences :: "owner_ref list"

definition new_meta :: "string \<Rightarrow> string \<Rightarrow> string gomap \<Rightarrow> object_meta" where
  "new_meta ns name labels =
     \<lparr>om_Name = name, om_Namespace = ns, om_UID = '''', om_Generation = 0,
      om_CreationTimestamp = 0, om_DeletionTimestamp = None, om_Labels = labels,
      om_Annotations = [], om_Finalizers = [], om_OwnerReferences = []\<rparr>"

definition key_of :: "object_meta \<Rightarrow> nsname" where
  "key_of m = NN (om_Namespace m) (om_Name m)"

lemma new_meta_simps [simp]:
  "om_Name (new_meta ns n l) = n" "om_Namespace (new_meta ns n l) = ns"
  "om_Labels (new_meta ns n l) = l" "om_OwnerReferences (new_meta ns n l) = []"
  "om_UID (new_meta ns n l) = ''''" "om_Annotations (new_meta ns n l) = []"
  by (simp_all add: new_meta_def)

section \<open>Conditions and selectors\<close>

datatype cond_status = ConditionTrue | ConditionFalse | ConditionUnknown

record condition =
  cond_Type :: string
  cond_Status :: cond_status
  cond_Reason :: string
  cond_Message :: message
  cond_ObservedGeneration :: int
  cond_LastTransitionTime :: "time option"

definition new_condition :: "string \<Rightarrow> cond_status \<Rightarrow> string \<Rightarrow> message \<Rightarrow> condition" where
  "new_condition ty st reason msg =
     \<lparr>cond_Type = ty, cond_Status = st, cond_Reason = reason, cond_Message = msg,
      cond_ObservedGeneration = 0, cond_LastTransitionTime = None\<rparr>"

record selector =
  sel_Name :: string
  sel_Key :: string

record secret =
  sec_Meta :: object_meta
  sec_Type :: string
  sec_Data :: "string gomap"

section \<open>Pods\<close>

datatype quantity = Quantity string

datatype env_source = FieldRef string | SecretKeyRef selector

record env_var =
  ev_Name :: string
  ev_Value :: string
  ev_ValueFrom :: "env_source option"

definition env_value :: "string \<Rightarrow> string \<Rightarrow> env_var" where
  "env_value n v = \<lparr>ev_Name = n, ev_Value = v, ev_ValueFrom = None\<rparr>"

definition env_from :: "string \<Rightarrow> env_source \<Rightarrow> env_var" where
  "env_from n src = \<lparr>ev_Name = n, ev_Value = '''', ev_ValueFrom = Some src\<rparr>"

lemma ev_simps [simp]:
  "ev_Name (env_value n v) = n" "ev_Name (env_from n s) = n"
  "ev_Value (env_value n v) = v" "ev_ValueFrom (env_value n v) = None"
  "ev_ValueFrom (env_from n s) = Some s"
  by (simp_all add: env_value_def env_from_def)

record claim_source =
  cl_ClaimName :: string
  cl_ReadOnly :: bool

record volume =
  vol_Name :: string
  vol_PersistentVolumeClaim :: "claim_source option"
  vol_Secret :: "string option"
  vol_EmptyDir :: bool

record volume_mount =
  vm_Name :: string
  vm_MountPath :: string
  vm_ReadOnly :: bool

record resource_requirements =
  rr_Requests :: "quantity gomap"
  rr_Limits :: "quantity gomap"

record pod_security =
  psc_SeccompProfile :: "string option"
  psc_RunAsUser :: "int option"
  psc_FSGroup :: "int option"

record container_security =
  csc_AllowPrivilegeEscalation :: "bool option"
  csc_DropCapabilities :: "string list"
  csc_ReadOnlyRootFilesystem :: "bool option"

record affinity_term =
  at_TopologyKey :: string
  at_MatchLabels :: "string gomap"

record pod_affinity =
  pa_Required :: "affinity_term list"
  pa_Preferred :: "(int \<times> affinity_term) list"

record affinity =
  aff_PodAffinity :: "pod_affinity option"

record container =
  ct_Name :: string
  ct_Image :: string
  ct_Command :: "string list"
  ct_Args :: "string list"
  ct_Env :: "env_var list"
  ct_EnvFromSecrets :: "string list"
  ct_VolumeMounts :: "volume_mount list"
  ct_WorkingDir :: string
  ct_Resources :: resource_requirements
  ct_SecurityContext :: "container_security option"
  ct_Stdin :: bool
  ct_TTY :: bool

record pod_spec =
  ps_RestartPolicy :: string
  ps_Containers :: "container list"
  ps_Volumes :: "volume list"
  ps_Affinity :: "affinity option"
  ps_AutomountServiceAccountToken :: "bool option"
  ps_SecurityContext :: "pod_security option"

record container_status =
  cstat_Waiting :: "(string \<times> string) option"

record pod_condition =
  pc_Type :: string
  pc_Status :: cond_status
  pc_Reason :: string
  pc_Message :: string

record pod =
  pod_Meta :: object_meta
  pod_Phase :: string
  pod_ContainerStatuses :: "container_status list"
  pod_Conditions :: "pod_condition list"

section \<open>Jobs, CronJobs and claims\<close>

record job_spec =
  js_TTLSecondsAfterFinished :: "int option"
  js_BackoffLimit :: "int option"
  js_TemplateLabels :: "string gomap"
  js_PodSpec :: pod_spec

record job_template =
  jt_Labels :: "string gomap"
  jt_Spec :: job_spec

record job_condition =
  jc_Type :: string
  jc_Status :: cond_status
  jc_Message :: string
  jc_LastTransitionTime :: time

record job_status =
  jst_Active :: int
  jst_Succeeded :: int
  jst_Failed :: int
  jst_StartTime :: "time option"
  jst_CompletionTime :: "time option"
  jst_Conditions :: "job_condition list"

definition new_job_status :: job_status where
  "new_job_status =
     \<lparr>jst_Active = 0, jst_Succeeded = 0, jst_Failed = 0, jst_StartTime = None,
      jst_CompletionTime = None, jst_Conditions = []\<rparr>"

record job =
  job_Meta :: object_meta
  job_Spec :: job_spec
  job_Status :: job_status

record cron_spec =
  cs_Schedule :: string
  cs_TimeZone :: "string option"
  cs_ConcurrencyPolicy :: string
  cs_Suspend :: "bool option"
  cs_SuccessfulJobsHistoryLimit :: "int option"
  cs_FailedJobsHistoryLimit :: "int option"
  cs_JobTemplate :: job_template

record cron_status =
  cst_Active :: "string list"
  cst_LastScheduleTime :: "time option"
  cst_LastSuccessfulTime :: "time option"

definition new_cron_status :: cron_status where
  "new_cron_status =
     \<lparr>cst_Active = [], cst_LastScheduleTime = None, cst_LastSuccessfulTime = None\<rparr>"

record cronjob =
  cj_Meta :: object_meta
  cj_Spec :: cron_spec
  cj_Status :: cron_status

record pvc =
  pvc_Meta :: object_meta
  pvc_AccessModes :: "string list"
  pvc_Requests :: "quantity gomap"
  pvc_StorageClassName :: "string option"
  pvc_Phase :: string

end
