(* ===== verification/ApiTypes.thy ===== *)
theory ApiTypes
  imports KubeTypes
begin

text \<open>
  The custom resources (\<open>api/v1\<close>): \<open>Repository\<close> and \<open>ScheduledBackup\<close> with their
  specs, statuses and methods. Go's string enums stay strings, because the code tests
  for values outside the enum; a pointer is an option; an \<open>int32\<close> is an \<open>int\<close>.
\<close>

section \<open>Repository\<close>

definition DeletionPolicyRetain :: string where "DeletionPolicyRetain = ''Retain''"
definition DeletionPolicyDelete :: string where "DeletionPolicyDelete = ''Delete''"

definition RepositoryConditionReady :: string where
  "RepositoryConditionReady = ''Ready''"
definition RepositoryConditionInitialized :: string where
  "RepositoryConditionInitialized = ''Initialized''"

record repository_spec =
  rs_Interval :: "duration option"
  rs_Suspend :: bool
  rs_DeletionPolicy :: string
  rs_APITokenSecretRef :: "selector option"
  rs_ExistingRepositoryID :: string
  rs_PasswordSecretRef :: "selector option"
  rs_RepositoryName :: string
  rs_Region :: string
  rs_QuotaGiB :: "int option"
  rs_AlertDays :: "int option"
  rs_AppendOnly :: bool
  rs_SecretName :: string

record repository_status =
  rt_Conditions :: "condition list"
  rt_ObservedGeneration :: int
  rt_RepositoryID :: string
  rt_Adopted :: bool
  rt_Initialized :: bool
  rt_Server :: string
  rt_SecretName :: string
  rt_CurrentUsage :: string
  rt_Quota :: string

record repository =
  rp_Meta :: object_meta
  rp_Spec :: repository_spec
  rp_Status :: repository_status

abbreviation rp_Name :: "repository \<Rightarrow> string" where "rp_Name r \<equiv> om_Name (rp_Meta r)"
abbreviation rp_Namespace :: "repository \<Rightarrow> string" where
  "rp_Namespace r \<equiv> om_Namespace (rp_Meta r)"

definition SecretName :: "repository \<Rightarrow> string" where
  "SecretName r = (if rs_SecretName (rp_Spec r) \<noteq> '''' then rs_SecretName (rp_Spec r)
                   else rp_Name r @ ''-borgbase'')"

definition RepositoryName :: "repository \<Rightarrow> string" where
  "RepositoryName r = (if rs_RepositoryName (rp_Spec r) \<noteq> '''' then rs_RepositoryName (rp_Spec r)
                       else rp_Namespace r)"

section \<open>ScheduledBackup\<close>

definition SourceTypeCNPG :: string where "SourceTypeCNPG = ''cnpg''"
definition SourceTypeMariaDB :: string where "SourceTypeMariaDB = ''mariadb''"
definition SourceTypeFiles :: string where "SourceTypeFiles = ''files''"

definition DatabaseEngineCNPG :: string where "DatabaseEngineCNPG = ''cnpg''"
definition DatabaseEngineMariaDB :: string where "DatabaseEngineMariaDB = ''mariadb''"

definition DBSecretMountPath :: string where
  "DBSecretMountPath = ''/var/run/secrets/borgbase/database''"

definition defaultCNPGSecretName :: string where "defaultCNPGSecretName = ''postgresql-app''"
definition defaultMariaDBSecretName :: string where "defaultMariaDBSecretName = ''mariadb''"

definition ScheduledBackupConditionReady :: string where
  "ScheduledBackupConditionReady = ''Ready''"

definition AnnotationTriggerAt :: string where
  "AnnotationTriggerAt = ''borgbase.clevyr.com/trigger-at''"

record backup_source =
  src_Type :: string
  src_Tag :: string
  src_Path :: string
  src_Exclude :: "string list"
  src_Database :: string
  src_ExtraArgs :: "string list"

definition EffectiveTag :: "backup_source \<Rightarrow> string" where
  "EffectiveTag s = (if src_Tag s \<noteq> '''' then src_Tag s
                     else if src_Type s = SourceTypeFiles then ''files'' else ''db'')"

definition EffectivePath :: "backup_source \<Rightarrow> string" where
  "EffectivePath s = (if src_Path s \<noteq> '''' then src_Path s else ''.'')"

record retention =
  rn_Last :: "int option"
  rn_Hourly :: "int option"
  rn_Daily :: "int option"
  rn_Weekly :: "int option"
  rn_Monthly :: "int option"
  rn_Yearly :: "int option"

record database_spec =
  db_Engine :: string
  db_SecretName :: string
  db_Host :: string
  db_Name :: string
  db_User :: string

definition EffectiveSecretName :: "database_spec \<Rightarrow> string" where
  "EffectiveSecretName d =
     (if db_SecretName d \<noteq> '''' then db_SecretName d
      else if db_Engine d = DatabaseEngineMariaDB then defaultMariaDBSecretName
      else defaultCNPGSecretName)"

definition MountPath :: "database_spec \<Rightarrow> string" where
  "MountPath d = DBSecretMountPath"

record volume_spec =
  vs_ExistingClaim :: string
  vs_MountPath :: string
  vs_ReadOnly :: bool

definition EffectiveMountPath :: "volume_spec \<Rightarrow> string" where
  "EffectiveMountPath v = (if vs_MountPath v \<noteq> '''' then vs_MountPath v
                           else CHR ''/'' # vs_ExistingClaim v)"

record cache_spec =
  ca_Enabled :: "bool option"
  ca_StorageClass :: string
  ca_Size :: string
  ca_AccessMode :: string

record healthchecks_spec =
  hs_Enabled :: "bool option"
  hs_PingKeySecretRef :: "selector option"
  hs_Slug :: string
  hs_Create :: "bool option"
  hs_APIURL :: string
  hs_UUIDSecretRef :: "selector option"

record backup_spec =
  bs_RepositoryRef :: string
  bs_Schedule :: string
  bs_TimeZone :: string
  bs_Suspend :: bool
  bs_ConcurrencyPolicy :: string
  bs_Image :: string
  bs_Sources :: "backup_source list"
  bs_Script :: string
  bs_Retention :: "retention option"
  bs_RetryLock :: "duration option"
  bs_Env :: "string gomap"
  bs_Database :: "database_spec option"
  bs_Volume :: "volume_spec option"
  bs_Cache :: "cache_spec option"
  bs_Healthchecks :: "healthchecks_spec option"
  bs_Affinity :: "affinity option"
  bs_PodSecurityContext :: "pod_security option"
  bs_ContainerSecurityContext :: "container_security option"
  bs_PodLabels :: "string gomap"
  bs_Resources :: "resource_requirements option"
  bs_SuccessfulJobsHistoryLimit :: "int option"
  bs_FailedJobsHistoryLimit :: "int option"

datatype run_result = BackupRunRunning | BackupRunSucceeded | BackupRunFailed

datatype run_trigger = BackupTriggerScheduled | BackupTriggerManual

record backup_run =
  run_JobName :: string
  run_Trigger :: run_trigger
  run_Result :: run_result
  run_StartTime :: "time option"
  run_CompletionTime :: "time option"

record backup_status =
  bt_Conditions :: "condition list"
  bt_ObservedGeneration :: int
  bt_EffectiveSchedule :: string
  bt_LastScheduleTime :: "time option"
  bt_LastSuccessfulTime :: "time option"
  bt_Active :: int
  bt_LastTriggerTime :: "time option"
  bt_LastTriggerJob :: string
  bt_History :: "backup_run list"

record scheduled_backup =
  sb_Meta :: object_meta
  sb_Spec :: backup_spec
  sb_Status :: backup_status

abbreviation sb_Name :: "scheduled_backup \<Rightarrow> string" where "sb_Name s \<equiv> om_Name (sb_Meta s)"
abbreviation sb_Namespace :: "scheduled_backup \<Rightarrow> string" where
  "sb_Namespace s \<equiv> om_Namespace (sb_Meta s)"

definition Slug :: "scheduled_backup \<Rightarrow> string" where
  "Slug s = (case bs_Healthchecks (sb_Spec s) of
       Some hc \<Rightarrow> if hs_Slug hc \<noteq> '''' then hs_Slug hc else sb_Namespace s
     | None \<Rightarrow> sb_Namespace s)"

end
