(* ===== verification/BorgBase.thy ===== *)
theory BorgBase
  imports KubeTypes
begin

text \<open>
  The BorgBase API: its repositories and options (\<open>internal/borgbase/types.go\<close>) and
  the GraphQL client (\<open>internal/borgbase/client.go\<close>). The HTTP round trip and the
  decoding of JSON are a parameter of the client, the \<open>transport\<close>: it answers a
  request with what the code sees of the response. The interface \<open>API\<close> is a record of
  operations over an arbitrary world.
\<close>

section \<open>Repositories and options\<close>

definition FormatRestic :: string where "FormatRestic = ''restic''"

definition ErrNotFound :: goerr where
  "ErrNotFound = Sentinel ''borgbase: repository not found''"
definition ErrNotRestic :: goerr where
  "ErrNotRestic = Sentinel ''borgbase: repository is not restic format''"
definition ErrNoCredentials :: goerr where
  "ErrNoCredentials = Sentinel ''borgbase: repository has no REST password''"

record server =
  srv_Hostname :: string
  srv_Region :: string

record remote =
  bb_ID :: string
  bb_Name :: string
  bb_Region :: string
  bb_Format :: string
  bb_RepoPath :: string
  bb_Quota :: int
  bb_QuotaEnabled :: bool
  bb_AlertDays :: int
  bb_AppendOnly :: bool
  bb_CurrentUsage :: rat
  bb_Htpasswd :: string
  bb_Server :: server

definition IsRestic :: "remote \<Rightarrow> bool" where
  "IsRestic r \<longleftrightarrow> bb_Format r = FormatRestic"

definition Password :: "remote \<Rightarrow> string" where
  "Password r = bb_Htpasswd r"

definition Host :: "remote \<Rightarrow> string" where
  "Host r = bb_ID r @ ''.repo.borgbase.com''"

definition ResticURL :: "remote \<Rightarrow> goerr + string" where
  "ResticURL r =
     (if \<not> IsRestic r then Inl ErrNotRestic
      else if Password r = '''' then Inl ErrNoCredentials
      else Inr (''rest:https://'' @ bb_ID r @ '':'' @ Password r @ ''@'' @ Host r))"

record add_options =
  ao_Name :: string
  ao_Region :: string
  ao_Quota :: "int option"
  ao_AlertDays :: "int option"
  ao_AppendOnly :: bool

record edit_options =
  eo_Quota :: "int option"
  eo_QuotaEnabled :: "bool option"
  eo_AlertDays :: "int option"
  eo_AppendOnly :: "bool option"

definition no_edit :: edit_options where
  "no_edit = \<lparr>eo_Quota = None, eo_QuotaEnabled = None, eo_AlertDays = None, eo_AppendOnly = None\<rparr>"

definition IsZero :: "edit_options \<Rightarrow> bool" where
  "IsZero opts \<longleftrightarrow> eo_Quota opts = None \<and> eo_QuotaEnabled opts = None \<and> eo_AlertDays opts = None \<and>
     eo_AppendOnly opts = None"

text \<open>The interface \<open>API\<close>.\<close>

record 'w api =
  api_Get :: "string \<Rightarrow> ('w, remote) go"
  api_FindByName :: "string \<Rightarrow> ('w, remote) go"
  api_Add :: "add_options \<Rightarrow> ('w, remote) go"
  api_Edit :: "string \<Rightarrow> edit_options \<Rightarrow> ('w, remote) go"
  api_Delete :: "string \<Rightarrow> ('w, unit) go"

section \<open>Recognising a missing repository\<close>

text \<open>
  The pattern \<open>repoNotFound\<close> as three sequences of items, with the semantics of Go's
  \<open>regexp\<close> under the flag \<open>i\<close>: letters match in either case, and an \<open>s\<close> also matches
  U+017F, its other case folding. A word boundary is between an ASCII word character
  and anything else. The pattern is matched on bytes; no item but \<open>Others\<close> can match
  part of a multi-byte character, and none can begin inside one.
\<close>

datatype item =
    Lit string
  | Maybe string
  | Either string string
  | Others
  | Spaces
  | Boundary

definition lower_char :: "char \<Rightarrow> char" where
  "lower_char c = (let n = of_char c :: nat in if n \<in> {65..90} then char_of (n + 32) else c)"

definition word_char :: "char \<Rightarrow> bool" where
  "word_char c \<longleftrightarrow> (let n = of_char c :: nat in
     n \<in> {48..57} \<or> n \<in> {65..90} \<or> n \<in> {97..122} \<or> n = 95)"

definition boundary :: "char option \<Rightarrow> string \<Rightarrow> bool" where
  "boundary prev s \<longleftrightarrow>
     (case prev of None \<Rightarrow> False | Some c \<Rightarrow> word_char c) \<noteq>
     (case s of [] \<Rightarrow> False | c # _ \<Rightarrow> word_char c)"

text \<open>\<open>cut_fold t prev s\<close>: what is left of \<open>s\<close> after the text \<open>t\<close>, and the last byte read.\<close>

fun cut_fold :: "string \<Rightarrow> char option \<Rightarrow> string \<Rightarrow> (char option \<times> string) option" where
  "cut_fold [] prev s = Some (prev, s)"
| "cut_fold (t # ts) prev [] = None"
| "cut_fold (t # ts) prev (c # s) =
     (if lower_char c = t then cut_fold ts (Some c) s
      else if t = CHR ''s'' \<and> c = CHR 0xC5 \<and> s \<noteq> [] \<and> hd s = CHR 0xBF
      then cut_fold ts (Some (CHR 0xBF)) (tl s)
      else None)"

lemma cut_fold_suffix: "cut_fold t prev s = Some (p, r) \<Longrightarrow> \<exists>a. s = a @ r"
proof (induction t prev s rule: cut_fold.induct)
  case (3 t ts prev c s)
  then show ?case
    by (cases s) (auto split: if_splits intro: exI[of _ "c # _"] exI[of _ "c # _ # _"])
qed auto

lemma cut_fold_length: "cut_fold t prev s = Some (p, r) \<Longrightarrow> length r \<le> length s"
  by (drule cut_fold_suffix) auto

function matches :: "item list \<Rightarrow> char option \<Rightarrow> string \<Rightarrow> bool" where
  "matches [] prev s = True"
| "matches (Lit t # ps) prev s =
     (case cut_fold t prev s of None \<Rightarrow> False | Some (p, r) \<Rightarrow> matches ps p r)"
| "matches (Maybe t # ps) prev s =
     ((case cut_fold t prev s of None \<Rightarrow> False | Some (p, r) \<Rightarrow> matches ps p r) \<or>
      matches ps prev s)"
| "matches (Either t u # ps) prev s =
     ((case cut_fold t prev s of None \<Rightarrow> False | Some (p, r) \<Rightarrow> matches ps p r) \<or>
      (case cut_fold u prev s of None \<Rightarrow> False | Some (p, r) \<Rightarrow> matches ps p r))"
| "matches (Others # ps) prev s =
     (matches ps prev s \<or>
      (case s of [] \<Rightarrow> False
       | c # r \<Rightarrow> c \<notin> {CHR ''.'', CHR '';''} \<and> matches (Others # ps) (Some c) r))"
| "matches (Spaces # ps) prev s =
     (case s of [] \<Rightarrow> False
      | c # r \<Rightarrow> c \<in> {CHR 0x09, CHR 0x0A, CHR 0x0C, CHR 0x0D, CHR 0x20} \<and>
          (matches ps (Some c) r \<or> matches (Spaces # ps) (Some c) r))"
| "matches (Boundary # ps) prev s = (boundary prev s \<and> matches ps prev s)"
  by pat_completeness auto
termination
  by (relation "measure (\<lambda>(ps, prev, s). length ps + length s)")
    (auto dest: cut_fold_length)

declare matches.simps(5,6) [simp del]

fun search :: "item list list \<Rightarrow> char option \<Rightarrow> string \<Rightarrow> bool" where
  "search alts prev [] = list_ex (\<lambda>a. matches a prev []) alts"
| "search alts prev (c # s) =
     (list_ex (\<lambda>a. matches a prev (c # s)) alts \<or> search alts (Some c) s)"

definition repoNotFound_pattern :: "item list list" where
  "repoNotFound_pattern =
    [[Lit ''repo'', Maybe ''sitory'', Boundary, Others, Either ''not found'' ''does not exist''],
     [Boundary, Lit ''no'', Spaces, Lit ''repo'', Maybe ''sitory'', Boundary, Others, Boundary,
      Lit ''found'', Boundary],
     [Either ''not found'' ''does not exist'', Others, Boundary, Lit ''repo'', Maybe ''sitory'',
      Boundary]]"

definition repoNotFound :: "string \<Rightarrow> bool" where
  "repoNotFound s = search repoNotFound_pattern None s"

text \<open>\<open>mentions t s\<close>: the text \<open>t\<close> stands somewhere in \<open>s\<close>, in any case.\<close>

fun mentions :: "string \<Rightarrow> string \<Rightarrow> bool" where
  "mentions t [] = (cut_fold t None [] \<noteq> None)"
| "mentions t (c # s) = (cut_fold t None (c # s) \<noteq> None \<or> mentions t s)"

lemma cut_fold_prev:
  "cut_fold t p s = None \<longleftrightarrow> cut_fold t q s = None"
  by (cases t; cases s) auto

lemma mentions_here: "cut_fold t p s \<noteq> None \<Longrightarrow> mentions t s"
  using cut_fold_prev[of t p s None] by (cases s) auto

lemma mentions_found: "cut_fold t p s = Some x \<Longrightarrow> mentions t s"
  by (rule mentions_here[of t p]) simp

lemma mentions_later: "mentions t s \<Longrightarrow> mentions t (a @ s)"
  by (induction a) auto

lemma mentions_after: "cut_fold u p s = Some (q, r) \<Longrightarrow> mentions t r \<Longrightarrow> mentions t s"
  by (auto dest: cut_fold_suffix intro: mentions_later)

lemma mentions_second:
  "cut_fold (u @ t) p s \<noteq> None \<Longrightarrow> mentions t s"
proof (induction u p s rule: cut_fold.induct)
  case (1 p s)
  then show ?case by (simp add: mentions_here)
next
  case (3 u us p c s)
  then have "mentions t s \<or> mentions t (tl s)" by (auto split: if_splits)
  then show ?case using mentions_later[of t "tl s" "[hd s]"] mentions_later[of t s "[c]"]
    by (cases s) auto
qed simp

fun mentions_item :: "item \<Rightarrow> string \<Rightarrow> bool" where
  "mentions_item (Lit t) s = mentions t s"
| "mentions_item (Either t u) s = (mentions t s \<or> mentions u s)"
| "mentions_item _ s = True"

lemma mentions_item_after:
  "cut_fold u p s = Some (q, r) \<Longrightarrow> mentions_item it r \<Longrightarrow> mentions_item it s"
  by (cases it) (auto intro: mentions_after)

lemma mentions_item_step: "mentions_item it s \<Longrightarrow> mentions_item it (c # s)"
  by (cases it) auto

lemma matches_mentions:
  "matches ps p s \<Longrightarrow> it \<in> set ps \<Longrightarrow> mentions_item it s"
proof (induction ps p s rule: matches.induct)
  case (5 ps prev s)
  then show ?case
    by (auto simp: matches.simps(5)[of ps prev s] split: list.splits intro: mentions_item_step)
next
  case (6 ps prev s)
  then show ?case
    by (auto simp: matches.simps(6)[of ps prev s] split: list.splits intro: mentions_item_step)
qed (auto split: option.splits intro: mentions_found mentions_item_after)

lemma list_ex_mentions:
  "list_ex (\<lambda>a. matches a p s) alts \<Longrightarrow> \<forall>a\<in>set alts. it a \<in> set a \<Longrightarrow>
   \<exists>a\<in>set alts. mentions_item (it a) s"
  by (auto simp: list_ex_iff dest: matches_mentions)

lemma search_mentions:
  "search alts p s \<Longrightarrow> \<forall>a\<in>set alts. it a \<in> set a \<Longrightarrow>
   \<exists>a\<in>set alts. mentions_item (it a) s"
proof (induction alts p s rule: search.induct)
  case (1 alts prev)
  then show ?case by (simp add: list_ex_mentions)
next
  case (2 alts prev c s)
  then show ?case
    by (cases "search alts (Some c) s") (auto intro: mentions_item_step list_ex_mentions)
qed

lemma repoNotFound_mentions:
  assumes "repoNotFound s"
  shows "mentions ''repo'' s" "mentions ''found'' s \<or> mentions ''does not exist'' s"
proof -
  have "\<exists>a\<in>set repoNotFound_pattern. mentions_item (Lit ''repo'') s"
    using assms unfolding repoNotFound_def
    by (rule search_mentions) (auto simp: repoNotFound_pattern_def)
  then show "mentions ''repo'' s" by simp
  let ?it = "\<lambda>a. if Lit ''found'' \<in> set a then Lit ''found''
    else Either ''not found'' ''does not exist''"
  have "\<exists>a\<in>set repoNotFound_pattern. mentions_item (?it a) s"
    using assms unfolding repoNotFound_def
    by (rule search_mentions) (auto simp: repoNotFound_pattern_def)
  moreover have "mentions ''found'' s" if "mentions ''not found'' s"
    using that
  proof (induction "''not found''" s rule: mentions.induct)
    case (2 c s)
    then show ?case using mentions_second[of "''not ''" "''found''" None "c # s"] by auto
  qed (use mentions_second[of "''not ''" "''found''" None "[]"] in auto)
  ultimately show "mentions ''found'' s \<or> mentions ''does not exist'' s"
    by (auto split: if_splits)
qed

section \<open>The client\<close>

definition DefaultEndpoint :: string where
  "DefaultEndpoint = ''https://api.borgbase.com/graphql''"

record borg_client =
  cli_Endpoint :: string
  cli_Token :: string

definition NewClient :: "string \<Rightarrow> borg_client" where
  "NewClient token = \<lparr>cli_Endpoint = DefaultEndpoint, cli_Token = token\<rparr>"

datatype gql_value = GStr string | GInt int | GBool bool

record request =
  req_Endpoint :: string
  req_Headers :: "(string \<times> string) list"
  req_Query :: string
  req_Variables :: "gql_value gomap"

text \<open>
  What the code sees of a response: no request or no response at all, a status other
  than 200 with the body, a body that is not an envelope, or the envelope's error
  messages and its data. The data is decoded into the fields the program declares for
  its five queries; a field that is absent is \<open>None\<close> or empty.
\<close>

record payload =
  pl_Repo :: "remote option"
  pl_RepoList :: "remote list"
  pl_RepoAdded :: "remote option"
  pl_RepoEdited :: "remote option"
  pl_DeleteOK :: "bool option"

definition no_payload :: payload where
  "no_payload = \<lparr>pl_Repo = None, pl_RepoList = [], pl_RepoAdded = None, pl_RepoEdited = None,
     pl_DeleteOK = None\<rparr>"

datatype http_reply =
    BuildFailed goerr
  | DoFailed goerr
  | BadStatus string string
  | BadBody goerr
  | Envelope "string list" "goerr + payload"

type_synonym 'w transport = "request \<Rightarrow> 'w \<Rightarrow> http_reply \<times> 'w"

definition endpoint :: "borg_client \<Rightarrow> string" where
  "endpoint c = (if cli_Endpoint c \<noteq> '''' then cli_Endpoint c else DefaultEndpoint)"

definition build_request :: "borg_client \<Rightarrow> string \<Rightarrow> gql_value gomap \<Rightarrow> request" where
  "build_request c query vars =
     \<lparr>req_Endpoint = endpoint c,
      req_Headers = [(''Content-Type'', ''application/json''), (''Accept'', ''application/json''),
                     (''Authorization'', ''Bearer '' @ cli_Token c)],
      req_Query = query, req_Variables = vars\<rparr>"

text \<open>\<open>execute\<close> after the round trip: from the reply to the error or the decoded data.\<close>

definition read_reply :: "http_reply \<Rightarrow> goerr + payload" where
  "read_reply reply =
     (case reply of
        BuildFailed e \<Rightarrow> Inl (Errorf ''borgbase: building request: %w'' [Err e])
      | DoFailed e \<Rightarrow> Inl (Errorf ''borgbase: request failed: %w'' [Err e])
      | BadStatus status body \<Rightarrow>
          (let snippet = take 200 body
           in if snippet \<noteq> '''' then
                Inl (Errorf ''borgbase: unexpected status %s: %s'' [Str status, Str (TrimSpace snippet)])
              else Inl (Errorf ''borgbase: unexpected status %s'' [Str status]))
      | BadBody e \<Rightarrow> Inl (Errorf ''borgbase: decoding response: %w'' [Err e])
      | Envelope errors data \<Rightarrow>
          (if errors \<noteq> [] then
             (let joined = Join errors ''; ''
              in if repoNotFound joined then Inl (Errorf ''%w: %s'' [Err ErrNotFound, Str joined])
                 else Inl (Errorf ''borgbase: %s'' [Str joined]))
           else
             (case data of
                Inl e \<Rightarrow> Inl (Errorf ''borgbase: decoding data: %w'' [Err e])
              | Inr d \<Rightarrow> Inr d)))"

definition execute :: "'w transport \<Rightarrow> borg_client \<Rightarrow> string \<Rightarrow> gql_value gomap \<Rightarrow> ('w, payload) go" where
  "execute post c query vars =
     (\<lambda>w. let (reply, w') = post (build_request c query vars) w in (read_reply reply, w'))"

definition repoFields :: string where
  "repoFields =
     nl # concat (map (\<lambda>f. tab # f @ [nl])
       [''id'', ''name'', ''region'', ''format'', ''repoPath'', ''quota'', ''quotaEnabled'',
        ''alertDays'', ''appendOnly'', ''currentUsage'', ''htpasswd'',
        ''server { hostname region }''])"

definition Get :: "'w transport \<Rightarrow> borg_client \<Rightarrow> string \<Rightarrow> ('w, remote) go" where
  "Get post c i =
     bind_go (execute post c
         (''query repo($id: String!) { repo(repoId: $id) {'' @ repoFields @ ''} }'')
         [(''id'', GStr i)])
       (\<lambda>data. case pl_Repo data of
           None \<Rightarrow> fail (Errorf ''%w: %s'' [Err ErrNotFound, Str i])
         | Some r \<Rightarrow> ret r)"

text \<open>The loop of \<open>FindByName\<close>; \<open>found\<close> is the match of an earlier round.\<close>

fun find_named :: "string \<Rightarrow> remote option \<Rightarrow> remote list \<Rightarrow> goerr + remote" where
  "find_named name found [] =
     (case found of
        None \<Rightarrow> Inl (Errorf ''%w: name %s'' [Err ErrNotFound, Str name])
      | Some r \<Rightarrow> Inr r)"
| "find_named name found (r # rs) =
     (if bb_Name r \<noteq> name then find_named name found rs
      else if found \<noteq> None then
        Inl (Errorf ''borgbase: multiple repositories named %q; adopt one explicitly by ID'' [Str name])
      else find_named name (Some r) rs)"

definition FindByName :: "'w transport \<Rightarrow> borg_client \<Rightarrow> string \<Rightarrow> ('w, remote) go" where
  "FindByName post c name =
     bind_go (execute post c
         (''query repoList($name: String) { repoList(name: $name) {'' @ repoFields @ ''} }'')
         [(''name'', GStr name)])
       (\<lambda>data. lift (find_named name None (pl_RepoList data)))"

definition indented :: "nat \<Rightarrow> string \<Rightarrow> string" where
  "indented n line = replicate n tab @ line @ [nl]"

definition add_query :: string where
  "add_query =
     ''mutation repoAdd('' @ [nl]
     @ concat (map (indented 2)
        [''$name: String!'', ''$region: String!'', ''$format: String'', ''$quota: Int'',
         ''$quotaEnabled: Boolean'', ''$alertDays: Int'', ''$appendOnly: Boolean''])
     @ indented 1 '') {'' @ indented 2 ''repoAdd(''
     @ concat (map (indented 3)
        [''name: $name'', ''region: $region'', ''format: $format'', ''quota: $quota'',
         ''quotaEnabled: $quotaEnabled'', ''alertDays: $alertDays'', ''appendOnly: $appendOnly''])
     @ [tab, tab] @ '') { repoAdded {'' @ repoFields @ ''} }'' @ [nl, tab] @ ''}''"

definition opt_var :: "string \<Rightarrow> ('a \<Rightarrow> gql_value) \<Rightarrow> 'a option \<Rightarrow> gql_value gomap \<Rightarrow> gql_value gomap" where
  "opt_var k mk v vars = (case v of None \<Rightarrow> vars | Some x \<Rightarrow> map_put k (mk x) vars)"

definition add_vars :: "add_options \<Rightarrow> gql_value gomap" where
  "add_vars opts =
     opt_var ''alertDays'' GInt (ao_AlertDays opts)
       (opt_var ''quota'' GInt (ao_Quota opts)
         [(''name'', GStr (ao_Name opts)), (''region'', GStr (ao_Region opts)),
          (''format'', GStr FormatRestic), (''quotaEnabled'', GBool (ao_Quota opts \<noteq> None)),
          (''appendOnly'', GBool (ao_AppendOnly opts))])"

definition Add :: "'w transport \<Rightarrow> borg_client \<Rightarrow> add_options \<Rightarrow> ('w, remote) go" where
  "Add post c opts =
     bind_go (execute post c add_query (add_vars opts))
       (\<lambda>data. case pl_RepoAdded data of
           None \<Rightarrow> fail (Errorf ''borgbase: repoAdd returned no repository'' [])
         | Some r \<Rightarrow> ret r)"

definition edit_query :: string where
  "edit_query =
     ''mutation repoEdit('' @ [nl]
     @ concat (map (indented 2)
        [''$id: String!'', ''$quota: Int'', ''$quotaEnabled: Boolean'', ''$alertDays: Int'',
         ''$appendOnly: Boolean''])
     @ indented 1 '') {'' @ indented 2 ''repoEdit(''
     @ concat (map (indented 3)
        [''id: $id'', ''quota: $quota'', ''quotaEnabled: $quotaEnabled'', ''alertDays: $alertDays'',
         ''appendOnly: $appendOnly''])
     @ [tab, tab] @ '') { repoEdited {'' @ repoFields @ ''} }'' @ [nl, tab] @ ''}''"

definition edit_vars :: "string \<Rightarrow> edit_options \<Rightarrow> gql_value gomap" where
  "edit_vars i opts =
     opt_var ''appendOnly'' GBool (eo_AppendOnly opts)
       (opt_var ''alertDays'' GInt (eo_AlertDays opts)
         (opt_var ''quotaEnabled'' GBool (eo_QuotaEnabled opts)
           (opt_var ''quota'' GInt (eo_Quota opts) [(''id'', GStr i)])))"

definition Edit :: "'w transport \<Rightarrow> borg_client \<Rightarrow> string \<Rightarrow> edit_options \<Rightarrow> ('w, remote) go" where
  "Edit post c i opts =
     bind_go (execute post c edit_query (edit_vars i opts))
       (\<lambda>data. case pl_RepoEdited data of
           None \<Rightarrow> fail (Errorf ''borgbase: repoEdit returned no repository'' [])
         | Some r \<Rightarrow> ret r)"

definition Delete :: "'w transport \<Rightarrow> borg_client \<Rightarrow> string \<Rightarrow> ('w, unit) go" where
  "Delete post c i =
     bind_go (execute post c
         ''mutation repoDelete($id: String!) { repoDelete(id: $id) { ok } }''
         [(''id'', GStr i)])
       (\<lambda>data. if pl_DeleteOK data = Some False
          then fail (Errorf ''borgbase: repoDelete reported ok=false for repository %s'' [Str i])
          else ret ())"

definition client_api :: "'w transport \<Rightarrow> borg_client \<Rightarrow> 'w api" where
  "client_api post c =
     \<lparr>api_Get = Get post c, api_FindByName = FindByName post c, api_Add = Add post c,
      api_Edit = Edit post c, api_Delete = Delete post c\<rparr>"

section \<open>Properties of the client\<close>

text \<open>
  The loop against its specification: the filtered list decides. \<open>find_named\<close> with an
  earlier match \<open>found\<close> is the same loop on the list with that match in front.
\<close>

lemma find_named_found:
  "bb_Name r = name \<Longrightarrow> find_named name (Some r) rs =
    (if filter (\<lambda>r. bb_Name r = name) rs = [] then Inr r
     else Inl (Errorf ''borgbase: multiple repositories named %q; adopt one explicitly by ID'' [Str name]))"
  by (induction rs) auto

lemma find_named_filter:
  "find_named name None rs =
    (case filter (\<lambda>r. bb_Name r = name) rs of
       [] \<Rightarrow> Inl (Errorf ''%w: name %s'' [Err ErrNotFound, Str name])
     | [r] \<Rightarrow> Inr r
     | _ \<Rightarrow> Inl (Errorf ''borgbase: multiple repositories named %q; adopt one explicitly by ID'' [Str name]))"
  by (induction rs) (auto simp: find_named_found split: list.splits)

text \<open>
  Looking a repository up by name answers with a repository exactly when the
  server lists one and only one of that name, reports \<open>ErrNotFound\<close> exactly when it
  lists none, and refuses to choose between several.
\<close>

lemma FindByName_picks_the_only_one:
  "(find_named name None rs = Inr r \<longleftrightarrow> filter (\<lambda>r. bb_Name r = name) rs = [r]) \<and>
   ((\<exists>e. find_named name None rs = Inl e \<and> err_is e ErrNotFound) \<longleftrightarrow>
      filter (\<lambda>r. bb_Name r = name) rs = [])"
  by (auto simp: find_named_filter ErrNotFound_def split: list.splits)

text \<open>
  The errors that come from below the client say nothing about repositories: none of
  them is \<open>ErrNotFound\<close>, which this package alone creates.
\<close>

definition foreign_errors :: "http_reply \<Rightarrow> bool" where
  "foreign_errors reply \<longleftrightarrow>
     (case reply of
        BuildFailed e \<Rightarrow> \<not> err_is e ErrNotFound
      | DoFailed e \<Rightarrow> \<not> err_is e ErrNotFound
      | BadStatus _ _ \<Rightarrow> True
      | BadBody e \<Rightarrow> \<not> err_is e ErrNotFound
      | Envelope _ data \<Rightarrow> (case data of Inl e \<Rightarrow> \<not> err_is e ErrNotFound | Inr _ \<Rightarrow> True))"

text \<open>
  A failure counts as \<open>ErrNotFound\<close>, on which a deletion is taken to be done, only
  if the server itself answered with messages that speak of a repository and of it not
  being found or not existing; no transport failure, bad status or undecodable body
  is ever mistaken for it.
\<close>

lemma not_found_comes_from_the_server:
  assumes "read_reply reply = Inl e" "err_is e ErrNotFound" "foreign_errors reply"
  shows "\<exists>errors data. reply = Envelope errors data \<and> mentions ''repo'' (Join errors ''; '') \<and>
    (mentions ''found'' (Join errors ''; '') \<or> mentions ''does not exist'' (Join errors ''; ''))"
  using assms
  by (auto simp: read_reply_def foreign_errors_def ErrNotFound_def Let_def
      split: http_reply.splits if_splits sum.splits dest: repoNotFound_mentions)

lemma not_found_comes_from_the_server_witness:
  "\<exists>errors data. Envelope [''Repository 42 not found''] (Inr no_payload) = Envelope errors data \<and>
    mentions ''repo'' (Join errors ''; '') \<and>
    (mentions ''found'' (Join errors ''; '') \<or> mentions ''does not exist'' (Join errors ''; ''))"
proof (rule not_found_comes_from_the_server)
  have "repoNotFound ''Repository 42 not found''" by code_simp
  then show "read_reply (Envelope [''Repository 42 not found''] (Inr no_payload)) =
      Inl (Errorf ''%w: %s'' [Err ErrNotFound, Str ''Repository 42 not found''])"
    by (simp add: read_reply_def)
qed (simp_all add: foreign_errors_def ErrNotFound_def)

lemma map_of_opt_var [simp]:
  "map_of (opt_var k mk v vars) = (map_of vars)(k := (case v of None \<Rightarrow> map_of vars k | Some x \<Rightarrow> Some (mk x)))"
  by (auto simp: opt_var_def split: option.splits)

text \<open>
  An edit sends the identifier and exactly the settings that are set in its
  options: a field that is nil is absent from the request, so the server leaves it
  alone.
\<close>

lemma edit_sends_the_set_fields:
  "map_of (edit_vars i opts) =
     [''id'' \<mapsto> GStr i](''quota'' := map_option GInt (eo_Quota opts),
       ''quotaEnabled'' := map_option GBool (eo_QuotaEnabled opts),
       ''alertDays'' := map_option GInt (eo_AlertDays opts),
       ''appendOnly'' := map_option GBool (eo_AppendOnly opts))"
  by (auto simp: edit_vars_def fun_eq_iff split: option.splits)

section \<open>The interface the controller relies on\<close>

text \<open>
  What the controller needs to know of the API: a repository found by name has that
  name. (An answer to any other call may be anything at all.)
\<close>

locale named_lookup =
  fixes api :: "'w api"
  assumes found_has_name: "api_FindByName api name w = (Inr r, w') \<Longrightarrow> bb_Name r = name"
begin

lemma find_or_error:
  "wp (api_FindByName api name) (\<lambda>r _. bb_Name r = name) (\<lambda>_ _. True) w"
  by (auto simp: wp_def split: prod.splits sum.splits dest: found_has_name)

end

lemma find_named_name: "find_named name None rs = Inr r \<Longrightarrow> bb_Name r = name"
proof -
  assume "find_named name None rs = Inr r"
  then have "filter (\<lambda>r. bb_Name r = name) rs = [r]"
    by (simp add: find_named_filter split: list.splits)
  then have "r \<in> set (filter (\<lambda>r. bb_Name r = name) rs)" by simp
  then show ?thesis by simp
qed

interpretation client: named_lookup "client_api post c" for post c
proof unfold_locales
  fix name w r w'
  assume "api_FindByName (client_api post c) name w = (Inr r, w')"
  then show "bb_Name r = name"
    by (auto simp: client_api_def FindByName_def bind_go_def lift_def
        split: prod.splits sum.splits dest: find_named_name)
qed

end
