(* ===== verification/Secrets.thy ===== *)
theory Secrets
  imports GoStrings
begin

text \<open>
  The restic password (\<open>internal/secrets/password.go\<close>): 128 characters of a 62-letter
  alphabet, drawn from the random source by rejection sampling. The random source is a
  parameter \<open>read\<close>: \<open>rand.Read\<close> fills the buffer or fails, in some world.
\<close>

definition passwordLength :: nat where "passwordLength = 128"

definition alphabet :: string where
  "alphabet = ''abcdefghijklmnopqrstuvwxyz'' @ ''ABCDEFGHIJKLMNOPQRSTUVWXYZ'' @ ''0123456789''"

definition maxUnbiased :: nat where
  "maxUnbiased = 256 - 256 mod length alphabet"

lemma alphabet_facts [simp]: "length alphabet = 62" "distinct alphabet"
  by (simp_all add: alphabet_def)

lemma maxUnbiased_248: "maxUnbiased = 248"
  by (simp add: maxUnbiased_def)

definition letter_of :: "char \<Rightarrow> char" where
  "letter_of b = alphabet ! (of_char b mod length alphabet)"

text \<open>The inner loop over the bytes of the buffer.\<close>

fun consume :: "string \<Rightarrow> string \<Rightarrow> string" where
  "consume out [] = out"
| "consume out (b # bs) =
     (if maxUnbiased \<le> of_char b then consume out bs
      else let out' = out @ [letter_of b]
           in if length out' = passwordLength then out' else consume out' bs)"

text \<open>
  The outer loop. It runs as long as the source gives only rejected bytes, so it has
  no bound of its own: \<open>fuel\<close> counts the passes and running out of it is \<open>None\<close>.
\<close>

type_synonym 'w reader = "'w \<Rightarrow> (goerr + string) \<times> 'w"

fun fill :: "nat \<Rightarrow> 'w reader \<Rightarrow> string \<Rightarrow> string \<Rightarrow> 'w \<Rightarrow> ((goerr + string) \<times> 'w) option" where
  "fill 0 read out buf w = None"
| "fill (Suc fuel) read out buf w =
     (if length out < passwordLength then
        (let out' = consume out buf
         in if length out' < passwordLength then
              (case read w of
                 (Inl e, w') \<Rightarrow> Some (Inl (Errorf ''generating password: %w'' [Err e]), w')
               | (Inr buf', w') \<Rightarrow> fill fuel read out' buf' w')
            else fill fuel read out' buf w)
      else Some (Inr out, w))"

definition GeneratePassword :: "nat \<Rightarrow> 'w reader \<Rightarrow> 'w \<Rightarrow> ((goerr + string) \<times> 'w) option" where
  "GeneratePassword fuel read w =
     (case read w of
        (Inl e, w') \<Rightarrow> Some (Inl (Errorf ''generating password: %w'' [Err e]), w')
      | (Inr buf, w') \<Rightarrow> fill fuel read [] buf w')"

section \<open>The letters\<close>

lemma letter_in_alphabet: "letter_of b \<in> set alphabet"
  by (simp add: letter_of_def)

lemma consume_length:
  "length out < passwordLength \<Longrightarrow> length (consume out bs) \<le> passwordLength"
  by (induction out bs rule: consume.induct) (auto simp: Let_def)

lemma consume_letters: "set out \<subseteq> set alphabet \<Longrightarrow> set (consume out bs) \<subseteq> set alphabet"
  by (induction out bs rule: consume.induct) (auto simp: Let_def letter_in_alphabet)

lemma consume_grows: "length out \<le> length (consume out bs)"
  by (induction out bs rule: consume.induct) (auto simp: Let_def dest: le_trans)

lemma consume_progress:
  "\<exists>b\<in>set bs. of_char b < maxUnbiased \<Longrightarrow> length out < length (consume out bs)"
proof (induction out bs rule: consume.induct)
  case (2 out b bs)
  then show ?case
    using consume_grows[of "out @ [letter_of b]" bs] by (auto simp: Let_def)
qed simp

lemma fill_password:
  "fill fuel read out buf w = Some (Inr p, w') \<Longrightarrow> length out \<le> passwordLength \<Longrightarrow>
   set out \<subseteq> set alphabet \<Longrightarrow> length p = passwordLength \<and> set p \<subseteq> set alphabet"
proof (induction fuel arbitrary: out buf w)
  case (Suc fuel)
  show ?case
  proof (cases "length out < passwordLength")
    case True
    then have "length (consume out buf) \<le> passwordLength" by (rule consume_length)
    moreover have "set (consume out buf) \<subseteq> set alphabet"
      using Suc.prems(3) by (rule consume_letters)
    ultimately show ?thesis
      using Suc True by (auto simp: Let_def split: if_splits prod.splits sum.splits)
  next
    case False
    with Suc show ?thesis by auto
  qed
qed simp

text \<open>Sources that never fail and always give an acceptable byte somewhere.\<close>

definition productive :: "'w reader \<Rightarrow> bool" where
  "productive read \<longleftrightarrow>
     (\<forall>w. \<exists>buf w'. read w = (Inr buf, w') \<and> (\<exists>b\<in>set buf. of_char b < maxUnbiased))"

lemma fill_enough:
  assumes "productive read"
  shows "passwordLength - length out + 1 \<le> fuel \<Longrightarrow> length out \<le> passwordLength \<Longrightarrow>
    \<exists>b\<in>set buf. of_char b < maxUnbiased \<Longrightarrow> \<exists>p w'. fill fuel read out buf w = Some (Inr p, w')"
proof (induction fuel arbitrary: out buf w)
  case (Suc fuel)
  show ?case
  proof (cases "length out < passwordLength")
    case True
    from Suc.prems(3) have more: "length out < length (consume out buf)"
      by (rule consume_progress)
    moreover from True have "length (consume out buf) \<le> passwordLength"
      by (rule consume_length)
    ultimately have step: "\<exists>b\<in>set buf'. of_char b < maxUnbiased \<Longrightarrow>
        \<exists>p w'. fill fuel read (consume out buf) buf' v = Some (Inr p, w')" for buf' v
      using Suc.IH[of "consume out buf" buf' v] Suc.prems(1) True by auto
    obtain buf' v where "read w = (Inr buf', v)" "\<exists>b\<in>set buf'. of_char b < maxUnbiased"
      using assms unfolding productive_def by blast
    with step[of buf' v] step[of buf w] Suc.prems(3) True show ?thesis
      by (auto simp: Let_def)
  qed (use Suc.prems in auto)
qed simp

section \<open>The interface\<close>

text \<open>What the reconcilers rely on: a generated password is 128 letters of the alphabet.\<close>

locale password_source =
  fixes gen :: "'w \<Rightarrow> (goerr + string) \<times> 'w"
  assumes gen_password: "gen w = (Inr p, w') \<Longrightarrow> length p = passwordLength \<and> set p \<subseteq> set alphabet"
begin

lemma gen_nonempty: "gen w = (Inr p, w') \<Longrightarrow> p \<noteq> ''''"
  using gen_password by (fastforce simp: passwordLength_def)

end

text \<open>The generator as a total operation: running out of fuel is an error of its own.\<close>

definition run_generator :: "nat \<Rightarrow> 'w reader \<Rightarrow> 'w \<Rightarrow> (goerr + string) \<times> 'w" where
  "run_generator fuel read w =
     (case GeneratePassword fuel read w of
        Some r \<Rightarrow> r
      | None \<Rightarrow> (Inl (Sentinel ''random source exhausted''), w))"

interpretation generator: password_source "run_generator fuel read" for fuel read
  by unfold_locales
    (auto simp: run_generator_def GeneratePassword_def fill_password
      split: option.splits prod.splits sum.splits)

section \<open>Properties\<close>

text \<open>
  C40. With a random source that does not fail and that offers an acceptable byte in
  every buffer, 129 passes are enough: a password is generated, and it is 128
  characters, all of them letters of the alphabet.
\<close>

theorem GeneratePassword_total:
  assumes "productive read"
  shows "\<exists>p w'. GeneratePassword 129 read w = Some (Inr p, w') \<and>
    length p = 128 \<and> set p \<subseteq> set alphabet"
proof -
  obtain buf v where buf: "read w = (Inr buf, v)" "\<exists>b\<in>set buf. of_char b < maxUnbiased"
    using assms unfolding productive_def by blast
  have "\<exists>p w'. fill 129 read [] buf v = Some (Inr p, w')"
    by (rule fill_enough[OF assms]) (simp_all add: passwordLength_def buf(2))
  with buf(1) obtain p w' where "GeneratePassword 129 read w = Some (Inr p, w')"
    by (auto simp: GeneratePassword_def)
  moreover from this buf(1) have "length p = passwordLength \<and> set p \<subseteq> set alphabet"
    by (auto simp: GeneratePassword_def dest: fill_password)
  ultimately show ?thesis by (auto simp: passwordLength_def)
qed

theorem GeneratePassword_total_witness:
  "\<exists>p w'. GeneratePassword 129 (\<lambda>n :: nat. (Inr ''seed'', Suc n)) 0 = Some (Inr p, w') \<and>
    length p = 128 \<and> set p \<subseteq> set alphabet"
proof (rule GeneratePassword_total)
  show "productive (\<lambda>n :: nat. (Inr ''seed'', Suc n))"
    by (simp add: productive_def maxUnbiased_248)
qed

lemma char_of_inj_on_bytes: "inj_on (char_of :: nat \<Rightarrow> char) {n. n < 256}"
proof (rule inj_onI)
  fix x y :: nat
  assume "x \<in> {n. n < 256}" "y \<in> {n. n < 256}" and eq: "(char_of x :: char) = char_of y"
  then have "x < 256" "y < 256" by simp_all
  moreover from eq have "of_char (char_of x :: char) = (of_char (char_of y :: char) :: nat)" by simp
  ultimately show "x = y" by (simp add: of_char_of)
qed

text \<open>
  Rejection makes the choice unbiased: of the 256 byte values, every letter of the
  alphabet stands for exactly four accepted ones.
\<close>

lemma letters_unbiased:
  "c \<in> set alphabet \<Longrightarrow> card {b :: char. of_char b < maxUnbiased \<and> letter_of b = c} = 4"
proof -
  assume "c \<in> set alphabet"
  then obtain i where i: "i < 62" "alphabet ! i = c" by (auto simp: in_set_conv_nth)
  have "{b :: char. of_char b < maxUnbiased \<and> letter_of b = c} =
      char_of ` {i, i + 62, i + 124, i + 186 :: nat}"
  proof (intro set_eqI iffI)
    fix b :: char
    assume "b \<in> {b. of_char b < maxUnbiased \<and> letter_of b = c}"
    then have b: "(of_char b :: nat) < 248" "alphabet ! (of_char b mod 62) = alphabet ! i"
      using i(2) by (auto simp: maxUnbiased_248 letter_of_def)
    then have "of_char b mod 62 = i"
      using nth_eq_iff_index_eq[of alphabet "of_char b mod 62" i] i(1) by simp
    moreover have "(of_char b :: nat) = 62 * (of_char b div 62) + of_char b mod 62" by simp
    moreover have "(of_char b :: nat) div 62 \<in> {0, 1, 2, 3}" using b(1) by auto
    ultimately have "of_char b \<in> {i, i + 62, i + 124, i + 186}" by auto
    then have "char_of (of_char b :: nat) \<in> char_of ` {i, i + 62, i + 124, i + 186}" by blast
    then show "b \<in> char_of ` {i, i + 62, i + 124, i + 186}" by simp
  next
    fix b :: char
    assume "b \<in> char_of ` {i, i + 62, i + 124, i + 186}"
    then obtain n where n: "b = char_of n" "n \<in> {i, i + 62, i + 124, i + 186}" by blast
    with i(1) have "n < 248" "n mod 62 = i"
      using mod_mult_self1[of i 1 62] mod_mult_self1[of i 2 62] mod_mult_self1[of i 3 62]
      by auto
    then have "of_char b = n" using n(1) by simp
    with \<open>n < 248\<close> \<open>n mod 62 = i\<close> i(2)
    show "b \<in> {b. of_char b < maxUnbiased \<and> letter_of b = c}"
      by (simp add: maxUnbiased_248 letter_of_def)
  qed
  moreover have "inj_on (char_of :: nat \<Rightarrow> char) {i, i + 62, i + 124, i + 186}"
  proof (rule inj_on_subset[OF char_of_inj_on_bytes])
    show "{i, i + 62, i + 124, i + 186} \<subseteq> {n. n < 256}" using i(1) by simp
  qed
  moreover have "card {i, i + 62, i + 124, i + 186 :: nat} = 4" by simp
  ultimately show ?thesis by (simp add: card_image)
qed

lemma letters_unbiased_witness:
  "card {b :: char. of_char b < maxUnbiased \<and> letter_of b = CHR ''a''} = 4"
  by (rule letters_unbiased) (simp add: alphabet_def)

end
