(* ===== verification/Cluster.thy ===== *)
theory Cluster
  imports ApiTypes BorgBase Secrets
begin

text \<open>
  The ground the two controllers stand on: the cluster and the library functions they
  call, as parameters, and the computations they are written in. A computation carries
  the object being reconciled (the pointer the Go code mutates), the world, and a log of
  the effects made so far. The log does not influence a run; it is what the safety
  properties speak about. Each of its entries holds the effect, the object in memory
  when it was made, and the error it ended with.
\<close>

section \<open>Library functions\<close>

text \<open>
  Functions of the API machinery and of controller-runtime: the finalizer functions of
  \<open>controllerutil\<close>, \<open>metav1.GetControllerOf\<close>, \<open>metav1.IsControlledBy\<close> (object, then owner),
  \<open>controllerutil.SetControllerReference\<close> (owner, then the object's metadata) and \<open>resource.ParseQuantity\<close>.
\<close>

record lib =
  ContainsFinalizer :: "object_meta \<Rightarrow> string \<Rightarrow> bool"
  AddFinalizer :: "object_meta \<Rightarrow> string \<Rightarrow> object_meta"
  RemoveFinalizer :: "object_meta \<Rightarrow> string \<Rightarrow> object_meta"
  GetControllerOf :: "object_meta \<Rightarrow> owner_ref option"
  SetControllerReference :: "object_meta \<Rightarrow> object_meta \<Rightarrow> goerr + object_meta"
  IsControlledBy :: "object_meta \<Rightarrow> object_meta \<Rightarrow> bool"
  ParseQuantity :: "string \<Rightarrow> goerr + quantity"

definition is_controller :: "owner_ref \<Rightarrow> bool" where
  "is_controller o' \<longleftrightarrow> or_Controller o' = Some True"

text \<open>Documented behaviour of the functions the properties depend on.\<close>

definition controller_laws :: "lib \<Rightarrow> bool" where
  "controller_laws l \<longleftrightarrow>
     (\<forall>m. GetControllerOf l m = find is_controller (om_OwnerReferences m)) \<and>
     (\<forall>owner m m'. SetControllerReference l owner m = Inr m' \<longrightarrow> om_OwnerReferences m = [] \<longrightarrow>
        (\<exists>ref. m' = m\<lparr>om_OwnerReferences := [ref]\<rparr> \<and> is_controller ref \<and>
               or_UID ref = om_UID owner \<and> or_Name ref = om_Name owner))"

definition finalizer_laws :: "lib \<Rightarrow> bool" where
  "finalizer_laws l \<longleftrightarrow>
     (\<forall>m f. ContainsFinalizer l m f \<longleftrightarrow> f \<in> set (om_Finalizers m)) \<and>
     (\<forall>m f. AddFinalizer l m f =
        (if f \<in> set (om_Finalizers m) then m else m\<lparr>om_Finalizers := om_Finalizers m @ [f]\<rparr>)) \<and>
     (\<forall>m f. RemoveFinalizer l m f = m\<lparr>om_Finalizers := filter (\<lambda>g. g \<noteq> f) (om_Finalizers m)\<rparr>)"

text \<open>A concrete library with that behaviour, for the witnesses.\<close>

definition plain_lib :: lib where
  "plain_lib =
     \<lparr>ContainsFinalizer = (\<lambda>m f. f \<in> set (om_Finalizers m)),
      AddFinalizer = (\<lambda>m f. if f \<in> set (om_Finalizers m) then m
        else m\<lparr>om_Finalizers := om_Finalizers m @ [f]\<rparr>),
      RemoveFinalizer = (\<lambda>m f. m\<lparr>om_Finalizers := filter (\<lambda>g. g \<noteq> f) (om_Finalizers m)\<rparr>),
      GetControllerOf = (\<lambda>m. find is_controller (om_OwnerReferences m)),
      SetControllerReference = (\<lambda>owner m. Inr (m\<lparr>om_OwnerReferences := om_OwnerReferences m @
        [\<lparr>or_Kind = '''', or_Name = om_Name owner, or_UID = om_UID owner, or_Controller = Some True\<rparr>]\<rparr>)),
      IsControlledBy = (\<lambda>m owner. case find is_controller (om_OwnerReferences m) of
        None \<Rightarrow> False | Some ref \<Rightarrow> or_UID ref = om_UID owner),
      ParseQuantity = (\<lambda>s. Inr (Quantity s))\<rparr>"

lemma plain_lib_laws: "controller_laws plain_lib" "finalizer_laws plain_lib"
  by (auto simp: controller_laws_def finalizer_laws_def plain_lib_def is_controller_def)

section \<open>The cluster\<close>

text \<open>
  The Kubernetes client, clock, random source and HTTP transport. Reads return what the
  cache or the API server answers; a patch takes the changed object and its base and
  returns the object of the response, which replaces the one in memory, as a create of a
  CronJob does. \<open>SetStatusCondition\<close> stamps the clock, so it is an operation of the
  world.
\<close>

record 'w cluster =
  k_GetRepository :: "nsname \<Rightarrow> ('w, repository) go"
  k_ReadRepository :: "nsname \<Rightarrow> ('w, repository) go"
  k_ListRepositories :: "('w, repository list) go"
  k_PatchRepository :: "repository \<Rightarrow> repository \<Rightarrow> ('w, repository) go"
  k_PatchRepositoryStatus :: "repository \<Rightarrow> repository \<Rightarrow> ('w, repository) go"
  k_GetSecret :: "nsname \<Rightarrow> ('w, secret) go"
  k_CreateSecret :: "secret \<Rightarrow> ('w, unit) go"
  k_UpdateSecret :: "secret \<Rightarrow> ('w, unit) go"
  k_GetJob :: "nsname \<Rightarrow> ('w, job) go"
  k_ListJobs :: "string \<Rightarrow> ('w, job list) go"
  k_CreateJob :: "job \<Rightarrow> ('w, unit) go"
  k_DeleteJob :: "job \<Rightarrow> ('w, unit) go"
  k_GetBackup :: "nsname \<Rightarrow> ('w, scheduled_backup) go"
  k_ListBackups :: "string \<Rightarrow> ('w, scheduled_backup list) go"
  k_PatchBackupStatus :: "scheduled_backup \<Rightarrow> scheduled_backup \<Rightarrow> ('w, scheduled_backup) go"
  k_GetCronJob :: "nsname \<Rightarrow> ('w, cronjob) go"
  k_CreateCronJob :: "cronjob \<Rightarrow> ('w, cronjob) go"
  k_UpdateCronJob :: "cronjob \<Rightarrow> ('w, unit) go"
  k_GetPVC :: "nsname \<Rightarrow> ('w, pvc) go"
  k_CreatePVC :: "pvc \<Rightarrow> ('w, unit) go"
  k_DeletePVC :: "pvc \<Rightarrow> ('w, unit) go"
  k_SetStatusCondition :: "condition \<Rightarrow> condition list \<Rightarrow> 'w \<Rightarrow> condition list \<times> 'w"
  k_Now :: "'w \<Rightarrow> time \<times> 'w"
  k_Rand :: "'w reader"
  k_RandFuel :: nat
  k_Post :: "'w transport"

text \<open>Documented behaviour of \<open>SetStatusCondition\<close>: it replaces or adds the condition of
  its type and keeps the others.\<close>

definition condition_of :: "string \<Rightarrow> condition list \<Rightarrow> condition option" where
  "condition_of ty cs = find (\<lambda>c. cond_Type c = ty) cs"

definition holds :: "string \<Rightarrow> condition list \<Rightarrow> bool" where
  "holds ty cs \<longleftrightarrow> (case condition_of ty cs of None \<Rightarrow> False | Some c \<Rightarrow> cond_Status c = ConditionTrue)"

definition condition_laws :: "'w cluster \<Rightarrow> bool" where
  "condition_laws k \<longleftrightarrow>
     (\<forall>c cs w. \<forall>ty. holds ty (fst (k_SetStatusCondition k c cs w)) =
        (if ty = cond_Type c then cond_Status c = ConditionTrue else holds ty cs))"

section \<open>Effects\<close>

datatype event_type = EventNormal | EventWarning

text \<open>
  \<open>PatchSecret\<close>, \<open>DeleteSecret\<close>, \<open>PatchBackup\<close>, \<open>ExecPod\<close> and \<open>Local\<close> are effects of the
  command line only: patches (base and new object) and a deletion, a command run in a
  container of a pod, and an operation on the local file system.
\<close>

datatype local_op =
    Mkdir string
  | Write string
  | Remove string
  | Symlink string string

datatype (discs_sels) effect =
    PatchRepository repository repository
  | PatchRepositoryStatus repository
  | ApiGet string
  | ApiFindByName string
  | ApiAdd add_options
  | ApiEdit string edit_options
  | ApiDelete string
  | CreateSecret secret
  | UpdateSecret secret
  | PatchSecret secret secret
  | DeleteSecret nsname
  | CreateJob job
  | DeleteJob job
  | CreateCronJob cronjob
  | UpdateCronJob cronjob
  | CreatePVC pvc
  | DeletePVC pvc
  | PatchBackupStatus scheduled_backup
  | PatchBackup scheduled_backup scheduled_backup
  | ExecPod nsname string "string list"
  | Local local_op
  | Event event_type string string message

record 'o entry =
  en_Effect :: effect
  en_Object :: 'o
  en_Error :: "goerr option"

record ('w, 'o) st =
  st_Object :: 'o
  st_Log :: "'o entry list"
  st_World :: 'w

type_synonym ('w, 'o, 'a) comp = "(('w, 'o) st, 'a) go"

definition start :: "'o \<Rightarrow> 'w \<Rightarrow> ('w, 'o) st" where
  "start obj w = \<lparr>st_Object = obj, st_Log = [], st_World = w\<rparr>"

definition error_of :: "goerr + 'a \<Rightarrow> goerr option" where
  "error_of r = (case r of Inl e \<Rightarrow> Some e | Inr _ \<Rightarrow> None)"

text \<open>A read, an effect, an operation of the world that cannot fail, an event.\<close>

definition ask :: "('w, 'a) go \<Rightarrow> ('w, 'o, 'a) comp" where
  "ask m = (\<lambda>s. let (x, w) = m (st_World s) in (x, s\<lparr>st_World := w\<rparr>))"

definition call :: "effect \<Rightarrow> ('w, 'a) go \<Rightarrow> ('w, 'o, 'a) comp" where
  "call e m = (\<lambda>s. let (x, w) = m (st_World s)
     in (x, s\<lparr>st_World := w, st_Log := st_Log s @
              [\<lparr>en_Effect = e, en_Object = st_Object s, en_Error = error_of x\<rparr>]\<rparr>))"

definition tick :: "('w \<Rightarrow> 'a \<times> 'w) \<Rightarrow> ('w, 'o, 'a) comp" where
  "tick f = ask (\<lambda>w. let (x, w') = f w in (Inr x, w'))"

definition Eventf :: "event_type \<Rightarrow> string \<Rightarrow> string \<Rightarrow> string \<Rightarrow> goarg list \<Rightarrow> ('w, 'o, unit) comp" where
  "Eventf ty reason action fmt args = call (Event ty reason action (fmt, args)) (ret ())"

definition get_obj :: "('w, 'o, 'o) comp" where
  "get_obj = (\<lambda>s. (Inr (st_Object s), s))"

definition put_obj :: "'o \<Rightarrow> ('w, 'o, unit) comp" where
  "put_obj x = modify (\<lambda>s. s\<lparr>st_Object := x\<rparr>)"

definition upd_obj :: "('o \<Rightarrow> 'o) \<Rightarrow> ('w, 'o, unit) comp" where
  "upd_obj f = modify (\<lambda>s. s\<lparr>st_Object := f (st_Object s)\<rparr>)"

lemma wp_ask [wp_simps]:
  "wp (ask m) Q E s \<longleftrightarrow>
    (case m (st_World s) of
       (Inl e, w) \<Rightarrow> E e (s\<lparr>st_World := w\<rparr>)
     | (Inr a, w) \<Rightarrow> Q a (s\<lparr>st_World := w\<rparr>))"
  by (simp add: wp_def ask_def split: prod.splits sum.splits)

lemma wp_call [wp_simps]:
  "wp (call e m) Q E s \<longleftrightarrow>
    (case m (st_World s) of
       (Inl x, w) \<Rightarrow> E x (s\<lparr>st_World := w, st_Log := st_Log s @
          [\<lparr>en_Effect = e, en_Object = st_Object s, en_Error = Some x\<rparr>]\<rparr>)
     | (Inr a, w) \<Rightarrow> Q a (s\<lparr>st_World := w, st_Log := st_Log s @
          [\<lparr>en_Effect = e, en_Object = st_Object s, en_Error = None\<rparr>]\<rparr>))"
  by (simp add: wp_def call_def error_of_def split: prod.splits sum.splits)

lemma wp_tick [wp_simps]:
  "wp (tick f) Q E s \<longleftrightarrow> (case f (st_World s) of (a, w) \<Rightarrow> Q a (s\<lparr>st_World := w\<rparr>))"
  by (simp add: wp_ask tick_def split: prod.splits)

lemma wp_Eventf [wp_simps]:
  "wp (Eventf ty reason action fmt args) Q E s \<longleftrightarrow>
     Q () (s\<lparr>st_Log := st_Log s @ [\<lparr>en_Effect = Event ty reason action (fmt, args),
       en_Object = st_Object s, en_Error = None\<rparr>]\<rparr>)"
  by (simp add: Eventf_def wp_call ret_def)

lemma wp_get_obj [wp_simps]: "wp get_obj Q E s = Q (st_Object s) s"
  by (simp add: wp_def get_obj_def)

lemma wp_put_obj [wp_simps]: "wp (put_obj x) Q E s = Q () (s\<lparr>st_Object := x\<rparr>)"
  by (simp add: put_obj_def wp_modify)

lemma wp_upd_obj [wp_simps]: "wp (upd_obj f) Q E s = Q () (s\<lparr>st_Object := f (st_Object s)\<rparr>)"
  by (simp add: upd_obj_def wp_modify)

section \<open>Footprints\<close>

text \<open>
  \<open>emits P m\<close>: whatever the state, \<open>m\<close> only appends to the log, and every entry it
  appends satisfies \<open>P\<close>. The rules are by the structure of a computation and are
  collected in \<open>quiet_rules\<close>.
\<close>

definition emits :: "('o entry \<Rightarrow> bool) \<Rightarrow> ('w, 'o, 'a) comp \<Rightarrow> bool" where
  "emits P m \<longleftrightarrow> (\<forall>s. \<exists>l. st_Log (snd (m s)) = st_Log s @ l \<and> list_all P l)"

lemma emitsI: "(\<And>s. \<exists>l. st_Log (snd (m s)) = st_Log s @ l \<and> list_all P l) \<Longrightarrow> emits P m"
  by (simp add: emits_def)

lemma emitsD: "emits P m \<Longrightarrow> m s = (x, t) \<Longrightarrow> \<exists>l. st_Log t = st_Log s @ l \<and> list_all P l"
  unfolding emits_def by (metis snd_conv)

lemma emits_ret [quiet_rules]: "emits P (ret x)"
  by (simp add: emits_def ret_def)

lemma emits_fail [quiet_rules]: "emits P (fail e)"
  by (simp add: emits_def fail_def)

lemma emits_lift [quiet_rules]: "emits P (lift x)"
  by (simp add: emits_def lift_def)

lemma emits_get_obj [quiet_rules]: "emits P get_obj"
  by (simp add: emits_def get_obj_def)

lemma emits_upd_obj [quiet_rules]: "emits P (upd_obj f)"
  by (simp add: emits_def upd_obj_def modify_def)

lemma emits_put_obj [quiet_rules]: "emits P (put_obj x)"
  by (simp add: emits_def put_obj_def modify_def)

lemma emits_ask [quiet_rules]: "emits P (ask m)"
  by (simp add: emits_def ask_def split: prod.splits)

lemma emits_tick [quiet_rules]: "emits P (tick f)"
  by (simp add: tick_def emits_ask)

lemma emits_call [quiet_rules]:
  "(\<And>obj err. P \<lparr>en_Effect = e, en_Object = obj, en_Error = err\<rparr>) \<Longrightarrow> emits P (call e m)"
  by (simp add: emits_def call_def split: prod.splits)

lemma emits_Eventf [quiet_rules]:
  "(\<And>obj err. P \<lparr>en_Effect = Event ty reason action (fmt, args), en_Object = obj, en_Error = err\<rparr>) \<Longrightarrow>
   emits P (Eventf ty reason action fmt args)"
  by (simp add: Eventf_def emits_call)

lemma emits_bind [quiet_rules]:
  assumes "emits P m" and "\<And>a. emits P (f a)"
  shows "emits P (bind_go m f)"
proof (rule emitsI)
  fix s
  obtain x t where m: "m s = (x, t)" by (cases "m s")
  from emitsD[OF assms(1) m] obtain l where l: "st_Log t = st_Log s @ l" "list_all P l" by blast
  show "\<exists>l. st_Log (snd (bind_go m f s)) = st_Log s @ l \<and> list_all P l"
  proof (cases x)
    case (Inl e)
    with m l show ?thesis by (simp add: bind_go_def)
  next
    case (Inr a)
    obtain y u where f: "f a t = (y, u)" by (cases "f a t")
    from emitsD[OF assms(2) f] obtain k where "st_Log u = st_Log t @ k" "list_all P k" by blast
    with m l f Inr show ?thesis by (simp add: bind_go_def)
  qed
qed

lemma emits_bind_lift: "(\<And>a. x = Inr a \<Longrightarrow> emits P (f a)) \<Longrightarrow> emits P (bind_go (lift x) f)"
  by (cases x) (simp_all add: emits_def bind_go_def lift_def)

lemma emits_conj:
  assumes "emits P m" "emits Q m"
  shows "emits (\<lambda>e. P e \<and> Q e) m"
proof (rule emitsI)
  fix s
  from assms obtain l k where "st_Log (snd (m s)) = st_Log s @ l" "list_all P l"
    "st_Log (snd (m s)) = st_Log s @ k" "list_all Q k" unfolding emits_def by blast
  then show "\<exists>l. st_Log (snd (m s)) = st_Log s @ l \<and> list_all (\<lambda>e. P e \<and> Q e) l"
    by (auto simp: list_all_iff)
qed

lemma emits_attempt [quiet_rules]: "emits P m \<Longrightarrow> emits P (attempt m)"
  by (simp add: emits_def attempt_def)

lemma emits_when [quiet_rules]: "(b \<Longrightarrow> emits P m) \<Longrightarrow> emits P (do_when b m)"
  by (simp add: do_when_def emits_ret)

lemma emits_if [quiet_rules]:
  "(b \<Longrightarrow> emits P m) \<Longrightarrow> (\<not> b \<Longrightarrow> emits P n) \<Longrightarrow> emits P (if b then m else n)"
  by simp

lemma emits_option [quiet_rules]:
  "(x = None \<Longrightarrow> emits P m) \<Longrightarrow> (\<And>y. x = Some y \<Longrightarrow> emits P (f y)) \<Longrightarrow>
   emits P (case x of None \<Rightarrow> m | Some y \<Rightarrow> f y)"
  by (cases x) auto

lemma emits_sum [quiet_rules]:
  "(\<And>e. x = Inl e \<Longrightarrow> emits P (f e)) \<Longrightarrow> (\<And>y. x = Inr y \<Longrightarrow> emits P (g y)) \<Longrightarrow>
   emits P (case x of Inl e \<Rightarrow> f e | Inr y \<Rightarrow> g y)"
  by (cases x) auto

lemma emits_mono: "emits P m \<Longrightarrow> (\<And>e. P e \<Longrightarrow> Q e) \<Longrightarrow> emits Q m"
  unfolding emits_def by (metis list.pred_mono_strong)

lemma emits_wp:
  "(\<And>s. wp m (\<lambda>_ t. \<exists>l. st_Log t = st_Log s @ l \<and> list_all P l)
     (\<lambda>_ t. \<exists>l. st_Log t = st_Log s @ l \<and> list_all P l) s) \<Longrightarrow> emits P m"
  by (simp add: emits_def wp_same)

text \<open>From a footprint to the log at the end of a run.\<close>

lemma emits_log:
  "emits P m \<Longrightarrow> list_all Q (st_Log s) \<Longrightarrow> (\<And>e. P e \<Longrightarrow> Q e) \<Longrightarrow>
   wp m (\<lambda>_ t. list_all Q (st_Log t)) (\<lambda>_ t. list_all Q (st_Log t)) s"
  unfolding wp_same emits_def
  by (metis list_all_append list.pred_mono_strong)

lemma emits_prod [quiet_rules]:
  "(\<And>a b. x = (a, b) \<Longrightarrow> emits P (f a b)) \<Longrightarrow> emits P (case x of (a, b) \<Rightarrow> f a b)"
  by (cases x) auto

lemma emits_run:
  "emits P m \<Longrightarrow> m s = (x, t) \<Longrightarrow> st_Log s = [] \<Longrightarrow> list_all P (st_Log t)"
  by (drule (1) emitsD) auto

text \<open>\<open>grown P es t\<close>: the log of \<open>t\<close> is \<open>es\<close> followed by entries that satisfy \<open>P\<close>.\<close>

definition grown :: "('o entry \<Rightarrow> bool) \<Rightarrow> 'o entry list \<Rightarrow> ('w, 'o) st \<Rightarrow> bool" where
  "grown P es t \<longleftrightarrow> (\<exists>l. st_Log t = es @ l \<and> list_all P l)"

lemma grown_same: "st_Log t = es \<Longrightarrow> grown P es t"
  by (simp add: grown_def)

lemma grown_append:
  "grown P es s \<Longrightarrow> P e \<Longrightarrow> st_Log t = st_Log s @ [e] \<Longrightarrow> grown P es t"
  by (force simp: grown_def)

lemma grown_fields [simp]:
  "grown P es (t\<lparr>st_Object := x\<rparr>) = grown P es t"
  "grown P es (t\<lparr>st_World := w\<rparr>) = grown P es t"
  "grown P es (t\<lparr>st_World := w, st_Log := l\<rparr>) = grown P es (t\<lparr>st_Log := l\<rparr>)"
  by (simp_all add: grown_def)

lemma grown_snoc: "grown P es t \<Longrightarrow> P e \<Longrightarrow> grown P es (t\<lparr>st_Log := st_Log t @ [e]\<rparr>)"
  by (auto simp: grown_def)

lemma emits_grown:
  assumes "emits P m" "grown P es u"
  shows "wp m (\<lambda>_. grown P es) (\<lambda>_. grown P es) u"
proof -
  from assms(2) obtain l where l: "st_Log u = es @ l" "list_all P l" by (auto simp: grown_def)
  obtain k where "st_Log (snd (m u)) = st_Log u @ k" "list_all P k"
    using assms(1) unfolding emits_def by blast
  with l have "grown P es (snd (m u))" by (auto simp: grown_def)
  then show ?thesis by (simp add: wp_same)
qed

section \<open>Reads\<close>

text \<open>\<open>silent m\<close>: \<open>m\<close> leaves the object and the log alone.\<close>

definition silent :: "('w, 'o, 'a) comp \<Rightarrow> bool" where
  "silent m \<longleftrightarrow> (\<forall>s. \<exists>x w. m s = (x, s\<lparr>st_World := w\<rparr>))"

lemma silentI: "(\<And>s. \<exists>x w. m s = (x, s\<lparr>st_World := w\<rparr>)) \<Longrightarrow> silent m"
  by (simp add: silent_def)

lemma silent_state:
  "silent m \<Longrightarrow> m s = (x, t) \<Longrightarrow> \<exists>w. t = s\<lparr>st_World := w\<rparr>"
  unfolding silent_def by (metis snd_conv)

lemma silent_same: "\<exists>w. s = s\<lparr>st_World := w\<rparr>"
  by (rule exI[of _ "st_World s"]) simp

lemma silent_ret [quiet_rules]: "silent (ret x)"
  by (rule silentI) (simp add: ret_def silent_same)

lemma silent_fail [quiet_rules]: "silent (fail e)"
  by (rule silentI) (simp add: fail_def silent_same)

lemma silent_lift [quiet_rules]: "silent (lift x)"
  by (rule silentI) (simp add: lift_def silent_same)

lemma silent_get_obj [quiet_rules]: "silent get_obj"
  by (rule silentI) (simp add: get_obj_def silent_same)

lemma silent_ask [quiet_rules]: "silent (ask m)"
  by (rule silentI) (auto simp: ask_def split: prod.splits)

lemma silent_tick [quiet_rules]: "silent (tick f)"
  by (simp add: tick_def silent_ask)

lemma silent_bind [quiet_rules]:
  assumes "silent m" "\<And>a. silent (f a)"
  shows "silent (bind_go m f)"
proof (rule silentI)
  fix s
  from assms(1) obtain x w where m: "m s = (x, s\<lparr>st_World := w\<rparr>)" unfolding silent_def by blast
  show "\<exists>y v. bind_go m f s = (y, s\<lparr>st_World := v\<rparr>)"
  proof (cases x)
    case (Inl e)
    with m show ?thesis by (auto simp: bind_go_def)
  next
    case (Inr a)
    from assms(2)[of a] obtain y v where
      "f a (s\<lparr>st_World := w\<rparr>) = (y, (s\<lparr>st_World := w\<rparr>)\<lparr>st_World := v\<rparr>)"
      unfolding silent_def by blast
    with m Inr show ?thesis by (auto simp: bind_go_def)
  qed
qed

lemma silent_attempt [quiet_rules]: "silent m \<Longrightarrow> silent (attempt m)"
  by (rule silentI) (metis attempt_def silent_def snd_conv)

lemma silent_if [quiet_rules]:
  "(b \<Longrightarrow> silent m) \<Longrightarrow> (\<not> b \<Longrightarrow> silent n) \<Longrightarrow> silent (if b then m else n)"
  by simp

lemma silent_option [quiet_rules]:
  "(x = None \<Longrightarrow> silent m) \<Longrightarrow> (\<And>y. x = Some y \<Longrightarrow> silent (f y)) \<Longrightarrow>
   silent (case x of None \<Rightarrow> m | Some y \<Rightarrow> f y)"
  by (cases x) auto

lemma silent_sum [quiet_rules]:
  "(\<And>e. x = Inl e \<Longrightarrow> silent (f e)) \<Longrightarrow> (\<And>y. x = Inr y \<Longrightarrow> silent (g y)) \<Longrightarrow>
   silent (case x of Inl e \<Rightarrow> f e | Inr y \<Rightarrow> g y)"
  by (cases x) auto

lemma silent_prod [quiet_rules]:
  "(\<And>a b. x = (a, b) \<Longrightarrow> silent (f a b)) \<Longrightarrow> silent (case x of (a, b) \<Rightarrow> f a b)"
  by (cases x) auto

lemma silent_emits: "silent m \<Longrightarrow> emits P m"
proof (rule emitsI)
  fix s
  assume "silent m"
  then obtain x w where "m s = (x, s\<lparr>st_World := w\<rparr>)" unfolding silent_def by blast
  then show "\<exists>l. st_Log (snd (m s)) = st_Log s @ l \<and> list_all P l" by simp
qed

text \<open>A read in the middle of a computation: any answer, any world, the rest unchanged.\<close>

lemma wp_silent:
  assumes "silent m"
    and "\<And>a w. Q a (s\<lparr>st_World := w\<rparr>)" "\<And>e w. E e (s\<lparr>st_World := w\<rparr>)"
  shows "wp m Q E s"
proof -
  from assms(1) obtain x w where "m s = (x, s\<lparr>st_World := w\<rparr>)" unfolding silent_def by blast
  with assms(2,3) show ?thesis by (simp add: wp_def split: sum.splits)
qed

text \<open>A computation of which the footprint is known: its log, and that it ran.\<close>

lemma wp_footprint:
  assumes "emits P m"
    and "\<And>a t l. m s = (Inr a, t) \<Longrightarrow> st_Log t = st_Log s @ l \<Longrightarrow> list_all P l \<Longrightarrow> Q a t"
    and "\<And>e t l. m s = (Inl e, t) \<Longrightarrow> st_Log t = st_Log s @ l \<Longrightarrow> list_all P l \<Longrightarrow> E e t"
  shows "wp m Q E s"
proof -
  obtain x t where m: "m s = (x, t)" by (cases "m s")
  from emitsD[OF assms(1) m] obtain l where l: "st_Log t = st_Log s @ l" "list_all P l" by blast
  show ?thesis using assms(2,3)[OF _ l] m by (cases x) (auto simp: wp_def)
qed

section \<open>A concrete cluster\<close>

text \<open>
  An empty cluster whose writes succeed, whose clock stands still, and which has no
  random source and no network. The witnesses put single objects into it.
\<close>

definition not_found :: goerr where "not_found = Api NotFound ''not found''"

definition empty_cluster :: "'w cluster" where
  "empty_cluster =
     \<lparr>k_GetRepository = (\<lambda>_. fail not_found), k_ReadRepository = (\<lambda>_. fail not_found),
      k_ListRepositories = ret [], k_PatchRepository = (\<lambda>_ new. ret new),
      k_PatchRepositoryStatus = (\<lambda>new _. ret new),
      k_GetSecret = (\<lambda>_. fail not_found), k_CreateSecret = (\<lambda>_. ret ()), k_UpdateSecret = (\<lambda>_. ret ()),
      k_GetJob = (\<lambda>_. fail not_found), k_ListJobs = (\<lambda>_. ret []), k_CreateJob = (\<lambda>_. ret ()),
      k_DeleteJob = (\<lambda>_. ret ()),
      k_GetBackup = (\<lambda>_. fail not_found), k_ListBackups = (\<lambda>_. ret []),
      k_PatchBackupStatus = (\<lambda>new _. ret new),
      k_GetCronJob = (\<lambda>_. fail not_found), k_CreateCronJob = ret, k_UpdateCronJob = (\<lambda>_. ret ()),
      k_GetPVC = (\<lambda>_. fail not_found), k_CreatePVC = (\<lambda>_. ret ()), k_DeletePVC = (\<lambda>_. ret ()),
      k_SetStatusCondition = (\<lambda>c cs w. (c # filter (\<lambda>d. cond_Type d \<noteq> cond_Type c) cs, w)),
      k_Now = (\<lambda>w. (0, w)), k_Rand = (\<lambda>w. (Inl (Sentinel ''no random source''), w)), k_RandFuel = 129,
      k_Post = (\<lambda>_ w. (DoFailed (Sentinel ''no network''), w))\<rparr>"

lemma holds_set_condition:
  "holds ty (c # filter (\<lambda>d. cond_Type d \<noteq> cond_Type c) cs) =
    (if ty = cond_Type c then cond_Status c = ConditionTrue else holds ty cs)"
proof -
  have "find (\<lambda>d. cond_Type d = ty) (filter (\<lambda>d. cond_Type d \<noteq> cond_Type c) cs) =
      find (\<lambda>d. cond_Type d = ty) cs" if "ty \<noteq> cond_Type c"
    using that by (induction cs) auto
  then show ?thesis by (auto simp: holds_def condition_of_def)
qed

lemma empty_cluster_conditions: "condition_laws (empty_cluster :: unit cluster)"
  by (auto simp: condition_laws_def empty_cluster_def holds_set_condition)

lemma run_ret: "ret x s = (Inr x, s)"
  by (simp add: ret_def)

lemma run_fail: "fail e s = (Inl e, s)"
  by (simp add: fail_def)

text \<open>A Repository that asks for nothing special.\<close>

definition sample_repository :: repository where
  "sample_repository =
     \<lparr>rp_Meta = new_meta ''app'' ''backups'' [],
      rp_Spec = \<lparr>rs_Interval = None, rs_Suspend = False, rs_DeletionPolicy = DeletionPolicyRetain,
        rs_APITokenSecretRef = None, rs_ExistingRepositoryID = '''', rs_PasswordSecretRef = None,
        rs_RepositoryName = '''', rs_Region = ''eu'', rs_QuotaGiB = None, rs_AlertDays = None,
        rs_AppendOnly = False, rs_SecretName = ''''\<rparr>,
      rp_Status = \<lparr>rt_Conditions = [], rt_ObservedGeneration = 0, rt_RepositoryID = '''',
        rt_Adopted = False, rt_Initialized = False, rt_Server = '''', rt_SecretName = '''',
        rt_CurrentUsage = '''', rt_Quota = ''''\<rparr>\<rparr>"

end
