(* ===== verification/Helpers.thy ===== *)
theory Helpers
  imports Cluster
begin

text \<open>
  What the controllers share (\<open>internal/controller/helpers.go\<close>,
  \<open>internal/controller/predicate.go\<close>): the labels of managed objects, the figures shown
  in a Repository's status, and the filter on update events.
\<close>

definition labelManagedBy :: string where "labelManagedBy = ''app.kubernetes.io/managed-by''"
definition managedByValue :: string where "managedByValue = ''borgbase-operator''"

text \<open>\<open>math.Round\<close> of a positive number, and the verb \<open>%.1f\<close>, which rounds the exact
  value of its argument half to even.\<close>

definition Round :: "rat \<Rightarrow> int" where
  "Round x = (if x < 0 then - \<lfloor>- x + 1 / 2\<rfloor> else \<lfloor>x + 1 / 2\<rfloor>)"

definition one_decimal :: "rat \<Rightarrow> string" where
  "one_decimal x = (let n = round_half_even (x * 10) in Itoa (n div 10) @ ''.'' @ Itoa (n mod 10))"

definition formatUsage :: "rat \<Rightarrow> string" where
  "formatUsage gb =
     (if gb \<le> 0 then ''0''
      else if gb < 1 then Itoa (Round (f64 (gb * 1000))) @ ''MB''
      else if 1000 \<le> gb then one_decimal (f64 (gb / 1000)) @ ''TB''
      else one_decimal gb @ ''GB'')"

definition formatQuota :: "int \<Rightarrow> string" where
  "formatQuota gb = (if gb \<le> 0 then '''' else Itoa gb @ ''GB'')"

definition int64Ptr :: "int option \<Rightarrow> int option" where
  "int64Ptr v = (case v of None \<Rightarrow> None | Some n \<Rightarrow> Some n)"

lemma int64Ptr_id [simp]: "int64Ptr v = v"
  by (simp add: int64Ptr_def split: option.splits)

text \<open>The update filter: \<open>True\<close> lets the event through. The objects of an event may be
  missing.\<close>

definition ignoreOwnStatusWrites :: "string list \<Rightarrow> object_meta option \<Rightarrow> object_meta option \<Rightarrow> bool" where
  "ignoreOwnStatusWrites watchAnnotations old new \<longleftrightarrow>
     (case (old, new) of
        (Some a, Some b) \<Rightarrow>
          (if om_DeletionTimestamp b \<noteq> None then True
           else if om_Finalizers a \<noteq> om_Finalizers b then True
           else if list_ex (\<lambda>key. lookup_str (om_Annotations a) key \<noteq> lookup_str (om_Annotations b) key)
                     watchAnnotations then True
           else om_Generation a \<noteq> om_Generation b)
      | _ \<Rightarrow> True)"

lemma formatUsage_examples:
  "formatUsage 0 = ''0''" "formatUsage (1 / 2) = ''500MB''" "formatUsage (9 / 4) = ''2.2GB''"
  "formatUsage 1500 = ''1.5TB''"
  by code_simp+

end
