(* ===== verification/RepositoryController.thy ===== *)
theory RepositoryController
  imports Helpers
begin

text \<open>
  The reconciler of Repository objects
  (\<open>internal/controller/repository_controller.go\<close>): it resolves or creates the BorgBase
  repository, keeps its settings and the credentials Secret in line with the spec, runs
  \<open>restic init\<close> once, and finalizes a deleted Repository. One definition per method of
  the reconciler; the pointer \<open>repo\<close> of the code is the object of the computation.
\<close>

section \<open>The reconciler\<close>

definition FinalizerName :: string where "FinalizerName = ''borgbase.clevyr.com/finalizer''"
definition KeyResticRepository :: string where "KeyResticRepository = ''RESTIC_REPOSITORY''"
definition KeyResticPassword :: string where "KeyResticPassword = ''RESTIC_PASSWORD''"
definition initJobSuffix :: string where "initJobSuffix = ''-init''"
definition initCleanupDelay :: duration where "initCleanupDelay = 10 * Second"
definition initRetryDelay :: duration where "initRetryDelay = 5 * Minute"

record 'w repository_reconciler =
  rr_Client :: "'w cluster"
  rr_Lib :: lib
  rr_NewAPI :: "(string \<Rightarrow> 'w api) option"
  rr_DefaultTokenSecret :: nsname
  rr_DefaultTokenKey :: string
  rr_BackupImage :: string
  rr_HasAPIReader :: bool
  rr_Endpoint :: string

type_synonym ('w, 'a) rcomp = "('w, repository, 'a) comp"

abbreviation upd_status :: "(repository_status \<Rightarrow> repository_status) \<Rightarrow> ('w, unit) rcomp" where
  "upd_status f \<equiv> upd_obj (\<lambda>r. r\<lparr>rp_Status := f (rp_Status r)\<rparr>)"

definition interval :: "repository \<Rightarrow> duration" where
  "interval repo =
     (case rs_Interval (rp_Spec repo) of
        Some d \<Rightarrow> if 0 < d then d else Hour
      | None \<Rightarrow> Hour)"

definition setCondition :: "'w repository_reconciler \<Rightarrow> condition \<Rightarrow> ('w, unit) rcomp" where
  "setCondition r cond =
     bind_go get_obj (\<lambda>repo.
     bind_go (tick (k_SetStatusCondition (rr_Client r)
         (cond\<lparr>cond_ObservedGeneration := om_Generation (rp_Meta repo)\<rparr>)
         (rt_Conditions (rp_Status repo)))) (\<lambda>cs.
     upd_status (rt_Conditions_update (\<lambda>_. cs))))"

definition patchStatus :: "'w repository_reconciler \<Rightarrow> repository \<Rightarrow> ('w, unit) rcomp" where
  "patchStatus r base =
     bind_go (upd_obj (\<lambda>repo. repo\<lparr>rp_Status :=
         (rp_Status repo)\<lparr>rt_ObservedGeneration := om_Generation (rp_Meta repo)\<rparr>\<rparr>)) (\<lambda>_.
     bind_go get_obj (\<lambda>repo.
     if rp_Status repo = rp_Status base then ret ()
     else bind_go (call (PatchRepositoryStatus repo)
         (k_PatchRepositoryStatus (rr_Client r) repo base)) put_obj))"

section \<open>Credentials of the API\<close>

definition readSecretKey ::
  "'w repository_reconciler \<Rightarrow> string \<Rightarrow> selector option \<Rightarrow> ('w, string) rcomp" where
  "readSecretKey r ns ref =
     (case ref of
        None \<Rightarrow> fail (Errorf ''no secret reference configured'' [])
      | Some sel \<Rightarrow>
          if sel_Name sel = '''' then fail (Errorf ''no secret reference configured'' [])
          else bind_go (ask (k_GetSecret (rr_Client r) (NN ns (sel_Name sel)))) (\<lambda>sec.
            case map_of (sec_Data sec) (sel_Key sel) of
              None \<Rightarrow> fail (Errorf ''secret %s/%s has no key %q''
                  [Str ns, Str (sel_Name sel), Str (sel_Key sel)])
            | Some value \<Rightarrow>
                if value = '''' then fail (Errorf ''secret %s/%s has no key %q''
                  [Str ns, Str (sel_Name sel), Str (sel_Key sel)])
                else ret value))"

definition newAPI :: "'w repository_reconciler \<Rightarrow> string \<Rightarrow> 'w api" where
  "newAPI r token =
     (case rr_NewAPI r of
        Some f \<Rightarrow> f token
      | None \<Rightarrow>
          (let c = NewClient token
           in client_api (k_Post (rr_Client r))
                (if rr_Endpoint r \<noteq> '''' then c\<lparr>cli_Endpoint := rr_Endpoint r\<rparr> else c)))"

definition apiFor :: "'w repository_reconciler \<Rightarrow> ('w, 'w api) rcomp" where
  "apiFor r =
     bind_go get_obj (\<lambda>repo.
     let (namespace, selector) =
       (case rs_APITokenSecretRef (rp_Spec repo) of
          Some ref \<Rightarrow> (rp_Namespace repo, Some ref)
        | None \<Rightarrow> (nn_Namespace (rr_DefaultTokenSecret r),
                   Some \<lparr>sel_Name = nn_Name (rr_DefaultTokenSecret r), sel_Key = rr_DefaultTokenKey r\<rparr>))
     in bind_go (attempt (readSecretKey r namespace selector)) (\<lambda>res.
       case res of
         Inl e \<Rightarrow> fail (Errorf ''reading BorgBase API token: %w'' [Err e])
       | Inr token \<Rightarrow> ret (newAPI r token)))"

section \<open>The remote repository\<close>

definition resolveRepo :: "'w repository_reconciler \<Rightarrow> 'w api \<Rightarrow> ('w, remote) rcomp" where
  "resolveRepo r api =
     bind_go get_obj (\<lambda>repo.
     let i = rs_ExistingRepositoryID (rp_Spec repo); recorded = rt_RepositoryID (rp_Status repo)
     in if i \<noteq> '''' then
          (if recorded \<noteq> '''' \<and> recorded \<noteq> i then
             fail (Errorf (''spec.existingRepositoryID is %s but this resource already manages repository %s; ''
                 @ ''delete and recreate the Repository if the change is intended'')
               [Str i, Str recorded])
           else bind_go (attempt (call (ApiGet i) (api_Get api i))) (\<lambda>res.
             case res of
               Inl e \<Rightarrow> fail (Errorf ''adopting repository %s: %w'' [Str i, Err e])
             | Inr remote \<Rightarrow>
                 bind_go (upd_status (rt_Adopted_update (\<lambda>_. True))) (\<lambda>_. ret remote)))
        else if recorded \<noteq> '''' then
          bind_go (attempt (call (ApiGet recorded) (api_Get api recorded))) (\<lambda>res.
            case res of
              Inl e \<Rightarrow> fail (Errorf ''looking up repository %s: %w'' [Str recorded, Err e])
            | Inr remote \<Rightarrow> ret remote)
        else
          (let name = RepositoryName repo
           in bind_go (attempt (call (ApiFindByName name) (api_FindByName api name))) (\<lambda>res.
             case res of
               Inr remote \<Rightarrow> ret remote
             | Inl e \<Rightarrow>
                 if \<not> err_is e ErrNotFound then fail e
                 else
                   (let opts = \<lparr>ao_Name = name, ao_Region = rs_Region (rp_Spec repo),
                       ao_Quota = int64Ptr (rs_QuotaGiB (rp_Spec repo)),
                       ao_AlertDays = int64Ptr (rs_AlertDays (rp_Spec repo)),
                       ao_AppendOnly = rs_AppendOnly (rp_Spec repo)\<rparr>
                    in bind_go (attempt (call (ApiAdd opts) (api_Add api opts))) (\<lambda>added.
                      case added of
                        Inl e \<Rightarrow> fail (Errorf ''creating repository %q: %w'' [Str name, Err e])
                      | Inr remote \<Rightarrow>
                          bind_go (Eventf EventNormal ''RepositoryCreated'' ''Create''
                              ''Created BorgBase repository %s (%s)'' [Str (bb_ID remote), Str name])
                            (\<lambda>_. ret remote))))))"

definition managedID :: "repository \<Rightarrow> string" where
  "managedID repo =
     (if rt_RepositoryID (rp_Status repo) \<noteq> '''' then rt_RepositoryID (rp_Status repo)
      else rs_ExistingRepositoryID (rp_Spec repo))"

definition olderRepository :: "repository \<Rightarrow> repository \<Rightarrow> bool" where
  "olderRepository a b =
     (if om_CreationTimestamp (rp_Meta a) \<noteq> om_CreationTimestamp (rp_Meta b)
      then om_CreationTimestamp (rp_Meta a) < om_CreationTimestamp (rp_Meta b)
      else if rp_Namespace a \<noteq> rp_Namespace b then rp_Namespace a < rp_Namespace b
      else rp_Name a < rp_Name b)"

text \<open>The loop of \<open>repositoryConflict\<close> over the listed Repositories.\<close>

fun find_conflict :: "repository \<Rightarrow> string \<Rightarrow> repository list \<Rightarrow> string" where
  "find_conflict repo i [] = ''''"
| "find_conflict repo i (other # items) =
     (if om_DeletionTimestamp (rp_Meta other) \<noteq> None \<or>
         (rp_Namespace other = rp_Namespace repo \<and> rp_Name other = rp_Name repo)
      then find_conflict repo i items
      else if managedID other \<noteq> i then find_conflict repo i items
      else if olderRepository other repo then rp_Namespace other @ ''/'' @ rp_Name other
      else find_conflict repo i items)"

definition repositoryConflict :: "'w repository_reconciler \<Rightarrow> string \<Rightarrow> ('w, string) rcomp" where
  "repositoryConflict r i =
     (if i = '''' then ret ''''
      else bind_go get_obj (\<lambda>repo.
        bind_go (attempt (ask (k_ListRepositories (rr_Client r)))) (\<lambda>res.
        case res of
          Inl e \<Rightarrow> fail (Errorf ''listing repositories: %w'' [Err e])
        | Inr items \<Rightarrow> ret (find_conflict repo i items))))"

text \<open>The options \<open>reconcileSettings\<close> collects before it decides whether to edit.\<close>

definition wanted_edit :: "repository_spec \<Rightarrow> remote \<Rightarrow> edit_options" where
  "wanted_edit spec remote =
     (let opts = (case rs_QuotaGiB spec of
            Some q \<Rightarrow>
              if \<not> bb_QuotaEnabled remote \<or> q \<noteq> bb_Quota remote
              then no_edit\<lparr>eo_QuotaEnabled := Some True, eo_Quota := Some q\<rparr> else no_edit
          | None \<Rightarrow>
              if bb_QuotaEnabled remote
              then no_edit\<lparr>eo_QuotaEnabled := Some False, eo_Quota := Some (bb_Quota remote)\<rparr>
              else no_edit);
          opts = (case int64Ptr (rs_AlertDays spec) of
            Some days \<Rightarrow> if days \<noteq> bb_AlertDays remote then opts\<lparr>eo_AlertDays := Some days\<rparr> else opts
          | None \<Rightarrow> opts)
      in if rs_AppendOnly spec \<noteq> bb_AppendOnly remote
         then opts\<lparr>eo_AppendOnly := Some (rs_AppendOnly spec)\<rparr> else opts)"

definition reconcileSettings ::
  "'w repository_reconciler \<Rightarrow> remote \<Rightarrow> 'w api \<Rightarrow> ('w, remote) rcomp" where
  "reconcileSettings r remote api =
     bind_go get_obj (\<lambda>repo.
     let opts = wanted_edit (rp_Spec repo) remote
     in if IsZero opts then ret remote
        else bind_go (attempt (call (ApiEdit (bb_ID remote) opts) (api_Edit api (bb_ID remote) opts))) (\<lambda>res.
          case res of
            Inl e \<Rightarrow> fail (Errorf ''updating settings on repository %s: %w'' [Str (bb_ID remote), Err e])
          | Inr updated \<Rightarrow>
              bind_go (Eventf EventNormal ''SettingsUpdated'' ''Edit''
                  ''Updated settings on BorgBase repository %s'' [Str (bb_ID remote)])
                (\<lambda>_. ret updated)))"

section \<open>The credentials Secret\<close>

definition empty_secret :: secret where
  "empty_secret = \<lparr>sec_Meta = new_meta '''' '''' [], sec_Type = '''', sec_Data = []\<rparr>"

definition syncControllerRef :: "lib \<Rightarrow> object_meta \<Rightarrow> object_meta \<Rightarrow> object_meta" where
  "syncControllerRef l obj desired =
     (let want = GetControllerOf l desired; have_ref = GetControllerOf l obj
      in if want = None \<and> have_ref = None then obj
         else if (case (want, have_ref) of
              (Some w, Some h) \<Rightarrow> or_UID h = or_UID w \<and> or_Name h = or_Name w | _ \<Rightarrow> False) then obj
         else
           (let refs = filter (\<lambda>o'. \<not> (case or_Controller o' of None \<Rightarrow> False | Some b \<Rightarrow> b))
                  (om_OwnerReferences obj);
                refs = (case want of None \<Rightarrow> refs | Some w \<Rightarrow> refs @ [w])
            in obj\<lparr>om_OwnerReferences := refs\<rparr>))"

text \<open>\<open>DeepEqual\<close> of two Secrets: the maps as maps, the rest by value.\<close>

definition same_secret :: "secret \<Rightarrow> secret \<Rightarrow> bool" where
  "same_secret a b \<longleftrightarrow>
     map_eq (om_Labels (sec_Meta a)) (om_Labels (sec_Meta b)) \<and>
     map_eq (om_Annotations (sec_Meta a)) (om_Annotations (sec_Meta b)) \<and>
     map_eq (sec_Data a) (sec_Data b) \<and> sec_Type a = sec_Type b \<and>
     (sec_Meta a)\<lparr>om_Labels := [], om_Annotations := []\<rparr> =
     (sec_Meta b)\<lparr>om_Labels := [], om_Annotations := []\<rparr>"

text \<open>The Secret \<open>createOrPatch\<close> would write over an existing one.\<close>

definition merged_secret :: "lib \<Rightarrow> secret \<Rightarrow> secret \<Rightarrow> secret" where
  "merged_secret l desired existing =
     existing\<lparr>sec_Meta := syncControllerRef l
         ((sec_Meta existing)\<lparr>om_Labels := map_copy (om_Labels (sec_Meta existing)) (om_Labels (sec_Meta desired))\<rparr>)
         (sec_Meta desired),
       sec_Data := map_copy (sec_Data existing) (sec_Data desired)\<rparr>"

definition createOrPatch :: "'w repository_reconciler \<Rightarrow> secret \<Rightarrow> secret \<Rightarrow> ('w, string) rcomp" where
  "createOrPatch r desired existing =
     (if om_Name (sec_Meta existing) = '''' then
        bind_go (attempt (call (CreateSecret desired) (k_CreateSecret (rr_Client r) desired))) (\<lambda>res.
        case res of
          Inl e \<Rightarrow> fail (Errorf ''creating secret %s: %w'' [Str (om_Name (sec_Meta desired)), Err e])
        | Inr _ \<Rightarrow> ret ''created'')
      else if lookup_str (om_Labels (sec_Meta existing)) labelManagedBy \<noteq> managedByValue then
        fail (Errorf (''secret %s/%s already exists and is not managed by this operator; ''
            @ ''set spec.secretName to a name the operator owns'')
          [Str (om_Namespace (sec_Meta existing)), Str (om_Name (sec_Meta existing))])
      else
        (let updated = merged_secret (rr_Lib r) desired existing
         in if same_secret existing updated then ret ''''
            else
              bind_go (attempt (call (UpdateSecret updated) (k_UpdateSecret (rr_Client r) updated))) (\<lambda>res.
              case res of
                Inl e \<Rightarrow> fail (Errorf ''updating secret %s: %w'' [Str (om_Name (sec_Meta desired)), Err e])
              | Inr _ \<Rightarrow> ret ''updated'')))"

definition credentials :: "repository \<Rightarrow> string \<Rightarrow> string \<Rightarrow> secret" where
  "credentials repo url password =
     \<lparr>sec_Meta = new_meta (rp_Namespace repo) (SecretName repo) [(labelManagedBy, managedByValue)],
      sec_Type = ''Opaque'',
      sec_Data = [(KeyResticRepository, url), (KeyResticPassword, password)]\<rparr>"

text \<open>
  The choice of the password: the one in the Secret, else the one spec.passwordSecretRef
  names, else, for a repository that cannot have one yet, a new one. The second component
  says whether it was generated.
\<close>

definition choose_password ::
  "'w repository_reconciler \<Rightarrow> remote \<Rightarrow> bool \<Rightarrow> secret \<Rightarrow> ('w, string \<times> bool) rcomp" where
  "choose_password r remote known existing =
     bind_go get_obj (\<lambda>repo.
     let password = lookup_str (sec_Data existing) KeyResticPassword
     in bind_go
       (if password = '''' \<and> rs_PasswordSecretRef (rp_Spec repo) \<noteq> None then
          bind_go (attempt (readSecretKey r (rp_Namespace repo) (rs_PasswordSecretRef (rp_Spec repo)))) (\<lambda>res.
          case res of
            Inl e \<Rightarrow> fail (Errorf ''reading passwordSecretRef: %w'' [Err e])
          | Inr p \<Rightarrow> ret p)
        else ret password) (\<lambda>password.
       if password = '''' then
         (if rt_Adopted (rp_Status repo) \<or> known \<or> 0 < bb_CurrentUsage remote then
            fail (Errorf (''repository %s has already been provisioned but no password is available; ''
                @ ''restore Secret %s or set spec.passwordSecretRef to the existing RESTIC_PASSWORD'')
              [Str (bb_ID remote), Str (SecretName repo)])
          else bind_go (ask (run_generator (k_RandFuel (rr_Client r)) (k_Rand (rr_Client r))))
            (\<lambda>p. ret (p, True)))
       else ret (password, False)))"

definition reconcileSecret :: "'w repository_reconciler \<Rightarrow> remote \<Rightarrow> bool \<Rightarrow> ('w, unit) rcomp" where
  "reconcileSecret r remote known =
     bind_go (lift (ResticURL remote)) (\<lambda>url.
     bind_go get_obj (\<lambda>repo.
     let name = SecretName repo
     in bind_go (attempt (ask (k_GetSecret (rr_Client r) (NN (rp_Namespace repo) name)))) (\<lambda>got.
     bind_go (case got of
         Inr existing \<Rightarrow> ret existing
       | Inl e \<Rightarrow> if IsNotFound e then ret empty_secret else fail e) (\<lambda>existing.
     bind_go (choose_password r remote known existing) (\<lambda>(password, generated).
     let desired = credentials repo url password
     in bind_go
       (if rs_DeletionPolicy (rp_Spec repo) = DeletionPolicyDelete then
          bind_go (lift (SetControllerReference (rr_Lib r) (rp_Meta repo) (sec_Meta desired)))
            (\<lambda>m. ret (desired\<lparr>sec_Meta := m\<rparr>))
        else ret desired) (\<lambda>desired.
     bind_go (createOrPatch r desired existing) (\<lambda>op.
     bind_go (do_when generated
         (Eventf EventNormal ''PasswordGenerated'' ''Generate''
           ''Generated a new restic password in Secret %s; back it up, it cannot be recovered''
           [Str name])) (\<lambda>_.
     upd_status (rt_SecretName_update (\<lambda>_. name))))))))))"

section \<open>The init Job\<close>

definition jobFailedAt :: "job \<Rightarrow> time option" where
  "jobFailedAt j =
     (case find (\<lambda>c. jc_Type c = ''Failed'' \<and> jc_Status c = ConditionTrue)
             (jst_Conditions (job_Status j)) of
        None \<Rightarrow> None
      | Some c \<Rightarrow> Some (jc_LastTransitionTime c))"

definition setInitializing ::
  "'w repository_reconciler \<Rightarrow> string \<Rightarrow> message \<Rightarrow> ('w, unit) rcomp" where
  "setInitializing r reason msg =
     setCondition r (new_condition RepositoryConditionInitialized ConditionFalse reason msg)"

definition buildInitJob :: "'w repository_reconciler \<Rightarrow> repository \<Rightarrow> string \<Rightarrow> job" where
  "buildInitJob r repo name =
     \<lparr>job_Meta = new_meta (rp_Namespace repo) name
        [(''app.kubernetes.io/name'', rp_Name repo), (''app.kubernetes.io/component'', ''init''),
         (labelManagedBy, managedByValue)],
      job_Spec = \<lparr>js_TTLSecondsAfterFinished = Some 3600, js_BackoffLimit = Some 3,
        js_TemplateLabels = [],
        js_PodSpec =
          \<lparr>ps_RestartPolicy = ''Never'',
           ps_Containers =
             [\<lparr>ct_Name = ''init'', ct_Image = rr_BackupImage r,
               ct_Command = [''sh'', ''-c'', ''restic cat config >/dev/null 2>&1 || restic init''],
               ct_Args = [], ct_Env = [], ct_EnvFromSecrets = [SecretName repo],
               ct_VolumeMounts = [], ct_WorkingDir = '''',
               ct_Resources = \<lparr>rr_Requests = [(''cpu'', Quantity ''10m''), (''memory'', Quantity ''64Mi'')],
                  rr_Limits = [(''memory'', Quantity ''256Mi'')]\<rparr>,
               ct_SecurityContext = Some \<lparr>csc_AllowPrivilegeEscalation = Some False,
                  csc_DropCapabilities = [''ALL''], csc_ReadOnlyRootFilesystem = None\<rparr>,
               ct_Stdin = False, ct_TTY = False\<rparr>],
           ps_Volumes = [], ps_Affinity = None,
           ps_AutomountServiceAccountToken = Some False,
           ps_SecurityContext = Some \<lparr>psc_SeccompProfile = Some ''RuntimeDefault'',
              psc_RunAsUser = None, psc_FSGroup = None\<rparr>\<rparr>\<rparr>,
      job_Status = new_job_status\<rparr>"

definition deleteJob :: "'w repository_reconciler \<Rightarrow> job \<Rightarrow> ('w, unit) rcomp" where
  "deleteJob r j =
     bind_go (attempt (call (DeleteJob j) (k_DeleteJob (rr_Client r) j))) (\<lambda>res.
     case res of
       Inr _ \<Rightarrow> ret ()
     | Inl e \<Rightarrow> if IsNotFound e then ret ()
               else fail (Errorf ''deleting init job %s: %w'' [Str (om_Name (job_Meta j)), Err e]))"

definition initializationRecorded :: "'w repository_reconciler \<Rightarrow> ('w, bool) rcomp" where
  "initializationRecorded r =
     bind_go get_obj (\<lambda>repo.
     let get = (if rr_HasAPIReader r then k_ReadRepository (rr_Client r) else k_GetRepository (rr_Client r))
     in bind_go (attempt (ask (get (NN (rp_Namespace repo) (rp_Name repo))))) (\<lambda>res.
       case res of
         Inl e \<Rightarrow> if IsNotFound e then ret False else fail e
       | Inr live \<Rightarrow> ret (rt_Initialized (rp_Status live))))"

text \<open>The branch of \<open>reconcileInitJob\<close> for a Job that exists.\<close>

definition observeInitJob :: "'w repository_reconciler \<Rightarrow> string \<Rightarrow> job \<Rightarrow> ('w, duration) rcomp" where
  "observeInitJob r name j =
     (if 0 < jst_Succeeded (job_Status j) then
        bind_go (initializationRecorded r) (\<lambda>recorded.
        bind_go (upd_status (rt_Initialized_update (\<lambda>_. True))) (\<lambda>_.
        bind_go (do_when (\<not> recorded) (Eventf EventNormal ''Initialized'' ''Initialize''
            ''restic init completed successfully'' [])) (\<lambda>_. ret 0)))
      else
        (case jobFailedAt j of
           Some failedAt \<Rightarrow>
             bind_go (setInitializing r ''InitFailed''
               (''restic init failed in Job %s; on an adopted repository this usually means ''
                  @ ''passwordSecretRef holds the wrong password. Retrying in %s'',
                [Str name, Str (DurationString initRetryDelay)])) (\<lambda>_.
             bind_go (tick (k_Now (rr_Client r))) (\<lambda>now.
             let wait = initRetryDelay - (now - failedAt)
             in if 0 < wait then ret wait
                else
                  bind_go (Eventf EventWarning ''InitFailed'' ''Initialize''
                    (''restic init failed in Job %s; if this repository was adopted, check that ''
                      @ ''passwordSecretRef holds its original password. Retrying'') [Str name]) (\<lambda>_.
                  bind_go (deleteJob r j) (\<lambda>_. ret initRetryDelay))))
         | None \<Rightarrow>
             bind_go (setInitializing r ''Initializing''
               (''waiting for init Job %s to complete'', [Str name])) (\<lambda>_. ret (15 * Second))))"

definition reconcileInitJob :: "'w repository_reconciler \<Rightarrow> ('w, duration) rcomp" where
  "reconcileInitJob r =
     bind_go get_obj (\<lambda>repo.
     let name = rp_Name repo @ initJobSuffix
     in bind_go (attempt (ask (k_GetJob (rr_Client r) (NN (rp_Namespace repo) name)))) (\<lambda>got.
     case got of
       Inr j \<Rightarrow> observeInitJob r name j
     | Inl e \<Rightarrow>
         if \<not> IsNotFound e then fail e
         else
           (let j = buildInitJob r repo name
            in bind_go (lift (SetControllerReference (rr_Lib r) (rp_Meta repo) (job_Meta j))) (\<lambda>m.
               let j = j\<lparr>job_Meta := m\<rparr>
               in bind_go (attempt (call (CreateJob j) (k_CreateJob (rr_Client r) j))) (\<lambda>res.
                  case res of
                    Inl e \<Rightarrow>
                      if IsAlreadyExists e then ret (15 * Second)
                      else fail (Errorf ''creating init job: %w'' [Err e])
                  | Inr _ \<Rightarrow>
                      bind_go (Eventf EventNormal ''Initializing'' ''Initialize''
                        ''Started init job %s'' [Str name]) (\<lambda>_.
                      bind_go (setInitializing r ''Initializing'' (''started init Job %s'', [Str name]))
                        (\<lambda>_. ret (15 * Second))))))))"

definition cleanupInitJob :: "'w repository_reconciler \<Rightarrow> ('w, unit) rcomp" where
  "cleanupInitJob r =
     bind_go get_obj (\<lambda>repo.
     bind_go (attempt (ask (k_GetJob (rr_Client r) (NN (rp_Namespace repo) (rp_Name repo @ initJobSuffix)))))
       (\<lambda>got. case got of
         Inl e \<Rightarrow> if IsNotFound e then ret () else fail e
       | Inr j \<Rightarrow> deleteJob r j))"

section \<open>Reconciling\<close>

definition ready_condition :: "cond_status \<Rightarrow> string \<Rightarrow> message \<Rightarrow> condition" where
  "ready_condition = new_condition RepositoryConditionReady"

text \<open>The status fields \<open>reconcile\<close> copies from the remote repository.\<close>

definition observe_remote :: "remote \<Rightarrow> repository_status \<Rightarrow> repository_status" where
  "observe_remote remote st =
     st\<lparr>rt_RepositoryID := bb_ID remote, rt_Server := Host remote,
        rt_CurrentUsage := formatUsage (bb_CurrentUsage remote),
        rt_Quota := (if bb_QuotaEnabled remote then formatQuota (bb_Quota remote) else '''')\<rparr>"

text \<open>The end of \<open>reconcile\<close>, from the init Job on: \<open>reconcile_init\<close> gives the delay after
  which to look again if the repository is still initializing.\<close>

definition declare_ready :: "'w repository_reconciler \<Rightarrow> bool \<Rightarrow> ('w, duration) rcomp" where
  "declare_ready r justInitialized =
     bind_go (setCondition r (new_condition RepositoryConditionInitialized ConditionTrue
         ''Initialized'' (''repository is initialized'', []))) (\<lambda>_.
     bind_go (setCondition r (ready_condition ConditionTrue ''Ready'' (''repository is ready'', []))) (\<lambda>_.
     if justInitialized then ret initCleanupDelay
     else bind_go get_obj (\<lambda>repo. ret (interval repo))))"

definition reconcile_init :: "'w repository_reconciler \<Rightarrow> ('w, duration) rcomp" where
  "reconcile_init r =
     bind_go get_obj (\<lambda>repo.
     if \<not> rt_Initialized (rp_Status repo) then
       bind_go (reconcileInitJob r) (\<lambda>requeue.
       if 0 < requeue then
         bind_go (setCondition r (ready_condition ConditionFalse ''Initializing''
             (''waiting for restic init to complete'', []))) (\<lambda>_. ret requeue)
       else declare_ready r True)
     else bind_go (cleanupInitJob r) (\<lambda>_. declare_ready r False))"

definition reconcile_repository :: "'w repository_reconciler \<Rightarrow> 'w api \<Rightarrow> ('w, duration) rcomp" where
  "reconcile_repository r api =
     bind_go get_obj (\<lambda>repo.
     let known = rt_RepositoryID (rp_Status repo) \<noteq> '''' \<or> rt_Initialized (rp_Status repo)
     in bind_go (resolveRepo r api) (\<lambda>remote.
       if \<not> IsRestic remote then
         fail (Errorf ''%w: repository %s has format %q''
           [Err ErrNotRestic, Str (bb_ID remote), Str (bb_Format remote)])
       else
         bind_go (repositoryConflict r (bb_ID remote)) (\<lambda>other.
         if other \<noteq> '''' then
           bind_go (setCondition r (ready_condition ConditionFalse ''RepositoryConflict''
             (''BorgBase repository %s is already managed by Repository %s; ''
               @ ''point one of them elsewhere, or delete this one'',
              [Str (bb_ID remote), Str other]))) (\<lambda>_.
           bind_go get_obj (\<lambda>repo. ret (interval repo)))
         else
           bind_go (reconcileSettings r remote api) (\<lambda>remote.
           bind_go (upd_status (observe_remote remote)) (\<lambda>_.
           bind_go (reconcileSecret r remote known) (\<lambda>_.
           reconcile_init r))))))"

section \<open>Finalizing\<close>

text \<open>What \<open>finalize\<close> does with the remote repository, before it drops the finalizer.\<close>

definition finalize_remote :: "'w repository_reconciler \<Rightarrow> ('w, unit) rcomp" where
  "finalize_remote r =
     bind_go get_obj (\<lambda>repo.
     let i = rt_RepositoryID (rp_Status repo)
     in if rs_DeletionPolicy (rp_Spec repo) = DeletionPolicyDelete \<and> i \<noteq> '''' then
          bind_go (attempt (apiFor r)) (\<lambda>got.
          case got of
            Inl e \<Rightarrow>
              bind_go (setCondition r (ready_condition ConditionFalse ''APITokenUnavailable'' (err_text e))) (\<lambda>_.
              bind_go (Eventf EventWarning ''APITokenUnavailable'' ''Delete'' ''%s'' [Err e]) (\<lambda>_.
              fail e))
          | Inr api \<Rightarrow>
              bind_go (attempt (call (ApiDelete i) (api_Delete api i))) (\<lambda>res.
              case res of
                Inl e \<Rightarrow>
                  if \<not> err_is e ErrNotFound then
                    bind_go (Eventf EventWarning ''DeleteFailed'' ''Delete'' ''%s'' [Err e]) (\<lambda>_.
                    fail (Errorf ''deleting repository %s: %w'' [Str i, Err e]))
                  else Eventf EventNormal ''RepositoryDeleted'' ''Delete''
                    ''Deleted BorgBase repository %s and all its snapshots'' [Str i]
              | Inr _ \<Rightarrow> Eventf EventNormal ''RepositoryDeleted'' ''Delete''
                    ''Deleted BorgBase repository %s and all its snapshots'' [Str i]))
        else if i \<noteq> '''' then
          Eventf EventNormal ''RepositoryRetained'' ''Retain''
            ''Retained BorgBase repository %s; delete it manually if it is no longer needed'' [Str i]
        else ret ())"

definition finalize :: "'w repository_reconciler \<Rightarrow> ('w, unit) rcomp" where
  "finalize r =
     bind_go get_obj (\<lambda>repo.
     if \<not> ContainsFinalizer (rr_Lib r) (rp_Meta repo) FinalizerName then ret ()
     else
       bind_go (finalize_remote r) (\<lambda>_.
       bind_go get_obj (\<lambda>base.
       let repo = base\<lparr>rp_Meta := RemoveFinalizer (rr_Lib r) (rp_Meta base) FinalizerName\<rparr>
       in bind_go (put_obj repo) (\<lambda>_.
          bind_go (call (PatchRepository base repo) (k_PatchRepository (rr_Client r) base repo)) put_obj))))"

section \<open>The entry point\<close>

definition ensure_finalizer :: "'w repository_reconciler \<Rightarrow> ('w, unit) rcomp" where
  "ensure_finalizer r =
     bind_go get_obj (\<lambda>base.
     if ContainsFinalizer (rr_Lib r) (rp_Meta base) FinalizerName then ret ()
     else
       (let repo = base\<lparr>rp_Meta := AddFinalizer (rr_Lib r) (rp_Meta base) FinalizerName\<rparr>
        in bind_go (put_obj repo) (\<lambda>_.
           bind_go (call (PatchRepository base repo) (k_PatchRepository (rr_Client r) base repo)) put_obj)))"

text \<open>The report of a failed step: the condition, the event and the attempt to save the
  status, after which the error of the step is returned.\<close>

definition report_failure ::
  "'w repository_reconciler \<Rightarrow> repository \<Rightarrow> string \<Rightarrow> goerr \<Rightarrow> ('w, 'a) rcomp" where
  "report_failure r statusBase reason e =
     bind_go (setCondition r (ready_condition ConditionFalse reason (err_text e))) (\<lambda>_.
     bind_go (Eventf EventWarning reason ''Reconcile'' ''%s'' [Err e]) (\<lambda>_.
     bind_go (attempt (patchStatus r statusBase)) (\<lambda>_. fail e)))"

definition reconcile_live :: "'w repository_reconciler \<Rightarrow> ('w, duration) rcomp" where
  "reconcile_live r =
     bind_go (ensure_finalizer r) (\<lambda>_.
     bind_go get_obj (\<lambda>statusBase.
     if rs_Suspend (rp_Spec statusBase) then
       bind_go (setCondition r (ready_condition ConditionFalse ''Suspended''
           (''reconciliation is paused by spec.suspend'', []))) (\<lambda>_.
       bind_go (patchStatus r statusBase) (\<lambda>_. ret 0))
     else
       bind_go (attempt (apiFor r)) (\<lambda>got.
       case got of
         Inl e \<Rightarrow> report_failure r statusBase ''APITokenUnavailable'' e
       | Inr api \<Rightarrow>
           bind_go (attempt (reconcile_repository r api)) (\<lambda>res.
           case res of
             Inl e \<Rightarrow> report_failure r statusBase ''ReconcileFailed'' e
           | Inr result \<Rightarrow> bind_go (patchStatus r statusBase) (\<lambda>_. ret result)))))"

definition reconcile_deleted :: "'w repository_reconciler \<Rightarrow> ('w, duration) rcomp" where
  "reconcile_deleted r =
     bind_go get_obj (\<lambda>statusBase.
     bind_go (attempt (finalize r)) (\<lambda>res.
     case res of
       Inl e \<Rightarrow> bind_go (attempt (patchStatus r statusBase)) (\<lambda>_. fail e)
     | Inr _ \<Rightarrow> ret 0))"

definition Reconcile_repository :: "'w repository_reconciler \<Rightarrow> nsname \<Rightarrow> ('w, duration) rcomp" where
  "Reconcile_repository r req =
     bind_go (attempt (ask (k_GetRepository (rr_Client r) req))) (\<lambda>got.
     case got of
       Inl e \<Rightarrow> if IsNotFound e then ret 0 else fail e
     | Inr repo \<Rightarrow>
         bind_go (put_obj repo) (\<lambda>_.
         if om_DeletionTimestamp (rp_Meta repo) \<noteq> None then reconcile_deleted r
         else reconcile_live r))"

end
