(* ===== verification/RepositorySafety.thy ===== *)
theory RepositorySafety
  imports RepositoryController
begin

text \<open>
  What the reconciler of Repositories never does: footprints of its methods, and the
  safety properties of whole runs against any cluster and any BorgBase API. A property
  of a run speaks of the log: which effects were made, in which order, and what the
  object in memory was at that point.
\<close>

section \<open>Reads and footprints\<close>

lemma silent_readSecretKey [quiet_rules]: "silent (readSecretKey r ns ref)"
  by (auto simp: readSecretKey_def intro!: quiet_rules)

lemma silent_apiFor [quiet_rules]: "silent (apiFor r)"
  by (auto simp: apiFor_def Let_def intro!: quiet_rules)

lemma silent_repositoryConflict [quiet_rules]: "silent (repositoryConflict r i)"
  by (auto simp: repositoryConflict_def intro!: quiet_rules)

lemma silent_initializationRecorded [quiet_rules]: "silent (initializationRecorded r)"
  by (auto simp: initializationRecorded_def Let_def intro!: quiet_rules)

lemma silent_choose_password [quiet_rules]: "silent (choose_password r remote known existing)"
  by (auto simp: choose_password_def Let_def intro!: quiet_rules)

lemmas silent_reads [quiet_rules] =
  silent_readSecretKey[THEN silent_emits] silent_apiFor[THEN silent_emits]
  silent_repositoryConflict[THEN silent_emits] silent_initializationRecorded[THEN silent_emits]
  silent_choose_password[THEN silent_emits]

lemma emits_setCondition [quiet_rules]: "emits P (setCondition r c)"
  by (auto simp: setCondition_def intro!: quiet_rules)

lemma emits_setInitializing [quiet_rules]: "emits P (setInitializing r reason msg)"
  by (auto simp: setInitializing_def intro!: quiet_rules)

lemma emits_patchStatus [quiet_rules]:
  "(\<And>e. is_PatchRepositoryStatus (en_Effect e) \<Longrightarrow> P e) \<Longrightarrow> emits P (patchStatus r base)"
  by (auto simp: patchStatus_def intro!: quiet_rules)

lemma emits_resolveRepo:
  "(\<And>e. is_ApiGet (en_Effect e) \<or> is_ApiFindByName (en_Effect e) \<or> is_ApiAdd (en_Effect e) \<or>
      is_Event (en_Effect e) \<Longrightarrow> P e) \<Longrightarrow> emits P (resolveRepo r api)"
  by (auto simp: resolveRepo_def Let_def intro!: quiet_rules)

lemma emits_reconcileSettings [quiet_rules]:
  "(\<And>e. is_ApiEdit (en_Effect e) \<or> is_Event (en_Effect e) \<Longrightarrow> P e) \<Longrightarrow>
   emits P (reconcileSettings r remote api)"
  by (auto simp: reconcileSettings_def Let_def intro!: quiet_rules)

lemma emits_createOrPatch [quiet_rules]:
  "(\<And>e. is_CreateSecret (en_Effect e) \<or> is_UpdateSecret (en_Effect e) \<Longrightarrow> P e) \<Longrightarrow>
   emits P (createOrPatch r desired existing)"
  by (auto simp: createOrPatch_def Let_def intro!: quiet_rules)

lemma emits_reconcileSecret [quiet_rules]:
  "(\<And>e. is_CreateSecret (en_Effect e) \<or> is_UpdateSecret (en_Effect e) \<or> is_Event (en_Effect e) \<Longrightarrow> P e) \<Longrightarrow>
   emits P (reconcileSecret r remote known)"
  by (auto simp: reconcileSecret_def Let_def intro!: quiet_rules)

lemma emits_deleteJob [quiet_rules]:
  "(\<And>e. is_DeleteJob (en_Effect e) \<Longrightarrow> P e) \<Longrightarrow> emits P (deleteJob r j)"
  by (auto simp: deleteJob_def intro!: quiet_rules)

lemma emits_reconcileInitJob [quiet_rules]:
  "(\<And>e. is_CreateJob (en_Effect e) \<or> is_DeleteJob (en_Effect e) \<or> is_Event (en_Effect e) \<Longrightarrow> P e) \<Longrightarrow>
   emits P (reconcileInitJob r)"
  by (auto simp: reconcileInitJob_def observeInitJob_def Let_def intro!: quiet_rules)

lemma emits_cleanupInitJob [quiet_rules]:
  "(\<And>e. is_DeleteJob (en_Effect e) \<Longrightarrow> P e) \<Longrightarrow> emits P (cleanupInitJob r)"
  by (auto simp: cleanupInitJob_def intro!: quiet_rules)

lemma emits_declare_ready [quiet_rules]: "emits P (declare_ready r b)"
  by (auto simp: declare_ready_def intro!: quiet_rules)

lemma emits_reconcile_init [quiet_rules]:
  "(\<And>e. is_CreateJob (en_Effect e) \<or> is_DeleteJob (en_Effect e) \<or> is_Event (en_Effect e) \<Longrightarrow> P e) \<Longrightarrow>
   emits P (reconcile_init r)"
  by (auto simp: reconcile_init_def intro!: quiet_rules)

lemma emits_ensure_finalizer [quiet_rules]:
  "(\<And>e. is_PatchRepository (en_Effect e) \<Longrightarrow> P e) \<Longrightarrow> emits P (ensure_finalizer r)"
  by (auto simp: ensure_finalizer_def Let_def intro!: quiet_rules)

lemma emits_report_failure [quiet_rules]:
  "(\<And>e. is_PatchRepositoryStatus (en_Effect e) \<or> is_Event (en_Effect e) \<Longrightarrow> P e) \<Longrightarrow>
   emits P (report_failure r base reason x)"
  by (auto simp: report_failure_def intro!: quiet_rules)

lemma emits_reconcile_repository [quiet_rules]:
  "emits P (resolveRepo r api) \<Longrightarrow>
   (\<And>e. is_ApiEdit (en_Effect e) \<or> is_CreateSecret (en_Effect e) \<or> is_UpdateSecret (en_Effect e) \<or>
      is_CreateJob (en_Effect e) \<or> is_DeleteJob (en_Effect e) \<or> is_Event (en_Effect e) \<Longrightarrow> P e) \<Longrightarrow>
   emits P (reconcile_repository r api)"
  by (auto simp: reconcile_repository_def Let_def intro!: quiet_rules)

lemma emits_reconcile_live [quiet_rules]:
  "(\<And>api. emits P (resolveRepo r api)) \<Longrightarrow>
   (\<And>e. is_PatchRepository (en_Effect e) \<or> is_PatchRepositoryStatus (en_Effect e) \<or>
      is_ApiEdit (en_Effect e) \<or> is_CreateSecret (en_Effect e) \<or> is_UpdateSecret (en_Effect e) \<or>
      is_CreateJob (en_Effect e) \<or> is_DeleteJob (en_Effect e) \<or> is_Event (en_Effect e) \<Longrightarrow> P e) \<Longrightarrow>
   emits P (reconcile_live r)"
  by (auto simp: reconcile_live_def intro!: quiet_rules)

section \<open>Deletion\<close>

definition deletion_allowed :: "'w repository_reconciler \<Rightarrow> repository \<Rightarrow> string \<Rightarrow> bool" where
  "deletion_allowed r repo i \<longleftrightarrow>
     om_DeletionTimestamp (rp_Meta repo) \<noteq> None \<and>
     ContainsFinalizer (rr_Lib r) (rp_Meta repo) FinalizerName \<and>
     rs_DeletionPolicy (rp_Spec repo) = DeletionPolicyDelete \<and>
     i = rt_RepositoryID (rp_Status repo) \<and> i \<noteq> ''''"

definition deletes_as_allowed :: "'w repository_reconciler \<Rightarrow> repository entry \<Rightarrow> bool" where
  "deletes_as_allowed r e \<longleftrightarrow>
     (case en_Effect e of ApiDelete i \<Rightarrow> deletion_allowed r (en_Object e) i | _ \<Rightarrow> True)"

lemma deletes_other: "\<not> is_ApiDelete (en_Effect e) \<Longrightarrow> deletes_as_allowed r e"
  by (auto simp: deletes_as_allowed_def split: effect.splits)

lemma reconcile_live_deletes: "emits (deletes_as_allowed r) (reconcile_live r)"
  by (auto intro!: quiet_rules emits_resolveRepo deletes_other)

text \<open>The remote step of \<open>finalize\<close> on an object that is being deleted.\<close>

lemma finalize_remote_log:
  assumes "om_DeletionTimestamp (rp_Meta (st_Object s)) \<noteq> None"
    and "ContainsFinalizer (rr_Lib r) (rp_Meta (st_Object s)) FinalizerName"
    and "list_all (deletes_as_allowed r) (st_Log s)"
  shows "wp (finalize_remote r) (\<lambda>_ t. list_all (deletes_as_allowed r) (st_Log t))
    (\<lambda>_ t. list_all (deletes_as_allowed r) (st_Log t)) s"
  using assms unfolding finalize_remote_def
  by (auto simp: wp_simps Let_def setCondition_def deletes_as_allowed_def deletion_allowed_def
      intro!: wp_silent[OF silent_apiFor] split: prod.splits sum.splits)

lemma reconcile_deleted_inv:
  assumes "wp (finalize r) (\<lambda>_. I) (\<lambda>_. I) s"
    and "\<And>base t. I t \<Longrightarrow> wp (patchStatus r base) (\<lambda>_. I) (\<lambda>_. I) t"
  shows "wp (reconcile_deleted r) (\<lambda>_. I) (\<lambda>_. I) s"
  using assms(1) unfolding reconcile_deleted_def
  by (auto simp: wp_simps intro!: wp_mono[OF assms(2)] elim!: wp_mono)

lemma reconcile_deleted_log:
  assumes "om_DeletionTimestamp (rp_Meta (st_Object s)) \<noteq> None" "st_Log s = []"
  shows "wp (reconcile_deleted r) (\<lambda>_ t. list_all (deletes_as_allowed r) (st_Log t))
    (\<lambda>_ t. list_all (deletes_as_allowed r) (st_Log t)) s"
proof -
  let ?ok = "\<lambda>t. list_all (deletes_as_allowed r) (st_Log t)"
  have patch: "wp (patchStatus r base) (\<lambda>_. ?ok) (\<lambda>_. ?ok) t" if "?ok t" for base t
    using that by (intro emits_log[where P = "deletes_as_allowed r"] quiet_rules)
      (auto intro: deletes_other)
  have "wp (finalize r) (\<lambda>_. ?ok) (\<lambda>_. ?ok) s"
    unfolding finalize_def using assms
    by (auto simp: wp_simps Let_def deletes_other
        intro!: wp_mono[OF finalize_remote_log] split: prod.splits sum.splits)
  then show ?thesis by (rule reconcile_deleted_inv) (rule patch)
qed

text \<open>
  C4. A BorgBase repository is deleted only on purpose. In every run of the reconciler,
  against any cluster and any API, each deletion request is made for an object that is
  being deleted, still carries the operator's finalizer and has the deletion policy
  Delete, and the repository it names is the one recorded in that object's status.
\<close>

theorem deletion_is_deliberate:
  assumes "Reconcile_repository r req (start obj w) = (res, t)"
    and "e \<in> set (st_Log t)" and "en_Effect e = ApiDelete i"
  shows "deletion_allowed r (en_Object e) i"
proof -
  let ?ok = "\<lambda>t. list_all (deletes_as_allowed r) (st_Log t)"
  have live: "wp (reconcile_live r) (\<lambda>_. ?ok) (\<lambda>_. ?ok) s" if "?ok s" for s
    using that by (rule emits_log[OF reconcile_live_deletes])
  have "wp (Reconcile_repository r req) (\<lambda>_. ?ok) (\<lambda>_. ?ok) (start obj w)"
    unfolding Reconcile_repository_def
    by (auto simp: wp_simps start_def intro!: live reconcile_deleted_log split: prod.splits sum.splits)
  then have "?ok t" using assms(1) by (simp add: wp_same)
  with assms(2,3) show ?thesis by (auto simp: list_all_iff deletes_as_allowed_def)
qed


text \<open>The objects of the witnesses.\<close>

definition sample_remote :: remote where
  "sample_remote =
     \<lparr>bb_ID = ''abc'', bb_Name = ''app'', bb_Region = ''eu'', bb_Format = FormatRestic,
      bb_RepoPath = '''', bb_Quota = 0, bb_QuotaEnabled = False, bb_AlertDays = 0,
      bb_AppendOnly = False, bb_CurrentUsage = 0, bb_Htpasswd = ''pw'',
      bb_Server = \<lparr>srv_Hostname = '''', srv_Region = ''''\<rparr>\<rparr>"

definition sample_api :: "unit api" where
  "sample_api =
     \<lparr>api_Get = (\<lambda>i. ret (sample_remote\<lparr>bb_ID := i\<rparr>)),
      api_FindByName = (\<lambda>n. fail (Errorf ''%w: name %s'' [Err ErrNotFound, Str n])),
      api_Add = (\<lambda>opts. ret sample_remote), api_Edit = (\<lambda>i opts. ret sample_remote),
      api_Delete = (\<lambda>i. ret ())\<rparr>"

definition token_secret :: secret where
  "token_secret = \<lparr>sec_Meta = new_meta ''system'' ''token'' [], sec_Type = ''Opaque'',
     sec_Data = [(''token'', ''t'')]\<rparr>"

definition sample_cluster :: "repository \<Rightarrow> unit cluster" where
  "sample_cluster repo =
     empty_cluster\<lparr>k_GetRepository := (\<lambda>_. ret repo),
       k_GetSecret := (\<lambda>n. if n = NN ''system'' ''token'' then ret token_secret else fail not_found)\<rparr>"

definition sample_reconciler :: "unit cluster \<Rightarrow> unit repository_reconciler" where
  "sample_reconciler k =
     \<lparr>rr_Client = k, rr_Lib = plain_lib, rr_NewAPI = Some (\<lambda>_. sample_api),
      rr_DefaultTokenSecret = NN ''system'' ''token'', rr_DefaultTokenKey = ''token'',
      rr_BackupImage = ''restic'', rr_HasAPIReader = False, rr_Endpoint = ''''\<rparr>"

definition doomed_repository :: repository where
  "doomed_repository = sample_repository\<lparr>
     rp_Meta := (rp_Meta sample_repository)\<lparr>om_DeletionTimestamp := Some 1,
       om_Finalizers := [FinalizerName]\<rparr>,
     rp_Spec := (rp_Spec sample_repository)\<lparr>rs_DeletionPolicy := DeletionPolicyDelete\<rparr>,
     rp_Status := (rp_Status sample_repository)\<lparr>rt_RepositoryID := ''abc''\<rparr>\<rparr>"

definition doomed_run :: "(goerr + duration) \<times> (unit, repository) st" where
  "doomed_run = Reconcile_repository (sample_reconciler (sample_cluster doomed_repository))
     (NN ''app'' ''backups'') (start sample_repository ())"

lemma doomed_run_log:
  "map en_Effect (take 1 (st_Log (snd doomed_run))) = [ApiDelete ''abc'']"
  by code_simp

theorem deletion_is_deliberate_witness:
  "deletion_allowed (sample_reconciler (sample_cluster doomed_repository))
     (en_Object (hd (st_Log (snd doomed_run)))) ''abc''"
proof (rule deletion_is_deliberate)
  show "Reconcile_repository (sample_reconciler (sample_cluster doomed_repository))
     (NN ''app'' ''backups'') (start sample_repository ()) = (fst doomed_run, snd doomed_run)"
    by (simp add: doomed_run_def)
  have "st_Log (snd doomed_run) \<noteq> []" using doomed_run_log by auto
  then show "hd (st_Log (snd doomed_run)) \<in> set (st_Log (snd doomed_run))"
    "en_Effect (hd (st_Log (snd doomed_run))) = ApiDelete ''abc''"
    using doomed_run_log by (auto simp: neq_Nil_conv)
qed

section \<open>Creation and adoption\<close>

definition creation_options :: "repository \<Rightarrow> add_options" where
  "creation_options repo =
     \<lparr>ao_Name = RepositoryName repo, ao_Region = rs_Region (rp_Spec repo),
      ao_Quota = rs_QuotaGiB (rp_Spec repo), ao_AlertDays = rs_AlertDays (rp_Spec repo),
      ao_AppendOnly = rs_AppendOnly (rp_Spec repo)\<rparr>"

definition creates_as_allowed :: "repository entry \<Rightarrow> bool" where
  "creates_as_allowed e \<longleftrightarrow>
     (case en_Effect e of
        ApiAdd opts \<Rightarrow>
          rs_ExistingRepositoryID (rp_Spec (en_Object e)) = '''' \<and>
          rt_RepositoryID (rp_Status (en_Object e)) = '''' \<and>
          opts = creation_options (en_Object e)
      | ApiGet i \<Rightarrow>
          i = (if rs_ExistingRepositoryID (rp_Spec (en_Object e)) \<noteq> ''''
               then rs_ExistingRepositoryID (rp_Spec (en_Object e))
               else rt_RepositoryID (rp_Status (en_Object e))) \<and>
          rt_RepositoryID (rp_Status (en_Object e)) \<in> {'''', i}
      | _ \<Rightarrow> True)"

lemma creates_other:
  "\<not> is_ApiAdd (en_Effect e) \<Longrightarrow> \<not> is_ApiGet (en_Effect e) \<Longrightarrow> creates_as_allowed e"
  by (auto simp: creates_as_allowed_def split: effect.splits)

lemma resolveRepo_creates: "emits creates_as_allowed (resolveRepo r api)"
  unfolding resolveRepo_def
  by (rule emits_wp)
    (auto simp: wp_simps Let_def creates_as_allowed_def creation_options_def
      split: prod.splits sum.splits)

lemma finalize_creates: "emits creates_as_allowed (finalize r)"
  by (auto simp: finalize_def finalize_remote_def Let_def intro!: quiet_rules creates_other)

lemma Reconcile_creates: "emits creates_as_allowed (Reconcile_repository r req)"
  unfolding Reconcile_repository_def reconcile_deleted_def
  by (auto intro!: quiet_rules resolveRepo_creates finalize_creates creates_other)

text \<open>
  C6. A BorgBase repository is created only for a Repository that neither adopts one nor
  has one on record, with exactly the name and settings of its spec; and a repository is
  looked up by identifier only under the identifier the object is pinned to: the adopted
  one, or the recorded one, which never disagree.
\<close>

theorem creation_is_deliberate:
  "Reconcile_repository r req (start obj w) = (res, t) \<Longrightarrow> list_all creates_as_allowed (st_Log t)"
  by (erule emits_run[OF Reconcile_creates]) (simp add: start_def)

definition first_run :: "(goerr + duration) \<times> (unit, repository) st" where
  "first_run = Reconcile_repository (sample_reconciler (sample_cluster sample_repository))
     (NN ''app'' ''backups'') (start sample_repository ())"

lemma first_run_log:
  "map en_Effect (filter (\<lambda>e. is_ApiAdd (en_Effect e)) (st_Log (snd first_run))) =
     [ApiAdd (creation_options sample_repository)]"
  by code_simp

theorem creation_is_deliberate_witness:
  "list_all creates_as_allowed (st_Log (snd first_run)) \<and>
   map en_Effect (filter (\<lambda>e. is_ApiAdd (en_Effect e)) (st_Log (snd first_run))) =
     [ApiAdd (creation_options sample_repository)]"
proof (intro conjI creation_is_deliberate first_run_log)
  show "Reconcile_repository (sample_reconciler (sample_cluster sample_repository))
     (NN ''app'' ''backups'') (start sample_repository ()) = (fst first_run, snd first_run)"
    by (simp add: first_run_def)
qed

section \<open>The finalizer\<close>

text \<open>\<open>deletion_first i es\<close>: an object patch occurs only after the deletion of \<open>i\<close>.\<close>

definition deletion_done :: "string \<Rightarrow> repository entry \<Rightarrow> bool" where
  "deletion_done i d \<longleftrightarrow> en_Effect d = ApiDelete i \<and>
     (case en_Error d of None \<Rightarrow> True | Some x \<Rightarrow> err_is x ErrNotFound)"

definition deletion_first :: "string \<Rightarrow> repository entry list \<Rightarrow> bool" where
  "deletion_first i es \<longleftrightarrow>
     list_ex (\<lambda>e. is_PatchRepository (en_Effect e)) es \<longrightarrow> deletion_done i (hd es)"

lemma deletion_first_append:
  "deletion_first i es \<Longrightarrow> \<not> is_PatchRepository (en_Effect e) \<Longrightarrow> deletion_first i (es @ [e])"
  by (cases es) (auto simp: deletion_first_def)

lemma patchStatus_deletion_first:
  "deletion_first i (st_Log s) \<Longrightarrow>
   wp (patchStatus r base) (\<lambda>_ t. deletion_first i (st_Log t)) (\<lambda>_ t. deletion_first i (st_Log t)) s"
  by (auto simp: patchStatus_def wp_simps intro!: deletion_first_append split: prod.splits sum.splits)

lemma finalize_deletion_first:
  assumes "rs_DeletionPolicy (rp_Spec repo) = DeletionPolicyDelete"
    and "rt_RepositoryID (rp_Status repo) = i" "i \<noteq> ''''"
  shows "wp (finalize r) (\<lambda>_ t. deletion_first i (st_Log t)) (\<lambda>_ t. deletion_first i (st_Log t)) (start repo w)"
  unfolding finalize_def finalize_remote_def using assms
  by (auto simp: wp_simps Let_def start_def setCondition_def deletion_first_def deletion_done_def
      intro!: wp_silent[OF silent_apiFor] split: prod.splits sum.splits)

text \<open>A Repository that retains its repository, or has none on record, is let go as it is.\<close>

definition deletes_remote :: "repository \<Rightarrow> bool" where
  "deletes_remote repo \<longleftrightarrow>
     rs_DeletionPolicy (rp_Spec repo) = DeletionPolicyDelete \<and> rt_RepositoryID (rp_Status repo) \<noteq> ''''"

lemma finalize_retains:
  assumes "\<not> deletes_remote repo"
  shows "wp (finalize r) (\<lambda>_ t. list_all (\<lambda>e. \<not> is_ApiDelete (en_Effect e)) (st_Log t))
    (\<lambda>_ t. list_all (\<lambda>e. \<not> is_ApiDelete (en_Effect e)) (st_Log t)) (start repo w)"
  unfolding finalize_def finalize_remote_def using assms
  by (auto simp: wp_simps Let_def start_def deletes_remote_def split: prod.splits sum.splits)

text \<open>
  C5. The finalizer waits for the deletion. When a Repository is being deleted whose policy is
  Delete and whose status records a repository, the object is patched (which drops the
  finalizer and lets it vanish) only after the deletion request for that repository, as the
  first effect of the run, has succeeded or has been answered with \<open>ErrNotFound\<close>; a failed
  deletion leaves the finalizer in place. A Repository that retains its repository or
  records none is let go without any deletion request in the run.
\<close>

theorem finalizer_waits_for_deletion:
  assumes "k_GetRepository (rr_Client r) req w = (Inr repo, w1)"
    and "om_DeletionTimestamp (rp_Meta repo) \<noteq> None"
    and "Reconcile_repository r req (start obj w) = (res, t)"
  shows "if deletes_remote repo then deletion_first (rt_RepositoryID (rp_Status repo)) (st_Log t)
    else list_all (\<lambda>e. \<not> is_ApiDelete (en_Effect e)) (st_Log t)"
proof -
  let ?ok = "\<lambda>t. if deletes_remote repo then deletion_first (rt_RepositoryID (rp_Status repo)) (st_Log t)
    else list_all (\<lambda>e. \<not> is_ApiDelete (en_Effect e)) (st_Log t)"
  have patch: "wp (patchStatus r base) (\<lambda>_. ?ok) (\<lambda>_. ?ok) t" if "?ok t" for base and t :: "('a, repository) st"
  proof (cases "deletes_remote repo")
    case True
    with that patchStatus_deletion_first show ?thesis by simp
  next
    case False
    with that show ?thesis
      by (auto intro!: emits_log[where P = "\<lambda>e. \<not> is_ApiDelete (en_Effect e)"] quiet_rules)
  qed
  have "wp (finalize r) (\<lambda>_. ?ok) (\<lambda>_. ?ok) (start repo w1)"
  proof (cases "deletes_remote repo")
    case True
    then show ?thesis using finalize_deletion_first[OF _ refl] by (auto simp: deletes_remote_def)
  next
    case False
    then show ?thesis using finalize_retains by auto
  qed
  then have "wp (reconcile_deleted r) (\<lambda>_. ?ok) (\<lambda>_. ?ok) (start repo w1)"
    by (rule reconcile_deleted_inv) (rule patch)
  then have "wp (Reconcile_repository r req) (\<lambda>_. ?ok) (\<lambda>_. ?ok) (start obj w)"
    using assms(1,2) by (simp add: Reconcile_repository_def wp_simps start_def)
  then show ?thesis using assms(3) by (cases "deletes_remote repo") (simp_all add: wp_same)
qed

theorem finalizer_waits_for_deletion_witness:
  "deletion_done ''abc'' (hd (st_Log (snd doomed_run)))"
proof -
  let ?r = "sample_reconciler (sample_cluster doomed_repository)"
  have got: "k_GetRepository (rr_Client ?r) (NN ''app'' ''backups'') () = (Inr doomed_repository, ())"
    by (simp add: sample_reconciler_def sample_cluster_def ret_def)
  have deleted: "om_DeletionTimestamp (rp_Meta doomed_repository) \<noteq> None"
    by (simp add: doomed_repository_def)
  have run: "Reconcile_repository ?r (NN ''app'' ''backups'') (start sample_repository ()) =
      (fst doomed_run, snd doomed_run)"
    by (simp add: doomed_run_def)
  have "length (st_Log (snd doomed_run)) = 3 \<and> is_PatchRepository (en_Effect (st_Log (snd doomed_run) ! 2))"
    by code_simp
  then have e: "st_Log (snd doomed_run) ! 2 \<in> set (st_Log (snd doomed_run))"
    "is_PatchRepository (en_Effect (st_Log (snd doomed_run) ! 2))" by simp_all
  have "deletion_first ''abc'' (st_Log (snd doomed_run))"
    using finalizer_waits_for_deletion[OF got deleted run]
    by (simp add: deletes_remote_def doomed_repository_def sample_repository_def)
  with e show ?thesis by (auto simp: deletion_first_def list_ex_iff)
qed

end
