(* ===== verification/RepositoryContracts.thy ===== *)
theory RepositoryContracts
  imports RepositorySafety
begin

text \<open>
  What the steps of the reconciler of Repositories promise: the restic password, the
  ownership of the credentials Secret, the convergence of the settings, the resolution
  of conflicts, the init Job and the Ready condition.
\<close>

section \<open>The restic password\<close>

text \<open>The password a Secret write carries, and the marks of a generated one.\<close>

definition secret_written :: "effect \<Rightarrow> secret option" where
  "secret_written e = (case e of CreateSecret x \<Rightarrow> Some x | UpdateSecret x \<Rightarrow> Some x | _ \<Rightarrow> None)"

definition password_of :: "secret \<Rightarrow> string" where
  "password_of x = lookup_str (sec_Data x) KeyResticPassword"

definition reports_generation :: "effect \<Rightarrow> bool" where
  "reports_generation e =
     (case e of Event _ reason _ _ \<Rightarrow> reason = ''PasswordGenerated'' | _ \<Rightarrow> False)"

lemma key_names [simp]: "KeyResticRepository \<noteq> KeyResticPassword"
  by (simp add: KeyResticRepository_def KeyResticPassword_def)

lemma credentials_password [simp]:
  "password_of (credentials repo url p) = p"
  "password_of ((credentials repo url p)\<lparr>sec_Meta := m\<rparr>) = p"
  by (simp_all add: password_of_def credentials_def lookup_str_def not_sym[OF key_names])

lemma merged_password:
  "password_of (merged_secret l desired existing) = password_of desired"
  if "sec_Data desired = [(KeyResticRepository, url), (KeyResticPassword, p)]"
  using that
  by (simp add: password_of_def merged_secret_def lookup_str_def map_of_map_copy_distinct
      not_sym[OF key_names])

definition writes_password :: "string \<Rightarrow> repository entry \<Rightarrow> bool" where
  "writes_password p e \<longleftrightarrow>
     (case secret_written (en_Effect e) of None \<Rightarrow> False | Some x \<Rightarrow> password_of x = p)"

text \<open>\<open>createOrPatch\<close> writes nothing but the password of the desired Secret.\<close>

lemma createOrPatch_password:
  assumes "sec_Data desired = [(KeyResticRepository, url), (KeyResticPassword, p)]"
  shows "emits (writes_password p) (createOrPatch r desired existing)"
  using assms
  by (auto simp: createOrPatch_def Let_def writes_password_def secret_written_def merged_password
      password_of_def[of desired] lookup_str_def not_sym[OF key_names] intro!: quiet_rules)

text \<open>With a password in the Secret, the choice is that password.\<close>

lemma choose_password_kept:
  "password_of existing = p \<Longrightarrow> p \<noteq> '''' \<Longrightarrow>
   choose_password r remote known existing = bind_go get_obj (\<lambda>_. ret (p, False))"
  by (auto simp: choose_password_def password_of_def bind_go_def ret_def get_obj_def fun_eq_iff)

text \<open>
  C3. The restic password is never replaced. If the credentials Secret of a Repository
  holds a password when it is read, then all that step does to the cluster is to write
  Secrets, created or updated, that hold that same password; none is generated.
\<close>

theorem password_is_kept:
  assumes "k_GetSecret (rr_Client r) (NN (rp_Namespace (st_Object s)) (SecretName (st_Object s)))
      (st_World s) = (Inr existing, w)"
    and "password_of existing = p" "p \<noteq> ''''"
    and "reconcileSecret r remote known s = (res, t)"
  shows "grown (writes_password p) (st_Log s) t"
proof -
  let ?ok = "grown (writes_password p) (st_Log s)"
  have cop: "wp (createOrPatch r desired existing) (\<lambda>_. ?ok) (\<lambda>_. ?ok) u"
    if "st_Log u = st_Log s" "sec_Data desired = [(KeyResticRepository, url), (KeyResticPassword, p)]"
    for u desired url
    by (rule emits_grown[OF createOrPatch_password[OF that(2)] grown_same[OF that(1)]])
  have "wp (reconcileSecret r remote known) (\<lambda>_. ?ok) (\<lambda>_. ?ok) s"
    using assms(1)
    by (auto simp: reconcileSecret_def wp_simps Let_def choose_password_kept[OF assms(2,3)]
        grown_same credentials_def intro!: wp_mono[OF cop] split: sum.splits)
  then show ?thesis using assms(4) by (simp add: wp_same)
qed

theorem password_is_kept_witness:
  "grown (writes_password ''kept'') [] (snd (reconcileSecret
     (sample_reconciler (empty_cluster\<lparr>k_GetSecret := (\<lambda>_. ret (credentials sample_repository ''old'' ''kept''))\<rparr>))
     sample_remote True (start sample_repository ())))"
proof -
  let ?r = "sample_reconciler (empty_cluster\<lparr>k_GetSecret :=
    (\<lambda>_. ret (credentials sample_repository ''old'' ''kept''))\<rparr>)"
  let ?s = "start sample_repository ()"
  have "k_GetSecret (rr_Client ?r) (NN (rp_Namespace (st_Object ?s)) (SecretName (st_Object ?s)))
      (st_World ?s) = (Inr (credentials sample_repository ''old'' ''kept''), ())"
    by (simp add: sample_reconciler_def ret_def start_def)
  from password_is_kept[OF this, of "''kept''" sample_remote True]
  show ?thesis
    by (cases "reconcileSecret ?r sample_remote True ?s") (auto simp: start_def)
qed

text \<open>A password is generated only for a repository that cannot have one.\<close>

lemma choose_password_fresh:
  assumes "choose_password r remote known existing s = (Inr (p, g), t)"
  shows "(g \<longrightarrow> \<not> rt_Adopted (rp_Status (st_Object s)) \<and> \<not> known \<and> \<not> 0 < bb_CurrentUsage remote) \<and>
    (\<exists>w. t = s\<lparr>st_World := w\<rparr>)"
proof -
  have "wp (choose_password r remote known existing)
     (\<lambda>(p, g) _. g \<longrightarrow> \<not> rt_Adopted (rp_Status (st_Object s)) \<and> \<not> known \<and> \<not> 0 < bb_CurrentUsage remote)
     (\<lambda>_ _. True) s"
    unfolding choose_password_def
    by (auto simp: wp_simps Let_def intro!: wp_silent[OF silent_readSecretKey]
        split: prod.splits sum.splits)
  with assms silent_state[OF silent_choose_password assms] show ?thesis by (auto simp: wp_def)
qed

lemma wp_choose_password:
  assumes "\<And>p g w. g \<longrightarrow> \<not> rt_Adopted (rp_Status (st_Object s)) \<and> \<not> known \<and> \<not> 0 < bb_CurrentUsage remote \<Longrightarrow>
      Q (p, g) (s\<lparr>st_World := w\<rparr>)"
    and "\<And>e w. E e (s\<lparr>st_World := w\<rparr>)"
  shows "wp (choose_password r remote known existing) Q E s"
proof -
  obtain x t where run: "choose_password r remote known existing s = (x, t)" by fastforce
  from silent_state[OF silent_choose_password run] obtain w where t: "t = s\<lparr>st_World := w\<rparr>" ..
  show ?thesis
  proof (cases x)
    case (Inl e)
    with run t assms(2) show ?thesis by (simp add: wp_def)
  next
    case (Inr pg)
    obtain p g where pg: "pg = (p, g)" by fastforce
    with run Inr have "choose_password r remote known existing s = (Inr (p, g), t)" by simp
    with choose_password_fresh have "g \<longrightarrow> \<not> rt_Adopted (rp_Status (st_Object s)) \<and> \<not> known \<and>
        \<not> 0 < bb_CurrentUsage remote" by blast
    with assms(1) t run Inr pg show ?thesis by (simp add: wp_def)
  qed
qed

definition unprovisioned :: "repository \<Rightarrow> bool" where
  "unprovisioned repo \<longleftrightarrow> rs_ExistingRepositoryID (rp_Spec repo) = '''' \<and>
     rt_RepositoryID (rp_Status repo) = '''' \<and> \<not> rt_Initialized (rp_Status repo)"

text \<open>What holds between the steps of a run on \<open>repo\<close>: a generation is reported only if
  \<open>repo\<close> was unprovisioned, and an adoption has been marked in the status.\<close>

definition generation_ok :: "repository \<Rightarrow> repository entry \<Rightarrow> bool" where
  "generation_ok repo e \<longleftrightarrow> (if reports_generation (en_Effect e) then unprovisioned repo else True)"

definition adoption_marked :: "repository \<Rightarrow> ('w, repository) st \<Rightarrow> bool" where
  "adoption_marked repo t \<longleftrightarrow>
     (if rs_ExistingRepositoryID (rp_Spec repo) = '''' then True else rt_Adopted (rp_Status (st_Object t)))"

lemma generation_other: "\<not> is_Event (en_Effect e) \<Longrightarrow> generation_ok repo e"
  by (auto simp: generation_ok_def reports_generation_def split: effect.splits)

lemma generation_event:
  "generation_ok repo \<lparr>en_Effect = Event ty reason action m, en_Object = o', en_Error = x\<rparr> \<longleftrightarrow>
    (if reason = ''PasswordGenerated'' then unprovisioned repo else True)"
  by (auto simp: generation_ok_def reports_generation_def)

lemma emits_generation_init: "emits (generation_ok repo) (reconcile_init r)"
  unfolding reconcile_init_def reconcileInitJob_def observeInitJob_def Let_def
  by (auto intro!: quiet_rules) (auto simp: generation_other generation_event)

lemma emits_generation_resolve: "emits (generation_ok repo) (resolveRepo r api)"
  unfolding resolveRepo_def Let_def
  by (auto intro!: quiet_rules) (simp_all add: generation_ok_def reports_generation_def)

lemma emits_generation_settings: "emits (generation_ok repo) (reconcileSettings r remote api)"
  unfolding reconcileSettings_def Let_def
  by (auto intro!: quiet_rules) (simp_all add: generation_ok_def reports_generation_def)

lemma emits_generation_secret: "emits (generation_ok repo) (createOrPatch r desired existing)"
  by (auto intro!: quiet_rules generation_other)

lemma resolveRepo_adopts:
  assumes "st_Object s = repo"
  shows "wp (resolveRepo r api) (\<lambda>_. adoption_marked repo) (\<lambda>_ _. True) s"
  unfolding resolveRepo_def using assms
  by (auto simp: wp_simps Let_def adoption_marked_def split: prod.splits sum.splits)

lemma reconcileSettings_object:
  "wp (reconcileSettings r remote api) (\<lambda>_ t. st_Object t = st_Object s) (\<lambda>_ _. True) s"
  by (auto simp: reconcileSettings_def wp_simps Let_def split: prod.splits sum.splits)

lemma reconcileSecret_generation:
  assumes "grown (generation_ok repo) es s" "adoption_marked repo s"
    and "known \<longleftrightarrow> rt_RepositoryID (rp_Status repo) \<noteq> '''' \<or> rt_Initialized (rp_Status repo)"
  shows "wp (reconcileSecret r remote known) (\<lambda>_. grown (generation_ok repo) es)
    (\<lambda>_. grown (generation_ok repo) es) s"
proof -
  have cop: "wp (createOrPatch r desired existing) (\<lambda>_. grown (generation_ok repo) es)
      (\<lambda>_. grown (generation_ok repo) es) (s\<lparr>st_World := w\<rparr>)" for desired existing w
    by (rule emits_grown[OF emits_generation_secret]) (simp add: assms(1))
  show ?thesis
    unfolding reconcileSecret_def using assms
    by (auto simp: wp_simps Let_def generation_event unprovisioned_def adoption_marked_def
        intro!: wp_choose_password wp_mono[OF cop] grown_snoc
        split: prod.splits sum.splits if_splits)
qed

lemma start_object: "st_Object (start repo w) = repo"
  by (simp add: start_def)

text \<open>
  A new password is generated only for a Repository that was unprovisioned when the
  run began: it adopts no repository, has none on record, and has never been initialized.
  Losing the credentials Secret of a provisioned repository is an error, not a reason to
  encrypt under another key.
\<close>

lemma fresh_password_only_if_unprovisioned:
  assumes "reconcile_repository r api (start repo w) = (res, t)"
    and "e \<in> set (st_Log t)" and "reports_generation (en_Effect e)"
  shows "unprovisioned repo"
proof -
  let ?G = "grown (generation_ok repo) []"
  let ?J = "\<lambda>t. ?G t \<and> adoption_marked repo t"
  have resolve: "wp (resolveRepo r api) (\<lambda>_. ?J) (\<lambda>_. ?G) (start repo w)"
    using wp_conj[OF emits_grown[OF emits_generation_resolve grown_same] resolveRepo_adopts]
    by (rule wp_mono) (auto simp: start_def)
  have settings: "wp (reconcileSettings r remote api) (\<lambda>_. ?J) (\<lambda>_. ?G) u" if "?J u" for u remote
    by (rule wp_mono[OF wp_conj[OF emits_grown[OF emits_generation_settings conjunct1[OF that]]
        reconcileSettings_object]]) (use that in \<open>auto simp: adoption_marked_def\<close>)
  have init: "wp (reconcile_init r) (\<lambda>_. ?G) (\<lambda>_. ?G) u" if "?G u" for u
    by (rule emits_grown[OF emits_generation_init that])
  have secret: "wp (reconcileSecret r remote known) (\<lambda>_. ?G) (\<lambda>_. ?G) u"
    if "?J u" "known \<longleftrightarrow> rt_RepositoryID (rp_Status repo) \<noteq> '''' \<or> rt_Initialized (rp_Status repo)"
    for u remote known
    using that by (intro reconcileSecret_generation) auto
  have "wp (reconcile_repository r api) (\<lambda>_. ?G) (\<lambda>_. ?G) (start repo w)"
    unfolding reconcile_repository_def
    by (auto simp: wp_simps Let_def start_object setCondition_def adoption_marked_def observe_remote_def
        intro!: wp_mono[OF resolve[simplified]] wp_silent[OF silent_repositoryConflict]
          wp_mono[OF settings] wp_mono[OF secret] wp_mono[OF init] split: prod.splits)
  then have "?G t" using assms(1) by (simp add: wp_same)
  with assms(2,3) show ?thesis by (auto simp: grown_def list_all_iff generation_ok_def split: if_splits)
qed

text \<open>A cluster with a random source, for the witness.\<close>

definition random_cluster :: "unit cluster" where
  "random_cluster = (sample_cluster sample_repository)\<lparr>k_Rand := (\<lambda>w. (Inr ''a'', w))\<rparr>"

lemma random_password: "\<exists>p. run_generator 129 (\<lambda>w :: unit. (Inr ''a'', w)) () = (Inr p, ())"
proof -
  have "productive (\<lambda>w :: unit. (Inr ''a'', w))" by (simp add: productive_def maxUnbiased_248)
  then have "\<exists>p w'. fill 129 (\<lambda>w :: unit. (Inr ''a'', w)) [] ''a'' () = Some (Inr p, w')"
    by (rule fill_enough) (simp_all add: passwordLength_def maxUnbiased_248)
  then show ?thesis by (auto simp: run_generator_def GeneratePassword_def simp del: fill.simps)
qed

lemmas first_steps = reconcile_repository_def resolveRepo_def repositoryConflict_def
  reconcileSettings_def reconcileSecret_def choose_password_def createOrPatch_def
  reconcile_init_def reconcileInitJob_def setInitializing_def setCondition_def

lemmas samples = random_cluster_def sample_cluster_def sample_reconciler_def sample_api_def
  sample_repository_def sample_remote_def empty_cluster_def

lemma first_run_generates:
  "\<exists>e\<in>set (st_Log (snd (reconcile_repository (sample_reconciler random_cluster) sample_api
     (start sample_repository ())))). reports_generation (en_Effect e)"
proof -
  obtain p where p: "run_generator 129 (\<lambda>w :: unit. (Inr ''a'', w)) () = (Inr p, ())"
    using random_password by blast
  have "wp (reconcile_repository (sample_reconciler random_cluster) sample_api)
      (\<lambda>_ t. \<exists>e\<in>set (st_Log t). reports_generation (en_Effect e))
      (\<lambda>_ t. \<exists>e\<in>set (st_Log t). reports_generation (en_Effect e)) (start sample_repository ())"
    by (simp add: first_steps samples p wp_simps start_def Let_def run_ret run_fail RepositoryName_def
        not_found_def plain_lib_def ErrNotFound_def IsRestic_def wanted_edit_def no_edit_def IsZero_def
        observe_remote_def ResticURL_def Password_def DeletionPolicyDelete_def DeletionPolicyRetain_def
        empty_secret_def lookup_str_def credentials_def reports_generation_def)
  then show ?thesis by (simp add: wp_same)
qed

lemma fresh_password_only_if_unprovisioned_witness: "unprovisioned sample_repository"
proof -
  let ?run = "reconcile_repository (sample_reconciler random_cluster) sample_api (start sample_repository ())"
  obtain e where "e \<in> set (st_Log (snd ?run))" "reports_generation (en_Effect e)"
    using first_run_generates by blast
  then show ?thesis by (rule fresh_password_only_if_unprovisioned[of _ _ _ _ "fst ?run", OF prod.collapse[symmetric]])
qed

section \<open>The credentials Secret\<close>

text \<open>
  C7. A Secret the operator does not manage is never written. If the Secret of the
  Repository's name exists without the operator's managed-by label, the step makes no
  change to the cluster at all and ends in an error.
\<close>

theorem foreign_secret_untouched:
  assumes "k_GetSecret (rr_Client r) (NN (rp_Namespace (st_Object s)) (SecretName (st_Object s)))
      (st_World s) = (Inr existing, w)"
    and "om_Name (sec_Meta existing) \<noteq> ''''"
    and "lookup_str (om_Labels (sec_Meta existing)) labelManagedBy \<noteq> managedByValue"
    and "reconcileSecret r remote known s = (res, t)"
  shows "st_Log t = st_Log s \<and> (\<exists>e. res = Inl e)"
proof -
  have "wp (reconcileSecret r remote known) (\<lambda>_ _. False) (\<lambda>_ t. st_Log t = st_Log s) s"
    using assms(1-3)
    by (auto simp: reconcileSecret_def createOrPatch_def wp_simps Let_def
        intro!: wp_silent[OF silent_choose_password] split: sum.splits)
  with assms(4) show ?thesis by (auto simp: wp_def split: sum.splits)
qed

theorem foreign_secret_untouched_witness:
  "st_Log (snd (reconcileSecret (sample_reconciler (empty_cluster\<lparr>k_GetSecret := (\<lambda>_. ret token_secret)\<rparr>))
     sample_remote False (start sample_repository ()))) = []"
proof -
  let ?r = "sample_reconciler (empty_cluster\<lparr>k_GetSecret := (\<lambda>_. ret token_secret)\<rparr>)"
  let ?s = "start sample_repository ()"
  let ?run = "reconcileSecret ?r sample_remote False ?s"
  have "st_Log (snd ?run) = st_Log ?s \<and> (\<exists>e. fst ?run = Inl e)"
  proof (rule foreign_secret_untouched)
    show "k_GetSecret (rr_Client ?r) (NN (rp_Namespace (st_Object ?s)) (SecretName (st_Object ?s)))
        (st_World ?s) = (Inr token_secret, ())"
      by (simp add: sample_reconciler_def ret_def start_def)
  qed (simp_all add: token_secret_def lookup_str_def managedByValue_def)
  then show ?thesis by (simp add: start_def)
qed

text \<open>The controller reference after \<open>syncControllerRef\<close> is the desired one.\<close>

lemma find_filter_none: "find P (filter (\<lambda>x. \<not> P x) xs) = None"
  by (induction xs) auto

lemma find_append: "find P (xs @ ys) = (case find P xs of None \<Rightarrow> find P ys | Some x \<Rightarrow> Some x)"
  by (induction xs) auto

lemma find_Some_pred: "find P xs = Some x \<Longrightarrow> P x"
  by (auto simp: find_Some_iff)

lemma syncControllerRef_controller:
  assumes "\<forall>m. GetControllerOf l m = find is_controller (om_OwnerReferences m)"
  shows "(case GetControllerOf l desired of
       None \<Rightarrow> GetControllerOf l (syncControllerRef l obj desired) = None
     | Some o' \<Rightarrow> \<exists>h. GetControllerOf l (syncControllerRef l obj desired) = Some h \<and>
         or_UID h = or_UID o' \<and> or_Name h = or_Name o')"
proof -
  have ctrl: "(\<lambda>o'. \<not> (case or_Controller o' of None \<Rightarrow> False | Some b \<Rightarrow> b)) = (\<lambda>o'. \<not> is_controller o')"
    by (auto simp: is_controller_def fun_eq_iff split: option.splits)
  show ?thesis
    using find_Some_pred[of is_controller "om_OwnerReferences desired"]
    by (auto simp: syncControllerRef_def ctrl assms find_filter_none find_append Let_def
        split: option.splits)
qed

definition owned_by_nobody :: "lib \<Rightarrow> repository entry \<Rightarrow> bool" where
  "owned_by_nobody l e \<longleftrightarrow>
     (case secret_written (en_Effect e) of
        None \<Rightarrow> True
      | Some x \<Rightarrow> GetControllerOf l (sec_Meta x) = None)"

lemma createOrPatch_unowned:
  assumes "controller_laws (rr_Lib r)" "om_OwnerReferences (sec_Meta desired) = []"
  shows "emits (owned_by_nobody (rr_Lib r)) (createOrPatch r desired existing)"
proof -
  have none: "GetControllerOf (rr_Lib r) (sec_Meta desired) = None"
    using assms by (simp add: controller_laws_def)
  then have "GetControllerOf (rr_Lib r) (syncControllerRef (rr_Lib r) m (sec_Meta desired)) = None" for m
    using syncControllerRef_controller[of "rr_Lib r" m "sec_Meta desired"] assms(1)
    by (simp add: controller_laws_def)
  with none show ?thesis
    by (auto simp: createOrPatch_def Let_def owned_by_nobody_def secret_written_def merged_secret_def
        intro!: quiet_rules)
qed

text \<open>
  Under any deletion policy but Delete the credentials outlive the Repository: every
  Secret the reconciler writes then is without a controller reference, so the garbage
  collector leaves it, password included, when the Repository is deleted; a reference
  from an earlier policy is removed.
\<close>

lemma retained_secret_has_no_owner:
  assumes "controller_laws (rr_Lib r)"
    and "rs_DeletionPolicy (rp_Spec (st_Object s)) \<noteq> DeletionPolicyDelete"
    and "reconcileSecret r remote known s = (res, t)"
  shows "grown (owned_by_nobody (rr_Lib r)) (st_Log s) t"
proof -
  let ?ok = "grown (owned_by_nobody (rr_Lib r)) (st_Log s)"
  have cop: "wp (createOrPatch r (credentials repo url p) existing) (\<lambda>_. ?ok) (\<lambda>_. ?ok) (s\<lparr>st_World := w\<rparr>)"
    for repo url p existing w
    by (rule emits_grown[OF createOrPatch_unowned[OF assms(1)] grown_same]) (simp_all add: credentials_def)
  have "wp (reconcileSecret r remote known) (\<lambda>_. ?ok) (\<lambda>_. ?ok) s"
    using assms(2)
    by (auto simp: reconcileSecret_def wp_simps Let_def grown_same
        intro!: wp_silent[OF silent_choose_password] wp_mono[OF cop] grown_snoc
        simp: owned_by_nobody_def secret_written_def split: prod.splits sum.splits)
  then show ?thesis using assms(3) by (simp add: wp_same)
qed

lemma retained_secret_has_no_owner_witness:
  "grown (owned_by_nobody plain_lib) [] (snd (reconcileSecret (sample_reconciler empty_cluster)
     sample_remote False (start sample_repository ())))"
proof -
  let ?run = "reconcileSecret (sample_reconciler empty_cluster) sample_remote False (start sample_repository ())"
  have "grown (owned_by_nobody (rr_Lib (sample_reconciler empty_cluster)))
      (st_Log (start sample_repository ())) (snd ?run)"
  proof (rule retained_secret_has_no_owner)
    show "?run = (fst ?run, snd ?run)" by simp
  qed (simp_all add: sample_reconciler_def plain_lib_laws start_def sample_repository_def
      DeletionPolicyRetain_def DeletionPolicyDelete_def)
  then show ?thesis by (simp add: sample_reconciler_def start_def)
qed

section \<open>Settings\<close>

text \<open>
  What BorgBase does with an edit: a setting that is sent is set, one that is nil is left
  alone. \<open>in_line\<close> is what the spec asks of the remote repository.
\<close>

definition apply_edit :: "edit_options \<Rightarrow> remote \<Rightarrow> remote" where
  "apply_edit opts remote =
     remote\<lparr>bb_Quota := (case eo_Quota opts of None \<Rightarrow> bb_Quota remote | Some q \<Rightarrow> q),
       bb_QuotaEnabled := (case eo_QuotaEnabled opts of None \<Rightarrow> bb_QuotaEnabled remote | Some b \<Rightarrow> b),
       bb_AlertDays := (case eo_AlertDays opts of None \<Rightarrow> bb_AlertDays remote | Some d \<Rightarrow> d),
       bb_AppendOnly := (case eo_AppendOnly opts of None \<Rightarrow> bb_AppendOnly remote | Some b \<Rightarrow> b)\<rparr>"

definition in_line :: "repository_spec \<Rightarrow> remote \<Rightarrow> bool" where
  "in_line spec remote \<longleftrightarrow>
     (case rs_QuotaGiB spec of
        None \<Rightarrow> \<not> bb_QuotaEnabled remote
      | Some q \<Rightarrow> bb_QuotaEnabled remote \<and> bb_Quota remote = q) \<and>
     (case rs_AlertDays spec of None \<Rightarrow> True | Some d \<Rightarrow> bb_AlertDays remote = d) \<and>
     bb_AppendOnly remote = rs_AppendOnly spec"

lemma wanted_edit_fields:
  "eo_Quota (wanted_edit spec remote) =
     (case rs_QuotaGiB spec of
        None \<Rightarrow> if bb_QuotaEnabled remote then Some (bb_Quota remote) else None
      | Some q \<Rightarrow> if bb_QuotaEnabled remote \<and> bb_Quota remote = q then None else Some q)"
  "eo_QuotaEnabled (wanted_edit spec remote) =
     (case rs_QuotaGiB spec of
        None \<Rightarrow> if bb_QuotaEnabled remote then Some False else None
      | Some q \<Rightarrow> if bb_QuotaEnabled remote \<and> bb_Quota remote = q then None else Some True)"
  "eo_AlertDays (wanted_edit spec remote) =
     (case rs_AlertDays spec of
        None \<Rightarrow> None
      | Some d \<Rightarrow> if bb_AlertDays remote = d then None else Some d)"
  "eo_AppendOnly (wanted_edit spec remote) =
     (if bb_AppendOnly remote = rs_AppendOnly spec then None else Some (rs_AppendOnly spec))"
  by (auto simp: wanted_edit_def no_edit_def Let_def split: option.split)

lemma wanted_edit_zero: "IsZero (wanted_edit spec remote) \<longleftrightarrow> in_line spec remote"
  by (auto simp: IsZero_def in_line_def wanted_edit_fields split: option.split)

lemma wanted_edit_aligns: "in_line spec (apply_edit (wanted_edit spec remote) remote)"
  by (auto simp: apply_edit_def in_line_def wanted_edit_fields split: option.split)

text \<open>What becomes of the remote repository: the quota follows the spec also where the spec
  sets none, in which case it is switched off; alert days that the spec does not set stay.\<close>

definition converged :: "repository_spec \<Rightarrow> remote \<Rightarrow> remote" where
  "converged spec remote =
     remote\<lparr>bb_QuotaEnabled := (rs_QuotaGiB spec \<noteq> None),
       bb_Quota := (case rs_QuotaGiB spec of None \<Rightarrow> bb_Quota remote | Some q \<Rightarrow> q),
       bb_AlertDays := (case rs_AlertDays spec of None \<Rightarrow> bb_AlertDays remote | Some d \<Rightarrow> d),
       bb_AppendOnly := rs_AppendOnly spec\<rparr>"

lemma apply_wanted_edit: "apply_edit (wanted_edit spec remote) remote = converged spec remote"
  by (cases remote) (auto simp: apply_edit_def converged_def wanted_edit_fields split: option.split)

lemma reconcileSettings_edits:
  "map en_Effect (filter (\<lambda>e. is_ApiEdit (en_Effect e))
     (st_Log (snd (reconcileSettings r remote api (start repo w))))) =
   (if in_line (rp_Spec repo) remote then [] else [ApiEdit (bb_ID remote) (wanted_edit (rp_Spec repo) remote)])"
proof -
  let ?edits = "\<lambda>t. map en_Effect (filter (\<lambda>e. is_ApiEdit (en_Effect e)) (st_Log t)) =
    (if in_line (rp_Spec repo) remote then [] else [ApiEdit (bb_ID remote) (wanted_edit (rp_Spec repo) remote)])"
  have "wp (reconcileSettings r remote api) (\<lambda>_. ?edits) (\<lambda>_. ?edits) (start repo w)"
    by (auto simp: reconcileSettings_def wp_simps start_def Let_def wanted_edit_zero split: prod.split sum.split)
  then show ?thesis by (simp add: wp_same)
qed

text \<open>
  C9. Settings converge in one step. The reconciler sends an edit, and only one, exactly
  when the remote repository is out of line with the spec. The edit sets the quota, alert
  days and append-only mode of the spec; where the spec sets no quota, it switches an
  enabled quota off and leaves its number; where the spec sets no alert days, they are
  left alone; nothing else changes. After it there is nothing left to send.
\<close>

theorem settings_converge:
  "map en_Effect (filter (\<lambda>e. is_ApiEdit (en_Effect e))
     (st_Log (snd (reconcileSettings r remote api (start repo w))))) =
   (if in_line (rp_Spec repo) remote then [] else [ApiEdit (bb_ID remote) (wanted_edit (rp_Spec repo) remote)]) \<and>
   apply_edit (wanted_edit (rp_Spec repo) remote) remote = converged (rp_Spec repo) remote \<and>
   in_line (rp_Spec repo) (converged (rp_Spec repo) remote) \<and>
   IsZero (wanted_edit (rp_Spec repo) (converged (rp_Spec repo) remote))"
  using wanted_edit_aligns[of "rp_Spec repo" remote]
  by (simp add: reconcileSettings_edits apply_wanted_edit wanted_edit_zero)

theorem settings_converge_witness:
  "apply_edit (wanted_edit (rp_Spec sample_repository) (sample_remote\<lparr>bb_QuotaEnabled := True, bb_Quota := 7\<rparr>))
     (sample_remote\<lparr>bb_QuotaEnabled := True, bb_Quota := 7\<rparr>) = sample_remote\<lparr>bb_Quota := 7\<rparr>"
  using settings_converge[of "sample_reconciler (sample_cluster sample_repository)"
      "sample_remote\<lparr>bb_QuotaEnabled := True, bb_Quota := 7\<rparr>" sample_api sample_repository "()",
      THEN conjunct2, THEN conjunct1]
  by (simp add: converged_def sample_repository_def sample_remote_def)

section \<open>Conflicts\<close>

text \<open>Several Repositories may claim one BorgBase repository; the oldest wins.\<close>

interpretation repository_age: seniority olderRepository "\<lambda>r. (rp_Namespace r, rp_Name r)"
  by unfold_locales (auto simp: olderRepository_def split: if_splits)

definition rival :: "repository \<Rightarrow> string \<Rightarrow> repository \<Rightarrow> bool" where
  "rival repo i other \<longleftrightarrow>
     om_DeletionTimestamp (rp_Meta other) = None \<and> managedID other = i \<and>
     (rp_Namespace other, rp_Name other) \<noteq> (rp_Namespace repo, rp_Name repo)"

lemma find_conflict_none:
  "find_conflict repo i items = '''' \<longleftrightarrow>
     (\<forall>other\<in>set items. rival repo i other \<longrightarrow> \<not> olderRepository other repo)"
  by (induction items) (auto simp: rival_def)

text \<open>
  C8. Exactly one of the Repositories that claim a BorgBase repository sees no conflict.
  Whatever the list of Repositories in the cluster, names being unique, if some
  undeleted ones claim the identifier then exactly one of them passes the check; every
  other one finds an older claimant.
\<close>

theorem one_repository_wins:
  assumes "inj_on (\<lambda>r. (rp_Namespace r, rp_Name r)) (set items)"
    and "\<exists>r\<in>set items. om_DeletionTimestamp (rp_Meta r) = None \<and> managedID r = i"
  shows "\<exists>!r. r \<in> set items \<and> om_DeletionTimestamp (rp_Meta r) = None \<and> managedID r = i \<and>
    find_conflict r i items = ''''"
proof -
  let ?A = "{r \<in> set items. om_DeletionTimestamp (rp_Meta r) = None \<and> managedID r = i}"
  have "\<exists>!a. a \<in> ?A \<and> (\<forall>b\<in>?A. (rp_Namespace b, rp_Name b) \<noteq> (rp_Namespace a, rp_Name a) \<longrightarrow>
      \<not> olderRepository b a)"
    using assms by (intro repository_age.eldest_unique) (auto intro: inj_on_subset)
  moreover have "a \<in> ?A \<and> (\<forall>b\<in>?A. (rp_Namespace b, rp_Name b) \<noteq> (rp_Namespace a, rp_Name a) \<longrightarrow>
      \<not> olderRepository b a) \<longleftrightarrow>
    a \<in> set items \<and> om_DeletionTimestamp (rp_Meta a) = None \<and> managedID a = i \<and>
      find_conflict a i items = ''''" for a
    by (auto simp: find_conflict_none rival_def)
  ultimately show ?thesis by simp
qed

definition rival_repository :: repository where
  "rival_repository = sample_repository\<lparr>rp_Meta := new_meta ''app'' ''other'' [],
     rp_Spec := (rp_Spec sample_repository)\<lparr>rs_ExistingRepositoryID := ''abc''\<rparr>\<rparr>"

definition winner_repository :: repository where
  "winner_repository = sample_repository\<lparr>
     rp_Status := (rp_Status sample_repository)\<lparr>rt_RepositoryID := ''abc''\<rparr>\<rparr>"

theorem one_repository_wins_witness:
  "(\<exists>!r. r \<in> set [rival_repository, winner_repository] \<and> om_DeletionTimestamp (rp_Meta r) = None \<and>
     managedID r = ''abc'' \<and> find_conflict r ''abc'' [rival_repository, winner_repository] = '''') \<and>
   find_conflict rival_repository ''abc'' [rival_repository, winner_repository] = ''app/backups''"
proof
  show "\<exists>!r. r \<in> set [rival_repository, winner_repository] \<and> om_DeletionTimestamp (rp_Meta r) = None \<and>
     managedID r = ''abc'' \<and> find_conflict r ''abc'' [rival_repository, winner_repository] = ''''"
    by (rule one_repository_wins)
      (auto simp: rival_repository_def winner_repository_def sample_repository_def managedID_def new_meta_def)
  show "find_conflict rival_repository ''abc'' [rival_repository, winner_repository] = ''app/backups''"
    by code_simp
qed

text \<open>
  The loser of a conflict keeps its hands off. When the repository it resolved is
  claimed by an older Repository, the rest of the step changes no setting, writes no
  Secret, starts or deletes no Job: it makes no effect at all beyond resolving, and it
  ends not Ready, to be tried again after the interval.
\<close>

lemma conflict_loser_stands_back:
  assumes "condition_laws (rr_Client r)"
    and "resolveRepo r api s = (Inr remote, s1)" "IsRestic remote" "bb_ID remote \<noteq> ''''"
    and "k_ListRepositories (rr_Client r) (st_World s1) = (Inr items, w)"
    and "find_conflict (st_Object s1) (bb_ID remote) items \<noteq> ''''"
    and "reconcile_repository r api s = (res, t)"
  shows "st_Log t = st_Log s1 \<and> res = Inr (interval (st_Object t)) \<and>
    \<not> holds RepositoryConditionReady (rt_Conditions (rp_Status (st_Object t)))"
proof -
  have conflict: "repositoryConflict r (bb_ID remote) s1 =
      (Inr (find_conflict (st_Object s1) (bb_ID remote) items), s1\<lparr>st_World := w\<rparr>)"
    using assms(4,5) by (simp add: repositoryConflict_def bind_go_def get_obj_def attempt_def ask_def ret_def)
  let ?Q = "\<lambda>a t. st_Log t = st_Log s1 \<and> a = interval (st_Object t) \<and>
    \<not> holds RepositoryConditionReady (rt_Conditions (rp_Status (st_Object t)))"
  have set: "wp (setCondition r (ready_condition ConditionFalse reason msg))
      (\<lambda>_ t. ?Q (interval (st_Object t)) t) (\<lambda>_ _. False) (s1\<lparr>st_World := w\<rparr>)" for reason msg
    using assms(1)
    by (auto simp: setCondition_def wp_simps condition_laws_def ready_condition_def new_condition_def
        prod.case_eq_if)
  have "wp (reconcile_repository r api) ?Q (\<lambda>_ _. False) s"
    unfolding reconcile_repository_def
    by (simp add: wp_bind wp_get_obj Let_def wp_def[of "resolveRepo r api"]
        wp_def[of "repositoryConflict r (bb_ID remote)"] conflict assms(2,3,6))
      (rule wp_mono[OF set], simp_all add: wp_simps)
  with assms(7) show ?thesis by (auto simp: wp_def split: sum.splits)
qed

lemma conflict_loser_stands_back_witness:
  "st_Log (snd (reconcile_repository
     (sample_reconciler (empty_cluster\<lparr>k_ListRepositories := ret [winner_repository]\<rparr>)) sample_api
     (start rival_repository ()))) =
   [\<lparr>en_Effect = ApiGet ''abc'', en_Object = rival_repository, en_Error = None\<rparr>]"
proof -
  let ?r = "sample_reconciler (empty_cluster\<lparr>k_ListRepositories := ret [winner_repository]\<rparr>)"
  let ?run = "reconcile_repository ?r sample_api (start rival_repository ())"
  let ?adopted = "rival_repository\<lparr>rp_Status := (rp_Status rival_repository)\<lparr>rt_Adopted := True\<rparr>\<rparr>"
  let ?s1 = "\<lparr>st_Object = ?adopted, st_Log = [\<lparr>en_Effect = ApiGet ''abc'',
    en_Object = rival_repository, en_Error = None\<rparr>], st_World = ()\<rparr>"
  have "st_Log (snd ?run) = st_Log ?s1 \<and> fst ?run = Inr (interval (st_Object (snd ?run))) \<and>
    \<not> holds RepositoryConditionReady (rt_Conditions (rp_Status (st_Object (snd ?run))))"
  proof (rule conflict_loser_stands_back)
    show "condition_laws (rr_Client ?r)"
      using empty_cluster_conditions by (simp add: sample_reconciler_def condition_laws_def)
    show "resolveRepo ?r sample_api (start rival_repository ()) = (Inr sample_remote, ?s1)"
      by (simp add: resolveRepo_def rival_repository_def sample_repository_def start_def bind_go_def
          get_obj_def attempt_def call_def sample_api_def ret_def error_of_def sample_remote_def
          upd_obj_def modify_def Let_def)
    show "k_ListRepositories (rr_Client ?r) (st_World ?s1) = (Inr [winner_repository], ())"
      by (simp add: sample_reconciler_def ret_def)
    have "find_conflict ?adopted ''abc'' [winner_repository] = ''app/backups''" by code_simp
    then show "find_conflict (st_Object ?s1) (bb_ID sample_remote) [winner_repository] \<noteq> ''''"
      by (simp add: sample_remote_def)
  qed (simp_all add: sample_remote_def IsRestic_def)
  then show ?thesis by simp
qed

section \<open>The init Job\<close>

definition init_effect_ok :: "goerr + job \<Rightarrow> time \<Rightarrow> repository entry \<Rightarrow> bool" where
  "init_effect_ok got now e \<longleftrightarrow>
     (case en_Effect e of
        CreateJob _ \<Rightarrow> (case got of Inl x \<Rightarrow> IsNotFound x | Inr _ \<Rightarrow> False)
      | DeleteJob j \<Rightarrow>
          (case jobFailedAt j of
             None \<Rightarrow> False
           | Some failedAt \<Rightarrow> got = Inr j \<and> jst_Succeeded (job_Status j) \<le> 0 \<and>
               failedAt + initRetryDelay \<le> now)
      | Event _ _ _ _ \<Rightarrow> True
      | _ \<Rightarrow> False)"

definition succeeded :: "goerr + job \<Rightarrow> bool" where
  "succeeded got \<longleftrightarrow> (case got of Inl _ \<Rightarrow> False | Inr j \<Rightarrow> 0 < jst_Succeeded (job_Status j))"

abbreviation initialized :: "('w, repository) st \<Rightarrow> bool" where
  "initialized t \<equiv> rt_Initialized (rp_Status (st_Object t))"

lemma delays_positive: "0 < initRetryDelay" "0 < initCleanupDelay"
  by (simp_all add: initRetryDelay_def initCleanupDelay_def)

lemma reconcileInitJob_steps:
  assumes "k_GetJob (rr_Client r) (NN (rp_Namespace (st_Object s)) (rp_Name (st_Object s) @ initJobSuffix))
      (st_World s) = (got, w)"
    and "\<forall>w. fst (k_Now (rr_Client r) w) = now"
  shows "wp (reconcileInitJob r)
    (\<lambda>d t. grown (init_effect_ok got now) (st_Log s) t \<and>
      (if succeeded got then d = 0 \<and> initialized t else 0 < d \<and> initialized t = initialized s))
    (\<lambda>_ t. grown (init_effect_ok got now) (st_Log s) t \<and> initialized t = initialized s) s"
proof (cases got)
  case (Inl e)
  then show ?thesis
    using assms
    by (auto simp: reconcileInitJob_def wp_simps Let_def succeeded_def setInitializing_def
        setCondition_def grown_def init_effect_ok_def split: prod.splits sum.splits)
next
  case (Inr j)
  show ?thesis
  proof (cases "succeeded got")
    case True
    with Inr show ?thesis
      using assms(1)
      by (auto simp: reconcileInitJob_def observeInitJob_def wp_simps Let_def succeeded_def
          grown_def init_effect_ok_def intro!: wp_silent[OF silent_initializationRecorded])
  next
    case False
    with Inr show ?thesis
      using assms delays_positive(1)
      by (auto simp: reconcileInitJob_def observeInitJob_def wp_simps Let_def succeeded_def
          setInitializing_def setCondition_def deleteJob_def grown_def init_effect_ok_def
          split: prod.splits sum.splits option.splits)
        (metis fst_conv le_diff_eq add.commute diff_gt_0_iff_gt linorder_not_le)+
  qed
qed

text \<open>
  The init Job as a state machine. The reconciler creates the Job only when there is
  none, and deletes it only when it has failed, without a success, at least five minutes
  ago. The repository becomes initialized in exactly one way, by a Job seen to have
  succeeded; in every other case the step leaves that mark alone and asks to be run
  again after a positive delay.
\<close>

lemma init_job_steps:
  assumes "k_GetJob (rr_Client r) (NN (rp_Namespace (st_Object s)) (rp_Name (st_Object s) @ initJobSuffix))
      (st_World s) = (got, w)"
    and "\<forall>w. fst (k_Now (rr_Client r) w) = now"
    and "reconcileInitJob r s = (res, t)"
  shows "grown (init_effect_ok got now) (st_Log s) t \<and>
    (case res of
       Inl _ \<Rightarrow> initialized t = initialized s
     | Inr d \<Rightarrow> if succeeded got then d = 0 \<and> initialized t else 0 < d \<and> initialized t = initialized s)"
  using reconcileInitJob_steps[OF assms(1,2)] assms(3) by (simp add: wp_def split: sum.splits)

definition finished_job :: job where
  "finished_job = (buildInitJob (sample_reconciler empty_cluster) sample_repository ''backups-init'')\<lparr>
     job_Status := new_job_status\<lparr>jst_Succeeded := 1\<rparr>\<rparr>"

lemma init_job_steps_witness:
  "initialized (snd (reconcileInitJob
     (sample_reconciler (empty_cluster\<lparr>k_GetJob := (\<lambda>_. ret finished_job)\<rparr>)) (start sample_repository ())))"
proof -
  let ?r = "sample_reconciler (empty_cluster\<lparr>k_GetJob := (\<lambda>_. ret finished_job)\<rparr>)"
  let ?s = "start sample_repository ()"
  let ?run = "reconcileInitJob ?r ?s"
  have "k_GetJob (rr_Client ?r) (NN (rp_Namespace (st_Object ?s)) (rp_Name (st_Object ?s) @ initJobSuffix))
      (st_World ?s) = (Inr finished_job, ())" "\<forall>w. fst (k_Now (rr_Client ?r) w) = 0"
    by (simp_all add: sample_reconciler_def ret_def start_def empty_cluster_def)
  from init_job_steps[OF this, of "fst ?run" "snd ?run"]
  have "case fst ?run of Inl _ \<Rightarrow> initialized (snd ?run) = initialized ?s
     | Inr d \<Rightarrow> if succeeded (Inr finished_job) then d = 0 \<and> initialized (snd ?run)
        else 0 < d \<and> initialized (snd ?run) = initialized ?s" by simp
  moreover have "succeeded (Inr finished_job)" by (simp add: succeeded_def finished_job_def)
  moreover have "\<exists>d. fst ?run = Inr d"
    by (simp add: reconcileInitJob_def observeInitJob_def initializationRecorded_def bind_go_def get_obj_def
        attempt_def ask_def ret_def sample_reconciler_def finished_job_def empty_cluster_def fail_def
        not_found_def upd_obj_def modify_def Let_def Eventf_def call_def do_when_def new_job_status_def)
  ultimately show ?thesis by auto
qed

section \<open>Ready\<close>

abbreviation ready :: "('w, repository) st \<Rightarrow> bool" where
  "ready t \<equiv> holds RepositoryConditionReady (rt_Conditions (rp_Status (st_Object t)))"

text \<open>What a step that ends without error leaves behind: a positive delay, and a Ready
  condition only on an initialized repository.\<close>

definition settled :: "duration \<Rightarrow> ('w, repository) st \<Rightarrow> bool" where
  "settled d t \<longleftrightarrow> 0 < d \<and> (if ready t then initialized t else True)"

lemma setCondition_wp:
  assumes "condition_laws (rr_Client r)"
  shows "wp (setCondition r c) (\<lambda>_ t. initialized t = initialized s \<and> ready t =
      (if cond_Type c = RepositoryConditionReady then cond_Status c = ConditionTrue else ready s))
    (\<lambda>_ _. False) s"
  using assms by (auto simp: setCondition_def wp_simps condition_laws_def prod.case_eq_if)

lemma interval_positive: "0 < interval repo"
  by (auto simp: interval_def split: option.splits)

lemma declare_ready_settled:
  assumes "condition_laws (rr_Client r)" "initialized s"
  shows "wp (declare_ready r b) settled (\<lambda>_ _. True) s"
  unfolding declare_ready_def using assms(2)
  by (auto simp: settled_def wp_simps delays_positive interval_positive intro!: wp_mono[OF setCondition_wp[OF assms(1)]])

lemma not_ready_settled:
  assumes "condition_laws (rr_Client r)" "0 < d"
  shows "wp (setCondition r (ready_condition ConditionFalse reason msg)) (\<lambda>_. settled d) (\<lambda>_ _. True) s"
  using assms(2) by (auto simp: settled_def ready_condition_def new_condition_def
      intro!: wp_mono[OF setCondition_wp[OF assms(1)]])

lemma reconcileInitJob_done:
  "wp (reconcileInitJob r) (\<lambda>d t. if 0 < d then True else initialized t) (\<lambda>_ _. True) s"
  by (auto simp: reconcileInitJob_def observeInitJob_def wp_simps Let_def setInitializing_def
      setCondition_def deleteJob_def delays_positive
      intro!: wp_silent[OF silent_initializationRecorded] split: prod.splits sum.splits option.splits)

lemma cleanupInitJob_object:
  "wp (cleanupInitJob r) (\<lambda>_ t. st_Object t = st_Object s) (\<lambda>_ _. True) s"
  by (auto simp: cleanupInitJob_def deleteJob_def wp_simps split: prod.splits sum.splits)

lemma reconcile_init_settled:
  assumes "condition_laws (rr_Client r)"
  shows "wp (reconcile_init r) settled (\<lambda>_ _. True) s"
  unfolding reconcile_init_def
  by (auto simp: wp_simps intro!: wp_mono[OF reconcileInitJob_done] wp_mono[OF cleanupInitJob_object]
      declare_ready_settled[OF assms] wp_mono[OF not_ready_settled[OF assms]] split: if_splits)

lemma wp_any: "(\<And>a t. Q a t) \<Longrightarrow> (\<And>e t. E e t) \<Longrightarrow> wp m Q E s"
  by (auto simp: wp_def split: prod.splits sum.splits)

text \<open>
  C10. Ready means initialized. A reconcile step that ends without error always asks to be
  run again after a positive delay, and it leaves the Ready condition true only on a
  repository that restic has initialized.
\<close>

theorem ready_means_initialized:
  assumes "condition_laws (rr_Client r)"
    and "reconcile_repository r api s = (Inr d, t)"
  shows "settled d t"
proof -
  have "wp (reconcile_repository r api) settled (\<lambda>_ _. True) s"
    unfolding reconcile_repository_def
    by (auto simp: wp_simps Let_def interval_positive
        intro!: wp_any[where m = "resolveRepo r api"] wp_silent[OF silent_repositoryConflict]
          wp_any[where m = "reconcileSettings r _ api"] wp_any[where m = "reconcileSecret r _ _"]
          reconcile_init_settled[OF assms(1)] wp_mono[OF not_ready_settled[OF assms(1), of 1]])
      (simp add: settled_def interval_positive)
  with assms(2) show ?thesis by (simp add: wp_def)
qed

definition running_repository :: repository where
  "running_repository = sample_repository\<lparr>rp_Status := (rp_Status sample_repository)\<lparr>
     rt_RepositoryID := ''abc'', rt_Initialized := True\<rparr>\<rparr>"

definition running_reconciler :: "unit repository_reconciler" where
  "running_reconciler = sample_reconciler (empty_cluster\<lparr>k_GetSecret :=
     (\<lambda>_. ret (credentials running_repository ''url'' ''secret''))\<rparr>)"

theorem ready_means_initialized_witness:
  "settled Hour (snd (reconcile_repository running_reconciler sample_api (start running_repository ()))) \<and>
   ready (snd (reconcile_repository running_reconciler sample_api (start running_repository ())))"
proof
  let ?run = "reconcile_repository running_reconciler sample_api (start running_repository ())"
  have "condition_laws (rr_Client running_reconciler)"
    using empty_cluster_conditions
    by (simp add: running_reconciler_def sample_reconciler_def condition_laws_def)
  moreover have "fst ?run = Inr Hour" by code_simp
  then have "?run = (Inr Hour, snd ?run)" by (metis prod.collapse)
  ultimately show "settled Hour (snd ?run)" by (rule ready_means_initialized)
  show "ready (snd ?run)" by code_simp
qed

end
