(* ===== verification/Schedule.thy ===== *)
theory Schedule
  imports GoTime "HOL-Library.Word"
begin

unbundle bit_operations_syntax

text \<open>
  Schedule shorthands (\<open>internal/backup/schedule.go\<close>): the expansion of \<open>@daily\<close>,
  \<open>@every 6h\<close> and their kin into a five-field cron expression whose minute, hour and
  day come from a hash of the resource's key.
\<close>

section \<open>The hash\<close>

text \<open>\<open>hash/fnv\<close> New32a: xor with each byte, then multiply, in 32 bits.\<close>

definition fnv32a :: "string \<Rightarrow> 32 word" where
  "fnv32a s = foldl (\<lambda>h c. (h XOR of_char c) * 16777619) 2166136261 s"

definition jitter :: "string \<Rightarrow> int" where
  "jitter key = uint (fnv32a key) mod 2 ^ 24"

section \<open>Expansion\<close>

text \<open>\<open>int(dur.Minutes())\<close> and \<open>int(dur.Hours())\<close> round the quotient towards zero; for
  the positive durations below a day that reach them the float64 quotient never rounds
  up to the next integer.\<close>

definition whole_minutes :: "duration \<Rightarrow> int" where
  "whole_minutes dur = dur div Minute"

definition whole_hours :: "duration \<Rightarrow> int" where
  "whole_hours dur = dur div Hour"

definition resolveEvery :: "string \<Rightarrow> int \<Rightarrow> int \<Rightarrow> goerr + string" where
  "resolveEvery d minute hour =
     (case ParseDuration d of
        None \<Rightarrow> Inl (Errorf ''parsing @every duration %q: %w''
                  [Str d, Err (Sentinel ''time: invalid duration'')])
      | Some dur \<Rightarrow>
        if dur \<le> 0 then Inl (Errorf ''@every duration %q must be positive'' [Str d])
        else if dur < Hour then
          (let mins = whole_minutes dur
           in if mins = 0 \<or> dur mod Minute \<noteq> 0
              then Inl (Errorf ''@every duration %q must be a whole number of minutes'' [Str d])
              else if 60 mod mins \<noteq> 0
              then Inl (Errorf ''@every duration %q must divide evenly into an hour'' [Str d])
              else Inr (Itoa (minute mod mins) @ ''-59/'' @ Itoa mins @ '' * * * *''))
        else if dur = Hour then Inr (Itoa minute @ '' * * * *'')
        else if dur < 24 * Hour then
          (let hours = whole_hours dur
           in if dur mod Hour \<noteq> 0
              then Inl (Errorf ''@every duration %q must be a whole number of hours'' [Str d])
              else if 24 mod hours \<noteq> 0
              then Inl (Errorf ''@every duration %q must divide evenly into a day'' [Str d])
              else Inr (Itoa minute @ '' '' @ Itoa (hour mod hours) @ ''-23/'' @ Itoa hours
                        @ '' * * *''))
        else if dur = 24 * Hour then Inr (Itoa minute @ '' '' @ Itoa hour @ '' * * *'')
        else Inl (Errorf
          ''@every duration %q is longer than a day; use an explicit cron expression'' [Str d]))"

definition ResolveSchedule :: "string \<Rightarrow> string \<Rightarrow> goerr + string" where
  "ResolveSchedule schedule0 key =
     (let schedule = TrimSpace schedule0
      in if schedule = '''' then Inl (Errorf ''schedule is empty'' [])
         else if \<not> HasPrefix schedule ''@'' then
           (if length (Fields schedule) \<noteq> 5
            then Inl (Errorf ''cron expression %q has %d fields, want 5''
                   [Str schedule, Num (int (length (Fields schedule)))])
            else Inr schedule)
         else
           (let h = jitter key; minute = h mod 60; hour = (h div 60) mod 24
            in if schedule = ''@hourly'' then Inr (Itoa minute @ '' * * * *'')
               else if schedule = ''@daily'' \<or> schedule = ''@midnight''
               then Inr (Itoa minute @ '' '' @ Itoa hour @ '' * * *'')
               else if schedule = ''@weekly''
               then Inr (Itoa minute @ '' '' @ Itoa hour @ '' * * '' @ Itoa ((h div 1440) mod 7))
               else if schedule = ''@monthly''
               then Inr (Itoa minute @ '' '' @ Itoa hour @ '' ''
                      @ Itoa ((h div 1440) mod 28 + 1) @ '' * *'')
               else if schedule = ''@yearly'' \<or> schedule = ''@annually''
               then Inr (Itoa minute @ '' '' @ Itoa hour @ '' ''
                      @ Itoa ((h div 1440) mod 28 + 1) @ '' ''
                      @ Itoa ((h div 40320) mod 12 + 1) @ '' *'')
               else if HasPrefix schedule ''@every ''
               then resolveEvery (TrimSpace (TrimPrefix schedule ''@every '')) minute hour
               else Inl (Errorf ''unknown schedule shorthand %q'' [Str schedule])))"

section \<open>Facts\<close>

lemma jitter_range: "0 \<le> jitter key" "jitter key < 2 ^ 24"
  by (simp_all add: jitter_def)

lemma plain_star [simp]: "plain_char (CHR ''*'')"
  by (simp add: plain_char_def)

lemma plain_range_step [simp]:
  "plain_char (CHR ''-'')" "plain_char (CHR ''/'')" "plain_char (CHR ''5'')"
  "plain_char (CHR ''9'')" "plain_char (CHR ''2'')" "plain_char (CHR ''3'')"
  by (simp_all add: plain_char_def)

lemma Fields_itoa_rest: "Fields (Itoa i @ CHR '' '' # s) = Itoa i # Fields s"
  by (rule Fields_word_blank) (auto simp: Itoa_plain)

lemma Fields_itoa_last: "Fields (Itoa i) = [Itoa i]"
  by (rule Fields_word) (auto simp: Itoa_plain)

lemma Fields_star_rest: "Fields (CHR ''*'' # CHR '' '' # s) = ''*'' # Fields s"
  using Fields_word_blank[of "''*''" s] by simp

lemma Fields_star_last: "Fields ''*'' = [''*'']"
  using Fields_word[of "''*''"] by simp

lemma Fields_step59_rest:
  "Fields (Itoa i @ CHR ''-'' # CHR ''5'' # CHR ''9'' # CHR ''/'' # Itoa j @ CHR '' '' # s) =
   (Itoa i @ ''-59/'' @ Itoa j) # Fields s"
  using Fields_word_blank[of "Itoa i @ ''-59/'' @ Itoa j" s]
  by (simp add: Itoa_plain ball_Un)

lemma Fields_step23_rest:
  "Fields (Itoa i @ CHR ''-'' # CHR ''2'' # CHR ''3'' # CHR ''/'' # Itoa j @ CHR '' '' # s) =
   (Itoa i @ ''-23/'' @ Itoa j) # Fields s"
  using Fields_word_blank[of "Itoa i @ ''-23/'' @ Itoa j" s]
  by (simp add: Itoa_plain ball_Un)

lemmas Fields_cron =
  Fields_itoa_rest Fields_itoa_last Fields_star_rest Fields_star_last
  Fields_step59_rest Fields_step23_rest

text \<open>The durations that \<open>@every\<close> accepts: those that divide an hour or a day.\<close>

definition even_period :: "duration \<Rightarrow> bool" where
  "even_period dur \<longleftrightarrow>
     0 < dur \<and>
     (\<exists>n>0. dur * n = Hour \<and> Minute dvd dur \<or>
            dur * n = 24 * Hour \<and> Hour dvd dur)"

lemma period_hour:
  assumes "0 < dur" "dur < Hour" "Minute dvd dur" "60 mod (dur div Minute) = 0"
  shows "even_period dur"
proof -
  obtain k where k: "dur = Minute * k" using assms(3) by (elim dvdE)
  with assms have "0 < k" "60 mod k = 0" by auto
  then obtain n where n: "60 = k * n" by (auto simp: mod_eq_0_iff_dvd elim: dvdE)
  with \<open>0 < k\<close> have "0 < n" by (metis zero_less_mult_pos zero_less_numeral)
  moreover from k n have "dur * n = Hour" by (simp add: mult.assoc)
  ultimately show ?thesis using assms unfolding even_period_def by blast
qed

lemma period_day:
  assumes "0 < dur" "Hour dvd dur" "24 mod (dur div Hour) = 0"
  shows "even_period dur"
proof -
  obtain k where k: "dur = Hour * k" using assms(2) by (elim dvdE)
  with assms have "0 < k" "24 mod k = 0" by auto
  then obtain n where n: "24 = k * n" by (auto simp: mod_eq_0_iff_dvd elim: dvdE)
  with \<open>0 < k\<close> have "0 < n" by (metis zero_less_mult_pos zero_less_numeral)
  moreover from k n have "dur * n = 24 * Hour" by (simp add: mult.assoc)
  ultimately show ?thesis using assms unfolding even_period_def by blast
qed

lemma even_period_bounds: "even_period Hour" "even_period (24 * Hour)"
  unfolding even_period_def by (auto intro: exI[of _ 1])

lemma even_period_cases:
  assumes "even_period dur"
  shows "dur < Hour \<and> dur mod Minute = 0 \<and> 0 < dur div Minute \<and> 60 mod (dur div Minute) = 0 \<or>
         dur = Hour \<or>
         Hour < dur \<and> dur < 24 * Hour \<and> dur mod Hour = 0 \<and> 24 mod (dur div Hour) = 0 \<or>
         dur = 24 * Hour"
proof -
  from assms obtain n where "0 < dur" "0 < n" and
    n: "dur * n = Hour \<and> Minute dvd dur \<or> dur * n = 24 * Hour \<and> Hour dvd dur"
    by (auto simp: even_period_def)
  from n show ?thesis
  proof
    assume *: "dur * n = Hour \<and> Minute dvd dur"
    then obtain k where k: "dur = Minute * k" by (auto elim: dvdE)
    with * have "k * n = 60" by simp
    then have "k dvd 60" by (metis dvd_triv_left)
    moreover have "0 < k" using k \<open>0 < dur\<close> by simp
    moreover have "k \<le> 60" using \<open>k dvd 60\<close> by (simp add: zdvd_imp_le)
    ultimately show ?thesis using k by (auto simp: mod_eq_0_iff_dvd)
  next
    assume *: "dur * n = 24 * Hour \<and> Hour dvd dur"
    then obtain k where k: "dur = Hour * k" by (auto elim: dvdE)
    with * have "k * n = 24" by simp
    then have "k dvd 24" by (metis dvd_triv_left)
    moreover have "0 < k" using k \<open>0 < dur\<close> by simp
    moreover have "k \<le> 24" using \<open>k dvd 24\<close> by (simp add: zdvd_imp_le)
    ultimately show ?thesis using k by (auto simp: mod_eq_0_iff_dvd)
  qed
qed

section \<open>Properties\<close>

text \<open>
  A schedule that resolves is a cron expression of five fields, whichever
  shorthand or expression it came from.
\<close>

lemma ResolveSchedule_five_fields:
  assumes "ResolveSchedule schedule key = Inr expr"
  shows "length (Fields expr) = 5"
  using assms
  by (auto simp: ResolveSchedule_def resolveEvery_def Let_def Fields_cron
      split: if_splits option.splits)

lemma ResolveSchedule_five_fields_witness:
  "length (Fields ''17 12 * * *'') = 5"
proof (rule ResolveSchedule_five_fields)
  have "TrimSpace ''@daily'' = ''@daily''" "Itoa 17 = ''17''" "Itoa 12 = ''12''"
    by (simp_all add: TrimSpace_plain plain_char_def Itoa_eval)
  moreover have "jitter ''a/b'' = 9336257"
    by (simp add: jitter_def fnv32a_def)
  ultimately show "ResolveSchedule ''@daily'' ''a/b'' = Inr ''17 12 * * *''"
    by (simp add: ResolveSchedule_def HasPrefix_def)
qed

text \<open>
  \<open>@every\<close> accepts a duration exactly when it divides an hour or a day evenly (in
  whole minutes below an hour, in whole hours above), so that the steps of the cron
  expression stay evenly spaced across the restart of each period.
\<close>

lemma resolveEvery_accepts_iff:
  "(\<exists>expr. resolveEvery d minute hour = Inr expr) \<longleftrightarrow>
   (\<exists>dur. ParseDuration d = Some dur \<and> even_period dur)"
proof (cases "ParseDuration d")
  case None
  then show ?thesis by (simp add: resolveEvery_def)
next
  case (Some dur)
  show ?thesis
  proof
    assume "\<exists>expr. resolveEvery d minute hour = Inr expr"
    with Some show "\<exists>dur. ParseDuration d = Some dur \<and> even_period dur"
      by (auto simp: resolveEvery_def whole_minutes_def whole_hours_def Let_def mod_eq_0_iff_dvd
          split: if_splits intro: period_hour period_day even_period_bounds)
  next
    assume "\<exists>dur. ParseDuration d = Some dur \<and> even_period dur"
    with Some have "even_period dur" by simp
    then have pos: "0 < dur" by (simp add: even_period_def)
    from even_period_cases[OF \<open>even_period dur\<close>]
    show "\<exists>expr. resolveEvery d minute hour = Inr expr"
      by (elim disjE conjE)
        (use pos in \<open>simp_all add: Some resolveEvery_def whole_minutes_def whole_hours_def Let_def\<close>)
  qed
qed

end
