(* ===== verification/Script.thy ===== *)
theory Script
  imports ApiTypes
begin

text \<open>
  The shell script of the backup container (\<open>internal/backup/script.go\<close>), and what a
  POSIX shell makes of its quoting: \<open>sh_words\<close> is the specification of word splitting
  and quote removal against which the rendered command lines are proved.
\<close>

abbreviation squote :: char where "squote \<equiv> CHR 0x27"
abbreviation backslash :: char where "backslash \<equiv> CHR 0x5C"

section \<open>Quoting\<close>

text \<open>\<open>shellQuote\<close>: single quotes around the text, each quote inside as \<open>'\''\<close>.\<close>

definition shellQuote :: "string \<Rightarrow> string" where
  "shellQuote s =
     [squote] @ ReplaceChar s squote [squote, backslash, squote, squote] @ [squote]"

text \<open>The class of the pattern \<open>safeBare\<close>.\<close>

definition safe_char :: "char \<Rightarrow> bool" where
  "safe_char c \<longleftrightarrow>
     c \<in> set (''ABCDEFGHIJKLMNOPQRSTUVWXYZ'' @ ''abcdefghijklmnopqrstuvwxyz'' @ ''0123456789''
              @ ''_.:@%+,/=-'')"

definition safeBare :: "string \<Rightarrow> bool" where
  "safeBare s \<longleftrightarrow> s \<noteq> [] \<and> list_all safe_char s"

definition shellQuoteIfNeeded :: "string \<Rightarrow> string" where
  "shellQuoteIfNeeded s = (if s \<noteq> [] \<and> safeBare s then s else shellQuote s)"

section \<open>Rendering\<close>

definition preamble :: string where
  "preamble = ''exec > >(ts '%H:%M:%S') 2>&1'' @ [nl] @ ''set -eu''"

definition postamble :: string where
  "postamble = ''restic cache --cleanup''"

definition retryLockFlag :: "backup_spec \<Rightarrow> string" where
  "retryLockFlag spec =
     (case bs_RetryLock spec of
        None \<Rightarrow> ''''
      | Some d \<Rightarrow> if d \<le> 0 then '''' else '' --retry-lock='' @ DurationString d)"

definition renderSource :: "backup_source \<Rightarrow> string \<Rightarrow> goerr + string" where
  "renderSource src retryLock =
     (let tag = EffectiveTag src
      in if src_Type src = SourceTypeFiles then
           (let line = ''restic backup'' @ retryLock @ '' --tag='' @ tag @ '' ''
                       @ shellQuoteIfNeeded (EffectivePath src)
            in if src_Exclude src = [] then Inr line
               else Inr (Join (line # map (\<lambda>ex. ''  --exclude='' @ shellQuote ex) (src_Exclude src))
                          ('' '' @ [backslash, nl])))
         else if src_Type src = SourceTypeCNPG \<or> src_Type src = SourceTypeMariaDB then
           Inr (''restic backup'' @ retryLock @ '' --tag='' @ tag
                @ '' --stdin-from-command -- dumpdb '' @ src_Type src
                @ '' --secret-mount='' @ DBSecretMountPath
                @ (if src_Database src \<noteq> ''''
                   then '' --database='' @ shellQuoteIfNeeded (src_Database src) else '''')
                @ (if src_ExtraArgs src \<noteq> []
                   then '' --'' @ concat (map (\<lambda>a. '' '' @ a) (src_ExtraArgs src)) else ''''))
         else Inl (Errorf ''unknown source type %q'' [Str (src_Type src)]))"

text \<open>The \<open>--keep\<close> flags of a retention, in the order of the table in the code.\<close>

definition keep_flags :: "retention \<Rightarrow> string list" where
  "keep_flags r =
     concat (map (\<lambda>(name, value). case value of None \<Rightarrow> []
                   | Some n \<Rightarrow> [''--keep-'' @ name @ ''='' @ Itoa n])
       [(''last'', rn_Last r), (''hourly'', rn_Hourly r), (''daily'', rn_Daily r),
        (''weekly'', rn_Weekly r), (''monthly'', rn_Monthly r), (''yearly'', rn_Yearly r)])"

definition renderForget :: "retention option \<Rightarrow> string \<Rightarrow> string" where
  "renderForget policy retryLock =
     (case policy of
        None \<Rightarrow> ''''
      | Some r \<Rightarrow>
        (let flags = keep_flags r
         in if flags = [] then ''''
            else ''restic forget --prune'' @ retryLock @ '' '' @ Join flags '' ''))"

text \<open>The loop over the sources; the first source that cannot be rendered ends it.\<close>

fun renderSources :: "backup_source list \<Rightarrow> string \<Rightarrow> goerr + string list" where
  "renderSources [] retryLock = Inr []"
| "renderSources (src # srcs) retryLock =
     (case renderSource src retryLock of
        Inl e \<Rightarrow> Inl e
      | Inr line \<Rightarrow>
        (case renderSources srcs retryLock of
           Inl e \<Rightarrow> Inl e
         | Inr lines \<Rightarrow> Inr (line # lines)))"

definition TrimRightChar :: "string \<Rightarrow> char \<Rightarrow> string" where
  "TrimRightChar s c = rev (dropWhile (\<lambda>x. x = c) (rev s))"

definition unlines :: "string list \<Rightarrow> string" where
  "unlines ls = concat (map (\<lambda>l. l @ [nl]) ls)"

definition Render :: "backup_spec \<Rightarrow> goerr + string" where
  "Render spec =
     (if bs_Script spec \<noteq> '''' then
        Inr (unlines [preamble, TrimRightChar (bs_Script spec) nl, postamble])
      else
        (case renderSources (bs_Sources spec) (retryLockFlag spec) of
           Inl e \<Rightarrow> Inl e
         | Inr lines \<Rightarrow>
           (let forget = renderForget (bs_Retention spec) (retryLockFlag spec)
            in Inr (unlines ([preamble] @ lines @ (if forget \<noteq> '''' then [forget] else [])
                             @ [postamble])))))"

section \<open>What a shell reads\<close>

text \<open>
  Word splitting and quote removal of a POSIX shell, for command lines without
  expansions: blanks separate words, single quotes and backslashes quote, a backslash
  before a newline joins lines. A character that would do more (an operator, an
  expansion, a double quote, a comment) makes the line \<open>None\<close>. \<open>inq\<close>: within single
  quotes; \<open>cur\<close>: the word being read, reversed, if one has begun.
\<close>

definition sh_special :: "char \<Rightarrow> bool" where
  "sh_special c \<longleftrightarrow> c \<in> set (''\"$`&|;<>()*?[]#~!{}'' @ [nl, CHR 0x09])"

fun sh_read :: "bool \<Rightarrow> string option \<Rightarrow> string \<Rightarrow> string list option" where
  "sh_read inq cur [] = (if inq then None else Some (case cur of None \<Rightarrow> [] | Some w \<Rightarrow> [rev w]))"
| "sh_read inq cur (c # s) =
     (let w = (case cur of None \<Rightarrow> [] | Some w \<Rightarrow> w)
      in if inq then
           (if c = squote then sh_read False (Some w) s else sh_read True (Some (c # w)) s)
         else if c = squote then sh_read True (Some w) s
         else if c = CHR '' '' then
           (case cur of None \<Rightarrow> sh_read False None s
            | Some v \<Rightarrow> map_option (\<lambda>ws. rev v # ws) (sh_read False None s))
         else if c = backslash then
           (case s of [] \<Rightarrow> None
            | d # t \<Rightarrow> if d = nl then sh_read False cur t else sh_read False (Some (d # w)) t)
         else if sh_special c then None
         else sh_read False (Some (c # w)) s)"

definition sh_words :: "string \<Rightarrow> string list option" where
  "sh_words s = sh_read False None s"

text \<open>Characters a shell takes as they are outside quotes.\<close>

definition sh_plain :: "char \<Rightarrow> bool" where
  "sh_plain c \<longleftrightarrow> \<not> sh_special c \<and> c \<notin> {squote, CHR '' '', backslash}"

lemma safe_char_plain: "safe_char c \<Longrightarrow> sh_plain c"
  by (auto simp: safe_char_def sh_plain_def sh_special_def)

lemma sh_plain_read:
  "sh_plain c \<Longrightarrow> sh_read False cur (c # s) =
   sh_read False (Some (c # (case cur of None \<Rightarrow> [] | Some w \<Rightarrow> w))) s"
  by (auto simp: sh_plain_def)

lemma sh_read_plain:
  "list_all sh_plain w \<Longrightarrow> sh_read False (Some v) (w @ s) = sh_read False (Some (rev w @ v)) s"
  by (induction w arbitrary: v) (simp_all add: sh_plain_read del: sh_read.simps)

lemma sh_read_plain_start:
  "w \<noteq> [] \<Longrightarrow> list_all sh_plain w \<Longrightarrow>
   sh_read False None (w @ s) = sh_read False (Some (rev w)) s"
  by (cases w) (simp_all add: sh_plain_read sh_read_plain del: sh_read.simps)

lemma sh_read_quoted:
  "sh_read True (Some v) (ReplaceChar s squote [squote, backslash, squote, squote] @ squote # t) =
   sh_read False (Some (rev s @ v)) t"
proof (induction s arbitrary: v)
  case (Cons c s)
  then show ?case by (cases "c = squote") simp_all
qed simp

text \<open>A quoted text extends the current word by exactly the text.\<close>

lemma sh_read_shellQuote:
  "sh_read False cur (shellQuote s @ t) =
   sh_read False (Some (rev s @ (case cur of None \<Rightarrow> [] | Some w \<Rightarrow> w))) t"
  by (simp add: shellQuote_def sh_read_quoted)

lemma sh_read_shellQuoteIfNeeded:
  "sh_read False cur (shellQuoteIfNeeded s @ t) =
   sh_read False (Some (rev s @ (case cur of None \<Rightarrow> [] | Some w \<Rightarrow> w))) t"
proof (cases "s \<noteq> [] \<and> safeBare s")
  case True
  then have "list_all sh_plain s"
    by (auto simp: safeBare_def list_all_iff safe_char_plain)
  with True show ?thesis
    by (cases cur) (simp_all add: shellQuoteIfNeeded_def sh_read_plain sh_read_plain_start
        del: sh_read.simps)
next
  case False
  then have "shellQuoteIfNeeded s = shellQuote s" by (auto simp: shellQuoteIfNeeded_def)
  then show ?thesis by (simp only: sh_read_shellQuote)
qed

lemma sh_read_blank:
  "sh_read False (Some w) (CHR '' '' # s) = map_option (\<lambda>ws. rev w # ws) (sh_read False None s)"
  by simp

lemma sh_read_end: "sh_read False (Some w) [] = Some [rev w]"
  by simp

text \<open>
  Two implementations of quoting meet this contract; a client that appends a quoted
  text to a command line may rely on it without looking at how it quotes.
\<close>

locale shell_quoting =
  fixes quote :: "string \<Rightarrow> string"
  assumes quote_read: "sh_read False cur (quote s @ t) =
    sh_read False (Some (rev s @ (case cur of None \<Rightarrow> [] | Some w \<Rightarrow> w))) t"
begin

lemma quote_word: "sh_words (quote s) = Some [s]"
  using quote_read[of None s "[]"] by (simp add: sh_words_def)

text \<open>A flag with a quoted value is one word.\<close>

lemma quote_flag:
  assumes "list_all sh_plain p" "p \<noteq> []"
  shows "sh_words (p @ quote s) = Some [p @ s]"
  using assms quote_read[of "Some (rev p)" s "[]"]
  by (simp add: sh_words_def sh_read_plain_start del: sh_read.simps) simp

lemma quote_no_escape:
  "sh_words (quote s @ CHR '' '' # rest) = map_option (\<lambda>ws. s # ws) (sh_words rest)"
  using quote_read[of None s "CHR '' '' # rest"] by (simp add: sh_words_def)

end

interpretation always: shell_quoting shellQuote
  by unfold_locales (rule sh_read_shellQuote)

interpretation if_needed: shell_quoting shellQuoteIfNeeded
  by unfold_locales (rule sh_read_shellQuoteIfNeeded)

section \<open>Properties\<close>

text \<open>
  Whatever the text, a POSIX shell reads its quoted form as one word, and that word
  is the text: nothing in a path, an exclude pattern or a database name can end the
  word, start another command or be expanded. This holds for both quoting functions.
\<close>

lemma quoting_is_one_word:
  "sh_words (shellQuote s) = Some [s] \<and> sh_words (shellQuoteIfNeeded s) = Some [s] \<and>
   sh_words (shellQuote s @ CHR '' '' # rest) = map_option (\<lambda>ws. s # ws) (sh_words rest)"
  by (simp add: always.quote_word if_needed.quote_word always.quote_no_escape del: sh_read.simps)

section \<open>Command lines\<close>

lemma Join_concat: "Join (x # xs) sep = x @ concat (map (\<lambda>y. sep @ y) xs)"
  by (induction xs arbitrary: x) auto

lemma sh_plain_exclude: "list_all sh_plain ''--exclude=''"
  by (simp add: sh_plain_def sh_special_def)

lemma sh_read_exclude:
  "sh_read False (Some v) ('' '' @ [backslash, nl] @ ''  --exclude='' @ shellQuote ex @ u) =
   map_option (\<lambda>ws. rev v # ws) (sh_read False (Some (rev (''--exclude='' @ ex))) u)"
proof -
  have "sh_read False None (''--exclude='' @ shellQuote ex @ u) =
    sh_read False (Some (rev (''--exclude='' @ ex))) u"
    by (subst sh_read_plain_start[OF _ sh_plain_exclude])
      (simp_all add: sh_read_shellQuote del: sh_read.simps)
  then show ?thesis by simp
qed

lemma sh_read_excludes:
  "sh_read False (Some v)
     (concat (map (\<lambda>ex. '' '' @ [backslash, nl] @ ''  --exclude='' @ shellQuote ex) exs)) =
   Some (rev v # map (\<lambda>ex. ''--exclude='' @ ex) exs)"
proof (induction exs arbitrary: v)
  case (Cons ex exs)
  have "sh_read False (Some v)
     (concat (map (\<lambda>ex. '' '' @ [backslash, nl] @ ''  --exclude='' @ shellQuote ex) (ex # exs))) =
    map_option (\<lambda>ws. rev v # ws) (sh_read False (Some (rev (''--exclude='' @ ex)))
     (concat (map (\<lambda>ex. '' '' @ [backslash, nl] @ ''  --exclude='' @ shellQuote ex) exs)))"
    by (simp only: list.map concat.simps append_assoc sh_read_exclude)
  then show ?case by (simp only: Cons.IH) simp
qed simp

lemma digit_sh_plain: "is_digit c \<Longrightarrow> sh_plain c"
  by (auto simp: is_digit_def digit_val_def sh_plain_def sh_special_def)

lemma sh_plain_Itoa: "0 \<le> i \<Longrightarrow> list_all sh_plain (Itoa i)"
  using Itoa_digits[of i] by (auto simp: list_all_iff digit_sh_plain)

text \<open>The text of a duration holds digits, a point, a sign and unit letters only.\<close>

definition duration_char :: "char \<Rightarrow> bool" where
  "duration_char c \<longleftrightarrow> is_digit c \<or> c \<in> set (''.-nsmh'' @ [CHR 0xC2, CHR 0xB5])"

lemma duration_char_Itoa: "0 \<le> i \<Longrightarrow> list_all duration_char (Itoa i)"
  using Itoa_digits[of i] by (auto simp: list_all_iff duration_char_def)

lemma fmtFrac_chars:
  assumes "list_all duration_char acc"
  shows "list_all duration_char (fst (fmtFrac k v pr acc))"
  using assms
proof (induction k v pr acc rule: fmtFrac.induct)
  case (1 v pr acc)
  then show ?case by (simp add: duration_char_def)
next
  case (2 p v pr acc)
  have "duration_char (digit_char (v mod 10))" by (simp add: duration_char_def)
  with 2 show ?case by (simp add: Let_def)
qed

lemma fmtFrac_nonneg: "0 \<le> v \<Longrightarrow> 0 \<le> snd (fmtFrac k v pr acc)"
  by (induction k v pr acc rule: fmtFrac.induct) (simp_all add: Let_def pos_imp_zdiv_nonneg_iff)

lemma unit_letters:
  "list_all duration_char ''ns''" "list_all duration_char ([CHR 0xC2, CHR 0xB5] @ ''s'')"
  "list_all duration_char ''ms''" "list_all duration_char ''h''" "list_all duration_char ''m''"
  "list_all duration_char ''s''" "list_all duration_char ''0s''" "duration_char (CHR ''-'')"
  by (simp_all add: duration_char_def is_digit_def digit_val_def)

lemma DurationString_chars: "list_all duration_char (DurationString d)"
proof -
  define u where "u = \<bar>d\<bar>"
  then have "0 \<le> u" by simp
  then have "0 \<le> snd (fmtFrac k u False [])" for k by (rule fmtFrac_nonneg)
  then show ?thesis
    using unit_letters fmtFrac_chars[of "[]"] \<open>0 \<le> u\<close>
    unfolding DurationString_def u_def[symmetric]
    by (simp add: Let_def case_prod_beta duration_char_Itoa pos_imp_zdiv_nonneg_iff)
qed

lemma DurationString_plain: "list_all sh_plain (DurationString d)"
  using DurationString_chars[of d]
  by (auto simp: list_all_iff duration_char_def digit_sh_plain sh_plain_def sh_special_def
      is_digit_def digit_val_def)

lemma retryLockFlag_cases:
  "retryLockFlag spec = '''' \<or>
   (\<exists>d. bs_RetryLock spec = Some d \<and> 0 < d \<and>
        retryLockFlag spec = '' --retry-lock='' @ DurationString d)"
  by (auto simp: retryLockFlag_def split: option.splits)

text \<open>The words that the retry lock flag adds to a command.\<close>

definition retry_words :: "backup_spec \<Rightarrow> string list" where
  "retry_words spec =
     (case bs_RetryLock spec of
        Some d \<Rightarrow> if d \<le> 0 then [] else [''--retry-lock='' @ DurationString d]
      | None \<Rightarrow> [])"

lemma sh_read_words:
  assumes "list_all sh_plain w" "w \<noteq> []"
  shows "sh_read False (Some v) (CHR '' '' # w @ s) =
    map_option (\<lambda>ws. rev v # ws) (sh_read False (Some (rev w)) s)"
  using assms by (simp add: sh_read_blank sh_read_plain_start del: sh_read.simps)

lemma sh_quoted_word:
  "sh_read False (Some v) ('' '' @ shellQuote s @ t) = map_option (\<lambda>ws. rev v # ws) (sh_read False (Some (rev s)) t)"
  by (simp add: sh_read_blank sh_read_shellQuote del: sh_read.simps)

lemma sh_quoted_flag:
  assumes "list_all sh_plain p" "p \<noteq> []"
  shows "sh_read False (Some v) ('' '' @ p @ shellQuote s @ t) =
    map_option (\<lambda>ws. rev v # ws) (sh_read False (Some (rev (p @ s))) t)"
  using sh_read_words[OF assms, of v "shellQuote s @ t"] by (simp add: sh_read_shellQuote del: sh_read.simps)

lemma sh_first_word: "list_all sh_plain w \<Longrightarrow> w \<noteq> [] \<Longrightarrow> sh_words (w @ s) = sh_read False (Some (rev w)) s"
  unfolding sh_words_def by (rule sh_read_plain_start)

lemma sh_next_word:
  "list_all sh_plain w \<Longrightarrow> w \<noteq> [] \<Longrightarrow>
   sh_read False (Some v) ('' '' @ w @ s) = map_option (\<lambda>ws. rev v # ws) (sh_read False (Some (rev w)) s)"
  using sh_read_words[of w v s] by (simp del: sh_read.simps)

lemma sh_plain_literals:
  "list_all sh_plain ''restic''" "list_all sh_plain ''backup''"
  "list_all sh_plain ''--retry-lock=''" "list_all sh_plain ''--tag=''"
  by (simp_all add: sh_plain_def sh_special_def)

lemma sh_read_command:
  assumes "list_all sh_plain tag"
  shows "sh_words (''restic backup'' @ retryLockFlag spec @ '' --tag='' @ tag @ '' ''
           @ shellQuoteIfNeeded path @ rest) =
    map_option (\<lambda>ws. [''restic'', ''backup''] @ retry_words spec @ [''--tag='' @ tag] @ ws)
      (sh_read False (Some (rev path)) rest)"
proof -
  have tagged: "sh_read False (Some v) ('' --tag='' @ tag @ '' '' @ shellQuoteIfNeeded path @ rest) =
    map_option (\<lambda>ws. [rev v, ''--tag='' @ tag] @ ws) (sh_read False (Some (rev path)) rest)" for v
    using assms sh_plain_literals(4)
      sh_read_words[of "''--tag='' @ tag" v "'' '' @ shellQuoteIfNeeded path @ rest"]
    by (simp add: sh_read_blank sh_read_shellQuoteIfNeeded option.map_comp comp_def
        del: sh_read.simps)
  have start: "sh_words (''restic backup'' @ s) =
    map_option (\<lambda>ws. ''restic'' # ws) (sh_read False (Some (rev ''backup'')) s)" for s
    using sh_read_plain_start[OF _ sh_plain_literals(1), of "'' backup'' @ s"]
      sh_read_words[OF sh_plain_literals(2), of "rev ''restic''" s]
    by (simp add: sh_words_def del: sh_read.simps)
  from retryLockFlag_cases[of spec] show ?thesis
  proof (elim disjE exE conjE)
    assume none: "retryLockFlag spec = ''''"
    then have "retry_words spec = []"
      by (auto simp: retryLockFlag_def retry_words_def split: option.splits if_splits)
    with none show ?thesis
      by (simp only: start tagged option.map_comp comp_def append_Nil append_Nil2)
        (simp del: sh_read.simps)
  next
    fix d
    assume d: "bs_RetryLock spec = Some d" "0 < d"
      and flag: "retryLockFlag spec = '' --retry-lock='' @ DurationString d"
    then have words: "retry_words spec = [''--retry-lock='' @ DurationString d]"
      by (simp add: retry_words_def)
    have retry: "sh_read False (Some v) (retryLockFlag spec @ s) =
      map_option (\<lambda>ws. rev v # ws)
        (sh_read False (Some (rev (''--retry-lock='' @ DurationString d))) s)" for v s
      using sh_read_words[of "''--retry-lock='' @ DurationString d" v s] sh_plain_literals(3)
        DurationString_plain[of d]
      by (simp add: flag del: sh_read.simps)
    show ?thesis
      by (simp only: start tagged retry words option.map_comp comp_def)
        (simp del: sh_read.simps)
  qed
qed

text \<open>
  The command line of a files source is read by a shell as exactly the words
  restic is meant to get: the retry lock, the tag, the path and one exclude flag per
  pattern, whatever characters the path and the patterns hold. The tag is the one part
  the code leaves unquoted; the CRD admits only letters, digits, \<open>_\<close>, \<open>.\<close> and \<open>-\<close>
  there.
\<close>

lemma files_source_command:
  assumes "src_Type src = SourceTypeFiles" and "list_all sh_plain (EffectiveTag src)"
  shows "\<exists>line. renderSource src (retryLockFlag spec) = Inr line \<and>
    sh_words line =
      Some ([''restic'', ''backup''] @ retry_words spec @ [''--tag='' @ EffectiveTag src]
            @ [EffectivePath src] @ map (\<lambda>ex. ''--exclude='' @ ex) (src_Exclude src))"
proof (cases "src_Exclude src")
  case Nil
  with sh_read_command[OF assms(2), of spec "EffectivePath src" "[]"] assms(1) show ?thesis
    by (simp add: renderSource_def Let_def)
next
  case (Cons ex exs)
  let ?rest = "concat (map (\<lambda>ex. '' '' @ [backslash, nl] @ ''  --exclude='' @ shellQuote ex)
    (src_Exclude src))"
  let ?line = "''restic backup'' @ retryLockFlag spec @ '' --tag='' @ EffectiveTag src @ '' ''
         @ shellQuoteIfNeeded (EffectivePath src) @ ?rest"
  have "renderSource src (retryLockFlag spec) = Inr ?line"
    using assms(1) Cons by (simp add: renderSource_def Let_def Join_concat comp_def)
  moreover have "sh_words ?line =
      Some ([''restic'', ''backup''] @ retry_words spec @ [''--tag='' @ EffectiveTag src]
            @ [EffectivePath src] @ map (\<lambda>ex. ''--exclude='' @ ex) (src_Exclude src))"
    by (simp only: sh_read_command[OF assms(2)] sh_read_excludes) simp
  ultimately show ?thesis by blast
qed

lemma files_source_command_witness:
  "\<exists>line. renderSource
      \<lparr>src_Type = SourceTypeFiles, src_Tag = ''files'', src_Path = ''my app'',
       src_Exclude = [''**/temp*''], src_Database = '''', src_ExtraArgs = []\<rparr>
      '' --retry-lock=5m0s'' = Inr line \<and>
    sh_words line =
      Some [''restic'', ''backup'', ''--retry-lock=5m0s'', ''--tag=files'', ''my app'',
            ''--exclude=**/temp*'']"
proof -
  let ?src = "\<lparr>src_Type = SourceTypeFiles, src_Tag = ''files'', src_Path = ''my app'',
       src_Exclude = [''**/temp*''], src_Database = '''', src_ExtraArgs = []\<rparr>"
  define spec :: backup_spec where "spec = undefined\<lparr>bs_RetryLock := Some (5 * Minute)\<rparr>"
  have "src_Type ?src = SourceTypeFiles" "list_all sh_plain (EffectiveTag ?src)"
    by (simp_all add: EffectiveTag_def sh_plain_def sh_special_def)
  moreover have "DurationString (5 * Minute) = ''5m0s''" by code_simp
  ultimately show ?thesis
    using files_source_command[of ?src spec]
    by (simp add: spec_def retryLockFlag_def retry_words_def EffectiveTag_def EffectivePath_def
        del: sh_read.simps)
qed

end
