(* ===== verification/Healthchecks.thy ===== *)
theory Healthchecks
  imports KubeTypes
begin

text \<open>
  How a backup run reports to healthchecks (\<open>internal/healthchecks/healthchecks.go\<close>):
  the operator's configuration and a backup's overrides are merged into a reporter,
  which wraps the backup command in \<open>runitor\<close> and supplies its environment.
\<close>

definition EnvAPIURL :: string where "EnvAPIURL = ''HC_API_URL''"
definition EnvSlug :: string where "EnvSlug = ''CHECK_SLUG''"
definition EnvPingKey :: string where "EnvPingKey = ''PING_KEY''"
definition EnvUUID :: string where "EnvUUID = ''CHECK_UUID''"

lemmas env_names = EnvAPIURL_def EnvSlug_def EnvPingKey_def EnvUUID_def

record hc_config =
  hcc_Enabled :: bool
  hcc_APIURL :: string
  hcc_AutoCreate :: bool

record overrides =
  ov_Enabled :: "bool option"
  ov_Create :: "bool option"
  ov_APIURL :: string
  ov_Slug :: string
  ov_PingKeyRef :: "selector option"
  ov_UUIDRef :: "selector option"

definition no_overrides :: overrides where
  "no_overrides = \<lparr>ov_Enabled = None, ov_Create = None, ov_APIURL = '''', ov_Slug = '''',
     ov_PingKeyRef = None, ov_UUIDRef = None\<rparr>"

record reporter =
  rep_enabled :: bool
  rep_create :: bool
  rep_apiURL :: string
  rep_slug :: string
  rep_pingKeyRef :: "selector option"
  rep_uuidRef :: "selector option"

definition Resolve_reporter :: "hc_config \<Rightarrow> overrides \<Rightarrow> string \<Rightarrow> reporter" where
  "Resolve_reporter cfg ov defaultSlug =
     \<lparr>rep_enabled = (case ov_Enabled ov of None \<Rightarrow> hcc_Enabled cfg | Some b \<Rightarrow> b),
      rep_create = (case ov_Create ov of None \<Rightarrow> hcc_AutoCreate cfg | Some b \<Rightarrow> b),
      rep_apiURL = (if ov_APIURL ov \<noteq> '''' then ov_APIURL ov else hcc_APIURL cfg),
      rep_slug = (if ov_Slug ov \<noteq> '''' then ov_Slug ov else defaultSlug),
      rep_pingKeyRef = ov_PingKeyRef ov,
      rep_uuidRef = ov_UUIDRef ov\<rparr>"

definition PingsByUUID :: "reporter \<Rightarrow> bool" where
  "PingsByUUID r \<longleftrightarrow> rep_uuidRef r \<noteq> None"

definition Wrap :: "reporter \<Rightarrow> string list \<Rightarrow> string list" where
  "Wrap r cmd =
     (if \<not> rep_enabled r then cmd
      else [''runitor''] @ (if rep_create r \<and> \<not> PingsByUUID r then [''-create''] else [])
           @ [''--''] @ cmd)"

definition Env :: "reporter \<Rightarrow> goerr + env_var list" where
  "Env r =
     (if \<not> rep_enabled r then Inr []
      else if rep_apiURL r = ''''
      then Inl (Errorf ''healthchecks is enabled but no API URL is configured'' [])
      else
        (let env = [env_value EnvAPIURL (rep_apiURL r)]
         in case rep_uuidRef r of
              Some uuid \<Rightarrow> Inr (env @ [env_from EnvUUID (SecretKeyRef uuid)])
            | None \<Rightarrow>
              (case rep_pingKeyRef r of
                 None \<Rightarrow> Inl (Errorf
                   ''healthchecks is enabled but neither pingKeySecretRef nor uuidSecretRef is set'' [])
               | Some key \<Rightarrow>
                 if rep_slug r = ''''
                 then Inl (Errorf ''healthchecks is enabled but no slug could be determined'' [])
                 else Inr (env @ [env_value EnvSlug (rep_slug r),
                                  env_from EnvPingKey (SecretKeyRef key)]))))"

text \<open>
  An enabled reporter that has an environment addresses one check in one way: by
  its UUID alone, or by slug together with the ping key. The command asks for the check
  to be created only when it is addressed by slug, the one case in which runitor can
  create it. A disabled reporter adds nothing at all.
\<close>

lemma reporter_addresses_one_check:
  assumes "Env r = Inr env"
  shows "if rep_enabled r
     then EnvAPIURL \<in> ev_Name ` set env \<and>
          (EnvUUID \<in> ev_Name ` set env \<longleftrightarrow> EnvSlug \<notin> ev_Name ` set env) \<and>
          (EnvSlug \<in> ev_Name ` set env \<longleftrightarrow> EnvPingKey \<in> ev_Name ` set env) \<and>
          (''-create'' \<in> set (takeWhile (\<lambda>w. w \<noteq> ''--'') (Wrap r cmd)) \<longrightarrow>
             EnvSlug \<in> ev_Name ` set env)
     else env = [] \<and> Wrap r cmd = cmd"
  using assms
  by (cases "rep_uuidRef r"; cases "rep_pingKeyRef r")
    (clarsimp simp: Env_def Wrap_def PingsByUUID_def env_names Let_def split: if_splits)+

lemma reporter_addresses_one_check_witness:
  "\<exists>env r. rep_enabled r \<and> Env r = Inr env \<and> EnvSlug \<in> ev_Name ` set env \<and>
     EnvUUID \<notin> ev_Name ` set env"
proof -
  let ?r = "\<lparr>rep_enabled = True, rep_create = True, rep_apiURL = ''http://hc'', rep_slug = ''app'',
    rep_pingKeyRef = Some \<lparr>sel_Name = ''hc'', sel_Key = ''PING_KEY''\<rparr>, rep_uuidRef = None\<rparr>"
  let ?env = "[env_value EnvAPIURL ''http://hc'', env_value EnvSlug ''app'',
    env_from EnvPingKey (SecretKeyRef \<lparr>sel_Name = ''hc'', sel_Key = ''PING_KEY''\<rparr>)]"
  have env: "Env ?r = Inr ?env" by (simp add: Env_def)
  have "EnvSlug \<in> ev_Name ` set ?env" by simp
  with reporter_addresses_one_check[OF env, of "[]"] have "EnvUUID \<notin> ev_Name ` set ?env"
    by simp
  with env \<open>EnvSlug \<in> ev_Name ` set ?env\<close> show ?thesis by (intro exI[of _ ?env] exI[of _ ?r]) simp
qed

end
