(* ===== verification/CronJob.thy ===== *)
theory CronJob
  imports Schedule Script Healthchecks
begin

text \<open>
  The CronJobs, Jobs and cache claims of a ScheduledBackup
  (\<open>internal/backup/cronjob.go\<close>). The builders are pure; \<open>resource.ParseQuantity\<close> is a
  parameter.
\<close>

section \<open>Names and configuration\<close>

definition cacheMountPath :: string where "cacheMountPath = ''/cache''"
definition ttlSecondsAfterFinished :: int where "ttlSecondsAfterFinished = 3600"
definition cnpgDefaultCluster :: string where "cnpgDefaultCluster = ''postgresql''"
definition hostnameTopologyKey :: string where "hostnameTopologyKey = ''kubernetes.io/hostname''"
definition labelName :: string where "labelName = ''app.kubernetes.io/name''"
definition labelController :: string where "labelController = ''app.kubernetes.io/controller''"
definition backup_labelManagedBy :: string where
  "backup_labelManagedBy = ''app.kubernetes.io/managed-by''"
definition backup_managedByValue :: string where "backup_managedByValue = ''borgbase-operator''"
definition containerName :: string where "containerName = ''restic''"
definition cacheVolume :: string where "cacheVolume = ''cache''"
definition mariadbName :: string where "mariadbName = ''mariadb''"
definition LabelTrigger :: string where "LabelTrigger = ''borgbase.clevyr.com/trigger''"
definition TriggerManual :: string where "TriggerManual = ''manual''"
definition maxManualJobName :: int where "maxManualJobName = 52"

record backup_config =
  bc_Image :: string
  bc_Healthchecks :: hc_config
  bc_CacheStorageClass :: string

definition CacheName :: "scheduled_backup \<Rightarrow> string" where
  "CacheName sb = sb_Name sb @ ''-cache''"

definition CronJobName :: "scheduled_backup \<Rightarrow> string" where
  "CronJobName sb = sb_Name sb @ ''-backup''"

definition manual_suffix :: "time \<Rightarrow> string" where
  "manual_suffix t = ''-manual-'' @ FormatInt (Unix t) 36"

definition ManualJobName :: "scheduled_backup \<Rightarrow> time \<Rightarrow> string" where
  "ManualJobName sb t =
     (let suffix = manual_suffix t; name = sb_Name sb;
          limit = maxManualJobName - int (length suffix);
          name = (if limit < int (length name) then take (nat limit) name else name)
      in name @ suffix)"

section \<open>The parts of a Job\<close>

definition cacheEnabled :: "scheduled_backup \<Rightarrow> bool" where
  "cacheEnabled sb =
     (case bs_Cache (sb_Spec sb) of
        None \<Rightarrow> True
      | Some c \<Rightarrow> (case ca_Enabled c of None \<Rightarrow> True | Some b \<Rightarrow> b))"

definition commonLabels :: "scheduled_backup \<Rightarrow> string gomap" where
  "commonLabels sb = [(labelName, sb_Name sb), (backup_labelManagedBy, backup_managedByValue)]"

definition BuildCachePVC ::
  "(string \<Rightarrow> goerr + quantity) \<Rightarrow> scheduled_backup \<Rightarrow> backup_config \<Rightarrow> goerr + pvc option" where
  "BuildCachePVC parse sb cfg =
     (if \<not> cacheEnabled sb then Inr None
      else
        (let (size, accessMode, storageClass) =
           (case bs_Cache (sb_Spec sb) of
              None \<Rightarrow> (''1Gi'', ''ReadWriteMany'', bc_CacheStorageClass cfg)
            | Some c \<Rightarrow>
                (if ca_Size c \<noteq> '''' then ca_Size c else ''1Gi'',
                 if ca_AccessMode c \<noteq> '''' then ca_AccessMode c else ''ReadWriteMany'',
                 if ca_StorageClass c \<noteq> '''' then ca_StorageClass c else bc_CacheStorageClass cfg))
         in case parse size of
              Inl e \<Rightarrow> Inl (Errorf ''parsing cache size %q: %w'' [Str size, Err e])
            | Inr qty \<Rightarrow>
                Inr (Some
                  \<lparr>pvc_Meta = new_meta (sb_Namespace sb) (CacheName sb) (commonLabels sb),
                   pvc_AccessModes = [accessMode], pvc_Requests = [(''storage'', qty)],
                   pvc_StorageClassName = (if storageClass \<noteq> '''' then Some storageClass else None),
                   pvc_Phase = ''''\<rparr>)))"

definition timeZone :: "scheduled_backup \<Rightarrow> string option" where
  "timeZone sb = (if bs_TimeZone (sb_Spec sb) = '''' then None else Some (bs_TimeZone (sb_Spec sb)))"

definition ForbidConcurrent :: string where "ForbidConcurrent = ''Forbid''"

definition concurrencyPolicy :: "scheduled_backup \<Rightarrow> string" where
  "concurrencyPolicy sb =
     (if bs_ConcurrencyPolicy (sb_Spec sb) \<noteq> '''' then bs_ConcurrencyPolicy (sb_Spec sb)
      else ForbidConcurrent)"

definition resources :: "scheduled_backup \<Rightarrow> resource_requirements" where
  "resources sb =
     (case bs_Resources (sb_Spec sb) of
        Some r \<Rightarrow> r
      | None \<Rightarrow>
          \<lparr>rr_Requests = [(''cpu'', Quantity ''100m''), (''memory'', Quantity ''256Mi'')],
           rr_Limits = [(''cpu'', Quantity ''1000m''), (''memory'', Quantity ''1Gi'')]\<rparr>)"

definition mariadb :: "scheduled_backup \<Rightarrow> database_spec option" where
  "mariadb sb =
     (case bs_Database (sb_Spec sb) of
        None \<Rightarrow> None
      | Some db \<Rightarrow> if db_Engine db = DatabaseEngineMariaDB then Some db else None)"

definition podLabels :: "scheduled_backup \<Rightarrow> string gomap" where
  "podLabels sb =
     (let labels = commonLabels sb;
          labels = (if mariadb sb \<noteq> None then map_put ''mariadb-client'' ''true'' labels else labels)
      in map_copy labels (bs_PodLabels (sb_Spec sb)))"

definition podSecurityContext :: "scheduled_backup \<Rightarrow> pod_security option" where
  "podSecurityContext sb =
     (case bs_PodSecurityContext (sb_Spec sb) of
        Some c \<Rightarrow> Some c
      | None \<Rightarrow> Some \<lparr>psc_SeccompProfile = Some ''RuntimeDefault'', psc_RunAsUser = None,
                     psc_FSGroup = None\<rparr>)"

definition containerSecurityContext :: "scheduled_backup \<Rightarrow> container_security option" where
  "containerSecurityContext sb =
     (case bs_ContainerSecurityContext (sb_Spec sb) of
        Some c \<Rightarrow> Some c
      | None \<Rightarrow> Some \<lparr>csc_AllowPrivilegeEscalation = Some False, csc_DropCapabilities = [''ALL''],
                     csc_ReadOnlyRootFilesystem = None\<rparr>)"

definition Reporter :: "scheduled_backup \<Rightarrow> backup_config \<Rightarrow> reporter" where
  "Reporter sb cfg =
     (let ov = (case bs_Healthchecks (sb_Spec sb) of
          None \<Rightarrow> no_overrides
        | Some hc \<Rightarrow>
            \<lparr>ov_Enabled = hs_Enabled hc, ov_Create = hs_Create hc, ov_APIURL = hs_APIURL hc,
             ov_Slug = hs_Slug hc, ov_PingKeyRef = hs_PingKeySecretRef hc,
             ov_UUIDRef = hs_UUIDSecretRef hc\<rparr>)
      in Resolve_reporter (bc_Healthchecks cfg) ov (sb_Namespace sb))"

definition buildCommand :: "scheduled_backup \<Rightarrow> backup_config \<Rightarrow> string \<Rightarrow> string list" where
  "buildCommand sb cfg script = Wrap (Reporter sb cfg) [''sh'', ''-c'', script]"

definition user_env :: "string gomap \<Rightarrow> env_var list" where
  "user_env m = map (\<lambda>k. env_value k (lookup_str m k)) (sort (remdups (map fst m)))"

definition buildEnv :: "scheduled_backup \<Rightarrow> backup_config \<Rightarrow> goerr + env_var list" where
  "buildEnv sb cfg =
     (let env = [env_value ''TZ'' (bs_TimeZone (sb_Spec sb)),
                 env_from ''RESTIC_HOST'' (FieldRef ''metadata.namespace'')];
          with_db =
            (case mariadb sb of
               None \<Rightarrow> Inr env
             | Some db \<Rightarrow>
                 if db_Host db = '''' \<or> db_Name db = '''' \<or> db_User db = '''' then
                   Inl (Errorf ''database.host, database.name and database.user are required for the mariadb engine'' [])
                 else Inr (env @ [env_value ''DB_HOST'' (db_Host db), env_value ''DB_DATABASE'' (db_Name db),
                                  env_value ''DB_USERNAME'' (db_User db)]))
      in case with_db of
           Inl e \<Rightarrow> Inl e
         | Inr env \<Rightarrow>
             (case Env (Reporter sb cfg) of
                Inl e \<Rightarrow> Inl e
              | Inr hcEnv \<Rightarrow> Inr (env @ hcEnv @ user_env (bs_Env (sb_Spec sb)))))"

definition claim_volume :: "string \<Rightarrow> string \<Rightarrow> bool \<Rightarrow> volume" where
  "claim_volume name claim ro =
     \<lparr>vol_Name = name, vol_PersistentVolumeClaim = Some \<lparr>cl_ClaimName = claim, cl_ReadOnly = ro\<rparr>,
      vol_Secret = None, vol_EmptyDir = False\<rparr>"

definition secret_volume :: "string \<Rightarrow> string \<Rightarrow> volume" where
  "secret_volume name secret =
     \<lparr>vol_Name = name, vol_PersistentVolumeClaim = None, vol_Secret = Some secret,
      vol_EmptyDir = False\<rparr>"

definition buildVolumes :: "scheduled_backup \<Rightarrow> volume list \<times> volume_mount list" where
  "buildVolumes sb =
     (let cache = (if cacheEnabled sb then
            [(claim_volume cacheVolume (CacheName sb) False,
              \<lparr>vm_Name = cacheVolume, vm_MountPath = cacheMountPath, vm_ReadOnly = False\<rparr>)] else []);
          db = (case bs_Database (sb_Spec sb) of
            None \<Rightarrow> []
          | Some d \<Rightarrow>
              [(secret_volume ''db-credentials'' (EffectiveSecretName d),
                \<lparr>vm_Name = ''db-credentials'', vm_MountPath = MountPath d, vm_ReadOnly = True\<rparr>)]);
          data = (case bs_Volume (sb_Spec sb) of
            None \<Rightarrow> []
          | Some v \<Rightarrow>
              [(claim_volume ''data'' (vs_ExistingClaim v) (vs_ReadOnly v),
                \<lparr>vm_Name = ''data'', vm_MountPath = EffectiveMountPath v,
                 vm_ReadOnly = vs_ReadOnly v\<rparr>)]);
          all = cache @ db @ data
      in (map fst all, map snd all))"

definition hardPodAffinity :: "string gomap \<Rightarrow> affinity option" where
  "hardPodAffinity labels =
     Some \<lparr>aff_PodAffinity = Some
       \<lparr>pa_Required = [\<lparr>at_TopologyKey = hostnameTopologyKey, at_MatchLabels = labels\<rparr>],
        pa_Preferred = []\<rparr>\<rparr>"

definition buildAffinity :: "scheduled_backup \<Rightarrow> affinity option" where
  "buildAffinity sb =
     (case bs_Affinity (sb_Spec sb) of
        Some a \<Rightarrow> Some a
      | None \<Rightarrow>
        (case bs_Volume (sb_Spec sb) of
           Some v \<Rightarrow> hardPodAffinity [(labelName, sb_Namespace sb), (labelController, ''app'')]
         | None \<Rightarrow>
           (case bs_Database (sb_Spec sb) of
              None \<Rightarrow> None
            | Some db \<Rightarrow>
                if db_Engine db = DatabaseEngineMariaDB then
                  hardPodAffinity [(labelName, mariadbName), (labelController, mariadbName)]
                else if db_Engine db = DatabaseEngineCNPG then
                  Some \<lparr>aff_PodAffinity = Some
                    \<lparr>pa_Required = [],
                     pa_Preferred = [(100, \<lparr>at_TopologyKey = hostnameTopologyKey,
                       at_MatchLabels = [(''cnpg.io/cluster'', cnpgDefaultCluster),
                                         (''cnpg.io/instanceRole'', ''primary'')]\<rparr>)]\<rparr>\<rparr>
                else None)))"

section \<open>Jobs and CronJobs\<close>

definition BuildJobTemplate ::
  "scheduled_backup \<Rightarrow> repository \<Rightarrow> backup_config \<Rightarrow> goerr + job_template" where
  "BuildJobTemplate sb repo cfg =
     (case Render (sb_Spec sb) of
        Inl e \<Rightarrow> Inl e
      | Inr script \<Rightarrow>
        (let image = (if bs_Image (sb_Spec sb) = '''' then bc_Image cfg else bs_Image (sb_Spec sb))
         in if image = '''' then Inl (Errorf ''no backup image configured'' [])
            else
              (case buildEnv sb cfg of
                 Inl e \<Rightarrow> Inl e
               | Inr env \<Rightarrow>
                 (let (volumes, mounts) = buildVolumes sb;
                      container =
                        \<lparr>ct_Name = containerName, ct_Image = image,
                         ct_Command = buildCommand sb cfg script, ct_Args = [], ct_Env = env,
                         ct_EnvFromSecrets = [SecretName repo], ct_VolumeMounts = mounts,
                         ct_WorkingDir = (case bs_Volume (sb_Spec sb) of
                            None \<Rightarrow> '''' | Some v \<Rightarrow> EffectiveMountPath v),
                         ct_Resources = resources sb,
                         ct_SecurityContext = containerSecurityContext sb,
                         ct_Stdin = False, ct_TTY = False\<rparr>
                  in Inr \<lparr>jt_Labels = commonLabels sb,
                       jt_Spec =
                         \<lparr>js_TTLSecondsAfterFinished = Some ttlSecondsAfterFinished,
                          js_BackoffLimit = Some 0, js_TemplateLabels = podLabels sb,
                          js_PodSpec =
                            \<lparr>ps_RestartPolicy = ''Never'', ps_Containers = [container],
                             ps_Volumes = volumes, ps_Affinity = buildAffinity sb,
                             ps_AutomountServiceAccountToken = Some False,
                             ps_SecurityContext = podSecurityContext sb\<rparr>\<rparr>\<rparr>))))"

definition BuildManualJob ::
  "scheduled_backup \<Rightarrow> repository \<Rightarrow> backup_config \<Rightarrow> time \<Rightarrow> goerr + job" where
  "BuildManualJob sb repo cfg t =
     (case BuildJobTemplate sb repo cfg of
        Inl e \<Rightarrow> Inl e
      | Inr tmpl \<Rightarrow>
          Inr \<lparr>job_Meta = new_meta (sb_Namespace sb) (ManualJobName sb t)
                 (map_put LabelTrigger TriggerManual (jt_Labels tmpl)),
               job_Spec = jt_Spec tmpl, job_Status = new_job_status\<rparr>)"

definition BuildCronJob ::
  "scheduled_backup \<Rightarrow> repository \<Rightarrow> backup_config \<Rightarrow> goerr + cronjob" where
  "BuildCronJob sb repo cfg =
     (case ResolveSchedule (bs_Schedule (sb_Spec sb)) (sb_Namespace sb @ ''/'' @ sb_Name sb) of
        Inl e \<Rightarrow> Inl e
      | Inr schedule \<Rightarrow>
        (case BuildJobTemplate sb repo cfg of
           Inl e \<Rightarrow> Inl e
         | Inr jobTemplate \<Rightarrow>
             Inr \<lparr>cj_Meta = new_meta (sb_Namespace sb) (CronJobName sb) (commonLabels sb),
               cj_Spec =
                 \<lparr>cs_Schedule = schedule, cs_TimeZone = timeZone sb,
                  cs_ConcurrencyPolicy = concurrencyPolicy sb,
                  cs_Suspend = Some (bs_Suspend (sb_Spec sb)),
                  cs_SuccessfulJobsHistoryLimit = bs_SuccessfulJobsHistoryLimit (sb_Spec sb),
                  cs_FailedJobsHistoryLimit = bs_FailedJobsHistoryLimit (sb_Spec sb),
                  cs_JobTemplate = jobTemplate\<rparr>,
               cj_Status = new_cron_status\<rparr>))"

section \<open>Names of manual Jobs\<close>

lemma digit_char_inj:
  "0 \<le> m \<Longrightarrow> m < 36 \<Longrightarrow> 0 \<le> n \<Longrightarrow> n < 36 \<Longrightarrow> digit_char m = digit_char n \<Longrightarrow> m = n"
proof -
  have "of_char (digit_char d) = (if d < 10 then 48 + d else 87 + d)" if "0 \<le> d" "d < 36" for d :: int
    using that by (simp add: digit_char_def)
  moreover assume "0 \<le> m" "m < 36" "0 \<le> n" "n < 36" "digit_char m = digit_char n"
  ultimately have "(if m < 10 then 48 + m else 87 + m) = (if n < 10 then 48 + n else 87 + n)" by metis
  with \<open>0 \<le> m\<close> \<open>0 \<le> n\<close> show "m = n" by (simp split: if_splits)
qed

lemma digit_char_not_dash: "0 \<le> d \<Longrightarrow> d < 36 \<Longrightarrow> digit_char d \<noteq> CHR ''-''"
proof
  assume d: "0 \<le> d" "d < 36" "digit_char d = CHR ''-''"
  then have "of_char (digit_char d) = (45 :: int)" by simp
  with d(1,2) show False by (simp add: digit_char_def split: if_splits)
qed

lemma show_base_step:
  "2 \<le> b \<Longrightarrow> b \<le> n \<Longrightarrow> show_base b n = show_base b (n div b) @ [digit_char (n mod b)]"
  by (subst show_base.simps) simp

lemma show_base_last: "n < b \<Longrightarrow> show_base b n = [digit_char n]"
  by (subst show_base.simps) simp

lemma show_36_inj: "0 \<le> m \<Longrightarrow> 0 \<le> n \<Longrightarrow> show_base 36 m = show_base 36 n \<Longrightarrow> m = n"
proof (induction "36 :: int" m arbitrary: n rule: show_base.induct)
  case (1 m)
  show ?case
  proof (cases "m < 36")
    case True
    then have "n < 36"
      using 1 by (cases "n < 36") (auto simp: show_base_last show_base_step dest: sym)
    with True 1 show ?thesis by (simp add: show_base_last digit_char_inj)
  next
    case False
    then have big: "36 \<le> n"
      using 1 by (cases "n < 36") (auto simp: show_base_last show_base_step)
    with False 1 have "show_base 36 (m div 36) = show_base 36 (n div 36)"
      "digit_char (m mod 36) = digit_char (n mod 36)"
      by (simp_all add: show_base_step)
    with False big 1 have "m div 36 = n div 36" "m mod 36 = n mod 36"
      by (auto intro: digit_char_inj simp: pos_imp_zdiv_nonneg_iff)
    then show ?thesis by (metis div_mult_mod_eq)
  qed
qed

lemma show_36_no_dash: "0 \<le> n \<Longrightarrow> CHR ''-'' \<notin> set (show_base 36 n)"
proof (induction "36 :: int" n rule: show_base.induct)
  case (1 n)
  have digits: "digit_char (n mod 36) \<noteq> CHR ''-''" "n < 36 \<Longrightarrow> digit_char n \<noteq> CHR ''-''"
    using 1(2) digit_char_not_dash[of "n mod 36"] digit_char_not_dash[of n] by auto
  show ?case
  proof (cases "n < 36")
    case True
    with digits(2) show ?thesis by (auto simp: show_base_last)
  next
    case False
    with 1 have "CHR ''-'' \<notin> set (show_base 36 (n div 36))" by (simp add: pos_imp_zdiv_nonneg_iff)
    with False digits(1) show ?thesis by (auto simp: show_base_step)
  qed
qed

lemma show_36_length: "0 \<le> n \<Longrightarrow> n < 36 ^ k \<Longrightarrow> length (show_base 36 n) \<le> max 1 k"
proof (induction k arbitrary: n)
  case (Suc k)
  show ?case
  proof (cases "n < 36")
    case False
    with Suc have "length (show_base 36 (n div 36)) \<le> max 1 k" by (simp add: pos_imp_zdiv_nonneg_iff)
    moreover have "k \<noteq> 0" using False Suc.prems by (intro notI) simp
    ultimately show ?thesis using False by (simp add: show_base_step)
  qed (simp add: show_base_last)
qed (simp add: show_base_last)

text \<open>What follows the last dash of a name.\<close>

definition after_dash :: "string \<Rightarrow> string" where
  "after_dash s = rev (takeWhile (\<lambda>c. c \<noteq> CHR ''-'') (rev s))"

lemma takeWhile_stop: "(\<forall>x\<in>set xs. P x) \<Longrightarrow> \<not> P y \<Longrightarrow> takeWhile P (xs @ y # ys) = xs"
  by (induction xs) auto

lemma after_dash_append: "CHR ''-'' \<notin> set b \<Longrightarrow> after_dash (a @ CHR ''-'' # b) = b"
proof -
  assume "CHR ''-'' \<notin> set b"
  then have "takeWhile (\<lambda>c. c \<noteq> CHR ''-'') (rev b @ CHR ''-'' # rev a) = rev b"
    by (intro takeWhile_stop) auto
  then show ?thesis by (simp add: after_dash_def)
qed

lemma ManualJobName_form: "\<exists>a. ManualJobName sb t = a @ CHR ''-'' # FormatInt (Unix t) 36"
proof -
  have "manual_suffix t = ''-manual'' @ CHR ''-'' # FormatInt (Unix t) 36" by (simp add: manual_suffix_def)
  then have "\<exists>name. ManualJobName sb t = name @ ''-manual'' @ CHR ''-'' # FormatInt (Unix t) 36"
    by (auto simp: ManualJobName_def Let_def)
  then show ?thesis by (metis append.assoc)
qed

text \<open>
  C39. The name of a manual Job fits the 52 characters the operator allows for it,
  whatever the name of the backup, and two triggers of one backup at different seconds
  have different names: a trigger cannot mistake the Job of another for its own.
  (\<open>36 ^ 13\<close> exceeds every Unix time of a 64-bit clock.)
\<close>

theorem manual_job_names:
  assumes "0 \<le> Unix t" "Unix t < 36 ^ 13" "0 \<le> Unix u" "Unix t \<noteq> Unix u"
  shows "length (ManualJobName sb t) \<le> 52 \<and> ManualJobName sb t \<noteq> ManualJobName sb u"
proof
  have "length (FormatInt (Unix t) 36) \<le> 13"
    using show_36_length[of "Unix t" 13] assms(1,2) by (simp add: FormatInt_def)
  then show "length (ManualJobName sb t) \<le> 52"
    by (auto simp: ManualJobName_def manual_suffix_def maxManualJobName_def Let_def)
  have "after_dash (ManualJobName sb v) = show_base 36 (Unix v)" if "0 \<le> Unix v" for v
  proof -
    have "FormatInt (Unix v) 36 = show_base 36 (Unix v)" using that by (simp add: FormatInt_def)
    then obtain a where "ManualJobName sb v = a @ CHR ''-'' # show_base 36 (Unix v)"
      using ManualJobName_form[of sb v] by metis
    then show ?thesis using after_dash_append[OF show_36_no_dash[OF that]] by simp
  qed
  with assms show "ManualJobName sb t \<noteq> ManualJobName sb u"
    using show_36_inj[of "Unix t" "Unix u"] by metis
qed

definition sample_backup :: scheduled_backup where
  "sample_backup =
     \<lparr>sb_Meta = (new_meta ''app'' ''nightly'' [])\<lparr>om_UID := ''u1''\<rparr>,
      sb_Spec = \<lparr>bs_RepositoryRef = ''backups'', bs_Schedule = ''0 3 * * *'', bs_TimeZone = '''',
        bs_Suspend = False, bs_ConcurrencyPolicy = ''Forbid'', bs_Image = ''restic'',
        bs_Sources = [], bs_Script = ''true'', bs_Retention = None, bs_RetryLock = None, bs_Env = [],
        bs_Database = None, bs_Volume = None, bs_Cache = None, bs_Healthchecks = None,
        bs_Affinity = None, bs_PodSecurityContext = None, bs_ContainerSecurityContext = None,
        bs_PodLabels = [], bs_Resources = None, bs_SuccessfulJobsHistoryLimit = None,
        bs_FailedJobsHistoryLimit = None\<rparr>,
      sb_Status = \<lparr>bt_Conditions = [], bt_ObservedGeneration = 0, bt_EffectiveSchedule = '''',
        bt_LastScheduleTime = None, bt_LastSuccessfulTime = None, bt_Active = 0,
        bt_LastTriggerTime = None, bt_LastTriggerJob = '''', bt_History = []\<rparr>\<rparr>"

definition sample_config :: backup_config where
  "sample_config = \<lparr>bc_Image = ''restic'', bc_Healthchecks = \<lparr>hcc_Enabled = False, hcc_APIURL = '''',
     hcc_AutoCreate = False\<rparr>, bc_CacheStorageClass = ''''\<rparr>"

theorem manual_job_names_witness:
  "length (ManualJobName sample_backup (40 * Second)) \<le> 52 \<and>
   ManualJobName sample_backup (40 * Second) \<noteq> ManualJobName sample_backup (41 * Second)"
  by (rule manual_job_names) (simp_all add: Unix_def)

section \<open>Pods\<close>

text \<open>What every pod of a backup is: one container running an image with the credentials
  of its Repository, no service account token, volumes and mounts that belong together,
  secrets mounted read-only, and no retry by the Job itself.\<close>

definition secrets_read_only :: "volume list \<Rightarrow> volume_mount list \<Rightarrow> bool" where
  "secrets_read_only volumes mounts \<longleftrightarrow>
     list_all (\<lambda>m. list_all (\<lambda>v. if vol_Name v = vm_Name m \<and> vol_Secret v \<noteq> None
       then vm_ReadOnly m else True) volumes) mounts"

text \<open>The claims and Secrets a pod mounts, and the Secret keys its variables are read from.\<close>

definition claims_of :: "volume list \<Rightarrow> string list" where
  "claims_of vs = List.map_filter (\<lambda>v. map_option cl_ClaimName (vol_PersistentVolumeClaim v)) vs"

definition secrets_of :: "volume list \<Rightarrow> string list" where
  "secrets_of vs = List.map_filter vol_Secret vs"

definition keys_of :: "env_var list \<Rightarrow> selector list" where
  "keys_of env = List.map_filter (\<lambda>v. case ev_ValueFrom v of Some (SecretKeyRef k) \<Rightarrow> Some k | _ \<Rightarrow> None) env"

lemma of_append [simp]:
  "claims_of (xs @ ys) = claims_of xs @ claims_of ys"
  "secrets_of (xs @ ys) = secrets_of xs @ secrets_of ys"
  "keys_of (as @ bs) = keys_of as @ keys_of bs"
  by (simp_all add: claims_of_def secrets_of_def keys_of_def List.map_filter_def)

text \<open>The key a report to Healthchecks needs: the UUID of the check, or else the ping key.\<close>

definition reporter_keys :: "reporter \<Rightarrow> selector list" where
  "reporter_keys rep =
     (if \<not> rep_enabled rep then []
      else case rep_uuidRef rep of
          Some uuid \<Rightarrow> [uuid]
        | None \<Rightarrow> (case rep_pingKeyRef rep of Some key \<Rightarrow> [key] | None \<Rightarrow> []))"

lemma Env_keys: "Env rep = Inr env \<Longrightarrow> keys_of env = reporter_keys rep"
  by (auto simp: Env_def reporter_keys_def keys_of_def List.map_filter_def env_value_def env_from_def Let_def
      split: if_splits option.splits)

lemma user_env_keys [simp]: "keys_of (user_env m) = []"
  by (simp add: keys_of_def user_env_def List.map_filter_def env_value_def filter_empty_conv)

lemma buildEnv_keys:
  assumes "buildEnv sb cfg = Inr env"
  shows "keys_of env = reporter_keys (Reporter sb cfg)"
proof -
  from assms obtain pre hc where "env = pre @ hc @ user_env (bs_Env (sb_Spec sb))" "keys_of pre = []"
      "Env (Reporter sb cfg) = Inr hc"
    by (auto simp: buildEnv_def Let_def keys_of_def List.map_filter_def env_value_def env_from_def
        split: sum.splits option.splits if_splits)
  then show ?thesis using Env_keys by simp
qed

text \<open>
  \<open>well_built\<close>: what a Job of a backup is made of. Apart from the flags of the Job and the
  pod, it fixes what the pod can reach: the claims it mounts, and every Secret it reads,
  whole as environment, key by key as variables, or as a volume.
\<close>

definition well_built :: "scheduled_backup \<Rightarrow> repository \<Rightarrow> backup_config \<Rightarrow> job_spec \<Rightarrow> bool" where
  "well_built sb repo cfg js \<longleftrightarrow>
     (let pod = js_PodSpec js; volumes = ps_Volumes pod
      in js_BackoffLimit js = Some 0 \<and> js_TTLSecondsAfterFinished js = Some 3600 \<and>
         ps_RestartPolicy pod = ''Never'' \<and> ps_AutomountServiceAccountToken pod = Some False \<and>
         distinct (map vol_Name volumes) \<and> length (ps_Containers pod) = 1 \<and>
         claims_of volumes = (if cacheEnabled sb then [CacheName sb] else []) @
           (case bs_Volume (sb_Spec sb) of None \<Rightarrow> [] | Some v \<Rightarrow> [vs_ExistingClaim v]) \<and>
         secrets_of volumes =
           (case bs_Database (sb_Spec sb) of None \<Rightarrow> [] | Some d \<Rightarrow> [EffectiveSecretName d]) \<and>
         list_all (\<lambda>c. ct_Image c \<noteq> '''' \<and> ct_EnvFromSecrets c = [SecretName repo] \<and>
             keys_of (ct_Env c) = reporter_keys (Reporter sb cfg) \<and>
             map vm_Name (ct_VolumeMounts c) = map vol_Name volumes \<and>
             secrets_read_only volumes (ct_VolumeMounts c))
           (ps_Containers pod))"

lemma buildVolumes_distinct: "distinct (map vol_Name (fst (buildVolumes sb)))"
  by (auto simp: buildVolumes_def Let_def claim_volume_def secret_volume_def cacheVolume_def
      split: option.splits)

lemma buildVolumes_mounted:
  "map vm_Name (snd (buildVolumes sb)) = map vol_Name (fst (buildVolumes sb))"
  by (auto simp: buildVolumes_def Let_def claim_volume_def secret_volume_def cacheVolume_def
      split: option.splits)

lemma buildVolumes_secrets:
  "secrets_read_only (fst (buildVolumes sb)) (snd (buildVolumes sb))"
  by (auto simp: secrets_read_only_def buildVolumes_def Let_def claim_volume_def secret_volume_def
      cacheVolume_def split: option.splits)

lemma buildVolumes_sources:
  "claims_of (fst (buildVolumes sb)) = (if cacheEnabled sb then [CacheName sb] else []) @
     (case bs_Volume (sb_Spec sb) of None \<Rightarrow> [] | Some v \<Rightarrow> [vs_ExistingClaim v])"
  "secrets_of (fst (buildVolumes sb)) =
     (case bs_Database (sb_Spec sb) of None \<Rightarrow> [] | Some d \<Rightarrow> [EffectiveSecretName d])"
  by (auto simp: claims_of_def secrets_of_def List.map_filter_def buildVolumes_def Let_def claim_volume_def
      secret_volume_def split: option.splits)

text \<open>
  C38. Whatever the spec asks for, every Job of a backup is well built: no service account
  token, no automatic retry, an image, volumes with distinct names, each mounted exactly
  once. It mounts the backup's cache claim and the claim of its volume, as far as it has
  them, and besides these only the database credentials, read-only. The Secrets its
  variables come from are the Repository's, taken whole, and, if it reports to
  Healthchecks, the one key of the check's UUID or else the ping key; what the user puts
  in \<open>spec.env\<close> adds plain values only.
\<close>

theorem backup_jobs_are_well_built:
  assumes "BuildJobTemplate sb repo cfg = Inr tmpl"
  shows "well_built sb repo cfg (jt_Spec tmpl)"
  using assms buildVolumes_distinct[of sb] buildVolumes_mounted[of sb] buildVolumes_secrets[of sb]
    buildVolumes_sources[of sb]
  by (auto simp: BuildJobTemplate_def well_built_def Let_def ttlSecondsAfterFinished_def buildEnv_keys
      split: sum.splits if_splits prod.splits)

lemma sample_backup_builds: "\<exists>t. BuildJobTemplate sample_backup repo sample_config = Inr t"
  by (auto simp: BuildJobTemplate_def sample_backup_def sample_config_def Render_def buildEnv_def
      mariadb_def Reporter_def Resolve_reporter_def no_overrides_def Env_def Let_def
      split: prod.splits)

theorem backup_jobs_are_well_built_witness:
  "\<forall>repo. \<exists>t. BuildJobTemplate sample_backup repo sample_config = Inr t \<and>
     well_built sample_backup repo sample_config (jt_Spec t)"
  using sample_backup_builds backup_jobs_are_well_built by blast

text \<open>
  A backup started by hand is the scheduled backup: the Job of a trigger runs exactly
  the Job spec of the CronJob's template, in the same namespace and under the labels of
  that template plus the one that marks it as manual.
\<close>

lemma manual_backup_is_scheduled_backup:
  assumes "BuildCronJob sb repo cfg = Inr cj" "BuildManualJob sb repo cfg t = Inr j"
  shows "job_Spec j = jt_Spec (cs_JobTemplate (cj_Spec cj)) \<and>
    om_Namespace (job_Meta j) = om_Namespace (cj_Meta cj) \<and>
    map_of (om_Labels (job_Meta j)) =
      (map_of (jt_Labels (cs_JobTemplate (cj_Spec cj))))(LabelTrigger \<mapsto> TriggerManual)"
  using assms by (auto simp: BuildCronJob_def BuildManualJob_def split: sum.splits)

lemma manual_backup_is_scheduled_backup_witness:
  "\<forall>repo. \<exists>cj j. BuildCronJob sample_backup repo sample_config = Inr cj \<and>
     BuildManualJob sample_backup repo sample_config 0 = Inr j \<and>
     job_Spec j = jt_Spec (cs_JobTemplate (cj_Spec cj))"
proof
  fix repo
  obtain t where t: "BuildJobTemplate sample_backup repo sample_config = Inr t"
    using sample_backup_builds by blast
  have "ResolveSchedule ''0 3 * * *'' ''app/nightly'' = Inr ''0 3 * * *''" by code_simp
  then have "\<exists>cj. BuildCronJob sample_backup repo sample_config = Inr cj"
    using t by (simp add: BuildCronJob_def) (simp add: sample_backup_def)
  moreover have "\<exists>j. BuildManualJob sample_backup repo sample_config 0 = Inr j"
    using t by (simp add: BuildManualJob_def)
  ultimately show "\<exists>cj j. BuildCronJob sample_backup repo sample_config = Inr cj \<and>
     BuildManualJob sample_backup repo sample_config 0 = Inr j \<and>
     job_Spec j = jt_Spec (cs_JobTemplate (cj_Spec cj))"
    using manual_backup_is_scheduled_backup by blast
qed

lemma user_env_extensional:
  assumes "map_of m = map_of m'"
  shows "user_env m = user_env m'"
proof -
  have "set (map fst m) = set (map fst m')"
    using assms by (metis dom_map_of_conv_image_fst list.set_map)
  then have "sort (remdups (map fst m)) = sort (remdups (map fst m'))"
    by (metis sorted_list_of_set_sort_remdups)
  with assms show ?thesis by (simp add: user_env_def lookup_str_def)
qed

text \<open>The builders that do not look at \<open>env\<close>, and the one that does.\<close>

lemma with_env:
  defines "sb' sb m \<equiv> sb\<lparr>sb_Spec := (sb_Spec sb)\<lparr>bs_Env := m\<rparr>\<rparr>"
  shows "Render (sb_Spec (sb' sb m)) = Render (sb_Spec sb)"
    "bs_Image (sb_Spec (sb' sb m)) = bs_Image (sb_Spec sb)"
    "bs_Volume (sb_Spec (sb' sb m)) = bs_Volume (sb_Spec sb)"
    "buildVolumes (sb' sb m) = buildVolumes sb"
    "buildCommand (sb' sb m) cfg = buildCommand sb cfg"
    "resources (sb' sb m) = resources sb"
    "containerSecurityContext (sb' sb m) = containerSecurityContext sb"
    "podSecurityContext (sb' sb m) = podSecurityContext sb"
    "commonLabels (sb' sb m) = commonLabels sb"
    "podLabels (sb' sb m) = podLabels sb"
    "buildAffinity (sb' sb m) = buildAffinity sb"
  by (simp_all add: sb'_def Render_def retryLockFlag_def buildVolumes_def cacheEnabled_def
      CacheName_def commonLabels_def podLabels_def mariadb_def buildCommand_def Reporter_def
      resources_def containerSecurityContext_def buildAffinity_def podSecurityContext_def fun_eq_iff
      split: sum.split option.split)

lemma buildEnv_extensional:
  "map_of (bs_Env (sb_Spec sb)) = map_of m \<Longrightarrow>
   buildEnv (sb\<lparr>sb_Spec := (sb_Spec sb)\<lparr>bs_Env := m\<rparr>\<rparr>) cfg = buildEnv sb cfg"
  using user_env_extensional[of "bs_Env (sb_Spec sb)" m]
  by (simp add: buildEnv_def mariadb_def Reporter_def Let_def split: sum.split option.split)

text \<open>
  The pod of a backup does not depend on the order in which Go enumerates a map: two
  specs whose \<open>env\<close> holds the same entries give the same template, so a reconcile does
  not rewrite the CronJob for nothing.
\<close>

lemma template_ignores_map_order:
  assumes "map_of (bs_Env (sb_Spec sb)) = map_of m"
  shows "BuildJobTemplate (sb\<lparr>sb_Spec := (sb_Spec sb)\<lparr>bs_Env := m\<rparr>\<rparr>) repo cfg = BuildJobTemplate sb repo cfg"
  unfolding BuildJobTemplate_def with_env buildEnv_extensional[OF assms] ..

lemma template_ignores_map_order_witness:
  "\<forall>repo. BuildJobTemplate (sample_backup\<lparr>sb_Spec := (sb_Spec (sample_backup\<lparr>sb_Spec :=
      (sb_Spec sample_backup)\<lparr>bs_Env := [(''B'', ''2''), (''A'', ''1'')]\<rparr>\<rparr>))\<lparr>bs_Env := [(''A'', ''1''), (''B'', ''2'')]\<rparr>\<rparr>) repo sample_config =
    BuildJobTemplate (sample_backup\<lparr>sb_Spec := (sb_Spec sample_backup)\<lparr>bs_Env := [(''B'', ''2''), (''A'', ''1'')]\<rparr>\<rparr>) repo sample_config"
proof
  fix repo
  let ?sb = "sample_backup\<lparr>sb_Spec := (sb_Spec sample_backup)\<lparr>bs_Env := [(''B'', ''2''), (''A'', ''1'')]\<rparr>\<rparr>"
  have "map_of (bs_Env (sb_Spec ?sb)) = map_of [(''A'', ''1''), (''B'', ''2'')]"
    by (auto simp: fun_eq_iff)
  from template_ignores_map_order[OF this, of repo sample_config]
  show "BuildJobTemplate (sample_backup\<lparr>sb_Spec := (sb_Spec ?sb)\<lparr>bs_Env := [(''A'', ''1''), (''B'', ''2'')]\<rparr>\<rparr>) repo sample_config =
    BuildJobTemplate ?sb repo sample_config" by simp
qed

end
