(* ===== verification/History.thy ===== *)
theory History
  imports CronJob
begin

text \<open>
  The run history of a ScheduledBackup (\<open>internal/controller/trigger.go\<close>): what a Job
  says about a run, and how the recorded history and the Jobs in the cluster are merged.
\<close>

definition historyLimit :: nat where "historyLimit = 10"

record observed_run =
  obs_Run :: backup_run
  obs_Active :: bool

fun activeRun :: "observed_run list \<Rightarrow> string" where
  "activeRun [] = ''''"
| "activeRun (x # xs) = (if obs_Active x then run_JobName (obs_Run x) else activeRun xs)"

definition withResult :: "backup_run \<Rightarrow> run_result \<Rightarrow> backup_run" where
  "withResult run result = run\<lparr>run_Result := result\<rparr>"

text \<open>A new \<open>BackupRun\<close> has an empty result until \<open>runFromJob\<close> sets one; all three
  branches of its last switch do.\<close>

definition runFromJob :: "job \<Rightarrow> observed_run" where
  "runFromJob j =
     (let trigger = (if lookup_str (om_Labels (job_Meta j)) LabelTrigger = TriggerManual
                     then BackupTriggerManual else BackupTriggerScheduled);
          start = (case jst_StartTime (job_Status j) of
             None \<Rightarrow> Some (om_CreationTimestamp (job_Meta j)) | Some t \<Rightarrow> Some t);
          run = \<lparr>run_JobName = om_Name (job_Meta j), run_Trigger = trigger,
                 run_Result = BackupRunRunning, run_StartTime = start,
                 run_CompletionTime = jst_CompletionTime (job_Status j)\<rparr>
      in if 0 < jst_Succeeded (job_Status j) then
           \<lparr>obs_Run = run\<lparr>run_Result := BackupRunSucceeded\<rparr>, obs_Active = False\<rparr>
         else if 0 < jst_Failed (job_Status j) then
           \<lparr>obs_Run = run\<lparr>run_Result := BackupRunFailed\<rparr>, obs_Active = False\<rparr>
         else \<lparr>obs_Run = withResult run BackupRunRunning, obs_Active = True\<rparr>)"

definition compareRunTimes :: "time option \<Rightarrow> time option \<Rightarrow> int" where
  "compareRunTimes a b =
     (case (a, b) of
        (None, None) \<Rightarrow> 0
      | (None, Some _) \<Rightarrow> - 1
      | (Some _, None) \<Rightarrow> 1
      | (Some x, Some y) \<Rightarrow> if x < y then - 1 else if y < x then 1 else 0)"

definition mostComplete :: "backup_run \<Rightarrow> backup_run \<Rightarrow> backup_run" where
  "mostComplete recorded live =
     (let live = (if run_StartTime live = None
            then live\<lparr>run_StartTime := run_StartTime recorded\<rparr> else live)
      in if run_CompletionTime live = None
         then live\<lparr>run_CompletionTime := run_CompletionTime recorded\<rparr> else live)"

text \<open>\<open>seen\<close> maps a Job name to its index in \<open>merged\<close>.\<close>

type_synonym merging = "backup_run list \<times> (string \<Rightarrow> nat option)"

definition merge_observed :: "observed_run \<Rightarrow> merging \<Rightarrow> merging" where
  "merge_observed x ms =
     (let (merged, seen) = ms
      in (merged @ [obs_Run x], seen(run_JobName (obs_Run x) \<mapsto> length merged)))"

definition merge_recorded :: "backup_run \<Rightarrow> merging \<Rightarrow> merging" where
  "merge_recorded run ms =
     (let (merged, seen) = ms
      in case seen (run_JobName run) of
           Some i \<Rightarrow> (merged[i := mostComplete run (merged ! i)], seen)
         | None \<Rightarrow> (merged @ [run], seen(run_JobName run \<mapsto> length merged)))"

definition merge_runs :: "backup_run list \<Rightarrow> observed_run list \<Rightarrow> backup_run list" where
  "merge_runs existing observed =
     fst (fold merge_recorded existing (fold merge_observed observed ([], \<lambda>_. None)))"

definition mergeHistory :: "backup_run list \<Rightarrow> observed_run list \<Rightarrow> backup_run list" where
  "mergeHistory existing observed =
     (let merged = SortStableFunc (\<lambda>a b. compareRunTimes (run_StartTime b) (run_StartTime a))
            (merge_runs existing observed)
      in if historyLimit < length merged then take historyLimit merged else merged)"

section \<open>Sorting\<close>

text \<open>Newest first: the comparison both sorts of the file use, whatever holds the time.\<close>

interpretation newest_first: comparison "\<lambda>a b. compareRunTimes (f b) (f a)" for f
  by unfold_locales (auto simp: compareRunTimes_def split: option.splits if_splits)

section \<open>Merging\<close>

definition merging_ok :: "merging \<Rightarrow> bool" where
  "merging_ok ms \<longleftrightarrow>
     (let (merged, seen) = ms
      in distinct (map run_JobName merged) \<and>
         (\<forall>n i. seen n = Some i \<longleftrightarrow> i < length merged \<and> run_JobName (merged ! i) = n))"

lemma merging_fresh:
  assumes "merging_ok (merged, seen)" "run_JobName r \<notin> run_JobName ` set merged"
  shows "merging_ok (merged @ [r], seen(run_JobName r \<mapsto> length merged))"
proof -
  have old: "\<forall>n i. seen n = Some i \<longleftrightarrow> i < length merged \<and> run_JobName (merged ! i) = n"
    and dist: "distinct (map run_JobName merged)"
    using assms(1) by (simp_all add: merging_ok_def)
  have "run_JobName (merged ! i) \<noteq> run_JobName r" if "i < length merged" for i
    using assms(2) that by (metis image_eqI nth_mem)
  with old have "\<forall>n i. (seen(run_JobName r \<mapsto> length merged)) n = Some i \<longleftrightarrow>
      i < length (merged @ [r]) \<and> run_JobName ((merged @ [r]) ! i) = n"
    by (auto simp: nth_append less_Suc_eq)
  with dist assms(2) show ?thesis by (simp add: merging_ok_def)
qed

lemma merging_unseen:
  assumes "merging_ok (merged, seen)"
  shows "seen n = None \<longleftrightarrow> n \<notin> run_JobName ` set merged"
proof -
  have seen: "seen n = Some i \<longleftrightarrow> i < length merged \<and> run_JobName (merged ! i) = n" for i
    using assms by (simp add: merging_ok_def)
  have "n \<in> run_JobName ` set merged \<longleftrightarrow> (\<exists>i. seen n = Some i)"
    unfolding seen by (auto simp: in_set_conv_nth image_iff) (metis nth_mem)
  then show ?thesis by auto
qed

lemma mostComplete_name [simp]: "run_JobName (mostComplete r l) = run_JobName l"
  by (simp add: mostComplete_def Let_def)

lemma mostComplete_result [simp]: "run_Result (mostComplete r l) = run_Result l"
  by (simp add: mostComplete_def Let_def)

lemma merge_recorded_ok:
  assumes "merging_ok ms" shows "merging_ok (merge_recorded run ms)"
proof -
  obtain merged seen where ms: "ms = (merged, seen)" by fastforce
  show ?thesis
  proof (cases "seen (run_JobName run)")
    case None
    with assms ms merging_unseen have "run_JobName run \<notin> run_JobName ` set merged" by blast
    with assms ms None show ?thesis by (simp add: merge_recorded_def merging_fresh)
  next
    case (Some i)
    with assms ms have i: "i < length merged" "run_JobName (merged ! i) = run_JobName run"
      by (auto simp: merging_ok_def)
    have names: "map run_JobName (merged[i := mostComplete run (merged ! i)]) = map run_JobName merged"
      by (simp add: map_update list_update_same_conv i(1))
    then have "run_JobName (merged[i := mostComplete run (merged ! i)] ! j) = run_JobName (merged ! j)"
      if "j < length merged" for j
      using that by (metis length_list_update nth_map)
    with names assms ms i have "merging_ok (merged[i := mostComplete run (merged ! i)], seen)"
      by (auto simp: merging_ok_def)
    with ms Some show ?thesis by (simp add: merge_recorded_def)
  qed
qed

lemma merge_observed_ok:
  assumes "distinct (map (\<lambda>x. run_JobName (obs_Run x)) xs)"
    and "merging_ok (merged, seen)"
    and "(\<lambda>x. run_JobName (obs_Run x)) ` set xs \<inter> run_JobName ` set merged = {}"
  shows "merging_ok (fold merge_observed xs (merged, seen)) \<and>
    fst (fold merge_observed xs (merged, seen)) = merged @ map obs_Run xs"
  using assms
proof (induction xs arbitrary: merged seen)
  case (Cons x xs)
  define seen' where "seen' = seen(run_JobName (obs_Run x) \<mapsto> length merged)"
  have step: "merge_observed x (merged, seen) = (merged @ [obs_Run x], seen')"
    by (simp add: merge_observed_def seen'_def)
  have "merging_ok (merged @ [obs_Run x], seen')"
    unfolding seen'_def using Cons.prems by (intro merging_fresh) auto
  moreover have "(\<lambda>x. run_JobName (obs_Run x)) ` set xs \<inter> run_JobName ` set (merged @ [obs_Run x]) = {}"
    using Cons.prems by auto
  ultimately show ?case
    using Cons.IH[of "merged @ [obs_Run x]" seen'] Cons.prems(1) by (simp add: step)
qed simp

lemma fold_recorded_ok: "merging_ok ms \<Longrightarrow> merging_ok (fold merge_recorded rs ms)"
  by (induction rs arbitrary: ms) (auto simp: merge_recorded_ok)

definition distinct_jobs :: "observed_run list \<Rightarrow> bool" where
  "distinct_jobs xs \<longleftrightarrow> distinct (map (\<lambda>x. run_JobName (obs_Run x)) xs)"

lemma merge_runs_distinct:
  "distinct_jobs observed \<Longrightarrow> distinct (map run_JobName (merge_runs existing observed))"
proof -
  assume "distinct_jobs observed"
  then have "merging_ok (fold merge_observed observed ([], \<lambda>_. None))"
    using merge_observed_ok[of observed "[]" "\<lambda>_. None"] by (simp add: distinct_jobs_def merging_ok_def)
  from fold_recorded_ok[OF this, of existing] show ?thesis
    by (auto simp: merge_runs_def merging_ok_def Let_def split: prod.splits)
qed

text \<open>Every merged run has its result from the Job if the Job is still there, and from the
  record otherwise.\<close>

definition from_sources :: "backup_run list \<Rightarrow> observed_run list \<Rightarrow> backup_run \<Rightarrow> bool" where
  "from_sources existing observed r \<longleftrightarrow>
     (if run_JobName r \<in> (\<lambda>x. run_JobName (obs_Run x)) ` set observed
      then \<exists>x\<in>set observed. run_JobName (obs_Run x) = run_JobName r \<and> run_Result (obs_Run x) = run_Result r
      else \<exists>e\<in>set existing. run_JobName e = run_JobName r \<and> run_Result e = run_Result r)"

definition covers :: "observed_run list \<Rightarrow> merging \<Rightarrow> bool" where
  "covers observed ms \<longleftrightarrow>
     (\<lambda>x. run_JobName (obs_Run x)) ` set observed \<subseteq> run_JobName ` set (fst ms)"

definition sourced :: "backup_run list \<Rightarrow> observed_run list \<Rightarrow> merging \<Rightarrow> bool" where
  "sourced existing observed ms \<longleftrightarrow>
     merging_ok ms \<and> covers observed ms \<and> (\<forall>r\<in>set (fst ms). from_sources existing observed r)"

lemma from_sources_cong:
  "run_JobName r = run_JobName r' \<Longrightarrow> run_Result r = run_Result r' \<Longrightarrow>
   from_sources existing observed r = from_sources existing observed r'"
  by (simp add: from_sources_def)

lemma merge_recorded_sourced:
  assumes "sourced existing observed ms" "run \<in> set existing"
  shows "sourced existing observed (merge_recorded run ms)"
proof -
  obtain merged seen where ms: "ms = (merged, seen)" by fastforce
  have ok: "merging_ok (merge_recorded run ms)" using assms(1) by (simp add: sourced_def merge_recorded_ok)
  show ?thesis
  proof (cases "seen (run_JobName run)")
    case None
    have "run_JobName run \<notin> run_JobName ` set merged"
      using assms(1) None merging_unseen by (auto simp: sourced_def ms)
    then have "from_sources existing observed run"
      using assms by (auto simp: from_sources_def sourced_def covers_def ms)
    with ok None assms show ?thesis
      by (auto simp: sourced_def merge_recorded_def ms covers_def)
  next
    case (Some i)
    let ?new = "merged[i := mostComplete run (merged ! i)]"
    have i: "i < length merged" using assms(1) Some by (simp add: sourced_def ms merging_ok_def)
    have names: "run_JobName ` set ?new = run_JobName ` set merged"
      using i by (metis (no_types) list.set_map list_update_id map_update mostComplete_name)
    have "from_sources existing observed r" if "r \<in> set ?new" for r
    proof (cases "r \<in> set merged")
      case False
      with that i have "r = mostComplete run (merged ! i)" using set_update_subset_insert by fast
      moreover have "from_sources existing observed (merged ! i)"
        using assms(1) i by (auto simp: sourced_def ms)
      ultimately show ?thesis using from_sources_cong[of r "merged ! i"] by simp
    qed (use assms(1) in \<open>auto simp: sourced_def ms\<close>)
    with ok Some names assms(1) show ?thesis
      by (auto simp: sourced_def merge_recorded_def ms covers_def)
  qed
qed

lemma merge_runs_sourced:
  assumes "distinct_jobs observed" "r \<in> set (merge_runs existing observed)"
  shows "from_sources existing observed r"
proof -
  let ?start = "fold merge_observed observed ([], \<lambda>_. None)"
  have "merging_ok ?start \<and> fst ?start = map obs_Run observed"
    using assms(1) merge_observed_ok[of observed "[]" "\<lambda>_. None"]
    by (simp add: distinct_jobs_def merging_ok_def)
  then have start: "sourced existing observed ?start"
    by (auto simp: sourced_def covers_def from_sources_def)
  have "sourced existing observed (fold merge_recorded es ?start)" if "set es \<subseteq> set existing" for es
    using that
    by (induction es rule: rev_induct) (auto intro: merge_recorded_sourced start)
  then have "sourced existing observed (fold merge_recorded existing ?start)" by blast
  with assms(2) show ?thesis by (simp add: sourced_def merge_runs_def)
qed

lemma mergeHistory_take:
  "mergeHistory existing observed = take historyLimit
     (SortStableFunc (\<lambda>a b. compareRunTimes (run_StartTime b) (run_StartTime a)) (merge_runs existing observed))"
  by (simp add: mergeHistory_def Let_def)

text \<open>
  The history is the newest ten runs. It has at most ten entries, one per Job, newest
  first; and a merged run that is not in it is missing only because ten runs that did not
  start before it are.
\<close>

lemma history_is_the_newest_ten:
  assumes "distinct_jobs observed" and "h = mergeHistory existing observed"
  shows "length h \<le> 10 \<and> distinct (map run_JobName h) \<and>
    sorted_wrt (\<lambda>a b. compareRunTimes (run_StartTime b) (run_StartTime a) \<le> 0) h \<and>
    (\<forall>r\<in>set (merge_runs existing observed). r \<in> set h \<or>
      length h = 10 \<and> (\<forall>x\<in>set h. compareRunTimes (run_StartTime r) (run_StartTime x) \<le> 0))"
proof -
  let ?cmp = "\<lambda>a b. compareRunTimes (run_StartTime b) (run_StartTime a)"
  let ?s = "SortStableFunc ?cmp (merge_runs existing observed)"
  have h: "h = take 10 ?s" by (simp add: assms(2) mergeHistory_take historyLimit_def)
  have dist: "distinct (map run_JobName ?s)"
    using merge_runs_distinct[OF assms(1)] by (simp add: distinct_map_SortStableFunc)
  have sorted: "sorted_wrt (\<lambda>a b. ?cmp a b \<le> 0) (take 10 ?s @ drop 10 ?s)"
    by (simp add: newest_first.sorted_SortStableFunc)
  have "r \<in> set h \<or> length h = 10 \<and> (\<forall>x\<in>set h. compareRunTimes (run_StartTime r) (run_StartTime x) \<le> 0)"
    if "r \<in> set (merge_runs existing observed)" for r
  proof (cases "r \<in> set (drop 10 ?s)")
    case True
    then have "10 \<le> length ?s" by (metis drop_all empty_iff empty_set linorder_linear)
    with True sorted show ?thesis unfolding h sorted_wrt_append by auto
  next
    case False
    from that have "r \<in> set (take 10 ?s @ drop 10 ?s)" by simp
    with False show ?thesis by (simp add: h del: append_take_drop_id)
  qed
  moreover have "distinct (map run_JobName h)" using dist by (simp add: h take_map[symmetric])
  moreover have "sorted_wrt (\<lambda>a b. ?cmp a b \<le> 0) h" using sorted by (simp add: h sorted_wrt_append)
  ultimately show ?thesis by (simp add: h)
qed

text \<open>
  What the cluster says wins. A run in the history whose Job is still there has the
  result that Job has now; a run whose Job is gone keeps the result on record.
\<close>

lemma live_results_win:
  assumes "distinct_jobs observed" "r \<in> set (mergeHistory existing observed)"
  shows "from_sources existing observed r"
proof (rule merge_runs_sourced[OF assms(1)])
  have "set (mergeHistory existing observed) \<subseteq> set (merge_runs existing observed)"
    unfolding mergeHistory_take using set_take_subset by fastforce
  with assms(2) show "r \<in> set (merge_runs existing observed)" by blast
qed

definition sample_run :: "string \<Rightarrow> run_result \<Rightarrow> time \<Rightarrow> backup_run" where
  "sample_run name result t = \<lparr>run_JobName = name, run_Trigger = BackupTriggerScheduled,
     run_Result = result, run_StartTime = Some t, run_CompletionTime = None\<rparr>"

definition sample_history :: "backup_run list" where
  "sample_history = mergeHistory [sample_run ''b'' BackupRunRunning 2, sample_run ''a'' BackupRunSucceeded 1]
     [\<lparr>obs_Run = sample_run ''b'' BackupRunFailed 2, obs_Active = False\<rparr>]"

lemma sample_history_value:
  "sample_history = [sample_run ''b'' BackupRunFailed 2, sample_run ''a'' BackupRunSucceeded 1]"
  by code_simp

lemma history_is_the_newest_ten_witness:
  "length sample_history \<le> 10 \<and> distinct (map run_JobName sample_history)"
  using history_is_the_newest_ten[of "[\<lparr>obs_Run = sample_run ''b'' BackupRunFailed 2, obs_Active = False\<rparr>]"
      sample_history "[sample_run ''b'' BackupRunRunning 2, sample_run ''a'' BackupRunSucceeded 1]"]
  by (simp add: distinct_jobs_def sample_history_def)

lemma live_results_win_witness:
  "from_sources [sample_run ''b'' BackupRunRunning 2, sample_run ''a'' BackupRunSucceeded 1]
     [\<lparr>obs_Run = sample_run ''b'' BackupRunFailed 2, obs_Active = False\<rparr>] (sample_run ''b'' BackupRunFailed 2)"
proof (rule live_results_win)
  show "sample_run ''b'' BackupRunFailed 2 \<in> set (mergeHistory
      [sample_run ''b'' BackupRunRunning 2, sample_run ''a'' BackupRunSucceeded 1]
      [\<lparr>obs_Run = sample_run ''b'' BackupRunFailed 2, obs_Active = False\<rparr>])"
    using sample_history_value by (simp add: sample_history_def)
qed (simp add: distinct_jobs_def)

end
