(* ===== verification/ScheduledBackupController.thy ===== *)
theory ScheduledBackupController
  imports Helpers History
begin

text \<open>
  The reconciler of ScheduledBackup objects
  (\<open>internal/controller/scheduledbackup_controller.go\<close>,
  \<open>internal/controller/trigger.go\<close>): it checks the Repository and the healthchecks slug,
  keeps the cache claim and the CronJob, records the run history and acts on the trigger
  annotation. One definition per method; the pointer \<open>sb\<close> is the object of the
  computation.
\<close>

record 'w backup_reconciler =
  br_Client :: "'w cluster"
  br_Lib :: lib
  br_Config :: backup_config

type_synonym ('w, 'a) bcomp = "('w, scheduled_backup, 'a) comp"

abbreviation upd_bstatus :: "(backup_status \<Rightarrow> backup_status) \<Rightarrow> ('w, unit) bcomp" where
  "upd_bstatus f \<equiv> upd_obj (\<lambda>b. b\<lparr>sb_Status := f (sb_Status b)\<rparr>)"

definition setCondition_backup :: "'w backup_reconciler \<Rightarrow> condition \<Rightarrow> ('w, unit) bcomp" where
  "setCondition_backup r cond =
     bind_go get_obj (\<lambda>sb.
     bind_go (tick (k_SetStatusCondition (br_Client r)
         (cond\<lparr>cond_ObservedGeneration := om_Generation (sb_Meta sb)\<rparr>)
         (bt_Conditions (sb_Status sb)))) (\<lambda>cs.
     upd_bstatus (bt_Conditions_update (\<lambda>_. cs))))"

definition patchStatus_backup :: "'w backup_reconciler \<Rightarrow> scheduled_backup \<Rightarrow> ('w, unit) bcomp" where
  "patchStatus_backup r base =
     bind_go (upd_obj (\<lambda>sb. sb\<lparr>sb_Status :=
         (sb_Status sb)\<lparr>bt_ObservedGeneration := om_Generation (sb_Meta sb)\<rparr>\<rparr>)) (\<lambda>_.
     bind_go get_obj (\<lambda>sb.
     if sb_Status sb = sb_Status base then ret ()
     else bind_go (call (PatchBackupStatus sb) (k_PatchBackupStatus (br_Client r) sb base)) put_obj))"

definition backup_ready :: "cond_status \<Rightarrow> string \<Rightarrow> message \<Rightarrow> condition" where
  "backup_ready = new_condition ScheduledBackupConditionReady"

section \<open>The slug\<close>

definition olderThan :: "scheduled_backup \<Rightarrow> scheduled_backup \<Rightarrow> bool" where
  "olderThan a b =
     (if om_CreationTimestamp (sb_Meta a) \<noteq> om_CreationTimestamp (sb_Meta b)
      then om_CreationTimestamp (sb_Meta a) < om_CreationTimestamp (sb_Meta b)
      else sb_Name a < sb_Name b)"

text \<open>The loop of \<open>slugConflict\<close> over the ScheduledBackups of the namespace.\<close>

fun find_slug_conflict ::
  "backup_config \<Rightarrow> scheduled_backup \<Rightarrow> scheduled_backup list \<Rightarrow> string" where
  "find_slug_conflict cfg sb [] = ''''"
| "find_slug_conflict cfg sb (other # items) =
     (if sb_Name other = sb_Name sb \<or> om_DeletionTimestamp (sb_Meta other) \<noteq> None
      then find_slug_conflict cfg sb items
      else
        (let theirs = Reporter other cfg
         in if \<not> rep_enabled theirs \<or> PingsByUUID theirs \<or> rep_slug theirs \<noteq> rep_slug (Reporter sb cfg)
            then find_slug_conflict cfg sb items
            else if olderThan other sb then sb_Name other
            else find_slug_conflict cfg sb items))"

definition slugConflict :: "'w backup_reconciler \<Rightarrow> ('w, string) bcomp" where
  "slugConflict r =
     bind_go get_obj (\<lambda>sb.
     let mine = Reporter sb (br_Config r)
     in if \<not> rep_enabled mine \<or> PingsByUUID mine then ret ''''
        else bind_go (attempt (ask (k_ListBackups (br_Client r) (sb_Namespace sb)))) (\<lambda>res.
          case res of
            Inl e \<Rightarrow> fail (Errorf ''listing backups in %s: %w'' [Str (sb_Namespace sb), Err e])
          | Inr items \<Rightarrow> ret (find_slug_conflict (br_Config r) sb items)))"

section \<open>The cache\<close>

definition deleteCache :: "'w backup_reconciler \<Rightarrow> ('w, unit) bcomp" where
  "deleteCache r =
     bind_go get_obj (\<lambda>sb.
     bind_go (attempt (ask (k_GetPVC (br_Client r) (NN (sb_Namespace sb) (CacheName sb))))) (\<lambda>got.
     case got of
       Inl e \<Rightarrow> if IsNotFound e then ret () else fail e
     | Inr claim \<Rightarrow>
         if (case GetControllerOf (br_Lib r) (pvc_Meta claim) of
               None \<Rightarrow> True | Some owner \<Rightarrow> or_UID owner \<noteq> om_UID (sb_Meta sb)) then ret ()
         else bind_go (attempt (call (DeletePVC claim) (k_DeletePVC (br_Client r) claim))) (\<lambda>res.
           case res of
             Inl e \<Rightarrow> if IsNotFound e then ret () else fail (Errorf ''deleting cache volume: %w'' [Err e])
           | Inr _ \<Rightarrow> ret ())))"

definition reconcileCache :: "'w backup_reconciler \<Rightarrow> ('w, unit) bcomp" where
  "reconcileCache r =
     bind_go get_obj (\<lambda>sb.
     bind_go (lift (BuildCachePVC (ParseQuantity (br_Lib r)) sb (br_Config r))) (\<lambda>desired.
     case desired of
       None \<Rightarrow> deleteCache r
     | Some claim \<Rightarrow>
         bind_go (lift (SetControllerReference (br_Lib r) (sb_Meta sb) (pvc_Meta claim))) (\<lambda>m.
         let claim = claim\<lparr>pvc_Meta := m\<rparr>
         in bind_go (attempt (ask (k_GetPVC (br_Client r) (key_of (pvc_Meta claim))))) (\<lambda>got.
            case got of
              Inr _ \<Rightarrow> ret ()
            | Inl e \<Rightarrow>
                if IsNotFound e then
                  bind_go (attempt (call (CreatePVC claim) (k_CreatePVC (br_Client r) claim))) (\<lambda>res.
                  case res of
                    Inl e \<Rightarrow> if \<not> IsAlreadyExists e then fail (Errorf ''creating cache volume: %w'' [Err e])
                              else ret ()
                  | Inr _ \<Rightarrow> ret ())
                else fail e))))"

section \<open>Runs and triggers\<close>

definition belongs :: "lib \<Rightarrow> scheduled_backup \<Rightarrow> string \<Rightarrow> job \<Rightarrow> bool" where
  "belongs l sb cronJobUID j \<longleftrightarrow>
     (case GetControllerOf l (job_Meta j) of
        None \<Rightarrow> False
      | Some owner \<Rightarrow>
          \<not> (or_UID owner \<noteq> om_UID (sb_Meta sb) \<and> (cronJobUID = '''' \<or> or_UID owner \<noteq> cronJobUID)))"

definition observedRuns :: "'w backup_reconciler \<Rightarrow> string \<Rightarrow> ('w, observed_run list) bcomp" where
  "observedRuns r cronJobUID =
     bind_go get_obj (\<lambda>sb.
     bind_go (ask (k_ListJobs (br_Client r) (sb_Namespace sb))) (\<lambda>jobs.
     ret (SortStableFunc (\<lambda>a b. compareRunTimes (run_StartTime (obs_Run b)) (run_StartTime (obs_Run a)))
       (map runFromJob (filter (belongs (br_Lib r) sb cronJobUID) jobs)))))"

definition record_trigger :: "time \<Rightarrow> string \<Rightarrow> ('w, unit) bcomp" where
  "record_trigger t name =
     upd_bstatus (\<lambda>st. st\<lparr>bt_LastTriggerTime := Some t, bt_LastTriggerJob := name\<rparr>)"

definition startManualJob :: "'w backup_reconciler \<Rightarrow> repository \<Rightarrow> time \<Rightarrow> ('w, unit) bcomp" where
  "startManualJob r repo t =
     bind_go get_obj (\<lambda>sb.
     bind_go (lift (BuildManualJob sb repo (br_Config r) t)) (\<lambda>j.
     bind_go (lift (SetControllerReference (br_Lib r) (sb_Meta sb) (job_Meta j))) (\<lambda>m.
     let j = j\<lparr>job_Meta := m\<rparr>
     in bind_go (attempt (call (CreateJob j) (k_CreateJob (br_Client r) j))) (\<lambda>res.
        bind_go (case res of
            Inr _ \<Rightarrow> Eventf EventNormal ''BackupTriggered'' ''Trigger'' ''Started backup Job %s''
                [Str (om_Name (job_Meta j))]
          | Inl e \<Rightarrow>
              if IsAlreadyExists e then ret ()
              else fail (Errorf ''creating backup job: %w'' [Err e])) (\<lambda>_.
        record_trigger t (om_Name (job_Meta j)))))))"

definition reconcileTrigger ::
  "'w backup_reconciler \<Rightarrow> repository \<Rightarrow> observed_run list \<Rightarrow> ('w, unit) bcomp" where
  "reconcileTrigger r repo runs =
     bind_go get_obj (\<lambda>sb.
     let raw = lookup_str (om_Annotations (sb_Meta sb)) AnnotationTriggerAt
     in if raw = '''' then ret ()
        else
          (case ParseRFC3339 raw of
             None \<Rightarrow>
               Eventf EventWarning ''TriggerInvalid'' ''Trigger''
                 ''Ignoring %s=%q: expected an RFC3339 timestamp'' [Str AnnotationTriggerAt, Str raw]
           | Some t \<Rightarrow>
               if (case bt_LastTriggerTime (sb_Status sb) of None \<Rightarrow> False | Some prev \<Rightarrow> \<not> prev < t)
               then ret ()
               else
                 (let wanted = ManualJobName sb t; active = activeRun runs
                  in if bs_ConcurrencyPolicy (sb_Spec sb) = ForbidConcurrent \<and> active \<noteq> '''' \<and> active \<noteq> wanted
                     then
                       bind_go (Eventf EventWarning ''TriggerSkipped'' ''Trigger''
                         ''Not starting a backup: Job %s is still running and concurrencyPolicy is Forbid''
                         [Str active]) (\<lambda>_. record_trigger t '''')
                     else startManualJob r repo t)))"

section \<open>The CronJob\<close>

text \<open>Creating or updating the CronJob; the value is the CronJob's UID and the schedule that
  is then \<open>desired.Spec.Schedule\<close>, which a create has replaced by the server's.\<close>

definition applyCronJob :: "'w backup_reconciler \<Rightarrow> cronjob \<Rightarrow> ('w, string \<times> string) bcomp" where
  "applyCronJob r desired =
     bind_go (attempt (ask (k_GetCronJob (br_Client r) (key_of (cj_Meta desired))))) (\<lambda>got.
     case got of
       Inl e \<Rightarrow>
         if IsNotFound e then
           bind_go (attempt (call (CreateCronJob desired) (k_CreateCronJob (br_Client r) desired))) (\<lambda>res.
           case res of
             Inl e \<Rightarrow>
               if IsAlreadyExists e then
                 fail (Errorf (''CronJob %s already exists but is not managed by this operator; ''
                   @ ''remove it or rename the ScheduledBackup'') [Str (om_Name (cj_Meta desired))])
               else fail (Errorf ''creating cronjob: %w'' [Err e])
           | Inr created \<Rightarrow>
               bind_go (Eventf EventNormal ''CronJobCreated'' ''Create'' ''Created CronJob %s on schedule %s''
                   [Str (om_Name (cj_Meta created)), Str (cs_Schedule (cj_Spec created))]) (\<lambda>_.
               ret (om_UID (cj_Meta created), cs_Schedule (cj_Spec created))))
         else fail e
     | Inr current \<Rightarrow>
         (let updated = current\<lparr>cj_Spec := cj_Spec desired,
                cj_Meta := (cj_Meta current)\<lparr>om_Labels := om_Labels (cj_Meta desired),
                  om_OwnerReferences := om_OwnerReferences (cj_Meta desired)\<rparr>\<rparr>
          in bind_go (attempt (call (UpdateCronJob updated) (k_UpdateCronJob (br_Client r) updated))) (\<lambda>res.
             case res of
               Inl e \<Rightarrow> fail (Errorf ''updating cronjob: %w'' [Err e])
             | Inr _ \<Rightarrow>
                 bind_go (upd_bstatus (\<lambda>st.
                     st\<lparr>bt_LastScheduleTime := cst_LastScheduleTime (cj_Status current),
                        bt_LastSuccessfulTime := cst_LastSuccessfulTime (cj_Status current),
                        bt_Active := int (length (cst_Active (cj_Status current)))\<rparr>)) (\<lambda>_.
                 ret (om_UID (cj_Meta current), cs_Schedule (cj_Spec desired))))))"

text \<open>The end of \<open>reconcile\<close>, once the CronJob is in place.\<close>

definition finish_schedule ::
  "'w backup_reconciler \<Rightarrow> repository \<Rightarrow> string \<Rightarrow> string \<Rightarrow> ('w, duration) bcomp" where
  "finish_schedule r repo cronJobUID schedule =
     bind_go (upd_bstatus (bt_EffectiveSchedule_update (\<lambda>_. schedule))) (\<lambda>_.
     bind_go (setCondition_backup r (backup_ready ConditionTrue ''Ready''
         (''Backing up on schedule %s'', [Str schedule]))) (\<lambda>_.
     bind_go (observedRuns r cronJobUID) (\<lambda>runs.
     bind_go (upd_bstatus (\<lambda>st. st\<lparr>bt_History := mergeHistory (bt_History st) runs\<rparr>)) (\<lambda>_.
     bind_go (reconcileTrigger r repo runs) (\<lambda>_. ret (5 * Minute))))))"

text \<open>The part of \<open>reconcile\<close> after its two checks have passed.\<close>

definition reconcile_schedule :: "'w backup_reconciler \<Rightarrow> repository \<Rightarrow> ('w, duration) bcomp" where
  "reconcile_schedule r repo =
     bind_go (reconcileCache r) (\<lambda>_.
     bind_go get_obj (\<lambda>sb.
     bind_go (lift (BuildCronJob sb repo (br_Config r))) (\<lambda>desired.
     bind_go (lift (SetControllerReference (br_Lib r) (sb_Meta sb) (cj_Meta desired))) (\<lambda>m.
     bind_go (applyCronJob r (desired\<lparr>cj_Meta := m\<rparr>)) (\<lambda>(cronJobUID, schedule).
     finish_schedule r repo cronJobUID schedule)))))"

definition reconcile_backup :: "'w backup_reconciler \<Rightarrow> ('w, duration) bcomp" where
  "reconcile_backup r =
     bind_go get_obj (\<lambda>sb.
     bind_go (attempt (ask (k_GetRepository (br_Client r)
         (NN (sb_Namespace sb) (bs_RepositoryRef (sb_Spec sb)))))) (\<lambda>got.
     case got of
       Inl e \<Rightarrow>
         if IsNotFound e then
           bind_go (setCondition_backup r (backup_ready ConditionFalse ''RepositoryNotFound''
               (''Repository %q does not exist'', [Str (bs_RepositoryRef (sb_Spec sb))]))) (\<lambda>_. ret 0)
         else fail e
     | Inr repo \<Rightarrow>
         if \<not> rt_Initialized (rp_Status repo) then
           bind_go (setCondition_backup r (backup_ready ConditionFalse ''RepositoryNotReady''
               (''Repository %q is not initialized yet'', [Str (rp_Name repo)]))) (\<lambda>_. ret 0)
         else
           bind_go (slugConflict r) (\<lambda>other.
           if other \<noteq> '''' then
             bind_go (setCondition_backup r (backup_ready ConditionFalse ''SlugConflict''
               (''healthchecks slug %q is already reported by ScheduledBackup %q; ''
                  @ ''set spec.healthchecks.slug to something unique'',
                [Str (rep_slug (Reporter sb (br_Config r))), Str other]))) (\<lambda>_. ret 0)
           else reconcile_schedule r repo)))"

section \<open>The entry points\<close>

definition Reconcile_backup :: "'w backup_reconciler \<Rightarrow> nsname \<Rightarrow> ('w, duration) bcomp" where
  "Reconcile_backup r req =
     bind_go (attempt (ask (k_GetBackup (br_Client r) req))) (\<lambda>got.
     case got of
       Inl e \<Rightarrow> if IsNotFound e then ret 0 else fail e
     | Inr sb \<Rightarrow>
         bind_go (put_obj sb) (\<lambda>_.
         bind_go (attempt (reconcile_backup r)) (\<lambda>res.
         case res of
           Inl e \<Rightarrow>
             bind_go (setCondition_backup r (backup_ready ConditionFalse ''ReconcileFailed'' (err_text e))) (\<lambda>_.
             bind_go (Eventf EventWarning ''ReconcileFailed'' ''Reconcile'' ''%s'' [Err e]) (\<lambda>_.
             bind_go (attempt (patchStatus_backup r sb)) (\<lambda>_. fail e)))
         | Inr result \<Rightarrow> bind_go (patchStatus_backup r sb) (\<lambda>_. ret result))))"

text \<open>The map function of the watch on Repositories: the requests a changed Repository
  gives rise to. The list is what the field index answers; a failure gives none.\<close>

definition backupsForRepository ::
  "(nsname \<Rightarrow> ('w, scheduled_backup list) go) \<Rightarrow> object_meta \<Rightarrow> 'w \<Rightarrow> nsname list" where
  "backupsForRepository list_by_ref m w =
     (case fst (list_by_ref (key_of m) w) of
        Inl _ \<Rightarrow> []
      | Inr items \<Rightarrow> map (\<lambda>sb. NN (sb_Namespace sb) (sb_Name sb)) items)"

text \<open>The function behind that index.\<close>

definition repositoryRefIndex :: "scheduled_backup \<Rightarrow> string list" where
  "repositoryRefIndex sb =
     (if bs_RepositoryRef (sb_Spec sb) = '''' then [] else [bs_RepositoryRef (sb_Spec sb)])"

end
