(* ===== verification/BackupContracts.thy ===== *)
theory BackupContracts
  imports ScheduledBackupController
begin

text \<open>
  What the reconciler of ScheduledBackups promises: when it acts at all, which slug wins,
  which cache claims it deletes, which CronJobs it writes, and when a trigger starts a
  backup.
\<close>

section \<open>Reads and footprints\<close>

lemma silent_slugConflict [quiet_rules]: "silent (slugConflict r)"
  by (auto simp: slugConflict_def Let_def intro!: quiet_rules)

lemma silent_observedRuns [quiet_rules]: "silent (observedRuns r uid)"
  by (auto simp: observedRuns_def intro!: quiet_rules)

lemmas silent_backup_reads [quiet_rules] =
  silent_slugConflict[THEN silent_emits] silent_observedRuns[THEN silent_emits]

lemma emits_setCondition_backup [quiet_rules]: "emits P (setCondition_backup r c)"
  by (auto simp: setCondition_backup_def intro!: quiet_rules)

lemma emits_patchStatus_backup [quiet_rules]:
  "(\<And>e. is_PatchBackupStatus (en_Effect e) \<Longrightarrow> P e) \<Longrightarrow> emits P (patchStatus_backup r base)"
  by (auto simp: patchStatus_backup_def intro!: quiet_rules)

lemma emits_applyCronJob [quiet_rules]:
  "(\<And>e. is_CreateCronJob (en_Effect e) \<or> is_UpdateCronJob (en_Effect e) \<or> is_Event (en_Effect e) \<Longrightarrow> P e) \<Longrightarrow>
   emits P (applyCronJob r desired)"
  by (auto simp: applyCronJob_def Let_def intro!: quiet_rules)

lemma emits_startManualJob:
  "(\<And>e. is_CreateJob (en_Effect e) \<or> is_Event (en_Effect e) \<Longrightarrow> P e) \<Longrightarrow>
   emits P (startManualJob r repo t)"
  by (auto simp: startManualJob_def record_trigger_def Let_def intro!: quiet_rules)

lemma emits_reconcileTrigger [quiet_rules]:
  "(\<And>e. is_CreateJob (en_Effect e) \<or> is_Event (en_Effect e) \<Longrightarrow> P e) \<Longrightarrow>
   emits P (reconcileTrigger r repo runs)"
  by (auto simp: reconcileTrigger_def record_trigger_def Let_def intro!: quiet_rules emits_startManualJob)

lemma emits_finish_schedule [quiet_rules]:
  "(\<And>e. is_CreateJob (en_Effect e) \<or> is_Event (en_Effect e) \<Longrightarrow> P e) \<Longrightarrow>
   emits P (finish_schedule r repo uid schedule)"
  by (auto simp: finish_schedule_def intro!: quiet_rules)

section \<open>When nothing is done\<close>

abbreviation backup_is_ready :: "('w, scheduled_backup) st \<Rightarrow> bool" where
  "backup_is_ready t \<equiv> holds ScheduledBackupConditionReady (bt_Conditions (sb_Status (st_Object t)))"

text \<open>A step that stands back: it has no effect, does not ask to be run again, and leaves
  the backup not Ready.\<close>

definition stands_back ::
  "('w, scheduled_backup) st \<Rightarrow> goerr + duration \<Rightarrow> ('w, scheduled_backup) st \<Rightarrow> bool" where
  "stands_back s res t \<longleftrightarrow> st_Log t = st_Log s \<and> res = Inr 0 \<and> \<not> backup_is_ready t"

lemma not_ready_stands_back:
  assumes "condition_laws (br_Client r)"
  shows "wp (setCondition_backup r (backup_ready ConditionFalse reason msg))
    (\<lambda>_ t. st_Log t = st_Log s \<and> \<not> backup_is_ready t) (\<lambda>_ _. False) (s\<lparr>st_World := w\<rparr>)"
  using assms
  by (auto simp: setCondition_backup_def wp_simps condition_laws_def backup_ready_def new_condition_def
      prod.case_eq_if)

lemma wp_stands_back:
  "m s = (res, t) \<Longrightarrow>
   wp m (\<lambda>a t. st_Log t = st_Log s \<and> a = 0 \<and> \<not> backup_is_ready t) (\<lambda>_ _. False) s \<Longrightarrow>
   stands_back s res t"
  by (auto simp: wp_def stands_back_def split: sum.splits)

text \<open>
  C11. No backup before the repository is ready for it. As long as the referenced
  Repository has not been initialized, reconciling a ScheduledBackup changes nothing in
  the cluster: no cache claim, no CronJob, no Job, no event.
\<close>

theorem no_backup_before_init:
  assumes "condition_laws (br_Client r)"
    and "k_GetRepository (br_Client r)
      (NN (sb_Namespace (st_Object s)) (bs_RepositoryRef (sb_Spec (st_Object s)))) (st_World s) = (Inr repo, w)"
    and "\<not> rt_Initialized (rp_Status repo)"
    and "reconcile_backup r s = (res, t)"
  shows "stands_back s res t"
proof (rule wp_stands_back[of "reconcile_backup r", OF assms(4)])
  show "wp (reconcile_backup r)
      (\<lambda>a t. st_Log t = st_Log s \<and> a = 0 \<and> \<not> backup_is_ready t) (\<lambda>_ _. False) s"
    unfolding reconcile_backup_def using assms(2,3)
    by (simp add: wp_simps) (rule wp_mono[OF not_ready_stands_back[OF assms(1)]], auto simp: wp_simps)
qed

section \<open>Slugs\<close>

interpretation backup_age: seniority olderThan "\<lambda>b. om_Name (sb_Meta b)"
  by unfold_locales (auto simp: olderThan_def split: if_splits)

definition reports_slug :: "backup_config \<Rightarrow> string \<Rightarrow> scheduled_backup \<Rightarrow> bool" where
  "reports_slug cfg slug sb \<longleftrightarrow>
     om_DeletionTimestamp (sb_Meta sb) = None \<and> rep_enabled (Reporter sb cfg) \<and>
     \<not> PingsByUUID (Reporter sb cfg) \<and> rep_slug (Reporter sb cfg) = slug"

lemma find_slug_conflict_none:
  assumes "\<forall>b\<in>set items. sb_Name b \<noteq> ''''"
  shows "find_slug_conflict cfg sb items = '''' \<longleftrightarrow>
    (\<forall>b\<in>set items. reports_slug cfg (rep_slug (Reporter sb cfg)) b \<longrightarrow> sb_Name b \<noteq> sb_Name sb \<longrightarrow>
       \<not> olderThan b sb)"
  using assms by (induction items) (auto simp: reports_slug_def Let_def)

text \<open>
  Exactly one ScheduledBackup of a namespace reports under a slug. Among the
  undeleted ones that would report under it, names being unique and non-empty, one and
  only one passes the check for conflicts; every other finds an older one.
\<close>

lemma one_backup_reports_a_slug:
  assumes "inj_on sb_Name (set items)" "\<forall>b\<in>set items. sb_Name b \<noteq> ''''"
    and "\<exists>b\<in>set items. reports_slug cfg slug b"
  shows "\<exists>!b. b \<in> set items \<and> reports_slug cfg slug b \<and> find_slug_conflict cfg b items = ''''"
proof -
  let ?A = "{b \<in> set items. reports_slug cfg slug b}"
  have "\<exists>!a. a \<in> ?A \<and> (\<forall>b\<in>?A. sb_Name b \<noteq> sb_Name a \<longrightarrow> \<not> olderThan b a)"
    using assms by (intro backup_age.eldest_unique) (auto intro: inj_on_subset)
  moreover have "a \<in> ?A \<and> (\<forall>b\<in>?A. sb_Name b \<noteq> sb_Name a \<longrightarrow> \<not> olderThan b a) \<longleftrightarrow>
    a \<in> set items \<and> reports_slug cfg slug a \<and> find_slug_conflict cfg a items = ''''" for a
    using assms(2) by (auto simp: find_slug_conflict_none reports_slug_def)
  ultimately show ?thesis by simp
qed

text \<open>
  The loser of a slug conflict does nothing. When an older ScheduledBackup already
  reports under the slug, reconciling this one leaves the cluster as it is, even if the
  Repository is ready.
\<close>

lemma slug_loser_stands_back:
  assumes "condition_laws (br_Client r)"
    and "k_GetRepository (br_Client r)
      (NN (sb_Namespace (st_Object s)) (bs_RepositoryRef (sb_Spec (st_Object s)))) (st_World s) = (Inr repo, w)"
    and "k_ListBackups (br_Client r) (sb_Namespace (st_Object s)) w = (Inr items, v)"
    and "reports_slug (br_Config r) slug (st_Object s)"
    and "find_slug_conflict (br_Config r) (st_Object s) items \<noteq> ''''"
    and "reconcile_backup r s = (res, t)"
  shows "stands_back s res t"
proof (rule wp_stands_back[of "reconcile_backup r", OF assms(6)])
  have conflict: "slugConflict r (s\<lparr>st_World := w\<rparr>) =
      (Inr (find_slug_conflict (br_Config r) (st_Object s) items), s\<lparr>st_World := v\<rparr>)"
    using assms(3,4)
    by (simp add: slugConflict_def bind_go_def get_obj_def attempt_def ask_def ret_def Let_def reports_slug_def)
  show "wp (reconcile_backup r)
      (\<lambda>a t. st_Log t = st_Log s \<and> a = 0 \<and> \<not> backup_is_ready t) (\<lambda>_ _. False) s"
  proof (cases "rt_Initialized (rp_Status repo)")
    case True
    with assms(2,5) show ?thesis
      unfolding reconcile_backup_def
      by (simp add: wp_bind wp_get_obj wp_attempt wp_ask wp_def[of "slugConflict r"] conflict)
        (rule wp_mono[OF not_ready_stands_back[OF assms(1)]], auto simp: wp_simps)
  next
    case False
    with assms(2) show ?thesis
      unfolding reconcile_backup_def
      by (simp add: wp_simps) (rule wp_mono[OF not_ready_stands_back[OF assms(1)]], auto simp: wp_simps)
  qed
qed

section \<open>Witnesses for the checks\<close>

definition ready_repository :: repository where
  "ready_repository = sample_repository\<lparr>rp_Status := (rp_Status sample_repository)\<lparr>rt_Initialized := True\<rparr>\<rparr>"

definition sample_backups :: "unit cluster \<Rightarrow> unit backup_reconciler" where
  "sample_backups k = \<lparr>br_Client = k, br_Lib = plain_lib,
     br_Config = sample_config\<lparr>bc_Healthchecks := \<lparr>hcc_Enabled = True, hcc_APIURL = ''http://hc'', hcc_AutoCreate = False\<rparr>\<rparr>\<rparr>"

lemma sample_backups_laws: "condition_laws k \<Longrightarrow> condition_laws (br_Client (sample_backups k))"
  by (simp add: sample_backups_def)

theorem no_backup_before_init_witness:
  "st_Log (snd (reconcile_backup (sample_backups (empty_cluster\<lparr>k_GetRepository := (\<lambda>_. ret sample_repository)\<rparr>))
     (start sample_backup ()))) = []"
proof -
  let ?r = "sample_backups (empty_cluster\<lparr>k_GetRepository := (\<lambda>_. ret sample_repository)\<rparr>)"
  let ?s = "start sample_backup ()"
  let ?run = "reconcile_backup ?r ?s"
  have "stands_back ?s (fst ?run) (snd ?run)"
  proof (rule no_backup_before_init)
    show "condition_laws (br_Client ?r)"
      using empty_cluster_conditions by (simp add: sample_backups_def condition_laws_def)
    show "k_GetRepository (br_Client ?r) (NN (sb_Namespace (st_Object ?s))
        (bs_RepositoryRef (sb_Spec (st_Object ?s)))) (st_World ?s) = (Inr sample_repository, ())"
      by (simp add: sample_backups_def ret_def start_def)
  qed (simp_all add: sample_repository_def)
  then show ?thesis by (simp add: stands_back_def start_def)
qed

definition older_backup :: scheduled_backup where
  "older_backup = sample_backup\<lparr>sb_Meta := new_meta ''app'' ''hourly'' []\<rparr>"

definition slug_config :: backup_config where
  "slug_config = br_Config (sample_backups empty_cluster)"

lemma sample_slugs: "reports_slug slug_config ''app'' sample_backup" "reports_slug slug_config ''app'' older_backup"
  by code_simp+

lemma one_backup_reports_a_slug_witness:
  "\<exists>!b. b \<in> set [sample_backup, older_backup] \<and> reports_slug slug_config ''app'' b \<and>
     find_slug_conflict slug_config b [sample_backup, older_backup] = ''''"
proof (rule one_backup_reports_a_slug)
  show "inj_on sb_Name (set [sample_backup, older_backup])"
    by (auto simp: sample_backup_def older_backup_def)
  show "\<forall>b\<in>set [sample_backup, older_backup]. sb_Name b \<noteq> ''''"
    by (simp add: sample_backup_def older_backup_def)
  show "\<exists>b\<in>set [sample_backup, older_backup]. reports_slug slug_config ''app'' b"
    using sample_slugs by simp
qed

lemma slug_loser_stands_back_witness:
  "st_Log (snd (reconcile_backup (sample_backups (empty_cluster\<lparr>k_GetRepository := (\<lambda>_. ret ready_repository),
     k_ListBackups := (\<lambda>_. ret [older_backup])\<rparr>)) (start sample_backup ()))) = []"
proof -
  let ?r = "sample_backups (empty_cluster\<lparr>k_GetRepository := (\<lambda>_. ret ready_repository),
     k_ListBackups := (\<lambda>_. ret [older_backup])\<rparr>)"
  let ?s = "start sample_backup ()"
  let ?run = "reconcile_backup ?r ?s"
  have cfg: "br_Config ?r = slug_config" by (simp add: sample_backups_def slug_config_def)
  have "stands_back ?s (fst ?run) (snd ?run)"
  proof (rule slug_loser_stands_back)
    show "condition_laws (br_Client ?r)"
      using empty_cluster_conditions by (simp add: sample_backups_def condition_laws_def)
    show "k_GetRepository (br_Client ?r) (NN (sb_Namespace (st_Object ?s))
        (bs_RepositoryRef (sb_Spec (st_Object ?s)))) (st_World ?s) = (Inr ready_repository, ())"
      by (simp add: sample_backups_def ret_def start_def)
    show "k_ListBackups (br_Client ?r) (sb_Namespace (st_Object ?s)) () = (Inr [older_backup], ())"
      by (simp add: sample_backups_def ret_def)
    show "reports_slug (br_Config ?r) ''app'' (st_Object ?s)"
      using sample_slugs(1) cfg by (simp add: start_def)
    have "find_slug_conflict slug_config sample_backup [older_backup] = ''hourly''" by code_simp
    then show "find_slug_conflict (br_Config ?r) (st_Object ?s) [older_backup] \<noteq> ''''"
      using cfg by (simp add: start_def)
  qed simp_all
  then show ?thesis by (simp add: stands_back_def start_def)
qed

section \<open>Cache claims\<close>

definition cache_ok :: "lib \<Rightarrow> scheduled_backup entry \<Rightarrow> bool" where
  "cache_ok l e \<longleftrightarrow>
     (case en_Effect e of
        DeletePVC p \<Rightarrow>
          \<not> cacheEnabled (en_Object e) \<and>
          (case GetControllerOf l (pvc_Meta p) of
             None \<Rightarrow> False | Some owner \<Rightarrow> or_UID owner = om_UID (sb_Meta (en_Object e)))
      | CreatePVC p \<Rightarrow> cacheEnabled (en_Object e)
      | _ \<Rightarrow> True)"

lemma cache_other:
  "\<not> is_DeletePVC (en_Effect e) \<Longrightarrow> \<not> is_CreatePVC (en_Effect e) \<Longrightarrow> cache_ok l e"
  by (auto simp: cache_ok_def split: effect.splits)

lemma BuildCachePVC_enabled:
  "BuildCachePVC parse sb cfg = Inr d \<Longrightarrow> (d = None) = (\<not> cacheEnabled sb)"
  by (auto simp: BuildCachePVC_def split: if_splits sum.splits prod.splits)

lemma deleteCache_ok:
  assumes "\<not> cacheEnabled (st_Object s)" "grown (cache_ok (br_Lib r)) es s"
  shows "wp (deleteCache r) (\<lambda>_. grown (cache_ok (br_Lib r)) es) (\<lambda>_. grown (cache_ok (br_Lib r)) es) s"
  using assms unfolding deleteCache_def
  by (auto simp: wp_simps cache_ok_def intro!: grown_snoc split: prod.splits sum.splits option.splits)

lemma reconcileCache_ok: "emits (cache_ok (br_Lib r)) (reconcileCache r)" for r :: "'w backup_reconciler"
proof (rule emits_wp, fold grown_def)
  fix s :: "('w, scheduled_backup) st"
  let ?ok = "grown (cache_ok (br_Lib r)) (st_Log s)"
  show "wp (reconcileCache r) (\<lambda>_. ?ok) (\<lambda>_. ?ok) s"
  proof (cases "BuildCachePVC (ParseQuantity (br_Lib r)) (st_Object s) (br_Config r)")
    case (Inl e)
    then show ?thesis by (simp add: reconcileCache_def wp_simps grown_same)
  next
    case (Inr d)
    note enabled = BuildCachePVC_enabled[OF Inr]
    show ?thesis
    proof (cases d)
      case None
      then show ?thesis
        using Inr enabled by (simp add: reconcileCache_def wp_simps deleteCache_ok grown_same)
    next
      case (Some p)
      then show ?thesis
        using Inr enabled
        by (auto simp: reconcileCache_def wp_simps Let_def cache_ok_def grown_same
            intro!: grown_snoc split: prod.splits sum.splits)
    qed
  qed
qed

lemma reconcile_schedule_cache: "emits (cache_ok (br_Lib r)) (reconcile_schedule r repo)"
  unfolding reconcile_schedule_def
  by (auto intro!: quiet_rules reconcileCache_ok cache_other)

lemma Reconcile_backup_cache: "emits (cache_ok (br_Lib r)) (Reconcile_backup r req)"
  unfolding Reconcile_backup_def reconcile_backup_def
  by (auto intro!: quiet_rules reconcile_schedule_cache cache_other)

text \<open>
  C12. Only the backup's own cache is ever deleted. In every run of the reconciler, a
  claim is deleted only if its controller is the very ScheduledBackup being reconciled
  and that has switched its cache off; a claim is created only if the cache is on.
\<close>

theorem only_own_cache_deleted:
  "Reconcile_backup r req (start obj w) = (res, t) \<Longrightarrow> list_all (cache_ok (br_Lib r)) (st_Log t)"
  by (erule emits_run[OF Reconcile_backup_cache]) (simp add: start_def)

definition uncached_backup :: scheduled_backup where
  "uncached_backup = sample_backup\<lparr>sb_Spec := (sb_Spec sample_backup)\<lparr>
     bs_Cache := Some \<lparr>ca_Enabled = Some False, ca_StorageClass = '''', ca_Size = '''', ca_AccessMode = ''''\<rparr>,
     bs_Healthchecks := Some \<lparr>hs_Enabled = Some False, hs_PingKeySecretRef = None, hs_Slug = '''',
       hs_Create = None, hs_APIURL = '''', hs_UUIDSecretRef = None\<rparr>\<rparr>\<rparr>"

definition own_claim :: pvc where
  "own_claim = \<lparr>pvc_Meta = (new_meta ''app'' ''nightly-cache'' [])\<lparr>om_OwnerReferences :=
       [\<lparr>or_Kind = ''ScheduledBackup'', or_Name = ''nightly'', or_UID = ''u1'', or_Controller = Some True\<rparr>]\<rparr>,
     pvc_AccessModes = [], pvc_Requests = [], pvc_StorageClassName = None, pvc_Phase = ''''\<rparr>"

definition uncached_run :: "(goerr + duration) \<times> (unit, scheduled_backup) st" where
  "uncached_run = Reconcile_backup (sample_backups (empty_cluster\<lparr>k_GetBackup := (\<lambda>_. ret uncached_backup),
     k_GetRepository := (\<lambda>_. ret ready_repository), k_GetPVC := (\<lambda>_. ret own_claim), k_DeletePVC := (\<lambda>_. fail (Sentinel ''busy''))\<rparr>))
     (NN ''app'' ''nightly'') (start sample_backup ())"

theorem only_own_cache_deleted_witness:
  "list_all (cache_ok plain_lib) (st_Log (snd uncached_run)) \<and>
   map is_DeletePVC (map en_Effect (take 1 (st_Log (snd uncached_run)))) = [True]"
proof
  have "list_all (cache_ok (br_Lib (sample_backups (empty_cluster\<lparr>k_GetBackup := (\<lambda>_. ret uncached_backup),
     k_GetRepository := (\<lambda>_. ret ready_repository), k_GetPVC := (\<lambda>_. ret own_claim), k_DeletePVC := (\<lambda>_. fail (Sentinel ''busy''))\<rparr>)))) (st_Log (snd uncached_run))"
    by (rule only_own_cache_deleted[where res = "fst uncached_run"])
      (simp only: uncached_run_def prod.collapse)
  then show "list_all (cache_ok plain_lib) (st_Log (snd uncached_run))"
    by (simp add: sample_backups_def)
  show "map is_DeletePVC (map en_Effect (take 1 (st_Log (snd uncached_run)))) = [True]" by code_simp
qed

section \<open>CronJobs\<close>

text \<open>A CronJob is built for a backup if it has the spec, labels and owner the builder
  gives it, for an initialized Repository.\<close>

definition built_for :: "'w backup_reconciler \<Rightarrow> scheduled_backup \<Rightarrow> cronjob \<Rightarrow> bool" where
  "built_for r sb c \<longleftrightarrow>
     (\<exists>repo c0 m. rt_Initialized (rp_Status repo) \<and> BuildCronJob sb repo (br_Config r) = Inr c0 \<and>
        SetControllerReference (br_Lib r) (sb_Meta sb) (cj_Meta c0) = Inr m \<and>
        cj_Spec c = cj_Spec c0 \<and> om_Labels (cj_Meta c) = om_Labels m \<and>
        om_OwnerReferences (cj_Meta c) = om_OwnerReferences m)"

definition cronjob_ok :: "'w backup_reconciler \<Rightarrow> scheduled_backup entry \<Rightarrow> bool" where
  "cronjob_ok r e \<longleftrightarrow>
     (case en_Effect e of
        CreateCronJob c \<Rightarrow> built_for r (en_Object e) c
      | UpdateCronJob c \<Rightarrow> built_for r (en_Object e) c
      | _ \<Rightarrow> True)"

lemma cronjob_other:
  "\<not> is_CreateCronJob (en_Effect e) \<Longrightarrow> \<not> is_UpdateCronJob (en_Effect e) \<Longrightarrow> cronjob_ok r e"
  by (auto simp: cronjob_ok_def split: effect.splits)

lemma reconcileCache_object:
  "wp (reconcileCache r) (\<lambda>_ t. st_Object t = st_Object s) (\<lambda>_ t. st_Object t = st_Object s) s"
  unfolding reconcileCache_def deleteCache_def
  by (auto simp: wp_simps Let_def split: prod.splits sum.splits option.splits)

lemma emits_reconcileCache [quiet_rules]:
  "(\<And>e. is_CreatePVC (en_Effect e) \<or> is_DeletePVC (en_Effect e) \<Longrightarrow> P e) \<Longrightarrow> emits P (reconcileCache r)"
  by (auto simp: reconcileCache_def deleteCache_def Let_def intro!: quiet_rules)

lemma applyCronJob_ok:
  assumes "built_for r (st_Object u) desired" "grown (cronjob_ok r) es u"
  shows "wp (applyCronJob r desired) (\<lambda>_. grown (cronjob_ok r) es) (\<lambda>_. grown (cronjob_ok r) es) u"
proof -
  have update: "built_for r (st_Object u) (c\<lparr>cj_Spec := cj_Spec desired,
      cj_Meta := (cj_Meta c)\<lparr>om_Labels := om_Labels (cj_Meta desired),
        om_OwnerReferences := om_OwnerReferences (cj_Meta desired)\<rparr>\<rparr>)" for c
    using assms(1) by (simp add: built_for_def)
  have snoc: "grown (cronjob_ok r) es (u\<lparr>st_Log := st_Log u @ [\<lparr>en_Effect = e, en_Object = st_Object u,
      en_Error = x\<rparr>]\<rparr>)" if "cronjob_ok r \<lparr>en_Effect = e, en_Object = st_Object u, en_Error = x\<rparr>" for e x
    using assms(2) that by (rule grown_snoc)
  have event: "grown (cronjob_ok r) es (u\<lparr>st_Log := st_Log u @ [\<lparr>en_Effect = CreateCronJob desired,
      en_Object = st_Object u, en_Error = None\<rparr>, \<lparr>en_Effect = Event ty reason action m,
      en_Object = st_Object u, en_Error = None\<rparr>]\<rparr>)" for ty reason action m
    using grown_snoc[OF snoc[of "CreateCronJob desired" None], of "\<lparr>en_Effect = Event ty reason action m,
      en_Object = st_Object u, en_Error = None\<rparr>"] assms(1) by (simp add: cronjob_ok_def)
  show ?thesis
    unfolding applyCronJob_def using assms update
    by (auto simp: wp_simps Let_def event cronjob_ok_def intro!: snoc split: prod.splits sum.splits)
qed

lemma reconcile_schedule_cronjob:
  assumes "rt_Initialized (rp_Status repo)"
  shows "emits (cronjob_ok r) (reconcile_schedule r repo)"
proof (rule emits_wp, fold grown_def)
  fix s :: "('a, scheduled_backup) st"
  let ?ok = "grown (cronjob_ok r) (st_Log s)"
  have cache: "wp (reconcileCache r) (\<lambda>_ t. ?ok t \<and> st_Object t = st_Object s)
      (\<lambda>_ t. ?ok t \<and> st_Object t = st_Object s) s"
    by (rule wp_conj[OF emits_grown reconcileCache_object])
      (auto intro!: quiet_rules cronjob_other grown_same)
  have finish: "wp (finish_schedule r repo uid schedule) (\<lambda>_. ?ok) (\<lambda>_. ?ok) u"
    if "?ok u" for uid schedule u
    by (rule emits_grown[OF _ that]) (auto intro!: quiet_rules cronjob_other)
  have apply_ok: "wp (applyCronJob r (c\<lparr>cj_Meta := m\<rparr>)) (\<lambda>_. ?ok) (\<lambda>_. ?ok) u"
    if "?ok u" "BuildCronJob (st_Object u) repo (br_Config r) = Inr c"
      "SetControllerReference (br_Lib r) (sb_Meta (st_Object u)) (cj_Meta c) = Inr m" for u c m
  proof (rule applyCronJob_ok[OF _ that(1)])
    have "BuildCronJob (st_Object u) repo (br_Config r) = Inr c \<and>
        SetControllerReference (br_Lib r) (sb_Meta (st_Object u)) (cj_Meta c) = Inr m \<and>
        rt_Initialized (rp_Status repo)" using that assms by simp
    then show "built_for r (st_Object u) (c\<lparr>cj_Meta := m\<rparr>)" unfolding built_for_def by force
  qed
  show "wp (reconcile_schedule r repo) (\<lambda>_. ?ok) (\<lambda>_. ?ok) s"
    unfolding reconcile_schedule_def
    by (auto simp: wp_simps intro!: wp_mono[OF cache] wp_mono[OF apply_ok] finish split: sum.splits)
qed

lemma Reconcile_backup_cronjob: "emits (cronjob_ok r) (Reconcile_backup r req)"
  unfolding Reconcile_backup_def reconcile_backup_def
  by (auto intro!: quiet_rules reconcile_schedule_cronjob cronjob_other)

text \<open>
  The CronJobs the reconciler writes are the ones the builder makes. In every run,
  each CronJob that is created or updated carries the spec built from the
  ScheduledBackup in memory and an initialized Repository, and that spec's labels and
  owner; an existing CronJob keeps nothing of its old schedule or template.
\<close>

lemma cronjobs_are_built:
  "Reconcile_backup r req (start obj w) = (res, t) \<Longrightarrow> list_all (cronjob_ok r) (st_Log t)"
  by (erule emits_run[OF Reconcile_backup_cronjob]) (simp add: start_def)

definition plain_backups :: "unit cluster \<Rightarrow> unit backup_reconciler" where
  "plain_backups k = \<lparr>br_Client = k, br_Lib = plain_lib, br_Config = sample_config\<rparr>"

definition creating_cluster :: "unit cluster" where
  "creating_cluster = empty_cluster\<lparr>k_GetBackup := (\<lambda>_. ret sample_backup),
     k_GetRepository := (\<lambda>_. ret ready_repository), k_CreateCronJob := (\<lambda>_. fail (Sentinel ''refused''))\<rparr>"

lemma sample_cronjob: "\<exists>c. BuildCronJob sample_backup repo sample_config = Inr c"
proof -
  have "ResolveSchedule ''0 3 * * *'' ''app/nightly'' = Inr ''0 3 * * *''" by code_simp
  moreover obtain t where "BuildJobTemplate sample_backup repo sample_config = Inr t"
    using sample_backup_builds by blast
  ultimately show ?thesis by (simp add: BuildCronJob_def) (simp add: sample_backup_def)
qed

lemma sample_slug_off: "rep_enabled (Reporter sample_backup sample_config) = False"
  by code_simp

lemma sample_claim:
  "\<exists>p. BuildCachePVC (ParseQuantity plain_lib) sample_backup sample_config = Inr (Some p)"
  by (simp add: BuildCachePVC_def cacheEnabled_def sample_backup_def plain_lib_def)

lemma sample_owner: "\<exists>m. SetControllerReference plain_lib o' m0 = Inr m"
  by (simp add: plain_lib_def)

abbreviation creates_cronjob :: "(unit, scheduled_backup) st \<Rightarrow> bool" where
  "creates_cronjob t \<equiv> \<exists>e\<in>set (st_Log t). is_CreateCronJob (en_Effect e)"

lemma creating_run:
  "creates_cronjob (snd (Reconcile_backup (plain_backups creating_cluster) (NN ''app'' ''nightly'')
     (start sample_backup ())))"
proof -
  obtain c p where c: "BuildCronJob sample_backup ready_repository sample_config = Inr c"
    and p: "BuildCachePVC (ParseQuantity plain_lib) sample_backup sample_config = Inr (Some p)"
    using sample_cronjob sample_claim by blast
  obtain m m' where m: "SetControllerReference plain_lib (sb_Meta sample_backup) (cj_Meta c) = Inr m"
    and m': "SetControllerReference plain_lib (sb_Meta sample_backup) (pvc_Meta p) = Inr m'"
    using sample_owner by blast
  have init: "rt_Initialized (rp_Status ready_repository)" by (simp add: ready_repository_def)
  have "wp (Reconcile_backup (plain_backups creating_cluster) (NN ''app'' ''nightly''))
      (\<lambda>_. creates_cronjob) (\<lambda>_. creates_cronjob) (start sample_backup ())"
    by (simp add: Reconcile_backup_def reconcile_backup_def reconcile_schedule_def slugConflict_def
        reconcileCache_def applyCronJob_def wp_simps plain_backups_def creating_cluster_def c p m m'
        sample_slug_off run_ret run_fail start_def Let_def init empty_cluster_def not_found_def
        setCondition_backup_def patchStatus_backup_def)
  then show ?thesis by (simp add: wp_same)
qed

lemma cronjobs_are_built_witness:
  "\<exists>e. is_CreateCronJob (en_Effect e) \<and> cronjob_ok (plain_backups creating_cluster) e"
proof -
  let ?run = "Reconcile_backup (plain_backups creating_cluster) (NN ''app'' ''nightly'') (start sample_backup ())"
  have "list_all (cronjob_ok (plain_backups creating_cluster)) (st_Log (snd ?run))"
    by (rule cronjobs_are_built[of _ _ _ _ "fst ?run"]) simp
  with creating_run show ?thesis by (auto simp: list_all_iff)
qed

section \<open>Triggers\<close>

abbreviation trigger_annotation :: "scheduled_backup \<Rightarrow> string" where
  "trigger_annotation sb \<equiv> lookup_str (om_Annotations (sb_Meta sb)) AnnotationTriggerAt"

text \<open>When a Job may be started by hand, and what it is called.\<close>

definition trigger_due :: "scheduled_backup \<Rightarrow> observed_run list \<Rightarrow> time \<Rightarrow> bool" where
  "trigger_due sb runs t \<longleftrightarrow>
     ParseRFC3339 (trigger_annotation sb) = Some t \<and>
     (case bt_LastTriggerTime (sb_Status sb) of None \<Rightarrow> True | Some prev \<Rightarrow> prev < t) \<and>
     (if bs_ConcurrencyPolicy (sb_Spec sb) = ForbidConcurrent
      then activeRun runs \<in> {'''', ManualJobName sb t} else True)"

definition trigger_ok :: "observed_run list \<Rightarrow> scheduled_backup entry \<Rightarrow> bool" where
  "trigger_ok runs e \<longleftrightarrow>
     (case en_Effect e of
        CreateJob j \<Rightarrow>
          \<exists>t. trigger_due (en_Object e) runs t \<and> om_Name (job_Meta j) = ManualJobName (en_Object e) t
      | _ \<Rightarrow> True)"

lemma trigger_other: "\<not> is_CreateJob (en_Effect e) \<Longrightarrow> trigger_ok runs e"
  by (auto simp: trigger_ok_def split: effect.splits)

lemma BuildManualJob_meta:
  "BuildManualJob sb repo cfg t = Inr j \<Longrightarrow>
   om_Name (job_Meta j) = ManualJobName sb t \<and> om_OwnerReferences (job_Meta j) = []"
  by (auto simp: BuildManualJob_def split: sum.splits)

lemma manual_job_name_kept:
  assumes "controller_laws l" "BuildManualJob sb repo cfg t = Inr j"
    and "SetControllerReference l owner (job_Meta j) = Inr m"
  shows "om_Name m = ManualJobName sb t"
  using assms BuildManualJob_meta[OF assms(2)] unfolding controller_laws_def by fastforce

lemma startManualJob_ok:
  assumes "controller_laws (br_Lib r)" "trigger_due (st_Object s) runs t" "grown (trigger_ok runs) es s"
  shows "wp (startManualJob r repo t) (\<lambda>_. grown (trigger_ok runs) es) (\<lambda>_. grown (trigger_ok runs) es) s"
proof -
  have create: "grown (trigger_ok runs) es (s\<lparr>st_Log := st_Log s @ [\<lparr>en_Effect = CreateJob (j\<lparr>job_Meta := m\<rparr>),
      en_Object = st_Object s, en_Error = x\<rparr>]\<rparr>)"
    if "BuildManualJob (st_Object s) repo (br_Config r) t = Inr j"
      "SetControllerReference (br_Lib r) (sb_Meta (st_Object s)) (job_Meta j) = Inr m" for j m x
    using assms(2) manual_job_name_kept[OF assms(1) that]
    by (intro grown_snoc[OF assms(3)]) (auto simp: trigger_ok_def)
  have event: "grown (trigger_ok runs) es (s\<lparr>st_Log := st_Log s @ [\<lparr>en_Effect = CreateJob (j\<lparr>job_Meta := m\<rparr>),
      en_Object = st_Object s, en_Error = x\<rparr>, \<lparr>en_Effect = Event ty reason action msg,
      en_Object = st_Object s, en_Error = None\<rparr>]\<rparr>)"
    if "BuildManualJob (st_Object s) repo (br_Config r) t = Inr j"
      "SetControllerReference (br_Lib r) (sb_Meta (st_Object s)) (job_Meta j) = Inr m"
    for j m x ty reason action msg
    using grown_snoc[OF create[OF that, of x], of "\<lparr>en_Effect = Event ty reason action msg,
      en_Object = st_Object s, en_Error = None\<rparr>"] by (simp add: trigger_other)
  show ?thesis
    unfolding startManualJob_def record_trigger_def
    by (auto simp: wp_simps Let_def assms(3) create event split: prod.splits sum.splits)
qed

text \<open>
  C13. A backup is started by hand only when it is due. Whatever the state, the Jobs the
  trigger step creates are for an annotation that parses as a time after the last trigger
  that was handled, never while another Job runs under the policy Forbid, and they carry
  the name that is derived from that time.
\<close>

theorem triggers_are_due:
  assumes "controller_laws (br_Lib r)"
    and "reconcileTrigger r repo runs s = (res, t)"
  shows "grown (trigger_ok runs) (st_Log s) t"
proof -
  let ?ok = "grown (trigger_ok runs) (st_Log s)"
  have same: "?ok s" by (simp add: grown_same)
  have start: "wp (startManualJob r repo u) (\<lambda>_. ?ok) (\<lambda>_. ?ok) s"
    if "trigger_due (st_Object s) runs u" for u
    by (rule startManualJob_ok[OF assms(1) that same])
  have "wp (reconcileTrigger r repo runs) (\<lambda>_. ?ok) (\<lambda>_. ?ok) s"
    unfolding reconcileTrigger_def record_trigger_def
    by (auto simp: wp_simps Let_def same trigger_due_def trigger_other intro!: start grown_snoc
        split: option.splits)
  with assms(2) show ?thesis by (simp add: wp_same)
qed

text \<open>
  A trigger is settled once it has been handled: after a run that ended without
  error, whether it started a Job, found it there already or skipped it because of the
  policy Forbid, running the step again on the resulting object does nothing at all.
\<close>

lemma trigger_fires_once:
  assumes "ParseRFC3339 (trigger_annotation (st_Object s)) = Some u"
    and "reconcileTrigger r repo runs s = (Inr (), t)"
  shows "reconcileTrigger r repo' runs' t = (Inr (), t)"
proof -
  let ?done = "\<lambda>t. trigger_annotation (st_Object t) = trigger_annotation (st_Object s) \<and>
    (case bt_LastTriggerTime (sb_Status (st_Object t)) of None \<Rightarrow> False | Some prev \<Rightarrow> \<not> prev < u)"
  have "trigger_annotation (st_Object s) \<noteq> ''''"
    using assms(1) by (auto simp: ParseRFC3339_empty)
  then have "wp (reconcileTrigger r repo runs) (\<lambda>_. ?done) (\<lambda>_ _. True) s"
    unfolding reconcileTrigger_def record_trigger_def startManualJob_def using assms(1)
    by (auto simp: wp_simps Let_def split: prod.splits sum.splits option.splits)
  then have "?done t" using assms(2) by (simp add: wp_def)
  then show ?thesis using assms(1)
    by (auto simp: reconcileTrigger_def bind_go_def get_obj_def ret_def Let_def split: option.splits)
qed

text \<open>A status that has been through the API server: \<open>metav1.Time\<close> is written in whole
  seconds.\<close>

definition stored_time :: "time \<Rightarrow> time" where
  "stored_time t = Unix t * Second"

text \<open>
  The trigger survives storage only in whole seconds. With the handled time read back
  from the API server, the trigger stays settled if its annotation is in whole seconds;
  with a fraction of a second it counts as new on every later pass, and unless the policy
  forbids it the step starts the backup Job again.
\<close>

lemma stored_trigger_settles:
  assumes "ParseRFC3339 (trigger_annotation (st_Object s)) = Some u"
    and "bt_LastTriggerTime (sb_Status (st_Object s)) = Some (stored_time u)"
    and "activeRun runs = ''''"
  shows "reconcileTrigger r repo runs s =
    (if u mod Second = 0 then (Inr (), s) else startManualJob r repo u s)"
proof -
  have "trigger_annotation (st_Object s) \<noteq> ''''"
    using assms(1) by (auto simp: ParseRFC3339_empty)
  moreover have "\<not> stored_time u < u \<longleftrightarrow> u mod Second = 0"
    by (simp add: stored_time_def Unix_def minus_mod_eq_div_mult[symmetric])
      (metis le_less linorder_not_less pos_mod_sign zero_less_numeral)
  ultimately show ?thesis
    using assms by (simp add: reconcileTrigger_def bind_go_def get_obj_def ret_def Let_def)
qed

section \<open>Witnesses for the triggers\<close>

definition triggered_backup :: "string \<Rightarrow> scheduled_backup" where
  "triggered_backup stamp = sample_backup\<lparr>sb_Meta := (sb_Meta sample_backup)\<lparr>
     om_Annotations := [(AnnotationTriggerAt, stamp)]\<rparr>\<rparr>"

lemma triggered_annotation: "trigger_annotation (triggered_backup stamp) = stamp"
  by (simp add: triggered_backup_def lookup_str_def)

lemma sample_stamps:
  "ParseRFC3339 ''2024-01-01T00:00:00Z'' = Some 1704067200000000000"
  "ParseRFC3339 ''2024-01-01T00:00:00.5Z'' = Some 1704067200500000000"
  by code_simp+

lemma triggered_due:
  "trigger_due (triggered_backup ''2024-01-01T00:00:00Z'') [] 1704067200000000000"
  by (simp add: trigger_due_def triggered_annotation sample_stamps)
    (simp add: triggered_backup_def sample_backup_def)

abbreviation trigger_run :: "string \<Rightarrow> (goerr + unit) \<times> (unit, scheduled_backup) st" where
  "trigger_run stamp \<equiv> reconcileTrigger (plain_backups empty_cluster) ready_repository []
     (start (triggered_backup stamp) ())"

lemma trigger_run_result: "fst (trigger_run ''2024-01-01T00:00:00Z'') = Inr ()"
proof -
  let ?sb = "triggered_backup ''2024-01-01T00:00:00Z''"
  have "Render (sb_Spec ?sb) = Render (sb_Spec sample_backup)" by (simp add: triggered_backup_def)
  have "\<exists>j. BuildManualJob ?sb ready_repository sample_config 1704067200000000000 = Inr j"
    by (auto simp: BuildManualJob_def BuildJobTemplate_def triggered_backup_def sample_backup_def
        sample_config_def Render_def buildEnv_def mariadb_def Reporter_def Resolve_reporter_def
        no_overrides_def Env_def Let_def split: prod.splits)
  then obtain j where j: "BuildManualJob ?sb ready_repository sample_config 1704067200000000000 = Inr j" ..
  have never: "bt_LastTriggerTime (sb_Status ?sb) = None"
    by (simp add: triggered_backup_def sample_backup_def)
  obtain m where m: "SetControllerReference plain_lib (sb_Meta ?sb) (job_Meta j) = Inr m"
    using sample_owner by blast
  have "wp (reconcileTrigger (plain_backups empty_cluster) ready_repository []) (\<lambda>_ _. True) (\<lambda>_ _. False)
      (start ?sb ())"
    by (simp add: reconcileTrigger_def startManualJob_def record_trigger_def wp_simps Let_def start_def
        triggered_annotation sample_stamps never plain_backups_def j m empty_cluster_def run_ret)
  then show ?thesis by (auto simp: wp_def split: prod.splits sum.splits)
qed

theorem triggers_are_due_witness:
  "grown (trigger_ok []) [] (snd (trigger_run ''2024-01-01T00:00:00Z''))"
proof -
  have "controller_laws (br_Lib (plain_backups empty_cluster))"
    by (simp add: plain_backups_def plain_lib_laws)
  from triggers_are_due[OF this prod.collapse[symmetric]]
  have "grown (trigger_ok []) (st_Log (start (triggered_backup ''2024-01-01T00:00:00Z'') ()))
      (snd (trigger_run ''2024-01-01T00:00:00Z''))" .
  then show ?thesis by (simp add: start_def)
qed

lemma trigger_fires_once_witness:
  "reconcileTrigger (plain_backups empty_cluster) ready_repository [] (snd (trigger_run ''2024-01-01T00:00:00Z'')) =
    (Inr (), snd (trigger_run ''2024-01-01T00:00:00Z''))"
proof (rule trigger_fires_once)
  show "ParseRFC3339 (trigger_annotation (st_Object (start (triggered_backup ''2024-01-01T00:00:00Z'') ()))) =
      Some 1704067200000000000"
    by (simp add: start_def triggered_annotation sample_stamps)
  show "trigger_run ''2024-01-01T00:00:00Z'' = (Inr (), snd (trigger_run ''2024-01-01T00:00:00Z''))"
    using trigger_run_result by (metis prod.collapse)
qed

definition handled_backup :: scheduled_backup where
  "handled_backup = (triggered_backup ''2024-01-01T00:00:00.5Z'')\<lparr>sb_Status := (sb_Status sample_backup)\<lparr>
     bt_LastTriggerTime := Some (stored_time 1704067200500000000)\<rparr>\<rparr>"

lemma stored_trigger_settles_witness:
  "reconcileTrigger (plain_backups empty_cluster) ready_repository [] (start handled_backup ()) =
    startManualJob (plain_backups empty_cluster) ready_repository 1704067200500000000 (start handled_backup ())"
proof -
  have "trigger_annotation handled_backup = ''2024-01-01T00:00:00.5Z''"
    by (simp add: handled_backup_def triggered_backup_def lookup_str_def)
  then have "reconcileTrigger (plain_backups empty_cluster) ready_repository [] (start handled_backup ()) =
    (if 1704067200500000000 mod Second = 0 then (Inr (), start handled_backup ())
     else startManualJob (plain_backups empty_cluster) ready_repository 1704067200500000000 (start handled_backup ()))"
    by (intro stored_trigger_settles) (simp_all add: start_def sample_stamps handled_backup_def)
  then show ?thesis by simp
qed

end
