(* ===== verification/Cadence.thy ===== *)
theory Cadence
  imports Schedule
begin

text \<open>
  How often a cron expression fires (\<open>internal/cli/cadence.go\<close>): the expression is
  expanded over four weeks. The development tools of the command line compare the
  cadence of a hand-written backup with that of the resources generated for it.
\<close>

section \<open>The calendar\<close>

text \<open>\<open>time.Time\<close> in UTC: the fields of the clock, the weekday (1970-01-01 was a
  Thursday), and the civil date by the era of 400 years that starts in March.\<close>

definition clock_minute :: "time \<Rightarrow> int" where
  "clock_minute t = (t div Minute) mod 60"

definition clock_hour :: "time \<Rightarrow> int" where
  "clock_hour t = (t div Hour) mod 24"

definition day_number :: "time \<Rightarrow> int" where
  "day_number t = t div (24 * Hour)"

definition clock_weekday :: "time \<Rightarrow> int" where
  "clock_weekday t = (day_number t + 4) mod 7"

definition march_day :: "int \<Rightarrow> int" where
  "march_day n =
     (let doe = (n + 719468) mod 146097;
          yoe = (doe - doe div 1460 + doe div 36524 - doe div 146096) div 365
      in doe - (365 * yoe + yoe div 4 - yoe div 100))"

definition clock_month :: "time \<Rightarrow> int" where
  "clock_month t =
     (let mp = (5 * march_day (day_number t) + 2) div 153
      in if mp < 10 then mp + 3 else mp - 9)"

definition clock_day :: "time \<Rightarrow> int" where
  "clock_day t =
     (let doy = march_day (day_number t); mp = (5 * doy + 2) div 153
      in doy - (153 * mp + 2) div 5 + 1)"

section \<open>Fields\<close>

text \<open>\<open>for v := lo; v <= hi; v += step\<close>. Go's addition wraps at 64 bits, which a step
  close to \<open>1 << 63\<close> reaches. For the bounds of cron fields 64 passes are enough, whatever
  the step (\<open>steps_settle\<close>).\<close>

definition wrap64 :: "int \<Rightarrow> int" where
  "wrap64 x = (x + 2 ^ 63) mod 2 ^ 64 - 2 ^ 63"

fun steps_from :: "nat \<Rightarrow> int \<Rightarrow> int \<Rightarrow> int \<Rightarrow> int list" where
  "steps_from 0 v hi step = []"
| "steps_from (Suc n) v hi step =
     (if hi < v then [] else v # steps_from n (wrap64 (v + step)) hi step)"

definition bad_value :: "string \<Rightarrow> string \<Rightarrow> goerr" where
  "bad_value what s = Errorf (''bad '' @ what @ '' %q'') [Str s]"

text \<open>One element of a field: its step, its range, the values it allows.\<close>

definition part_step :: "string \<Rightarrow> goerr + string \<times> int" where
  "part_step part =
     (case Cut part ''/'' of
        None \<Rightarrow> Inr (part, 1)
      | Some (base, stepStr) \<Rightarrow>
          (case Atoi stepStr of
             None \<Rightarrow> Inl (bad_value ''step'' stepStr)
           | Some n \<Rightarrow> if n < 1 then Inl (bad_value ''step'' stepStr) else Inr (base, n)))"

definition part_range :: "string \<Rightarrow> int \<Rightarrow> int \<Rightarrow> goerr + int \<times> int" where
  "part_range part minValue maxValue =
     (if part = ''*'' then Inr (minValue, maxValue)
      else case Cut part ''-'' of
        Some (a, b) \<Rightarrow>
          (case Atoi a of
             None \<Rightarrow> Inl (bad_value ''range start'' a)
           | Some lo \<Rightarrow>
             (case Atoi b of
                None \<Rightarrow> Inl (bad_value ''range end'' b)
              | Some hi \<Rightarrow> Inr (lo, hi)))
      | None \<Rightarrow>
          (case Atoi part of
             None \<Rightarrow> Inl (bad_value ''value'' part)
           | Some n \<Rightarrow> Inr (n, n)))"

definition part_values :: "string \<Rightarrow> int \<Rightarrow> int \<Rightarrow> goerr + int list" where
  "part_values part0 minValue maxValue =
     (case part_step part0 of
        Inl e \<Rightarrow> Inl e
      | Inr (part, step) \<Rightarrow>
        (case part_range part minValue maxValue of
           Inl e \<Rightarrow> Inl e
         | Inr (lo, hi) \<Rightarrow>
             if lo < minValue \<or> hi > maxValue \<or> lo > hi
             then Inl (Errorf ''%q is outside %d-%d'' [Str part, Num minValue, Num maxValue])
             else Inr (steps_from 64 lo hi step)))"

lemmas part_defs = part_values_def part_step_def part_range_def

fun parts_values :: "string list \<Rightarrow> int \<Rightarrow> int \<Rightarrow> goerr + int list" where
  "parts_values [] lo hi = Inr []"
| "parts_values (p # ps) lo hi =
     (case part_values p lo hi of
        Inl e \<Rightarrow> Inl e
      | Inr vs \<Rightarrow> (case parts_values ps lo hi of Inl e \<Rightarrow> Inl e | Inr ws \<Rightarrow> Inr (vs @ ws)))"

text \<open>The matcher of a field is the list of the values it allows.\<close>

definition fieldMatcher :: "string \<Rightarrow> int \<Rightarrow> int \<Rightarrow> goerr + int list" where
  "fieldMatcher field minValue maxValue =
     parts_values (SplitChar field (CHR '','')) minValue maxValue"

section \<open>Cadences\<close>

record cadence =
  cd_fires :: int
  cd_gaps :: "int list"

definition cadence_equal :: "cadence \<Rightarrow> cadence \<Rightarrow> bool" where
  "cadence_equal c d \<longleftrightarrow> cd_fires c = cd_fires d \<and> cd_gaps c = cd_gaps d"

definition cadence_String :: "cadence \<Rightarrow> string" where
  "cadence_String c =
     (let every = (\<lambda>g. DurationString (g * Minute))
      in if cd_fires c = 0 then ''never''
         else if cd_gaps c = [] then Itoa (cd_fires c) @ '' times per 28 days''
         else if hd (cd_gaps c) = last (cd_gaps c) then ''every '' @ every (hd (cd_gaps c))
         else Itoa (cd_fires c) @ '' times per 28 days, '' @ every (hd (cd_gaps c))
              @ '' to '' @ every (last (cd_gaps c)) @ '' apart'')"

definition bounds :: "(int \<times> int) list" where
  "bounds = [(0, 59), (0, 23), (1, 31), (1, 12), (0, 6)]"

fun matchers :: "string \<Rightarrow> int \<Rightarrow> (string \<times> int \<times> int) list \<Rightarrow> goerr + int list list" where
  "matchers expr i [] = Inr []"
| "matchers expr i ((f, lo, hi) # fs) =
     (case fieldMatcher f lo hi of
        Inl e \<Rightarrow> Inl (Errorf ''field %d of %q: %w'' [Num (i + 1), Str expr, Err e])
      | Inr m \<Rightarrow> (case matchers expr (i + 1) fs of Inl e \<Rightarrow> Inl e | Inr ms \<Rightarrow> Inr (m # ms)))"

definition window :: int where "window = 28 * 24 * 60"

definition window_start :: time where
  "window_start = epoch_day 2026 1 5 * (24 * Hour)"

definition fires_at :: "int list list \<Rightarrow> time \<Rightarrow> bool" where
  "fires_at ms t \<longleftrightarrow>
     clock_minute t \<in> set (ms ! 0) \<and> clock_hour t \<in> set (ms ! 1) \<and>
     clock_day t \<in> set (ms ! 2) \<and> clock_month t \<in> set (ms ! 3) \<and>
     clock_weekday t \<in> set (ms ! 4)"

definition fired :: "int list list \<Rightarrow> int list" where
  "fired ms = filter (\<lambda>m. fires_at ms (window_start + m * Minute)) [0 .. window - 1]"

definition gaps :: "int list \<Rightarrow> int list" where
  "gaps xs = map (\<lambda>(a, b). b - a) (zip xs (tl xs))"

definition cadenceOf :: "string \<Rightarrow> goerr + cadence" where
  "cadenceOf expr =
     (let fields = Fields expr
      in if length fields \<noteq> 5
         then Inl (Errorf ''cron expression %q has %d fields, want 5''
                [Str expr, Num (int (length fields))])
         else (case matchers expr 0 (zip fields bounds) of
                 Inl e \<Rightarrow> Inl e
               | Inr ms \<Rightarrow>
                   Inr \<lparr>cd_fires = int (length (fired ms)), cd_gaps = sort (gaps (fired ms))\<rparr>))"

section \<open>The loop over a range\<close>

lemma wrap64_id: "- (2 ^ 63) \<le> x \<Longrightarrow> x < 2 ^ 63 \<Longrightarrow> wrap64 x = x"
  by (simp add: wrap64_def)

lemma wrap64_over: "2 ^ 63 \<le> x \<Longrightarrow> x < 3 * 2 ^ 63 \<Longrightarrow> wrap64 x = x - 2 ^ 64"
proof -
  assume x: "2 ^ 63 \<le> x" "x < 3 * 2 ^ 63"
  have "(x + 2 ^ 63) mod 2 ^ 64 = (x + 2 ^ 63 - 2 ^ 64) mod (2 ^ 64 :: int)"
    by (metis minus_mod_self2)
  also have "\<dots> = x + 2 ^ 63 - 2 ^ 64" using x by (intro mod_pos_pos_trivial) auto
  finally show ?thesis by (simp add: wrap64_def)
qed

text \<open>More passes change nothing: without a wrap the value grows by at least one a pass,
  and with one it falls by at least two every two passes.\<close>

lemma steps_past: "hi < v \<Longrightarrow> steps_from n v hi step = []"
  by (cases n) auto

lemma steps_grow:
  assumes "0 \<le> v" "v < 160" "hi < 60" "1 \<le> step" "step < 2 ^ 63 - 60" "hi - v < int n" "n \<le> k"
  shows "steps_from k v hi step = steps_from n v hi step"
  using assms
proof (induction n arbitrary: v k)
  case 0
  then show ?case by (simp add: steps_past)
next
  case (Suc n)
  then obtain j where k: "k = Suc j" by (cases k) auto
  show ?case
  proof (cases "hi < v")
    case False
    with Suc.prems have w: "wrap64 (v + step) = v + step" by (intro wrap64_id) auto
    show ?thesis
    proof (cases "hi < v + step")
      case True
      with False k w show ?thesis by (simp add: steps_past)
    next
      case b: False
      with Suc.prems k have "steps_from j (v + step) hi step = steps_from n (v + step) hi step"
        by (intro Suc.IH) auto
      with False k w show ?thesis by simp
    qed
  qed (simp add: steps_past)
qed

lemma steps_fall:
  assumes "- 120 \<le> v" "v < 60" "hi < 60" "2 ^ 63 - 60 \<le> step" "step < 2 ^ 63"
    "v < 2 * int n" "2 * n < m" "m \<le> k"
  shows "steps_from k v hi step = steps_from m v hi step"
  using assms
proof (induction n arbitrary: v m k)
  case 0
  then obtain i j where km: "k = Suc j" "m = Suc i" by (cases k; cases m) auto
  from 0 have "wrap64 (v + step) = v + step" by (intro wrap64_id) auto
  with 0 km show ?case by (simp add: steps_past)
next
  case (Suc n)
  then have "2 \<le> k" "2 \<le> m" by auto
  then obtain i j where "k = 2 + j" "m = 2 + i" by (auto simp: nat_le_iff_add)
  then have km: "k = Suc (Suc j)" "m = Suc (Suc i)" by auto
  show ?case
  proof (cases "v + step < 2 ^ 63")
    case True
    with Suc.prems have "wrap64 (v + step) = v + step" by (intro wrap64_id) auto
    with Suc.prems km show ?thesis by (simp add: steps_past)
  next
    case False
    with Suc.prems have w: "wrap64 (v + step) = v + step - 2 ^ 64" by (intro wrap64_over) auto
    with False Suc.prems have w2: "wrap64 (wrap64 (v + step) + step) = v + 2 * step - 2 ^ 64"
      by (subst wrap64_id) auto
    have "steps_from j (v + 2 * step - 2 ^ 64) hi step = steps_from i (v + 2 * step - 2 ^ 64) hi step"
      using Suc.prems False km by (intro Suc.IH) auto
    with km w2 show ?thesis by simp
  qed
qed

lemma steps_settle:
  assumes "0 \<le> lo" "lo < 60" "hi < 60" "1 \<le> step" "step < 2 ^ 63" "64 \<le> k"
  shows "steps_from k lo hi step = steps_from 64 lo hi step"
proof (cases "step < 2 ^ 63 - 60")
  case True
  with assms show ?thesis by (intro steps_grow) auto
next
  case False
  with assms show ?thesis by (intro steps_fall[where n = 31]) auto
qed

lemma steps_set:
  assumes "0 \<le> v" "v < 160" "hi < 60" "1 \<le> step" "step < 100" "hi - v < int n"
  shows "set (steps_from n v hi step) = {x. v \<le> x \<and> x \<le> hi \<and> step dvd x - v}"
  using assms
proof (induction n arbitrary: v)
  case 0
  then show ?case by auto
next
  case (Suc n)
  show ?case
  proof (cases "hi < v")
    case False
    with Suc.prems have w: "wrap64 (v + step) = v + step" by (intro wrap64_id) auto
    have rest: "set (steps_from n (v + step) hi step) =
        {x. v + step \<le> x \<and> x \<le> hi \<and> step dvd x - (v + step)}"
    proof (cases "v + step < 160")
      case True
      with Suc.prems show ?thesis by (intro Suc.IH) auto
    qed (use Suc.prems in \<open>simp add: steps_past\<close>)
    have later: "v + step \<le> x \<and> step dvd x - (v + step) \<longleftrightarrow> v < x \<and> step dvd x - v" for x
    proof -
      have "step dvd x - (v + step) \<longleftrightarrow> step dvd x - v"
        using dvd_add_left_iff[of step step "x - (v + step)"] by simp
      moreover have "v + step \<le> x" if "v < x" "step dvd x - v"
        using zdvd_imp_le[OF that(2)] that(1) by simp
      ultimately show ?thesis using Suc.prems by auto
    qed
    have "set (steps_from (Suc n) v hi step) = insert v {x. x \<le> hi \<and> v < x \<and> step dvd x - v}"
      unfolding later[symmetric] using rest w False by (simp add: conj_ac)
    also have "\<dots> = {x. v \<le> x \<and> x \<le> hi \<and> step dvd x - v}"
      using False by (simp add: set_eq_iff) (metis diff_self dvd_0_right le_less not_less)
    finally show ?thesis .
  qed auto
qed

section \<open>Periodic schedules\<close>

lemma filter_one_upto:
  "a \<le> x \<Longrightarrow> x \<le> b \<Longrightarrow> filter (\<lambda>m. m = x) [a .. b] = [x]"
proof (induction a b rule: upto.induct)
  case (1 a b)
  show ?case
  proof (cases "a = x")
    case True
    have "filter (\<lambda>m. m = x) [x + 1 .. b] = []" by (auto simp: filter_empty_conv)
    with True 1 show ?thesis by (simp add: upto_rec1)
  next
    case False
    with 1 show ?thesis by (simp add: upto_rec1)
  qed
qed

lemma filter_periodic:
  assumes "0 \<le> r" "r < p"
  shows "filter (\<lambda>m. m mod p = r) [0 .. p * int k - 1] = map (\<lambda>j. r + p * int j) [0..<k]"
proof (induction k)
  case (Suc k)
  have split: "[0 .. p * int (Suc k) - 1] = [0 .. p * int k - 1] @ [p * int k .. p * int k + p - 1]"
    using assms by (subst upto_split1[of 0 "p * int k"]) (auto simp: algebra_simps)
  have "m mod p = m - p * int k" if "p * int k \<le> m" "m \<le> p * int k + p - 1" for m
  proof -
    have "m mod p = (m - p * int k + p * int k) mod p" by simp
    also have "\<dots> = (m - p * int k) mod p" by (rule mod_mult_self2)
    also have "\<dots> = m - p * int k" using that by (intro mod_pos_pos_trivial) auto
    finally show ?thesis .
  qed
  then have "filter (\<lambda>m. m mod p = r) [p * int k .. p * int k + p - 1] =
      filter (\<lambda>m. m = r + p * int k) [p * int k .. p * int k + p - 1]"
    by (intro filter_cong) auto
  also have "\<dots> = [r + p * int k]"
    using assms by (intro filter_one_upto) auto
  finally show ?case using Suc split by simp
qed simp

lemma gaps_progression: "gaps (map (\<lambda>j. r + p * int j) [0..<k]) = replicate (k - 1) p"
proof (rule nth_equalityI)
  fix i
  assume "i < length (gaps (map (\<lambda>j. r + p * int j) [0..<k]))"
  then have "Suc i < k" by (simp add: gaps_def)
  then show "gaps (map (\<lambda>j. r + p * int j) [0..<k]) ! i = replicate (k - 1) p ! i"
    by (simp add: gaps_def nth_tl algebra_simps)
qed (simp add: gaps_def)

definition every_period :: "nat \<Rightarrow> int \<Rightarrow> cadence" where
  "every_period k p = \<lparr>cd_fires = int k, cd_gaps = replicate (k - 1) p\<rparr>"

lemma cadence_periodic:
  assumes "\<And>m. 0 \<le> m \<Longrightarrow> m < window \<Longrightarrow> fires_at ms (window_start + m * Minute) \<longleftrightarrow> m mod p = r"
    and "0 \<le> r" "r < p" "p * int k = window"
  shows "\<lparr>cd_fires = int (length (fired ms)), cd_gaps = sort (gaps (fired ms))\<rparr> = every_period k p"
proof -
  have "fired ms = filter (\<lambda>m. m mod p = r) [0 .. window - 1]"
    unfolding fired_def using assms(1) by (intro filter_cong) auto
  then have "fired ms = map (\<lambda>j. r + p * int j) [0..<k]"
    using filter_periodic[OF assms(2,3), of k] assms(4) by simp
  moreover have "sort (replicate n p) = replicate n p" for n :: nat
    by (rule sorted_sort_id) (simp add: sorted_replicate)
  ultimately show ?thesis by (simp add: gaps_progression every_period_def)
qed

section \<open>The four weeks\<close>

text \<open>The window starts on a Monday at midnight and ends on a Sunday.\<close>

lemma window_start_value: "window_start = 20458 * (24 * Hour)"
  by (simp add: window_start_def epoch_day_def days_before_month_def upto_rec1)

lemma minutes_to_units:
  fixes x :: int
  shows "x * Minute div Minute = x" "x * Minute div Hour = x div 60"
    "x * Minute div (24 * Hour) = x div 1440"
  using div_mult_mult2[of Minute x 60] div_mult_mult2[of Minute x 1440] by simp_all

lemma window_clock:
  "clock_minute (window_start + m * Minute) = m mod 60"
  "clock_hour (window_start + m * Minute) = (m div 60) mod 24"
  "day_number (window_start + m * Minute) = 20458 + m div 1440"
proof -
  have t: "window_start + m * Minute = (m + 490992 * 60) * Minute"
    by (simp add: window_start_value algebra_simps)
  have days: "m + 490992 * 60 = m + 20458 * 1440" by simp
  have hours: "m div 60 + 490992 = m div 60 + 20458 * 24" by simp
  show "clock_minute (window_start + m * Minute) = m mod 60"
    unfolding clock_minute_def t minutes_to_units by (rule mod_mult_self1)
  show "clock_hour (window_start + m * Minute) = (m div 60) mod 24"
    unfolding clock_hour_def t minutes_to_units
    by (subst div_mult_self1) (simp, subst add.commute, subst hours, rule mod_mult_self1)
  show "day_number (window_start + m * Minute) = 20458 + m div 1440"
    unfolding day_number_def t minutes_to_units days by (rule div_mult_self1) simp
qed

lemma window_days:
  assumes "0 \<le> m" "m < window"
  shows "clock_day (window_start + m * Minute) \<in> {1..31}"
    "clock_month (window_start + m * Minute) \<in> {1..12}"
    "clock_weekday (window_start + m * Minute) \<in> {0..6}"
proof -
  have "m div 1440 \<le> 40319 div 1440"
    using assms by (intro zdiv_mono1) (simp_all add: window_def)
  then have "m div 1440 \<in> set [0..27]"
    unfolding set_upto using assms by (simp add: pos_imp_zdiv_nonneg_iff)
  moreover have "\<forall>d\<in>set [0..27]. march_day (20458 + d) \<in> {310..337}"
    by code_simp
  ultimately have "march_day (20458 + m div 1440) \<in> {310..337}" by blast
  moreover have "doy - (153 * ((5 * doy + 2) div 153) + 2) div 5 + 1 \<in> {1..31}"
    "(if (5 * doy + 2) div 153 < 10 then (5 * doy + 2) div 153 + 3
      else (5 * doy + 2) div 153 - 9) \<in> {1..12}" if "doy \<in> {310..337}" for doy :: int
  proof -
    from that have "doy \<in> set [310..337]" unfolding set_upto by simp
    moreover have "\<forall>d\<in>set [310..337]. d - (153 * ((5 * d + 2) div 153) + 2) div 5 + 1 \<in> {1..31} \<and>
      (if (5 * d + 2) div 153 < 10 then (5 * d + 2) div 153 + 3 else (5 * d + 2) div 153 - 9)
        \<in> {1..12 :: int}"
      by code_simp
    ultimately show "doy - (153 * ((5 * doy + 2) div 153) + 2) div 5 + 1 \<in> {1..31}"
      "(if (5 * doy + 2) div 153 < 10 then (5 * doy + 2) div 153 + 3
        else (5 * doy + 2) div 153 - 9) \<in> {1..12}" by blast+
  qed
  ultimately show "clock_day (window_start + m * Minute) \<in> {1..31}"
    "clock_month (window_start + m * Minute) \<in> {1..12}"
    unfolding clock_day_def clock_month_def window_clock(3) Let_def by blast+
qed (simp add: clock_weekday_def)

section \<open>Expressions that fire once in a period\<close>

text \<open>The hours that are \<open>b\<close> modulo \<open>n\<close>.\<close>

definition hours_of :: "int \<Rightarrow> int \<Rightarrow> int set" where
  "hours_of n b = {x. 0 \<le> x \<and> x \<le> 23 \<and> n dvd x - b}"

lemma set_steps_one: "0 \<le> lo \<Longrightarrow> lo \<le> hi \<Longrightarrow> hi < 60 \<Longrightarrow> set (steps_from 64 lo hi 1) = {lo..hi}"
  by (subst steps_set) auto

lemma fieldMatcher_single:
  "CHR '','' \<notin> set f \<Longrightarrow> fieldMatcher f lo hi = part_values f lo hi"
  by (simp add: fieldMatcher_def SplitChar_single split: sum.splits)

lemma fieldMatcher_star:
  "lo \<le> hi \<Longrightarrow> fieldMatcher ''*'' lo hi = Inr (steps_from 64 lo hi 1)"
  by (simp add: fieldMatcher_single part_defs)

lemma digits_no_sign:
  "list_all is_digit s \<Longrightarrow> CHR '','' \<notin> set s \<and> CHR ''/'' \<notin> set s \<and> CHR ''-'' \<notin> set s \<and> CHR ''*'' \<notin> set s"
  by (auto simp: list_all_iff is_digit_def digit_val_def)

lemma fieldMatcher_digits:
  assumes "list_all is_digit s"
  shows "fieldMatcher s lo hi =
    (case Atoi s of
       None \<Rightarrow> Inl (bad_value ''value'' s)
     | Some n \<Rightarrow> if n < lo \<or> n > hi then Inl (Errorf ''%q is outside %d-%d'' [Str s, Num lo, Num hi])
               else Inr (steps_from 64 n n 1))"
proof -
  from digits_no_sign[OF assms] have "s \<noteq> ''*''" by auto
  with digits_no_sign[OF assms] show ?thesis
    by (simp add: fieldMatcher_single part_defs Cut_char_None split: option.splits)
qed

lemma fieldMatcher_star_step:
  assumes "list_all is_digit s" "lo \<le> hi"
  shows "fieldMatcher (CHR ''*'' # CHR ''/'' # s) lo hi =
    (case Atoi s of
       None \<Rightarrow> Inl (bad_value ''step'' s)
     | Some n \<Rightarrow> if n < 1 then Inl (bad_value ''step'' s) else Inr (steps_from 64 lo hi n))"
proof -
  have "Cut (''*'' @ CHR ''/'' # s) ''/'' = Some (''*'', s)" by (rule Cut_char) simp
  with digits_no_sign[OF assms(1)] assms(2) show ?thesis
    by (simp add: fieldMatcher_single part_defs split: option.splits)
qed

lemma fieldMatcher_range_step:
  assumes "0 \<le> a" "a \<le> b" "b < 60" "1 \<le> n" "n < 60" "lo \<le> a" "b \<le> hi"
  shows "fieldMatcher (Itoa a @ CHR ''-'' # Itoa b @ CHR ''/'' # Itoa n) lo hi =
    Inr (steps_from 64 a b n)"
proof -
  note plain = digits_no_sign[OF Itoa_digits]
  have "Cut ((Itoa a @ CHR ''-'' # Itoa b) @ CHR ''/'' # Itoa n) ''/'' =
      Some (Itoa a @ CHR ''-'' # Itoa b, Itoa n)"
    using assms plain[of a] plain[of b] by (intro Cut_char) auto
  moreover have "Cut (Itoa a @ CHR ''-'' # Itoa b) ''-'' = Some (Itoa a, Itoa b)"
    using assms plain[of a] by (intro Cut_char) auto
  moreover have "Itoa a @ CHR ''-'' # Itoa b \<noteq> ''*''"
    using assms plain[of a] by (cases "Itoa a") auto
  ultimately show ?thesis
    using assms plain[of a] plain[of b] plain[of n]
    by (simp add: fieldMatcher_single part_defs Atoi_Itoa)
qed

lemma two_digits:
  fixes a b q x :: int
  assumes "0 \<le> x" "x < 60" "0 \<le> a" "a \<le> 59"
  shows "x = a \<and> q = b \<longleftrightarrow> 60 * q + x = 60 * b + a"
  using assms by (cases "q < b"; cases "b < q") auto

lemma cadence_of_cron:
  assumes "Fields expr = [m, h, ''*'', ''*'', ''*'']"
    and "fieldMatcher m 0 59 = Inr ms" "set ms = {a}" "0 \<le> a" "a \<le> 59"
    and "fieldMatcher h 0 23 = Inr hs" "set hs = hours_of n b" "0 \<le> b" "b < n" "n * int k = 24"
  shows "cadenceOf expr = Inr (every_period (28 * k) (60 * n))"
proof -
  let ?all = "\<lambda>lo hi. steps_from 64 lo hi 1"
  let ?ms = "[ms, hs, ?all 1 31, ?all 1 12, ?all 0 6]"
  have "matchers expr 0 (zip (Fields expr) bounds) = Inr ?ms"
    using assms(2,6) by (simp add: assms(1) bounds_def fieldMatcher_star)
  then have "cadenceOf expr =
      Inr \<lparr>cd_fires = int (length (fired ?ms)), cd_gaps = sort (gaps (fired ?ms))\<rparr>"
    by (simp add: cadenceOf_def assms(1))
  moreover have "\<lparr>cd_fires = int (length (fired ?ms)), cd_gaps = sort (gaps (fired ?ms))\<rparr> =
      every_period (28 * k) (60 * n)"
  proof (rule cadence_periodic)
    fix t assume t: "0 \<le> t" "t < window"
    have "n dvd 24" using assms(10) by (metis dvd_triv_left)
    have h23: "(t div 60) mod 24 \<le> 23" using pos_mod_bound[of 24 "t div 60"] by linarith
    have "fires_at ?ms (window_start + t * Minute) \<longleftrightarrow>
        t mod 60 = a \<and> n dvd (t div 60) mod 24 - b"
      using window_days[OF t] assms(3,7) h23
      by (simp add: fires_at_def window_clock set_steps_one hours_of_def)
    also have "n dvd (t div 60) mod 24 - b \<longleftrightarrow> (t div 60) mod 24 mod n = b mod n"
      by (rule mod_eq_dvd_iff[symmetric])
    also have "(t div 60) mod 24 mod n = (t div 60) mod n"
      using \<open>n dvd 24\<close> by (rule mod_mod_cancel)
    also have "b mod n = b" using assms(8,9) by simp
    also have "t mod 60 = a \<and> (t div 60) mod n = b \<longleftrightarrow> t mod (60 * n) = 60 * b + a"
    proof -
      have "t mod (60 * n) = 60 * ((t div 60) mod n) + t mod 60"
        using assms(8,9) by (subst zmod_zmult2_eq) auto
      moreover have "0 \<le> t mod 60" "t mod 60 < 60" by simp_all
      ultimately show ?thesis using assms(4,5) by (simp add: two_digits)
    qed
    finally show "fires_at ?ms (window_start + t * Minute) \<longleftrightarrow> t mod (60 * n) = 60 * b + a" .
  next
    show "0 \<le> 60 * b + a" "60 * b + a < 60 * n" using assms by simp_all
    show "60 * n * int (28 * k) = window"
      using assms(10) by (simp add: window_def)
  qed
  ultimately show ?thesis by simp
qed

end
