(* ===== verification/Migrate.thy ===== *)
theory Migrate
  imports Cadence Script
begin

text \<open>
  Generating resources from a hand-written backup (\<open>internal/cli/helmrelease.go\<close>,
  \<open>internal/cli/migrate.go\<close>): the HelmRelease that is read, the small parsers for its
  backup script, and the Repository and ScheduledBackup that come out. Reading the file
  and decoding the YAML are left to the libraries; the texts of a decoded file are valid
  UTF-8, so that the loops over runes are loops over bytes.
\<close>

section \<open>The HelmRelease\<close>

text \<open>A value of the untyped \<open>env\<close> map: a string, a number or boolean by the text
  \<open>fmt.Sprint\<close> gives it, or anything else.\<close>

datatype env_entry = EnvString string | EnvScalar string | EnvOther

record hr_container =
  hc_Command :: "string list"
  hc_WorkingDir :: string
  hc_Env :: "env_entry gomap"

record hr_controller =
  hr_Schedule :: string
  hr_ConcurrencyPolicy :: string
  hr_TimeZone :: string
  hr_Containers :: "hr_container gomap"

record hr_persistence =
  hp_Type :: string
  hp_Name :: string
  hp_ExistingClaim :: string
  hp_StorageClass :: string

record helm_release =
  hr_Namespace :: string
  hr_Controllers :: "hr_controller gomap"
  hr_Persistence :: "hr_persistence gomap"

definition ErrNoResticController :: goerr where
  "ErrNoResticController = Sentinel ''no restic controller in the HelmRelease''"

definition ErrNoResticScript :: goerr where
  "ErrNoResticScript = Sentinel ''no restic command in the HelmRelease''"

definition resticController :: string where "resticController = ''restic''"

definition backupController :: "helm_release \<Rightarrow> goerr + hr_controller \<times> hr_container" where
  "backupController hr =
     (case map_of (hr_Controllers hr) resticController of
        None \<Rightarrow> Inl ErrNoResticController
      | Some controller \<Rightarrow>
        (case map_of (hr_Containers controller) resticController of
           None \<Rightarrow> Inl ErrNoResticScript
         | Some container \<Rightarrow> Inr (controller, container)))"

definition container_script :: "hr_container \<Rightarrow> goerr + string" where
  "container_script c = (if hc_Command c = [] then Inl ErrNoResticScript else Inr (last (hc_Command c)))"

definition container_env :: "hr_container \<Rightarrow> string \<Rightarrow> string" where
  "container_env c name =
     (case map_of (hc_Env c) name of
        None \<Rightarrow> ''''
      | Some (EnvString s) \<Rightarrow> s
      | Some (EnvScalar s) \<Rightarrow> s
      | Some EnvOther \<Rightarrow> '''')"

definition sortedKeys :: "'v gomap \<Rightarrow> string list" where
  "sortedKeys m = sort (remdups (map fst m))"

text \<open>The first non-empty text in the order of the keys.\<close>

fun first_text :: "('v \<Rightarrow> string) \<Rightarrow> 'v gomap \<Rightarrow> string list \<Rightarrow> string" where
  "first_text f m [] = ''''"
| "first_text f m (k # ks) =
     (case map_of m k of
        None \<Rightarrow> first_text f m ks
      | Some v \<Rightarrow> if f v \<noteq> '''' then f v else first_text f m ks)"

definition existingClaim :: "helm_release \<Rightarrow> string" where
  "existingClaim hr = first_text hp_ExistingClaim (hr_Persistence hr) (sortedKeys (hr_Persistence hr))"

definition databaseSecret :: "helm_release \<Rightarrow> string" where
  "databaseSecret hr =
     first_text (\<lambda>p. if hp_Type p = ''secret'' then hp_Name p else '''')
       (hr_Persistence hr) (sortedKeys (hr_Persistence hr))"

definition cacheStorageClass :: "helm_release \<Rightarrow> string" where
  "cacheStorageClass hr =
     (case map_of (hr_Persistence hr) ''cache'' of None \<Rightarrow> '''' | Some p \<Rightarrow> hp_StorageClass p)"

definition scheduleOf :: "helm_release \<Rightarrow> string" where
  "scheduleOf hr =
     (case map_of (hr_Controllers hr) resticController of None \<Rightarrow> '''' | Some c \<Rightarrow> hr_Schedule c)"

section \<open>Reading a script\<close>

text \<open>\<open>splitArgs\<close>: \<open>current\<close> holds the word read so far, last byte first; \<open>quote\<close> the
  quote that is open.\<close>

fun split_args :: "char option \<Rightarrow> bool \<Rightarrow> string \<Rightarrow> string \<Rightarrow> string list" where
  "split_args quote inWord current [] = (if inWord then [rev current] else [])"
| "split_args quote inWord current (c # s) =
     (case quote of
        Some q \<Rightarrow>
          if c = q then split_args None inWord current s
          else split_args quote inWord (c # current) s
      | None \<Rightarrow>
          if c = squote \<or> c = CHR 0x22 then split_args (Some c) True current s
          else if c = CHR '' '' \<or> c = tab then
            (if inWord then rev current # split_args None False [] s
             else split_args None inWord current s)
          else split_args None True (c # current) s)"

definition splitArgs :: "string \<Rightarrow> string list" where
  "splitArgs line = split_args None False [] line"

definition flag_prefix :: "string \<Rightarrow> string" where
  "flag_prefix name = ''--'' @ name @ ''=''"

fun flagValue :: "string list \<Rightarrow> string \<Rightarrow> string option" where
  "flagValue [] name = None"
| "flagValue (a # args) name =
     (case CutPrefix a (flag_prefix name) of
        Some v \<Rightarrow> Some v
      | None \<Rightarrow> flagValue args name)"

definition flagValues :: "string list \<Rightarrow> string \<Rightarrow> string list" where
  "flagValues args name = List.map_filter (\<lambda>a. CutPrefix a (flag_prefix name)) args"

definition parseInt32 :: "string \<Rightarrow> goerr + int" where
  "parseInt32 s =
     (case ParseInt s 32 of
        None \<Rightarrow> Inl (Errorf ''strconv.ParseInt: parsing %q'' [Str s])
      | Some n \<Rightarrow> Inr n)"

text \<open>\<open>joinContinuations\<close>: \<open>current\<close> is the text of the continued lines so far.\<close>

fun join_lines :: "string \<Rightarrow> string list \<Rightarrow> string list" where
  "join_lines current [] = (if TrimSpace current \<noteq> '''' then [TrimSpace current] else [])"
| "join_lines current (line # ls) =
     (let trimmed = TrimSpace line
      in case CutSuffix trimmed [backslash] of
           Some after \<Rightarrow> join_lines (current @ TrimSpace after @ '' '') ls
         | None \<Rightarrow>
             (let joined = TrimSpace (current @ trimmed)
              in (if joined \<noteq> '''' then [joined] else []) @ join_lines [] ls))"

definition joinContinuations :: "string \<Rightarrow> string list" where
  "joinContinuations script = join_lines [] (SplitChar script nl)"

section \<open>The commands of a backup script\<close>

definition ErrExcludeCount :: goerr where
  "ErrExcludeCount = Sentinel ''refusing to emit a partial exclude list''"

fun indexOf_from :: "int \<Rightarrow> string list \<Rightarrow> string \<Rightarrow> int" where
  "indexOf_from i [] want = - 1"
| "indexOf_from i (a # args) want = (if a = want then i else indexOf_from (i + 1) args want)"

definition indexOf :: "string list \<Rightarrow> string \<Rightarrow> int" where
  "indexOf args want = indexOf_from 0 args want"

fun firstPositional :: "string list \<Rightarrow> string" where
  "firstPositional [] = ''''"
| "firstPositional (a # args) = (if \<not> HasPrefix a ''-'' then a else firstPositional args)"

definition passthrough :: "string list \<Rightarrow> string list" where
  "passthrough args =
     (let i = indexOf args ''--''
      in if 0 \<le> i \<and> i + 1 < int (length args) then drop (nat (i + 1)) args else [])"

fun parseDumpdb :: "string list \<Rightarrow> goerr + string \<times> string list" where
  "parseDumpdb (a # engine # rest) =
     (if a \<noteq> ''dumpdb'' then parseDumpdb (engine # rest)
      else if engine = DatabaseEngineCNPG \<or> engine = DatabaseEngineMariaDB then Inr (engine, rest)
      else Inl (Errorf ''unrecognised dumpdb engine %q'' [Str engine]))"
| "parseDumpdb _ = Inl (Errorf ''a --stdin-from-command backup with no dumpdb invocation'' [])"

text \<open>\<open>strings.Count\<close> of a non-empty text: the occurrences that do not overlap.\<close>

function count_text :: "string \<Rightarrow> string \<Rightarrow> int" where
  "count_text s sub =
     (if sub = [] then 0
      else case Cut s sub of None \<Rightarrow> 0 | Some (_, rest) \<Rightarrow> 1 + count_text rest sub)"
  by pat_completeness auto
termination
  by (relation "measure (\<lambda>(s, sub). length s)") (auto dest!: Cut_Some)

declare count_text.simps [simp del]

definition no_source :: backup_source where
  "no_source = \<lparr>src_Type = '''', src_Tag = '''', src_Path = '''', src_Exclude = [],
     src_Database = '''', src_ExtraArgs = []\<rparr>"

definition parseBackupLine :: "string list \<Rightarrow> goerr + backup_source \<times> string" where
  "parseBackupLine args =
     (let source = (case flagValue args ''tag'' of
            Some tag \<Rightarrow> no_source\<lparr>src_Tag := tag\<rparr> | None \<Rightarrow> no_source);
          i = indexOf args ''--stdin-from-command''
      in if 0 \<le> i then
           (case parseDumpdb (drop (nat i) args) of
              Inl e \<Rightarrow> Inl e
            | Inr (engine, rest) \<Rightarrow>
                (let source = source\<lparr>src_Type := engine\<rparr>;
                     source = (case flagValue rest ''database'' of
                       Some database \<Rightarrow> source\<lparr>src_Database := database\<rparr> | None \<Rightarrow> source);
                     extra = passthrough rest;
                     source = (if extra \<noteq> [] then source\<lparr>src_ExtraArgs := extra\<rparr> else source)
                 in Inr (source, engine)))
         else
           (let source = source\<lparr>src_Type := SourceTypeFiles, src_Path := firstPositional (drop 2 args)\<rparr>;
                excludes = flagValues args ''exclude'';
                want = count_text (Join args '' '') ''--exclude=''
            in if want \<noteq> int (length excludes)
               then Inl (Errorf ''%w: parsed %d of %d --exclude patterns''
                      [Err ErrExcludeCount, Num (int (length excludes)), Num want])
               else Inr (source\<lparr>src_Exclude := excludes\<rparr>, '''')))"

text \<open>
  \<open>parseRetention\<close> ranges over a Go map, so in no fixed order; the order only decides
  which of several malformed flags is reported.
\<close>

definition retention_unit :: "string list \<Rightarrow> string \<Rightarrow> goerr + int option" where
  "retention_unit args unit =
     (case flagValue args (''keep-'' @ unit) of
        None \<Rightarrow> Inr None
      | Some value \<Rightarrow>
          (case parseInt32 value of
             Inl e \<Rightarrow> Inl (Errorf ''--keep-%s=%s: %w'' [Str unit, Str value, Err e])
           | Inr n \<Rightarrow> Inr (Some n)))"

fun retention_units :: "string list \<Rightarrow> string list \<Rightarrow> goerr + int option list" where
  "retention_units args [] = Inr []"
| "retention_units args (u # us) =
     (case retention_unit args u of
        Inl e \<Rightarrow> Inl e
      | Inr v \<Rightarrow> (case retention_units args us of Inl e \<Rightarrow> Inl e | Inr vs \<Rightarrow> Inr (v # vs)))"

definition parseRetention :: "string list \<Rightarrow> goerr + retention option" where
  "parseRetention args =
     (case retention_units args [''last'', ''hourly'', ''daily'', ''weekly'', ''monthly'', ''yearly''] of
        Inl e \<Rightarrow> Inl e
      | Inr vs \<Rightarrow>
          if list_all (\<lambda>v. v = None) vs then Inr None
          else Inr (Some \<lparr>rn_Last = vs ! 0, rn_Hourly = vs ! 1, rn_Daily = vs ! 2,
                 rn_Weekly = vs ! 3, rn_Monthly = vs ! 4, rn_Yearly = vs ! 5\<rparr>))"

record script_parts =
  sp_Sources :: "backup_source list"
  sp_Retention :: "retention option"
  sp_Engine :: string

definition parse_args :: "string list \<Rightarrow> script_parts \<Rightarrow> goerr + script_parts" where
  "parse_args args acc =
     (if length args < 2 \<or> args ! 0 \<noteq> ''restic'' then Inr acc
      else if args ! 1 = ''backup'' then
        (case parseBackupLine args of
           Inl e \<Rightarrow> Inl e
         | Inr (source, engine) \<Rightarrow>
             Inr (acc\<lparr>sp_Sources := sp_Sources acc @ [source],
               sp_Engine := (if engine \<noteq> '''' then engine else sp_Engine acc)\<rparr>))
      else if args ! 1 = ''forget'' then
        (case parseRetention args of
           Inl e \<Rightarrow> Inl e
         | Inr r \<Rightarrow> Inr (acc\<lparr>sp_Retention := r\<rparr>))
      else Inr acc)"

definition parse_line :: "string \<Rightarrow> script_parts \<Rightarrow> goerr + script_parts" where
  "parse_line line acc = parse_args (splitArgs line) acc"

fun parse_lines :: "string list \<Rightarrow> script_parts \<Rightarrow> goerr + script_parts" where
  "parse_lines [] acc = Inr acc"
| "parse_lines (l # ls) acc =
     (case parse_line l acc of Inl e \<Rightarrow> Inl e | Inr acc' \<Rightarrow> parse_lines ls acc')"

definition parseBackupScript :: "string \<Rightarrow> goerr + script_parts" where
  "parseBackupScript script =
     parse_lines (joinContinuations script) \<lparr>sp_Sources = [], sp_Retention = None, sp_Engine = ''''\<rparr>"

section \<open>The schedule\<close>

definition isNumeric :: "string \<Rightarrow> bool" where
  "isNumeric s \<longleftrightarrow> s \<noteq> [] \<and> list_all is_digit s"

definition shorthandSchedule :: "string \<Rightarrow> string" where
  "shorthandSchedule expr =
     (let fields = Fields expr
      in if length fields \<noteq> 5 then expr
         else
           (let minute = fields ! 0; hour = fields ! 1
            in if fields ! 2 \<noteq> ''*'' \<or> fields ! 3 \<noteq> ''*'' \<or> fields ! 4 \<noteq> ''*'' then expr
               else if \<not> isNumeric minute then expr
               else if hour = ''*'' then ''@hourly''
               else if isNumeric hour then ''@daily''
               else
                 (case CutPrefix hour ''*/'' of
                    Some step \<Rightarrow> if isNumeric step then ''@every '' @ step @ ''h'' else expr
                  | None \<Rightarrow> expr)))"

section \<open>The generated resources\<close>

definition migratedName :: string where "migratedName = ''restic''"

definition ErrNoRepositoryID :: goerr where
  "ErrNoRepositoryID = Sentinel ''could not recover the BorgBase repository ID''"

text \<open>The pattern \<open>^[a-z0-9]{4,32}$\<close>.\<close>

definition repositoryIDPattern :: "string \<Rightarrow> bool" where
  "repositoryIDPattern s \<longleftrightarrow>
     4 \<le> length s \<and> length s \<le> 32 \<and>
     list_all (\<lambda>c. c \<in> set (''abcdefghijklmnopqrstuvwxyz'' @ ''0123456789'')) s"

definition new_repository :: "string \<Rightarrow> string \<Rightarrow> repository" where
  "new_repository ns name =
     \<lparr>rp_Meta = new_meta ns name [],
      rp_Spec = \<lparr>rs_Interval = None, rs_Suspend = False, rs_DeletionPolicy = '''',
        rs_APITokenSecretRef = None, rs_ExistingRepositoryID = '''', rs_PasswordSecretRef = None,
        rs_RepositoryName = '''', rs_Region = '''', rs_QuotaGiB = None, rs_AlertDays = None,
        rs_AppendOnly = False, rs_SecretName = ''''\<rparr>,
      rp_Status = \<lparr>rt_Conditions = [], rt_ObservedGeneration = 0, rt_RepositoryID = '''',
        rt_Adopted = False, rt_Initialized = False, rt_Server = '''', rt_SecretName = '''',
        rt_CurrentUsage = '''', rt_Quota = ''''\<rparr>\<rparr>"

definition new_backup :: "string \<Rightarrow> string \<Rightarrow> scheduled_backup" where
  "new_backup ns name =
     \<lparr>sb_Meta = new_meta ns name [],
      sb_Spec = \<lparr>bs_RepositoryRef = '''', bs_Schedule = '''', bs_TimeZone = '''', bs_Suspend = False,
        bs_ConcurrencyPolicy = '''', bs_Image = '''', bs_Sources = [], bs_Script = '''',
        bs_Retention = None, bs_RetryLock = None, bs_Env = [], bs_Database = None, bs_Volume = None,
        bs_Cache = None, bs_Healthchecks = None, bs_Affinity = None, bs_PodSecurityContext = None,
        bs_ContainerSecurityContext = None, bs_PodLabels = [], bs_Resources = None,
        bs_SuccessfulJobsHistoryLimit = None, bs_FailedJobsHistoryLimit = None\<rparr>,
      sb_Status = \<lparr>bt_Conditions = [], bt_ObservedGeneration = 0, bt_EffectiveSchedule = '''',
        bt_LastScheduleTime = None, bt_LastSuccessfulTime = None, bt_Active = 0,
        bt_LastTriggerTime = None, bt_LastTriggerJob = '''', bt_History = []\<rparr>\<rparr>"

definition migrated_repository :: "helm_release \<Rightarrow> string \<Rightarrow> repository" where
  "migrated_repository hr repositoryID =
     (let repo = new_repository (hr_Namespace hr) migratedName
      in repo\<lparr>rp_Spec := (rp_Spec repo)\<lparr>rs_ExistingRepositoryID := repositoryID,
           rs_PasswordSecretRef := Some \<lparr>sel_Name = ''restic-envs'', sel_Key = ''RESTIC_PASSWORD''\<rparr>\<rparr>\<rparr>)"

definition migrated_backup ::
  "helm_release \<Rightarrow> hr_controller \<Rightarrow> hr_container \<Rightarrow> script_parts \<Rightarrow> scheduled_backup" where
  "migrated_backup hr controller container parts =
     (let sb = new_backup (hr_Namespace hr) migratedName;
          spec = (sb_Spec sb)\<lparr>bs_RepositoryRef := migratedName,
            bs_Schedule := shorthandSchedule (hr_Schedule controller),
            bs_Sources := sp_Sources parts, bs_Retention := sp_Retention parts,
            bs_Healthchecks := Some \<lparr>hs_Enabled = None,
              hs_PingKeySecretRef = Some \<lparr>sel_Name = ''healthchecks-ping-key'', sel_Key = ''PING_KEY''\<rparr>,
              hs_Slug = '''', hs_Create = None, hs_APIURL = '''', hs_UUIDSecretRef = None\<rparr>\<rparr>;
          spec = (if hr_ConcurrencyPolicy controller \<noteq> ''''
            then spec\<lparr>bs_ConcurrencyPolicy := hr_ConcurrencyPolicy controller\<rparr> else spec);
          spec = (if hr_TimeZone controller \<noteq> ''''
            then spec\<lparr>bs_TimeZone := hr_TimeZone controller\<rparr> else spec);
          spec = (if sp_Engine parts \<noteq> ''''
            then spec\<lparr>bs_Database := Some \<lparr>db_Engine = sp_Engine parts, db_SecretName = databaseSecret hr,
              db_Host = container_env container ''DB_HOST'',
              db_Name = container_env container ''DB_DATABASE'',
              db_User = container_env container ''DB_USERNAME''\<rparr>\<rparr> else spec);
          claim = existingClaim hr;
          spec = (if claim \<noteq> '''' then
              (let wd = hc_WorkingDir container
               in spec\<lparr>bs_Volume := Some \<lparr>vs_ExistingClaim = claim,
                    vs_MountPath = (if wd \<noteq> '''' \<and> wd \<noteq> CHR ''/'' # claim then wd else ''''),
                    vs_ReadOnly = False\<rparr>\<rparr>)
            else spec);
          spec = (if cacheStorageClass hr \<noteq> ''''
            then spec\<lparr>bs_Cache := Some \<lparr>ca_Enabled = None, ca_StorageClass = cacheStorageClass hr,
              ca_Size = '''', ca_AccessMode = ''''\<rparr>\<rparr> else spec)
      in sb\<lparr>sb_Spec := spec\<rparr>)"

definition migrateHelmRelease ::
  "helm_release \<Rightarrow> string \<Rightarrow> goerr + repository \<times> scheduled_backup" where
  "migrateHelmRelease hr repositoryID =
     (case backupController hr of
        Inl e \<Rightarrow> Inl e
      | Inr (controller, container) \<Rightarrow>
        (case container_script container of
           Inl e \<Rightarrow> Inl e
         | Inr script \<Rightarrow>
           (case parseBackupScript script of
              Inl e \<Rightarrow> Inl e
            | Inr parts \<Rightarrow>
                Inr (migrated_repository hr repositoryID,
                     migrated_backup hr controller container parts))))"

text \<open>
  \<open>runMigrate\<close> once the HelmRelease has been read: \<open>given\<close> is the flag, \<open>recovered\<close> the
  identifier from the decrypted Secret. The lines printed before the two documents stay
  formats with their arguments.
\<close>

definition migrate_comments :: "string \<Rightarrow> helm_release \<Rightarrow> scheduled_backup \<Rightarrow> message list" where
  "migrate_comments path hr sb =
     (let original = scheduleOf hr
      in [(''# Generated by corg migrate from %s'', [Str path]),
          (''# Review against the HelmRelease, then check it with corg parity.'', [])] @
         (if original \<noteq> bs_Schedule (sb_Spec sb) then
            [(''#'', []),
             (''# schedule: was %q, hand-jittered. Handed back to the operator as %q,'',
                [Str original, Str (bs_Schedule (sb_Spec sb))]),
             (''# which derives its own minute from a hash of this resource, so the'', []),
             (''# spread is kept without anyone maintaining it. Check'', []),
             (''# status.effectiveSchedule for the expression it settles on.'', [])]
          else []))"

definition runMigrate ::
  "string \<Rightarrow> helm_release \<Rightarrow> string \<Rightarrow> goerr + string \<Rightarrow>
   goerr + message list \<times> repository \<times> scheduled_backup" where
  "runMigrate path hr given recovered =
     (case (if given = '''' then recovered else Inr given) of
        Inl e \<Rightarrow> Inl e
      | Inr repositoryID \<Rightarrow>
          if \<not> repositoryIDPattern repositoryID then
            Inl (Errorf ''%w: %q is not a BorgBase repository ID'' [Err ErrNoRepositoryID, Str repositoryID])
          else
            (case migrateHelmRelease hr repositoryID of
               Inl e \<Rightarrow> Inl e
             | Inr (repo, sb) \<Rightarrow> Inr (migrate_comments path hr sb, repo, sb)))"

section \<open>The identifier in the encrypted Secret\<close>

text \<open>\<open>internal/cli/sops.go\<close>, from the decrypted Secret on; running \<open>sops\<close> is left to the
  library. \<open>stringData\<close> goes before \<open>data\<close>.\<close>

record decrypted_secret =
  ds_StringData :: "string gomap"
  ds_Data :: "string gomap"

definition repositoryIDFromURL :: "string \<Rightarrow> goerr + string" where
  "repositoryIDFromURL url =
     (case CutPrefix url ''rest:https://'' of
        None \<Rightarrow> Inl (Errorf ''%w: %q is not a rest: repository URL'' [Err ErrNoRepositoryID, Str url])
      | Some rest \<Rightarrow>
        (case Cut rest '':'' of
           None \<Rightarrow> Inl (Errorf ''%w: no id in %q'' [Err ErrNoRepositoryID, Str url])
         | Some (i, _) \<Rightarrow>
             if i = '''' then Inl (Errorf ''%w: no id in %q'' [Err ErrNoRepositoryID, Str url])
             else Inr i))"

definition repositoryIDFromSecret :: "string \<Rightarrow> decrypted_secret \<Rightarrow> goerr + string" where
  "repositoryIDFromSecret path s =
     (let url = lookup_str (ds_StringData s) ''RESTIC_REPOSITORY'';
          url = (if url = '''' then lookup_str (ds_Data s) ''RESTIC_REPOSITORY'' else url)
      in if url = '''' then
           Inl (Errorf ''%w: %s has no RESTIC_REPOSITORY'' [Err ErrNoRepositoryID, Str path])
         else repositoryIDFromURL url)"

end
