(* ===== verification/MigrateContracts.thy ===== *)
theory MigrateContracts
  imports Migrate
begin

text \<open>
  What a migration keeps: the cadence of the schedule.
\<close>

section \<open>Durations in hours\<close>

lemma leadingInt_digits:
  assumes "list_all is_digit ds" "\<not> is_digit c"
  shows "leadingInt x (ds @ c # s) \<in>
    {None, Some (foldl (\<lambda>acc c. acc * 10 + digit_val c) x ds, c # s)}"
  using assms by (induction ds arbitrary: x) (auto simp: Let_def)

lemma ParseDuration_hours:
  assumes "isNumeric ds" "ParseDuration (ds @ ''h'') = Some dur"
  shows "dur = digits_val ds * Hour"
proof -
  from assms(1) obtain d t where ds: "ds = d # t" and digits: "list_all is_digit (d # t)"
    by (cases ds) (auto simp: isNumeric_def)
  have "\<not> is_digit (CHR ''h'')" by (simp add: is_digit_def digit_val_def)
  with leadingInt_digits[OF digits, of "CHR ''h''" 0 "[]"]
  have lead: "leadingInt 0 (ds @ ''h'') \<in> {None, Some (digits_val ds, ''h'')}"
    by (simp add: ds digits_val_def)
  have unit: "unit_char (CHR ''h'')" by (simp add: unit_char_def is_digit_def digit_val_def)
  have "duration_group (ds @ ''h'') \<in> {None, Some (digits_val ds * Hour, [])}"
  proof (cases "leadingInt 0 (ds @ ''h'')")
    case None
    with digits show ?thesis by (simp add: duration_group_def ds del: leadingInt.simps)
  next
    case (Some p)
    with lead have lead': "leadingInt 0 (d # t @ ''h'') = Some (digits_val ds, ''h'')" by (simp add: ds)
    show ?thesis
      using digits unit lead' by (simp add: duration_group_def ds unitMap_def del: leadingInt.simps)
  qed
  moreover have "d \<noteq> CHR ''-''" "d \<noteq> CHR ''+''"
    using digits by (auto dest: is_digit_not_sign)
  ultimately show ?thesis
    using assms(2)
    by (auto simp: ParseDuration_def ds duration_groups.simps[of 0 "d # t @ ''h''"]
        duration_groups.simps[of _ "[]"] split: if_splits)
qed

section \<open>The cadence of a schedule\<close>

lemma cadenceOf_fields:
  "Fields e = Fields e' \<Longrightarrow> cadenceOf e = Inr c \<Longrightarrow> cadenceOf e' = Inr c"
proof -
  have "matchers e i fs = Inr ms \<Longrightarrow> matchers e' i fs = Inr ms" for i fs ms
    by (induction e i fs arbitrary: ms rule: matchers.induct) (auto split: sum.splits)
  then show "Fields e = Fields e' \<Longrightarrow> cadenceOf e = Inr c \<Longrightarrow> cadenceOf e' = Inr c"
    by (fastforce simp: cadenceOf_def Let_def split: if_splits sum.splits)
qed

lemma at_field_rejected: "\<exists>e. fieldMatcher (CHR ''@'' # v) lo hi = Inl e"
proof -
  have no_number: "Atoi (CHR ''@'' # s) = None" for s
    by (simp add: Atoi_def ParseInt_def is_digit_def digit_val_def)
  have cut: "Cut (CHR ''@'' # s) [c] = None \<or> (\<exists>a b. Cut (CHR ''@'' # s) [c] = Some (CHR ''@'' # a, b))"
    if "c \<noteq> CHR ''@''" for s c
    using that by (cases "Cut s [c]") auto
  have range: "\<exists>e. part_range (CHR ''@'' # t) lo hi = Inl e" for t
    using cut[of "CHR ''-''" t] no_number
    by (auto simp: part_range_def simp del: Cut.simps)
  have step: "\<exists>e. part_step (CHR ''@'' # t) = Inl e \<or> (\<exists>u n. part_step (CHR ''@'' # t) = Inr (CHR ''@'' # u, n))" for t
    using cut[of "CHR ''/''" t]
    by (auto simp: part_step_def simp del: Cut.simps split: option.splits)
  have part: "\<exists>e. part_values (CHR ''@'' # t) lo hi = Inl e" for t
  proof (cases "part_step (CHR ''@'' # t)")
    case (Inr p)
    with step[of t] obtain u n where "p = (CHR ''@'' # u, n)" by auto
    moreover obtain e where "part_range (CHR ''@'' # u) lo hi = Inl e" using range by blast
    ultimately show ?thesis using Inr by (simp add: part_values_def)
  qed (simp add: part_values_def)
  obtain w ws where split: "SplitChar (CHR ''@'' # v) (CHR '','') = (CHR ''@'' # w) # ws"
    by (cases "SplitChar v (CHR '','')") auto
  obtain e where "part_values (CHR ''@'' # w) lo hi = Inl e" using part by blast
  with split show ?thesis by (simp add: fieldMatcher_def)
qed

lemma cadence_not_shorthand:
  assumes "cadenceOf expr = Inr c"
  shows "\<not> HasPrefix (TrimSpace expr) ''@''"
proof
  assume "HasPrefix (TrimSpace expr) ''@''"
  then obtain s where "TrimSpace expr = CHR ''@'' # s" by (auto simp: HasPrefix_iff)
  moreover have "plain_char (CHR ''@'')" by (simp add: plain_char_def)
  ultimately obtain v fs where "Fields (TrimSpace expr) = (CHR ''@'' # v) # fs"
    using Fields_start by metis
  then have fields: "Fields expr = (CHR ''@'' # v) # fs" by simp
  obtain e where "fieldMatcher (CHR ''@'' # v) 0 59 = Inl e" using at_field_rejected by blast
  then have "\<exists>e. matchers expr 0 (zip (Fields expr) bounds) = Inl e"
    by (simp add: fields bounds_def)
  with assms show False by (auto simp: cadenceOf_def Let_def split: if_splits)
qed

text \<open>What the two sides of a migration have in common: the minutes and the hours.\<close>

definition once :: "string \<Rightarrow> bool" where
  "once m \<longleftrightarrow> (\<exists>ms a. fieldMatcher m 0 59 = Inr ms \<and> set ms = {a} \<and> 0 \<le> a \<and> a \<le> 59)"

definition hourly :: "int \<Rightarrow> string \<Rightarrow> bool" where
  "hourly n h \<longleftrightarrow> (\<exists>hs b. fieldMatcher h 0 23 = Inr hs \<and> set hs = hours_of n b \<and> 0 \<le> b \<and> b < n)"

lemma cadence_once_hourly:
  assumes "once m" "hourly n h" "Fields e = [m, h, ''*'', ''*'', ''*'']" "n * int k = 24"
  shows "cadenceOf e = Inr (every_period (28 * k) (60 * n))"
  using assms cadence_of_cron[OF assms(3)] unfolding once_def hourly_def by blast

lemma steps_single: "0 \<le> n \<Longrightarrow> n < 60 \<Longrightarrow> set (steps_from 64 n n 1) = {n}"
  by (subst set_steps_one) auto

lemma once_Itoa: "0 \<le> a \<Longrightarrow> a \<le> 59 \<Longrightarrow> once (Itoa a)"
  unfolding once_def by (simp add: fieldMatcher_digits Itoa_digits Atoi_Itoa steps_single)

lemma once_digits: "list_all is_digit m \<Longrightarrow> fieldMatcher m 0 59 = Inr ms \<Longrightarrow> once m"
  unfolding once_def
  by (auto simp: fieldMatcher_digits steps_single split: option.splits if_splits)

lemma hours_of_one: "hours_of 1 0 = {0..23}"
  by (auto simp: hours_of_def)

lemma hours_of_day: "0 \<le> b \<Longrightarrow> b < 24 \<Longrightarrow> hours_of 24 b = {b}"
proof -
  assume b: "0 \<le> b" "b < 24"
  have "x = b" if "24 dvd x - b" "0 \<le> x" "x \<le> 23" for x
  proof -
    from that(1) have "x mod 24 = b mod 24" by (simp add: mod_eq_dvd_iff)
    with that b show ?thesis by simp
  qed
  with b show ?thesis by (auto simp: hours_of_def)
qed

lemma hourly_star: "hourly 1 ''*''"
  unfolding hourly_def using hours_of_one by (auto simp: fieldMatcher_star set_steps_one)

lemma hourly_number:
  "0 \<le> b \<Longrightarrow> b \<le> 23 \<Longrightarrow> fieldMatcher h 0 23 = Inr (steps_from 64 b b 1) \<Longrightarrow> hourly 24 h"
  unfolding hourly_def using hours_of_day[of b] by (auto simp: steps_single)

lemma hourly_steps:
  assumes "1 \<le> n" "n \<le> 24" "0 \<le> b" "b < n" "fieldMatcher h 0 23 = Inr (steps_from 64 b 23 n)"
  shows "hourly n h"
proof -
  have "x \<ge> b" if "n dvd x - b" "0 \<le> x" for x
  proof (rule ccontr)
    assume "\<not> b \<le> x"
    then have "0 < b - x" "b - x < n" using that assms by auto
    moreover have "n dvd b - x" using that(1) by (metis dvd_minus_iff minus_diff_eq)
    ultimately show False using zdvd_imp_le[of n "b - x"] by simp
  qed
  then have "set (steps_from 64 b 23 n) = hours_of n b"
    using assms by (subst steps_set) (auto simp: hours_of_def)
  with assms show ?thesis unfolding hourly_def by blast
qed

text \<open>The expression that a shorthand for \<open>n\<close> hours resolves to.\<close>

lemma cadence_resolved:
  assumes "once m" "hourly n h" "n * int k = 24"
    "\<And>m h. Fields (expr m h) = [m, h, ''*'', ''*'', ''*'']"
  shows "cadenceOf (expr m h) = Inr (every_period (28 * k) (60 * n))"
  using assms by (blast intro: cadence_once_hourly)

definition jitter_minute :: "string \<Rightarrow> int" where "jitter_minute key = jitter key mod 60"
definition jitter_hour :: "string \<Rightarrow> int" where "jitter_hour key = (jitter key div 60) mod 24"

lemma jitter_bounds:
  "0 \<le> jitter_minute key" "jitter_minute key \<le> 59" "0 \<le> jitter_hour key" "jitter_hour key \<le> 23"
  using pos_mod_bound[of 60 "jitter key"] pos_mod_bound[of 24 "jitter key div 60"]
  unfolding jitter_minute_def jitter_hour_def by (simp, linarith, simp, linarith)

lemma hourly_resolved:
  "ResolveSchedule ''@hourly'' key = Inr e \<Longrightarrow> cadenceOf e = Inr (every_period 672 60)"
  using cadence_once_hourly[OF once_Itoa[OF jitter_bounds(1,2)] hourly_star, of e key 24]
  by (auto simp: ResolveSchedule_def HasPrefix_def TrimSpace_plain plain_char_def Let_def
      Fields_cron jitter_minute_def)

lemma hour_number: "0 \<le> b \<Longrightarrow> b \<le> 23 \<Longrightarrow> hourly 24 (Itoa b)"
  by (rule hourly_number[of b]) (simp_all add: fieldMatcher_digits Itoa_digits Atoi_Itoa)

lemma daily_expr:
  "cadenceOf (Itoa (jitter_minute key) @ '' '' @ Itoa (jitter_hour key) @ '' * * *'') =
   Inr (every_period 28 1440)"
  using cadence_once_hourly[OF once_Itoa[OF jitter_bounds(1,2)] hour_number[OF jitter_bounds(3,4)], of _ key key 1]
  by (simp add: Fields_cron)

lemma daily_resolved:
  "ResolveSchedule ''@daily'' key = Inr e \<Longrightarrow> cadenceOf e = Inr (every_period 28 1440)"
  using daily_expr[of key]
  by (auto simp: ResolveSchedule_def HasPrefix_def TrimSpace_plain plain_char_def Let_def
      jitter_minute_def jitter_hour_def)

lemma every_resolved:
  assumes "isNumeric ds" "ResolveSchedule (''@every '' @ ds @ ''h'') key = Inr e"
  shows "\<exists>k. digits_val ds * int k = 24 \<and>
    cadenceOf e = Inr (every_period (28 * k) (60 * digits_val ds)) \<and> 1 \<le> digits_val ds"
proof -
  obtain d t where ds: "ds = d # t" "is_digit d" using assms(1) by (cases ds) (auto simp: isNumeric_def)
  have h: "plain_char (CHR ''h'')" by (simp add: plain_char_def)
  have "TrimSpace (''@every '' @ ds @ ''h'') = ''@every '' @ ds @ ''h''"
    by (rule TrimSpace_plain) (simp_all add: plain_char_def)
  moreover have "TrimSpace (ds @ ''h'') = ds @ ''h''"
    using h by (intro TrimSpace_plain) (simp_all add: ds is_digit_plain)
  moreover have "TrimPrefix (''@every '' @ ds @ ''h'') ''@every '' = ds @ ''h''"
    by (simp add: TrimPrefix_def)
  ultimately have e: "resolveEvery (ds @ ''h'') (jitter_minute key) (jitter_hour key) = Inr e"
    using assms(2)
    by (simp add: ResolveSchedule_def Let_def HasPrefix_def jitter_minute_def jitter_hour_def)
  then obtain dur where dur: "ParseDuration (ds @ ''h'') = Some dur" "even_period dur"
    using resolveEvery_accepts_iff[of "ds @ ''h''" "jitter_minute key" "jitter_hour key"] by auto
  define n where "n = digits_val ds"
  have "dur = n * Hour" using ParseDuration_hours[OF assms(1) dur(1)] by (simp add: n_def)
  with dur(2) obtain q where "0 < n" "n * q = 1 \<or> q * n = 24"
    by (auto simp: even_period_def)
  then have "n dvd 24" by (metis dvd_triv_left dvd_triv_right dvd_trans one_dvd)
  then have "1 \<le> n" "n \<le> 24" using \<open>0 < n\<close> zdvd_imp_le[of n 24] by auto
  obtain k where k: "n * int k = 24"
  proof -
    from \<open>n dvd 24\<close> obtain q where q: "24 = n * q" by (elim dvdE)
    with \<open>0 < n\<close> have "0 < q" by (metis zero_less_mult_pos zero_less_numeral)
    with q that[of "nat q"] show thesis by simp
  qed
  have b: "0 \<le> jitter_hour key mod n" "jitter_hour key mod n < n" using \<open>1 \<le> n\<close> by simp_all
  have "cadenceOf e = Inr (every_period (28 * k) (60 * n))"
  proof -
    consider "n = 1" | "1 < n" "n < 24" | "n = 24" using \<open>1 \<le> n\<close> \<open>n \<le> 24\<close> by linarith
    then show ?thesis
    proof cases
      case 1
      with e \<open>dur = n * Hour\<close> have "e = Itoa (jitter_minute key) @ '' * * * *''"
        by (simp add: resolveEvery_def dur(1))
      with 1 k show ?thesis
        by (intro cadence_once_hourly[OF once_Itoa[OF jitter_bounds(1,2), of key] _ _ k, of "''*''"])
          (simp_all add: hourly_star Fields_cron)
    next
      case 2
      have hours: "whole_hours (n * Hour) = n" by (simp add: whole_hours_def)
      from 2 e \<open>dur = n * Hour\<close> have
        "e = Itoa (jitter_minute key) @ '' '' @ Itoa (jitter_hour key mod n) @ ''-23/'' @ Itoa n @ '' * * *''"
        by (simp add: resolveEvery_def dur(1) hours Let_def split: if_splits)
      moreover have "hourly n (Itoa (jitter_hour key mod n) @ ''-23/'' @ Itoa n)"
      proof (rule hourly_steps[OF \<open>1 \<le> n\<close> \<open>n \<le> 24\<close> b])
        have "Itoa 23 = ''23''" by (simp add: Itoa_eval)
        then show "fieldMatcher (Itoa (jitter_hour key mod n) @ ''-23/'' @ Itoa n) 0 23 =
            Inr (steps_from 64 (jitter_hour key mod n) 23 n)"
          using fieldMatcher_range_step[of "jitter_hour key mod n" 23 n 0 23] b 2
          by simp
      qed
      ultimately show ?thesis
        by (intro cadence_once_hourly[OF once_Itoa[OF jitter_bounds(1,2), of key] _ _ k])
          (simp_all add: Fields_cron)
    next
      case 3
      with e \<open>dur = n * Hour\<close>
      have "e = Itoa (jitter_minute key) @ '' '' @ Itoa (jitter_hour key) @ '' * * *''"
        by (simp add: resolveEvery_def dur(1))
      with 3 k daily_expr[of key] show ?thesis by simp
    qed
  qed
  with k \<open>1 \<le> n\<close> show ?thesis by (auto simp: n_def)
qed

lemma cadence_matchers:
  assumes "cadenceOf expr = Inr c" "Fields expr = m # h # fs"
  obtains ms hs where "fieldMatcher m 0 59 = Inr ms" "fieldMatcher h 0 23 = Inr hs"
proof -
  from assms obtain all where "matchers expr 0 (zip (Fields expr) bounds) = Inr all"
    by (auto simp: cadenceOf_def Let_def split: if_splits sum.splits)
  with assms(2) that show thesis
    by (auto simp: bounds_def split: sum.splits)
qed

lemma list_of_five:
  assumes "length xs = 5" shows "xs = [xs ! 0, xs ! 1, xs ! 2, xs ! 3, xs ! 4]"
  using assms by (auto simp: list_eq_iff_nth_eq less_Suc_eq eval_nat_numeral)

lemma shorthand_cases:
  assumes "shorthandSchedule expr \<noteq> expr"
  obtains m h where "Fields expr = [m, h, ''*'', ''*'', ''*'']" "isNumeric m"
    "shorthandSchedule expr = (if h = ''*'' then ''@hourly'' else if isNumeric h then ''@daily''
       else ''@every '' @ the (CutPrefix h ''*/'') @ ''h'')"
    "h = ''*'' \<or> isNumeric h \<or> (\<exists>s. h = ''*/'' @ s \<and> isNumeric s)"
proof -
  let ?m = "Fields expr ! 0" and ?h = "Fields expr ! 1"
  from assms have "length (Fields expr) = 5" "Fields expr ! 2 = ''*''" "Fields expr ! 3 = ''*''"
    "Fields expr ! 4 = ''*''" "isNumeric ?m"
    by (auto simp: shorthandSchedule_def Let_def split: if_splits)
  then have fields: "Fields expr = [?m, ?h, ''*'', ''*'', ''*'']" using list_of_five by metis
  have cases: "?h = ''*'' \<or> isNumeric ?h \<or> (\<exists>s. ?h = ''*/'' @ s \<and> isNumeric s)"
    using assms by (auto simp: shorthandSchedule_def Let_def CutPrefix_Some split: if_splits option.splits)
  moreover have "shorthandSchedule expr = (if ?h = ''*'' then ''@hourly'' else if isNumeric ?h then ''@daily''
       else ''@every '' @ the (CutPrefix ?h ''*/'') @ ''h'')"
    using assms by (auto simp: shorthandSchedule_def Let_def split: if_splits option.splits)
  ultimately show thesis using that[OF fields \<open>isNumeric ?m\<close>] by blast
qed

lemma hourly_of_number:
  assumes "isNumeric h" "fieldMatcher h 0 23 = Inr hs" shows "hourly 24 h"
proof -
  from assms obtain b where "fieldMatcher h 0 23 = Inr (steps_from 64 b b 1)" "0 \<le> b" "b \<le> 23"
    by (auto simp: isNumeric_def fieldMatcher_digits split: option.splits if_splits)
  then show ?thesis by (intro hourly_number)
qed

lemma hourly_of_step:
  assumes "isNumeric s" "digits_val s * int k = 24" "1 \<le> digits_val s"
  shows "hourly (digits_val s) (''*/'' @ s)"
proof -
  have n: "digits_val s \<le> 24"
    using assms(2) zdvd_imp_le[of "digits_val s" 24] by (metis dvd_triv_left zero_less_numeral)
  with assms have "Atoi s = Some (digits_val s)"
    by (simp add: Atoi_def isNumeric_def ParseInt_digits)
  with assms n show ?thesis
    by (intro hourly_steps[of _ 0]) (auto simp: fieldMatcher_star_step isNumeric_def)
qed

section \<open>Properties\<close>

lemma shorthand_cadence:
  assumes "cadenceOf expr = Inr c"
    and "ResolveSchedule (shorthandSchedule expr) key = Inr resolved"
  shows "cadenceOf resolved = Inr c"
proof (cases "shorthandSchedule expr = expr")
  case True
  with assms(2) cadence_not_shorthand[OF assms(1)] have "resolved = TrimSpace expr"
    by (simp add: ResolveSchedule_def Let_def split: if_splits)
  then have "Fields expr = Fields resolved" by simp
  then show ?thesis using assms(1) by (rule cadenceOf_fields)
next
  case False
  then obtain m h where fields: "Fields expr = [m, h, ''*'', ''*'', ''*'']"
    and m: "isNumeric m"
    and short: "shorthandSchedule expr = (if h = ''*'' then ''@hourly'' else if isNumeric h then ''@daily''
       else ''@every '' @ the (CutPrefix h ''*/'') @ ''h'')"
      "h = ''*'' \<or> isNumeric h \<or> (\<exists>s. h = ''*/'' @ s \<and> isNumeric s)"
    by (rule shorthand_cases)
  from assms(1) obtain ms hs where "fieldMatcher m 0 59 = Inr ms" "fieldMatcher h 0 23 = Inr hs"
    by (rule cadence_matchers[OF _ fields])
  with m have "once m" by (auto simp: isNumeric_def intro: once_digits)
  have same: "cadenceOf expr = Inr (every_period (28 * k) (60 * n))" if "hourly n h" "n * int k = 24" for n k
    using cadence_once_hourly[OF \<open>once m\<close> that(1) fields that(2)] .
  from short(2) show ?thesis
  proof (elim disjE exE conjE)
    assume "h = ''*''"
    with assms short(1) same[OF _ , of 1 24] hourly_star hourly_resolved[of key resolved] show ?thesis by simp
  next
    assume h: "isNumeric h"
    then have "hourly 24 h"
      using \<open>fieldMatcher h 0 23 = Inr hs\<close> by (rule hourly_of_number)
    moreover from h have "h \<noteq> ''*''" by (auto simp: isNumeric_def is_digit_def digit_val_def)
    ultimately show ?thesis
      using assms short(1) h same[of 24 1] daily_resolved[of key resolved] by simp
  next
    fix s
    assume h: "h = ''*/'' @ s" and s: "isNumeric s"
    then have "\<not> isNumeric h" "h \<noteq> ''*''" by (auto simp: isNumeric_def is_digit_def digit_val_def)
    then have "shorthandSchedule expr = ''@every '' @ s @ ''h''" using short(1) by (simp add: h)
    with every_resolved[OF s, of key resolved] assms(2) obtain k where
      k: "digits_val s * int k = 24" "1 \<le> digits_val s"
      and "cadenceOf resolved = Inr (every_period (28 * k) (60 * digits_val s))" by auto
    moreover have "hourly (digits_val s) h"
      using hourly_of_step[OF s k] \<open>fieldMatcher h 0 23 = Inr hs\<close> by (simp add: h)
    ultimately show ?thesis using assms(1) same[OF _ k(1)] by simp
  qed
qed

text \<open>
  C37. A migrated schedule runs as often as the original. Whatever cron expression the
  HelmRelease has, as long as it is one: if the shorthand it is replaced by resolves, for
  any resource, then it fires as many times in four weeks and at the same distances as the
  expression did; and an expression that is kept is kept as it is.
\<close>

theorem migration_keeps_cadence:
  assumes "cadenceOf expr = Inr c"
    and "ResolveSchedule (shorthandSchedule expr) key = Inr resolved"
  shows "cadenceOf resolved = Inr c"
  using assms by (rule shorthand_cadence)

lemma six_hourly:
  "cadenceOf ''27 */6 * * *'' = Inr (every_period 112 360)"
  "shorthandSchedule ''27 */6 * * *'' = ''@every 6h''"
  "\<exists>resolved. ResolveSchedule ''@every 6h'' key = Inr resolved"
proof -
  let ?expr = "''27 */6 * * *''"
  have fields: "Fields ?expr = [''27'', ''*/6'', ''*'', ''*'', ''*'']"
    using Fields_Join[of "[''27'', ''*/6'', ''*'', ''*'', ''*'']"] by (simp add: plain_char_def)
  have "once ''27''" using once_Itoa[of 27] by (simp add: Itoa_eval)
  moreover have "digits_val ''6'' = 6" by (simp add: digits_val_def digit_val_def)
  then have "hourly 6 ''*/6''"
    using hourly_of_step[of "''6''" 4] by (simp add: isNumeric_def is_digit_def digit_val_def)
  ultimately show "cadenceOf ?expr = Inr (every_period 112 360)"
    using cadence_once_hourly[of "''27''" 6 "''*/6''" ?expr 4] fields by simp
  show "shorthandSchedule ?expr = ''@every 6h''"
    by (simp add: shorthandSchedule_def fields isNumeric_def is_digit_def digit_val_def)
  have "TrimSpace ''@every 6h'' = ''@every 6h''" "TrimSpace ''6h'' = ''6h''"
    by (simp_all add: TrimSpace_plain plain_char_def)
  moreover have "ParseDuration ''6h'' = Some (6 * Hour)" by code_simp
  ultimately show "\<exists>resolved. ResolveSchedule ''@every 6h'' key = Inr resolved"
    by (simp add: ResolveSchedule_def resolveEvery_def whole_hours_def HasPrefix_def TrimPrefix_def Let_def)
qed

theorem migration_keeps_cadence_witness:
  "cadenceOf ''17 0-23/6 * * *'' = Inr (every_period 112 360)"
proof (rule migration_keeps_cadence[OF six_hourly(1)])
  have "TrimSpace ''@every 6h'' = ''@every 6h''" "TrimSpace ''6h'' = ''6h''"
    by (simp_all add: TrimSpace_plain plain_char_def)
  moreover have "jitter ''a/b'' = 9336257" by (simp add: jitter_def fnv32a_def)
  moreover have "ParseDuration ''6h'' = Some (6 * Hour)" by code_simp
  moreover have "Itoa 17 = ''17''" "Itoa 0 = ''0''" "Itoa 6 = ''6''" by (simp_all add: Itoa_eval)
  ultimately show "ResolveSchedule (shorthandSchedule ''27 */6 * * *'') ''a/b'' = Inr ''17 0-23/6 * * *''"
    by (simp add: six_hourly(2) ResolveSchedule_def resolveEvery_def whole_hours_def HasPrefix_def TrimPrefix_def)
qed

end
