(* ===== verification/ScriptRoundtrip.thy ===== *)
theory ScriptRoundtrip
  imports Migrate
begin

text \<open>
  Reading back a rendered script: the parsers of the migration (\<open>internal/cli/migrate.go\<close>)
  recover from the script that the operator renders (\<open>internal/backup/script.go\<close>) the
  sources, the retention and the engine it was rendered from.
\<close>

section \<open>Words\<close>

text \<open>\<open>reads w x\<close>: the text \<open>w\<close> is (part of) a word that \<open>splitArgs\<close> reads as \<open>x\<close>.\<close>

definition reads :: "string \<Rightarrow> string \<Rightarrow> bool" where
  "reads w x \<longleftrightarrow>
     (\<forall>b current s. split_args None b current (w @ s) = split_args None True (rev x @ current) s)"

definition bare_char :: "char \<Rightarrow> bool" where
  "bare_char c \<longleftrightarrow> c \<noteq> squote \<and> c \<noteq> CHR 0x22 \<and> c \<noteq> CHR '' '' \<and> c \<noteq> tab"

lemma readsD: "reads w x \<Longrightarrow> split_args None b current (w @ s) = split_args None True (rev x @ current) s"
  by (simp add: reads_def)

lemma reads_append: "reads w x \<Longrightarrow> reads w' x' \<Longrightarrow> reads (w @ w') (x @ x')"
  by (simp add: reads_def)

lemma reads_bare: "w \<noteq> [] \<Longrightarrow> list_all bare_char w \<Longrightarrow> reads w w"
proof (induction w rule: list_nonempty_induct)
  case (single c)
  then show ?case by (simp add: reads_def bare_char_def)
next
  case (cons c w)
  then have "reads [c] [c]" by (simp add: reads_def bare_char_def)
  with cons show ?case using reads_append[of "[c]" "[c]" w w] by simp
qed

lemma split_args_quoted:
  "q \<notin> set x \<Longrightarrow> split_args (Some q) True current (x @ q # s) = split_args None True (rev x @ current) s"
  by (induction x arbitrary: current) auto

lemma ReplaceChar_absent: "c \<notin> set s \<Longrightarrow> ReplaceChar s c new = s"
  by (induction s) auto

lemma reads_shellQuote: "squote \<notin> set x \<Longrightarrow> reads (shellQuote x) x"
  by (simp add: reads_def shellQuote_def ReplaceChar_absent split_args_quoted)

lemma safe_bare: "safe_char c \<Longrightarrow> bare_char c"
  by (auto simp: safe_char_def bare_char_def)

lemma reads_shellQuoteIfNeeded: "squote \<notin> set x \<Longrightarrow> reads (shellQuoteIfNeeded x) x"
  using reads_bare[of x]
  by (auto simp: shellQuoteIfNeeded_def safeBare_def reads_shellQuote list_all_iff safe_bare)

lemma splitArgs_words:
  assumes "ws \<noteq> []" "\<forall>(w, x)\<in>set ws. reads w x"
  shows "splitArgs (Join (map fst ws) '' '') = map snd ws"
  unfolding splitArgs_def using assms
proof (induction ws rule: list_nonempty_induct)
  case (single p)
  obtain w x where p: "p = (w, x)" by (cases p)
  with single have "reads w x" by simp
  from readsD[OF this, of False "[]" "[]"] p show ?case by simp
next
  case (cons p ws)
  obtain w x where p: "p = (w, x)" by (cases p)
  with cons have r: "reads w x" by auto
  have "split_args None False [] (w @ '' '' @ Join (map fst ws) '' '') =
      split_args None True (rev x) ('' '' @ Join (map fst ws) '' '')"
    using r by (simp add: reads_def)
  with cons p show ?case by (simp add: Join_Cons)
qed

section \<open>Lines\<close>

text \<open>A text that \<open>TrimSpace\<close> leaves alone and that is no continuation.\<close>

definition tidy :: "string \<Rightarrow> bool" where
  "tidy p \<longleftrightarrow> p \<noteq> [] \<and> plain_char (hd p) \<and> plain_char (last p) \<and> last p \<noteq> backslash \<and> nl \<notin> set p"

lemma TrimSpace_tidy: "tidy p \<Longrightarrow> TrimSpace p = p"
  by (simp add: tidy_def TrimSpace_plain)

lemma trim_left_blank: "trim_left (CHR '' '' # s) = trim_left s"
  by (subst trim_left.simps) simp

lemma trim_left_rev_blank: "trim_left_rev (CHR '' '' # s) = trim_left_rev s"
  by (subst trim_left_rev.simps) (simp add: cut_space_rev_def space_seqs_rev_def space_seqs_def)

lemma TrimSpace_blank_left: "TrimSpace (CHR '' '' # s) = TrimSpace s"
  by (simp add: TrimSpace_def trim_left_blank)

lemma TrimSpace_blank_right:
  "s \<noteq> [] \<Longrightarrow> plain_char (hd s) \<Longrightarrow> TrimSpace (s @ '' '') = TrimSpace s"
  by (cases s) (simp_all add: TrimSpace_def trim_left_plain trim_left_rev_blank)

text \<open>A line of a script may be written over several, as the code does with the excludes.\<close>

fun physical :: "string list \<Rightarrow> string list" where
  "physical [] = []"
| "physical [p] = [p]"
| "physical (p # q # ps) = (p @ '' '' @ [backslash]) # physical (q # ps)"

lemma SplitChar_physical:
  "ps \<noteq> [] \<Longrightarrow> \<forall>p\<in>set ps. nl \<notin> set p \<Longrightarrow>
   SplitChar (Join ps ('' '' @ [backslash, nl]) @ nl # s) nl = physical ps @ SplitChar s nl"
proof (induction ps rule: physical.induct)
  case (3 p q ps)
  have "SplitChar ((p @ '' '' @ [backslash]) @ nl # (Join (q # ps) ('' '' @ [backslash, nl]) @ nl # s)) nl =
      (p @ '' '' @ [backslash]) # SplitChar (Join (q # ps) ('' '' @ [backslash, nl]) @ nl # s) nl"
    using 3 by (intro SplitChar_append) auto
  with 3 show ?case by simp
qed (auto simp: SplitChar_append)

definition indented :: "string \<Rightarrow> string \<Rightarrow> bool" where
  "indented q p \<longleftrightarrow> tidy p \<and> (q = p \<or> q = ''  '' @ p)"

lemma TrimSpace_indented: "indented q p \<Longrightarrow> TrimSpace q = p"
  by (auto simp: indented_def TrimSpace_tidy TrimSpace_blank_left)

lemma join_lines_continued:
  assumes "indented q p"
  shows "join_lines current ((q @ '' '' @ [backslash]) # ls) = join_lines (current @ p @ '' '') ls"
proof -
  from assms have p: "tidy p" "q = p \<or> q = ''  '' @ p" by (auto simp: indented_def)
  have "TrimSpace (p @ '' '' @ [backslash]) = p @ '' '' @ [backslash]"
    using p(1) by (intro TrimSpace_plain) (auto simp: tidy_def plain_char_def)
  with p(2) have "TrimSpace (q @ '' '' @ [backslash]) = (p @ '' '') @ [backslash]"
    by (auto simp: TrimSpace_blank_left)
  moreover have "CutSuffix ((p @ '' '') @ [backslash]) [backslash] = Some (p @ '' '')"
    unfolding CutSuffix_Some ..
  moreover have "TrimSpace (p @ '' '') = p"
    using p(1) by (simp add: TrimSpace_blank_right TrimSpace_tidy tidy_def TrimSpace_plain)
  ultimately show ?thesis by simp
qed

lemma tidy_no_continuation: "tidy p \<Longrightarrow> CutSuffix p [backslash] = None"
  by (cases "CutSuffix p [backslash]") (auto simp: CutSuffix_Some tidy_def)

lemma tidy_prefix:
  "tidy p \<Longrightarrow> c = [] \<or> plain_char (hd c) \<Longrightarrow> nl \<notin> set c \<Longrightarrow> tidy (c @ p)"
  by (cases c) (auto simp: tidy_def)

lemma join_lines_physical:
  assumes "qs \<noteq> []" "list_all2 indented qs ps"
    "current = [] \<or> plain_char (hd current)" "nl \<notin> set current"
  shows "join_lines current (physical qs @ ls) = (current @ Join ps '' '') # join_lines [] ls"
  using assms
proof (induction qs arbitrary: ps current rule: physical.induct)
  case (2 q)
  then obtain p where ps: "ps = [p]" "indented q p" by (auto simp: list_all2_Cons1)
  then have "tidy p" "TrimSpace q = p" by (auto simp: TrimSpace_indented indented_def)
  then have "tidy (current @ p)" using 2 by (intro tidy_prefix) auto
  then have "TrimSpace (current @ p) = current @ p" "current @ p \<noteq> []"
    by (simp_all add: TrimSpace_tidy) (auto simp: tidy_def)
  with \<open>tidy p\<close> \<open>TrimSpace q = p\<close> ps show ?case by (simp add: tidy_no_continuation)
next
  case (3 q r qs)
  then obtain p ps' where ps: "ps = p # ps'" "indented q p" "list_all2 indented (r # qs) ps'" "ps' \<noteq> []"
    by (auto simp: list_all2_Cons1)
  then have "tidy p" by (simp add: indented_def)
  then have "join_lines (current @ p @ '' '') (physical (r # qs) @ ls) =
      ((current @ p @ '' '') @ Join ps' '' '') # join_lines [] ls"
    using 3 ps by (intro "3.IH") (auto simp: tidy_def hd_append)
  with ps join_lines_continued[OF ps(2), of current "physical (r # qs) @ ls"] show ?case
    by (simp add: Join_Cons del: join_lines.simps)
qed simp

text \<open>\<open>line_of ws line\<close>: the line, perhaps over several physical ones, is read as the words
  \<open>map snd ws\<close>, written \<open>map fst ws\<close>.\<close>

definition line_of :: "(string \<times> string) list \<Rightarrow> string \<Rightarrow> bool" where
  "line_of ws line \<longleftrightarrow>
     (\<exists>qs ps. line = Join qs ('' '' @ [backslash, nl]) \<and> qs \<noteq> [] \<and> list_all2 indented qs ps \<and>
        Join ps '' '' = Join (map fst ws) '' '') \<and>
     ws \<noteq> [] \<and> (\<forall>(w, x)\<in>set ws. reads w x)"

lemma indented_no_nl: "indented q p \<Longrightarrow> nl \<notin> set q"
  by (auto simp: indented_def tidy_def)

lemma join_line_of:
  assumes "line_of ws line"
  shows "join_lines [] (SplitChar (line @ nl # s) nl) = Join (map fst ws) '' '' # join_lines [] (SplitChar s nl)"
proof -
  from assms obtain qs ps where line: "line = Join qs ('' '' @ [backslash, nl])" "qs \<noteq> []"
    and qs: "list_all2 indented qs ps" and words: "Join ps '' '' = Join (map fst ws) '' ''"
    by (auto simp: line_of_def)
  from qs have "\<forall>q\<in>set qs. nl \<notin> set q"
    by (induction rule: list_all2_induct) (auto dest: indented_no_nl)
  then show ?thesis
    using SplitChar_physical[of qs s] join_lines_physical[OF line(2) qs, of "[]"] line words by simp
qed

lemma join_lines_blank: "join_lines [] [[]] = []"
  by (simp add: TrimSpace_def CutSuffix_def)

fun parse_words :: "string list list \<Rightarrow> script_parts \<Rightarrow> goerr + script_parts" where
  "parse_words [] acc = Inr acc"
| "parse_words (ws # wss) acc =
     (case parse_args ws acc of Inl e \<Rightarrow> Inl e | Inr acc' \<Rightarrow> parse_words wss acc')"

lemma parse_lines_of:
  assumes "list_all2 line_of wss ls"
  shows "parse_lines (joinContinuations (unlines ls)) acc = parse_words (map (map snd) wss) acc"
  unfolding joinContinuations_def using assms
proof (induction wss ls arbitrary: acc rule: list_all2_induct)
  case Nil
  then show ?case using join_lines_blank by (simp add: unlines_def)
next
  case (Cons ws wss line ls)
  then have "ws \<noteq> []" "\<forall>(w, x)\<in>set ws. reads w x" by (auto simp: line_of_def)
  then have "parse_line (Join (map fst ws) '' '') = parse_args (map snd ws)"
    by (simp add: parse_line_def splitArgs_words fun_eq_iff)
  with Cons join_line_of[OF Cons.hyps(1), of "unlines ls"] show ?case
    by (simp add: unlines_def split: sum.split)
qed

lemma parse_words_append:
  "parse_words (xs @ ys) acc =
     (case parse_words xs acc of Inl e \<Rightarrow> Inl e | Inr acc' \<Rightarrow> parse_words ys acc')"
  by (induction xs arbitrary: acc) (auto split: sum.split)

section \<open>Counting a text\<close>

text \<open>A text without blanks is found in two texts joined by a blank exactly as often as in
  the two together.\<close>

lemma Cut_append_blank:
  assumes "c \<notin> set sub" "sub \<noteq> []"
  shows "Cut (a @ c # b) sub =
    (case Cut a sub of
       Some (x, r) \<Rightarrow> Some (x, r @ c # b)
     | None \<Rightarrow> map_option (\<lambda>(x, r). (a @ c # x, r)) (Cut b sub))"
proof (induction a)
  case Nil
  from assms have "CutPrefix (c # b) sub = None" by (cases sub) auto
  then show ?case using assms(2) by (simp split: option.split)
next
  case (Cons d a)
  have "CutPrefix ((d # a) @ c # b) sub = map_option (\<lambda>r. r @ c # b) (CutPrefix (d # a) sub)"
    using assms(1) by (intro CutPrefix_append_other) auto
  with Cons show ?case by (cases "Cut b sub") (auto split: option.split)
qed

lemma count_text_blank:
  assumes "c \<notin> set sub" "sub \<noteq> []"
  shows "count_text (a @ c # b) sub = count_text a sub + count_text b sub"
proof (induction a rule: length_induct)
  case (1 a)
  show ?case
  proof (cases "Cut a sub")
    case None
    with assms show ?thesis
      by (subst (1 2 3) count_text.simps) (auto simp: Cut_append_blank split: option.split)
  next
    case (Some p)
    then obtain x r where p: "Cut a sub = Some (x, r)" by (cases p) auto
    from Cut_Some[OF p] assms(2) have "length r < length a" by simp
    with 1 have "count_text (r @ c # b) sub = count_text r sub + count_text b sub" by blast
    with p assms show ?thesis
      by (subst (1 2) count_text.simps) (simp add: Cut_append_blank)
  qed
qed

lemma count_text_none: "Cut s sub = None \<Longrightarrow> count_text s sub = 0"
  by (subst count_text.simps) simp

lemma count_text_Join:
  assumes "c \<notin> set sub" "sub \<noteq> []" "ws \<noteq> []"
  shows "count_text (Join ws [c]) sub = sum_list (map (\<lambda>w. count_text w sub) ws)"
  using assms(3)
proof (induction ws rule: list_nonempty_induct)
  case (cons w ws)
  then show ?case
    using count_text_blank[OF assms(1,2), of w "Join ws [c]"] by (simp add: Join_Cons)
qed simp

lemma count_text_prefix:
  "sub \<noteq> [] \<Longrightarrow> Cut s sub = None \<Longrightarrow> count_text (sub @ s) sub = 1"
proof -
  assume "sub \<noteq> []" and none: "Cut s sub = None"
  then obtain c t where "sub = c # t" by (cases sub) auto
  moreover have "CutPrefix (sub @ s) sub = Some s" by simp
  ultimately have "Cut (sub @ s) sub = Some ([], s)" by simp
  with none \<open>sub \<noteq> []\<close> show ?thesis by (subst count_text.simps) (simp add: count_text_none)
qed

section \<open>What a rendered line says\<close>

text \<open>
  The texts a spec may hold for its script to be read back: quoted texts without a single
  quote, which the migration does not unescape, and without a newline; tags as the CRD
  admits them; passed-through arguments that need no quoting.
\<close>

definition quotable :: "string \<Rightarrow> bool" where
  "quotable s \<longleftrightarrow> squote \<notin> set s \<and> nl \<notin> set s"

definition tag_char :: "char \<Rightarrow> bool" where
  "tag_char c \<longleftrightarrow>
     c \<in> set (''ABCDEFGHIJKLMNOPQRSTUVWXYZ'' @ ''abcdefghijklmnopqrstuvwxyz'' @ ''0123456789'' @ ''_.-'')"

abbreviation exclude_flag :: string where "exclude_flag \<equiv> ''--exclude=''"

definition readable_source :: "backup_source \<Rightarrow> bool" where
  "readable_source src \<longleftrightarrow>
     list_all tag_char (src_Tag src) \<and>
     (if src_Type src = SourceTypeFiles then
        quotable (EffectivePath src) \<and> \<not> HasPrefix (EffectivePath src) ''-'' \<and>
        \<not> Contains (EffectivePath src) exclude_flag \<and>
        list_all (\<lambda>ex. quotable ex \<and> \<not> Contains ex exclude_flag) (src_Exclude src)
      else
        quotable (src_Database src) \<and> list_all safeBare (src_ExtraArgs src) \<and>
        (src_Database src = '''' \<longrightarrow> list_all (\<lambda>a. \<not> HasPrefix a ''--database='') (src_ExtraArgs src)))"

text \<open>The words of a line, as written and as read.\<close>

definition plain_words :: "string list \<Rightarrow> (string \<times> string) list" where
  "plain_words ws = map (\<lambda>w. (w, w)) ws"

definition head_words :: "backup_spec \<Rightarrow> backup_source \<Rightarrow> (string \<times> string) list" where
  "head_words spec src =
     plain_words ([''restic'', ''backup''] @ retry_words spec @ [''--tag='' @ EffectiveTag src])"

definition exclude_words :: "backup_source \<Rightarrow> (string \<times> string) list" where
  "exclude_words src = map (\<lambda>ex. (exclude_flag @ shellQuote ex, exclude_flag @ ex)) (src_Exclude src)"

definition dump_words :: "backup_source \<Rightarrow> (string \<times> string) list" where
  "dump_words src =
     plain_words [''--stdin-from-command'', ''--'', ''dumpdb'', src_Type src,
       ''--secret-mount='' @ DBSecretMountPath] @
     (if src_Database src \<noteq> ''''
      then [(''--database='' @ shellQuoteIfNeeded (src_Database src), ''--database='' @ src_Database src)]
      else []) @
     (if src_ExtraArgs src \<noteq> [] then plain_words (''--'' # src_ExtraArgs src) else [])"

definition source_words :: "backup_spec \<Rightarrow> backup_source \<Rightarrow> (string \<times> string) list" where
  "source_words spec src =
     head_words spec src @
     (if src_Type src = SourceTypeFiles
      then (shellQuoteIfNeeded (EffectivePath src), EffectivePath src) # exclude_words src
      else dump_words src)"

lemma retryLockFlag_words: "retryLockFlag spec = concat (map (\<lambda>w. '' '' @ w) (retry_words spec))"
  by (auto simp: retryLockFlag_def retry_words_def split: option.split)

lemma sh_plain_bare: "sh_plain c \<Longrightarrow> bare_char c \<and> c \<noteq> nl"
  by (auto simp: sh_plain_def sh_special_def bare_char_def)

lemma tag_sh_plain: "tag_char c \<Longrightarrow> sh_plain c"
  by (auto simp: tag_char_def sh_plain_def sh_special_def)

lemma EffectiveTag_plain: "list_all tag_char (src_Tag src) \<Longrightarrow> list_all tag_char (EffectiveTag src)"
  by (simp add: EffectiveTag_def tag_char_def)

lemma reads_plain: "w \<noteq> [] \<Longrightarrow> list_all sh_plain w \<Longrightarrow> reads w w"
  using sh_plain_bare by (intro reads_bare) (auto simp: list_all_iff)

lemma retry_words_plain: "w \<in> set (retry_words spec) \<Longrightarrow> w \<noteq> [] \<and> list_all sh_plain w"
  using DurationString_plain sh_plain_literals(3)
  by (auto simp: retry_words_def split: option.splits if_splits)

section \<open>Rendering as words\<close>

definition ends_well :: "string \<Rightarrow> bool" where
  "ends_well w \<longleftrightarrow> w \<noteq> [] \<and> plain_char (last w) \<and> last w \<noteq> backslash"

lemma hd_Join: "ws \<noteq> [] \<Longrightarrow> hd ws \<noteq> [] \<Longrightarrow> hd (Join ws sep) = hd (hd ws) \<and> Join ws sep \<noteq> []"
  by (cases ws) (auto simp: Join_concat)

lemma last_Join: "ws \<noteq> [] \<Longrightarrow> last ws \<noteq> [] \<Longrightarrow> last (Join ws sep) = last (last ws)"
proof (induction ws rule: list_nonempty_induct)
  case (cons w ws)
  then have "Join ws sep \<noteq> []" by (cases ws) (auto simp: Join_concat split: if_splits)
  with cons show ?case by (simp add: Join_Cons)
qed simp

lemma tidy_Join:
  assumes "ws \<noteq> []" "hd ws \<noteq> []" "plain_char (hd (hd ws))" "ends_well (last ws)"
    "\<forall>w\<in>set ws. nl \<notin> set w"
  shows "tidy (Join ws '' '')"
proof -
  have "nl \<notin> set (Join ws '' '')"
    using assms(5) by (induction ws "'' ''" rule: Join.induct) auto
  with assms hd_Join[OF assms(1,2)] last_Join[OF assms(1)] show ?thesis
    by (simp add: tidy_def ends_well_def)
qed

lemma Join_append_words:
  "xs \<noteq> [] \<Longrightarrow> Join (Join xs sep # ys) sep = Join (xs @ ys) sep"
  by (cases xs) (simp_all add: Join_concat)

lemma safe_char_ends: "safe_char c \<Longrightarrow> plain_char c \<and> c \<noteq> backslash \<and> c \<noteq> nl"
  by (auto simp: safe_char_def plain_char_def)

lemma safe_not_nl [simp]: "\<not> safe_char nl"
  by (simp add: safe_char_def)

lemma shellQuote_quotable: "quotable x \<Longrightarrow> shellQuote x = squote # x @ [squote]"
  by (simp add: shellQuote_def ReplaceChar_absent quotable_def)

lemma quoted_ends:
  assumes "quotable x"
  shows "ends_well (shellQuote x)" "nl \<notin> set (shellQuote x)"
  using assms by (auto simp: shellQuote_quotable ends_well_def plain_char_def quotable_def)

lemma if_needed_ends:
  assumes "quotable x"
  shows "ends_well (shellQuoteIfNeeded x)" "nl \<notin> set (shellQuoteIfNeeded x)"
  using quoted_ends[OF assms]
  by (auto simp: shellQuoteIfNeeded_def safeBare_def ends_well_def list_all_iff safe_char_ends)

lemma safeBare_word:
  "safeBare w \<Longrightarrow> reads w w \<and> ends_well w \<and> nl \<notin> set w"
  by (auto simp: safeBare_def list_all_iff ends_well_def safe_char_ends safe_bare intro!: reads_bare)

lemma head_words_read:
  assumes "list_all tag_char (src_Tag src)" "(w, x) \<in> set (head_words spec src)"
  shows "reads w x \<and> nl \<notin> set w"
proof -
  have tag: "list_all sh_plain (''--tag='' @ EffectiveTag src)"
    using EffectiveTag_plain[OF assms(1)] sh_plain_literals(4) by (auto simp: list_all_iff tag_sh_plain)
  from assms(2) have "w = x"
    "w \<in> {''restic'', ''backup'', ''--tag='' @ EffectiveTag src} \<or> w \<in> set (retry_words spec)"
    by (auto simp: head_words_def plain_words_def)
  then have "w \<noteq> []" "list_all sh_plain w"
    using sh_plain_literals(1,2) tag retry_words_plain by auto
  with \<open>w = x\<close> show ?thesis
    using reads_plain sh_plain_bare by (auto simp: list_all_iff)
qed

lemma head_words_text:
  "Join (map fst (head_words spec src)) '' '' = ''restic backup'' @ retryLockFlag spec @ '' --tag='' @ EffectiveTag src"
  by (simp add: head_words_def plain_words_def Join_concat retryLockFlag_words comp_def)

lemma head_words_nonempty [simp]: "head_words spec src \<noteq> []"
  by (simp add: head_words_def plain_words_def)

lemma hd_head_words [simp]: "hd (map fst (head_words spec src)) = ''restic''"
  by (simp add: head_words_def plain_words_def)

lemma append_blank: "(@) '' '' = (#) (CHR '' '')"
  by (simp add: fun_eq_iff)

lemma ends_well_append: "ends_well y \<Longrightarrow> ends_well (x @ y)"
  by (simp add: ends_well_def)

lemma Join_snoc: "ws \<noteq> [] \<Longrightarrow> Join (ws @ vs) sep = Join ws sep @ concat (map (\<lambda>y. sep @ y) vs)"
  by (cases ws) (simp_all add: Join_concat)

lemma line_of_single:
  assumes "tidy (Join (map fst ws) '' '')" "ws \<noteq> []" "\<forall>(w, x)\<in>set ws. reads w x"
  shows "line_of ws (Join (map fst ws) '' '')"
  unfolding line_of_def using assms
  by (intro conjI exI[of _ "[Join (map fst ws) '' '']"]) (auto simp: indented_def)

lemma files_line:
  assumes "readable_source src" "src_Type src = SourceTypeFiles"
  shows "\<exists>line. renderSource src (retryLockFlag spec) = Inr line \<and> line_of (source_words spec src) line"
proof -
  let ?path = "(shellQuoteIfNeeded (EffectivePath src), EffectivePath src)"
  let ?first = "map fst (head_words spec src @ [?path])"
  let ?qs = "Join ?first '' '' # map (\<lambda>ex. ''  --exclude='' @ shellQuote ex) (src_Exclude src)"
  let ?ps = "Join ?first '' '' # map (\<lambda>ex. exclude_flag @ shellQuote ex) (src_Exclude src)"
  let ?line = "Join ?qs ('' '' @ [backslash, nl])"
  from assms have tag: "list_all tag_char (src_Tag src)" and path: "quotable (EffectivePath src)"
    and ex: "\<forall>ex\<in>set (src_Exclude src). quotable ex"
    by (auto simp: readable_source_def list_all_iff)
  have written: "Join ?first '' '' = ''restic backup'' @ retryLockFlag spec @ '' --tag='' @ EffectiveTag src
      @ '' '' @ shellQuoteIfNeeded (EffectivePath src)"
    by (simp add: Join_snoc head_words_text)
  have "renderSource src (retryLockFlag spec) = Inr ?line"
    unfolding written using assms(2) by (cases "src_Exclude src") (simp_all add: renderSource_def Let_def)
  moreover have "line_of (source_words spec src) ?line"
    unfolding line_of_def
  proof (intro conjI exI)
    have "tidy (Join ?first '' '')"
    proof (rule tidy_Join)
      show "\<forall>w\<in>set ?first. nl \<notin> set w"
        using head_words_read[OF tag] if_needed_ends(2)[OF path] by fastforce
    qed (use if_needed_ends(1)[OF path] in \<open>simp_all add: plain_char_def\<close>)
    moreover have "tidy (exclude_flag @ shellQuote e)" if "e \<in> set (src_Exclude src)" for e
      using ex that quoted_ends[of e] by (auto simp: tidy_def ends_well_def plain_char_def)
    ultimately show "list_all2 indented ?qs ?ps"
      by (auto simp: indented_def list.rel_map intro!: list.rel_refl_strong)
    show "Join ?ps '' '' = Join (map fst (source_words spec src)) '' ''"
      using assms(2) by (simp add: Join_append_words source_words_def exclude_words_def comp_def)
    show "source_words spec src \<noteq> []" by (simp add: source_words_def head_words_def plain_words_def)
    have "reads (exclude_flag @ shellQuote e) (exclude_flag @ e)" if "e \<in> set (src_Exclude src)" for e
      using ex that reads_plain[OF _ sh_plain_exclude]
      by (intro reads_append reads_shellQuote) (auto simp: quotable_def)
    then show "\<forall>(w, x)\<in>set (source_words spec src). reads w x"
      using head_words_read[OF tag] path assms(2)
      by (auto simp: source_words_def exclude_words_def quotable_def reads_shellQuoteIfNeeded)
  qed (rule refl, simp)
  ultimately show ?thesis by blast
qed

lemma dump_words_read:
  assumes "readable_source src" "src_Type src = SourceTypeCNPG \<or> src_Type src = SourceTypeMariaDB"
  shows "\<forall>(w, x)\<in>set (dump_words src). reads w x \<and> nl \<notin> set w"
    "ends_well (last (map fst (dump_words src)))"
proof -
  from assms have db: "quotable (src_Database src)" and args: "list_all safeBare (src_ExtraArgs src)"
    by (auto simp: readable_source_def SourceTypeFiles_def SourceTypeCNPG_def SourceTypeMariaDB_def)
  have literals: "safeBare ''--stdin-from-command''" "safeBare ''--''" "safeBare ''dumpdb''"
    "safeBare (''--secret-mount='' @ DBSecretMountPath)" "safeBare (src_Type src)" "safeBare ''--database=''"
    using assms(2)
    by (auto simp: safeBare_def safe_char_def DBSecretMountPath_def SourceTypeCNPG_def SourceTypeMariaDB_def)
  have database: "reads (''--database='' @ shellQuoteIfNeeded (src_Database src)) (''--database='' @ src_Database src)"
    using db safeBare_word[OF literals(6)] by (intro reads_append reads_shellQuoteIfNeeded) (auto simp: quotable_def)
  show "\<forall>(w, x)\<in>set (dump_words src). reads w x \<and> nl \<notin> set w"
    using literals[THEN safeBare_word] args if_needed_ends(2)[OF db] database
    by (auto simp: dump_words_def plain_words_def list_all_iff dest: safeBare_word)
  show "ends_well (last (map fst (dump_words src)))"
  proof (cases "src_ExtraArgs src = []")
    case True
    then show ?thesis
      using literals(4)[THEN safeBare_word] if_needed_ends(1)[OF db]
      by (cases "src_Database src = []") (auto simp: dump_words_def plain_words_def intro: ends_well_append
          simp del: append_Cons)
  next
    case False
    then have "last (map fst (dump_words src)) = last (src_ExtraArgs src)"
      by (simp add: dump_words_def plain_words_def comp_def)
    with False args show ?thesis by (simp add: list_all_iff safeBare_word)
  qed
qed

lemma dump_line:
  assumes "readable_source src" "src_Type src = SourceTypeCNPG \<or> src_Type src = SourceTypeMariaDB"
  shows "\<exists>line. renderSource src (retryLockFlag spec) = Inr line \<and> line_of (source_words spec src) line"
proof -
  from assms have tag: "list_all tag_char (src_Tag src)" by (simp add: readable_source_def)
  have files: "src_Type src \<noteq> SourceTypeFiles"
    using assms(2) by (auto simp: SourceTypeFiles_def SourceTypeCNPG_def SourceTypeMariaDB_def)
  let ?ws = "map fst (head_words spec src @ dump_words src)"
  have nonempty: "dump_words src \<noteq> []" by (simp add: dump_words_def plain_words_def)
  have "renderSource src (retryLockFlag spec) = Inr (Join ?ws '' '')"
    using assms(2) files
    by (simp add: renderSource_def Let_def Join_snoc head_words_text dump_words_def plain_words_def
        comp_def append_blank)
  moreover have "line_of (source_words spec src) (Join ?ws '' '')"
  proof -
    have "tidy (Join ?ws '' '')"
    proof (rule tidy_Join)
      show "ends_well (last ?ws)" using dump_words_read(2)[OF assms] nonempty by simp
      show "\<forall>w\<in>set ?ws. nl \<notin> set w"
        using head_words_read[OF tag] dump_words_read(1)[OF assms] by fastforce
    qed (simp_all add: plain_char_def)
    moreover have "\<forall>(w, x)\<in>set (source_words spec src). reads w x"
      using head_words_read[OF tag] dump_words_read(1)[OF assms] files
      by (auto simp: source_words_def)
    ultimately show ?thesis
      using line_of_single[of "source_words spec src"] files by (simp add: source_words_def)
  qed
  ultimately show ?thesis by blast
qed

text \<open>The types the renderer knows.\<close>

definition known_type :: "backup_source \<Rightarrow> bool" where
  "known_type src \<longleftrightarrow> src_Type src \<in> {SourceTypeFiles, SourceTypeCNPG, SourceTypeMariaDB}"

lemma render_source_line:
  "readable_source src \<Longrightarrow> known_type src \<Longrightarrow>
   \<exists>line. renderSource src (retryLockFlag spec) = Inr line \<and> line_of (source_words spec src) line"
  using files_line dump_line unfolding known_type_def by auto

lemma renderSource_known: "renderSource src lock = Inr line \<Longrightarrow> known_type src"
  by (auto simp: renderSource_def known_type_def Let_def split: if_splits)

lemma render_source_lines:
  assumes "renderSources srcs (retryLockFlag spec) = Inr lines" "list_all readable_source srcs"
  shows "list_all2 line_of (map (source_words spec) srcs) lines \<and> list_all known_type srcs"
  using assms
proof (induction srcs arbitrary: lines)
  case (Cons src srcs)
  then obtain line ls where "renderSource src (retryLockFlag spec) = Inr line"
    "renderSources srcs (retryLockFlag spec) = Inr ls" "lines = line # ls"
    by (auto split: sum.splits)
  with Cons renderSource_known[of src] render_source_line[of src spec] show ?case by auto
qed simp

section \<open>Reading the words of a line\<close>

lemma flagValue_append:
  "flagValue (xs @ ys) name = (case flagValue xs name of Some v \<Rightarrow> Some v | None \<Rightarrow> flagValue ys name)"
  by (induction xs) (auto split: option.split)

lemma indexOf_absent: "want \<notin> set args \<Longrightarrow> indexOf_from i args want = - 1"
  by (induction args arbitrary: i) auto

lemma Cut_missing_char: "c \<in> set sub \<Longrightarrow> c \<notin> set s \<Longrightarrow> Cut s sub = None"
  by (cases "Cut s sub") (auto dest: Cut_Some)

lemma not_Contains: "\<not> Contains s sub \<longleftrightarrow> Cut s sub = None"
  by (cases "Cut s sub") (simp_all add: Contains_def)

lemma no_exclude_in_tag:
  "list_all tag_char t \<Longrightarrow> Cut (''--tag='' @ t) exclude_flag = None"
proof -
  assume "list_all tag_char t"
  moreover have "\<not> tag_char (CHR ''='')" by (simp add: tag_char_def)
  ultimately have "CHR ''='' \<notin> set t" by (auto simp: list_all_iff)
  then have "Cut t exclude_flag = None" by (intro Cut_missing_char[of "CHR ''=''"]) auto
  then show ?thesis by simp
qed

lemma no_exclude_in_retry: "w \<in> set (retry_words spec) \<Longrightarrow> Cut w exclude_flag = None"
proof -
  have "Cut (DurationString d) exclude_flag = None" for d
    using DurationString_chars[of d]
    by (intro Cut_missing_char[of "CHR ''x''"])
      (auto simp: list_all_iff duration_char_def is_digit_def digit_val_def)
  then show "w \<in> set (retry_words spec) \<Longrightarrow> Cut w exclude_flag = None"
    by (auto simp: retry_words_def split: option.splits if_splits)
qed

lemma retry_words_cases:
  obtains "retry_words spec = []" | d where "retry_words spec = [''--retry-lock='' @ d]"
proof -
  have "retry_words spec = [] \<or> (\<exists>d. retry_words spec = [''--retry-lock='' @ d])"
    by (auto simp: retry_words_def split: option.split)
  with that show thesis by blast
qed

text \<open>What the migration makes of a source: the defaults are written out, and the fields
  that the type does not use are gone.\<close>

definition normal_source :: "backup_source \<Rightarrow> backup_source" where
  "normal_source src =
     (if src_Type src = SourceTypeFiles
      then src\<lparr>src_Tag := EffectiveTag src, src_Path := EffectivePath src, src_Database := '''',
               src_ExtraArgs := []\<rparr>
      else src\<lparr>src_Tag := EffectiveTag src, src_Path := '''', src_Exclude := []\<rparr>)"

definition engine_of :: "backup_source \<Rightarrow> string" where
  "engine_of src = (if src_Type src = SourceTypeFiles then '''' else src_Type src)"

definition head_args :: "backup_spec \<Rightarrow> backup_source \<Rightarrow> string list" where
  "head_args spec src = [''restic'', ''backup''] @ retry_words spec @ [''--tag='' @ EffectiveTag src]"

lemma head_tag: "flagValue (head_args spec src @ args) ''tag'' = Some (EffectiveTag src)"
  by (rule retry_words_cases[of spec]) (simp_all add: head_args_def flag_prefix_def)

lemma head_no_dump: "''--stdin-from-command'' \<notin> set (head_args spec src)"
  by (rule retry_words_cases[of spec]) (simp_all add: head_args_def)

lemma head_positional: "firstPositional (drop 2 (head_args spec src @ args)) = firstPositional args"
  by (rule retry_words_cases[of spec]) (simp_all add: head_args_def HasPrefix_def)

lemma map_filter_append: "List.map_filter f (xs @ ys) = List.map_filter f xs @ List.map_filter f ys"
  by (simp add: List.map_filter_def)

lemma head_excludes: "flagValues (head_args spec src @ args) ''exclude'' = flagValues args ''exclude''"
  by (rule retry_words_cases[of spec])
    (simp_all add: head_args_def flagValues_def flag_prefix_def List.map_filter_simps map_filter_append)

lemma flagValues_excludes:
  "flagValues (map (\<lambda>ex. exclude_flag @ ex) exs) ''exclude'' = exs"
  by (induction exs) (simp_all add: flagValues_def flag_prefix_def List.map_filter_simps)

lemma excludes_counted:
  assumes "list_all tag_char (src_Tag src)" "\<not> Contains path exclude_flag"
    "\<forall>ex\<in>set exs. \<not> Contains ex exclude_flag"
  shows "count_text (Join (head_args spec src @ path # map (\<lambda>ex. exclude_flag @ ex) exs) '' '') exclude_flag =
    int (length exs)"
proof -
  have "\<forall>w\<in>set (head_args spec src). Cut w exclude_flag = None"
    using no_exclude_in_tag[OF EffectiveTag_plain[OF assms(1)]] no_exclude_in_retry
    by (auto simp: head_args_def)
  then have "\<forall>w\<in>set (head_args spec src). count_text w exclude_flag = 0"
    by (simp add: count_text_none)
  then have head: "sum_list (map (\<lambda>w. count_text w exclude_flag) (head_args spec src)) = 0"
    by (simp cong: map_cong add: sum_list_triv)
  have path: "count_text path exclude_flag = 0"
    using assms(2) by (simp add: not_Contains count_text_none)
  have "count_text (exclude_flag @ ex) exclude_flag = 1" if "ex \<in> set exs" for ex
    using assms(3) that by (intro count_text_prefix) (simp_all add: not_Contains)
  then have "map (\<lambda>ex. count_text (exclude_flag @ ex) exclude_flag) exs = map (\<lambda>_. 1) exs"
    by (intro map_cong) auto
  then have "sum_list (map (\<lambda>ex. count_text (exclude_flag @ ex) exclude_flag) exs) = sum_list (map (\<lambda>_. 1) exs)"
    by (simp only:)
  then have "sum_list (map (\<lambda>ex. count_text (exclude_flag @ ex) exclude_flag) exs) = int (length exs)"
    by (simp add: sum_list_triv)
  with head path show ?thesis
    by (subst count_text_Join) (simp_all add: head_args_def comp_def)
qed

lemma parse_files_words:
  assumes "readable_source src" "src_Type src = SourceTypeFiles"
  shows "parseBackupLine (map snd (source_words spec src)) = Inr (normal_source src, '''')"
proof -
  let ?tail = "EffectivePath src # map (\<lambda>ex. exclude_flag @ ex) (src_Exclude src)"
  let ?args = "head_args spec src @ ?tail"
  from assms have tag: "list_all tag_char (src_Tag src)"
    and dash: "\<not> HasPrefix (EffectivePath src) ''-''"
    and path: "\<not> Contains (EffectivePath src) exclude_flag"
    and ex: "\<forall>ex\<in>set (src_Exclude src). \<not> Contains ex exclude_flag"
    by (auto simp: readable_source_def list_all_iff)
  have args: "map snd (source_words spec src) = ?args"
    using assms(2)
    by (simp add: source_words_def head_words_def head_args_def plain_words_def exclude_words_def comp_def)
  have "EffectivePath src \<noteq> ''--stdin-from-command''"
    using dash by (auto simp: HasPrefix_def)
  with head_no_dump[of spec src] have "indexOf ?args ''--stdin-from-command'' = - 1"
    unfolding indexOf_def by (intro indexOf_absent) auto
  moreover have "CutPrefix (EffectivePath src) exclude_flag = None"
    using dash by (cases "CutPrefix (EffectivePath src) exclude_flag") (auto simp: CutPrefix_Some HasPrefix_def)
  then have "flagValues ?tail ''exclude'' =
      flagValues (map (\<lambda>ex. exclude_flag @ ex) (src_Exclude src)) ''exclude''"
    by (simp add: flagValues_def flag_prefix_def List.map_filter_simps)
  then have "flagValues ?args ''exclude'' = src_Exclude src"
    by (simp only: head_excludes flagValues_excludes)
  ultimately show ?thesis
    unfolding args
    using dash assms(2)
    by (simp only: parseBackupLine_def head_tag head_positional excludes_counted[OF tag path ex])
      (simp add: normal_source_def no_source_def)
qed

lemma parseBackupLine_dump:
  assumes "flagValue args ''tag'' = Some tag" "0 \<le> indexOf args ''--stdin-from-command''"
    "parseDumpdb (drop (nat (indexOf args ''--stdin-from-command'')) args) = Inr (engine, rest)"
    "flagValue rest ''database'' = (if database \<noteq> '''' then Some database else None)"
    "passthrough rest = extra"
  shows "parseBackupLine args =
    Inr (no_source\<lparr>src_Tag := tag, src_Type := engine, src_Database := database, src_ExtraArgs := extra\<rparr>,
         engine)"
  using assms by (simp add: parseBackupLine_def no_source_def Let_def)

lemma parse_dump_words:
  assumes "readable_source src" "src_Type src = SourceTypeCNPG \<or> src_Type src = SourceTypeMariaDB"
  shows "parseBackupLine (map snd (source_words spec src)) = Inr (normal_source src, src_Type src)"
proof -
  let ?rest = "(''--secret-mount='' @ DBSecretMountPath) #
    (if src_Database src \<noteq> '''' then [''--database='' @ src_Database src] else []) @
    (if src_ExtraArgs src \<noteq> [] then ''--'' # src_ExtraArgs src else [])"
  let ?tail = "''--stdin-from-command'' # ''--'' # ''dumpdb'' # src_Type src # ?rest"
  have files: "src_Type src \<noteq> SourceTypeFiles"
    using assms(2) by (auto simp: SourceTypeFiles_def SourceTypeCNPG_def SourceTypeMariaDB_def)
  have args: "map snd (source_words spec src) = head_args spec src @ ?tail"
    using files
    by (simp add: source_words_def head_words_def head_args_def plain_words_def dump_words_def comp_def)
  have engine: "src_Type src = DatabaseEngineCNPG \<or> src_Type src = DatabaseEngineMariaDB"
    using assms(2)
    by (simp add: SourceTypeCNPG_def SourceTypeMariaDB_def DatabaseEngineCNPG_def DatabaseEngineMariaDB_def)
  have i: "0 \<le> indexOf (head_args spec src @ ?tail) ''--stdin-from-command'' \<and>
      drop (nat (indexOf (head_args spec src @ ?tail) ''--stdin-from-command'')) (head_args spec src @ ?tail) = ?tail"
    by (rule retry_words_cases[of spec]) (simp_all add: head_args_def indexOf_def)
  have dump: "parseDumpdb ?tail = Inr (src_Type src, ?rest)"
    using engine by simp
  have "flagValue xs ''database'' = None" if "list_all (\<lambda>a. \<not> HasPrefix a ''--database='') xs" for xs
    using that by (induction xs) (simp_all add: flag_prefix_def HasPrefix_def)
  then have database: "flagValue ?rest ''database'' =
      (if src_Database src \<noteq> '''' then Some (src_Database src) else None)"
    using assms(1) files
    by (auto simp: readable_source_def flag_prefix_def)
  have extra: "passthrough ?rest = src_ExtraArgs src"
    by (cases "src_ExtraArgs src") (simp_all add: passthrough_def indexOf_def)
  have "normal_source src = no_source\<lparr>src_Tag := EffectiveTag src, src_Type := src_Type src,
      src_Database := src_Database src, src_ExtraArgs := src_ExtraArgs src\<rparr>"
    using files by (simp add: normal_source_def no_source_def)
  with parseBackupLine_dump[OF head_tag, of spec src ?tail "src_Type src" ?rest] i dump extra database
  show ?thesis unfolding args by simp
qed


section \<open>The forget line\<close>

definition forget_words :: "backup_spec \<Rightarrow> retention \<Rightarrow> string list" where
  "forget_words spec r = [''restic'', ''forget'', ''--prune''] @ retry_words spec @ keep_flags r"

definition storable :: "int option \<Rightarrow> bool" where
  "storable v \<longleftrightarrow> (case v of None \<Rightarrow> True | Some n \<Rightarrow> 0 \<le> n \<and> n < 2 ^ 31)"

definition storable_retention :: "retention \<Rightarrow> bool" where
  "storable_retention r \<longleftrightarrow>
     list_all storable [rn_Last r, rn_Hourly r, rn_Daily r, rn_Weekly r, rn_Monthly r, rn_Yearly r]"

definition unit_flag :: "string \<Rightarrow> int option \<Rightarrow> string list" where
  "unit_flag unit v = (case v of None \<Rightarrow> [] | Some n \<Rightarrow> [''--keep-'' @ unit @ ''='' @ Itoa n])"

text \<open>The six units with their counts.\<close>

definition unit_counts :: "retention \<Rightarrow> (string \<times> int option) list" where
  "unit_counts r =
     [(''last'', rn_Last r), (''hourly'', rn_Hourly r), (''daily'', rn_Daily r),
      (''weekly'', rn_Weekly r), (''monthly'', rn_Monthly r), (''yearly'', rn_Yearly r)]"

lemma keep_flags_units: "keep_flags r = concat (map (\<lambda>(unit, v). unit_flag unit v) (unit_counts r))"
  by (simp only: keep_flags_def unit_flag_def unit_counts_def list.map prod.case)

lemma unit_flag_word:
  assumes "w \<in> set (unit_flag u v)" "storable v" "list_all sh_plain u"
  shows "w \<noteq> [] \<and> list_all sh_plain w"
proof -
  from assms obtain n where n: "w = ''--keep-'' @ u @ ''='' @ Itoa n" "0 \<le> n"
    by (auto simp: unit_flag_def storable_def split: option.splits)
  have "list_all sh_plain ''--keep-''" "list_all sh_plain ''=''"
    by (simp_all add: sh_plain_def sh_special_def)
  then show ?thesis
    unfolding n(1) list_all_append using assms(3) sh_plain_Itoa[OF n(2)] by simp
qed

lemma unit_flag_ends:
  assumes "w \<in> set (unit_flag u v)" "storable v"
  shows "ends_well w"
proof -
  from assms obtain n where w: "w = (''--keep-'' @ u @ ''='') @ Itoa n" and n: "0 \<le> n"
    by (auto simp: unit_flag_def storable_def split: option.splits)
  have "last (Itoa n) \<in> set (Itoa n)" by (intro last_in_set) simp
  then have "is_digit (last (Itoa n))" "plain_char (last (Itoa n))"
    using Itoa_digits[OF n] Itoa_plain[of "last (Itoa n)" n] by (auto simp: list_all_iff)
  then have "ends_well (Itoa n)"
    by (auto simp: ends_well_def is_digit_def digit_val_def)
  then show ?thesis unfolding w by (rule ends_well_append)
qed

lemma keep_flag_ends:
  assumes "w \<in> set (keep_flags r)" "storable_retention r"
  shows "ends_well w"
proof -
  have "\<forall>(u, v)\<in>set (unit_counts r). storable v"
    using assms(2) by (simp add: unit_counts_def storable_retention_def)
  with assms(1) unit_flag_ends show ?thesis by (fastforce simp: keep_flags_units)
qed

lemma keep_flag_word:
  assumes "w \<in> set (keep_flags r)" "storable_retention r"
  shows "w \<noteq> [] \<and> list_all sh_plain w"
proof -
  have "\<forall>(u, v)\<in>set (unit_counts r). storable v \<and> list_all sh_plain u"
    using assms(2) by (simp add: unit_counts_def storable_retention_def sh_plain_def sh_special_def)
  with assms(1) unit_flag_word show ?thesis by (fastforce simp: keep_flags_units)
qed

definition unit_name :: "string \<Rightarrow> bool" where
  "unit_name u \<longleftrightarrow> CHR ''='' \<notin> set u"

lemma CutPrefix_name:
  "unit_name u \<Longrightarrow> unit_name n \<Longrightarrow>
   CutPrefix (u @ CHR ''='' # s) (n @ ''='') = (if u = n then Some s else None)"
proof (induction u arbitrary: n)
  case Nil
  then show ?case by (cases n) (auto simp: unit_name_def)
next
  case (Cons c u)
  then show ?case by (cases n) (auto simp: unit_name_def)
qed

lemma flagValue_unit:
  "unit_name u \<Longrightarrow> unit_name n \<Longrightarrow>
   flagValue (unit_flag u v @ args) (''keep-'' @ n) =
     (if u = n \<and> v \<noteq> None then map_option Itoa v else flagValue args (''keep-'' @ n))"
  using CutPrefix_name[of u n]
  by (cases v) (auto simp: unit_flag_def flag_prefix_def)

lemma flagValue_units:
  assumes "unit_name n" "\<forall>(u, v)\<in>set uvs. unit_name u" "distinct (map fst uvs)"
  shows "flagValue (concat (map (\<lambda>(u, v). unit_flag u v) uvs)) (''keep-'' @ n) =
    (case map_of uvs n of Some v \<Rightarrow> map_option Itoa v | None \<Rightarrow> None)"
  using assms(2,3)
proof (induction uvs)
  case (Cons p uvs)
  obtain u v where p: "p = (u, v)" by (cases p)
  have "map_of uvs u = None" using Cons.prems p by (auto simp: map_of_eq_None_iff)
  with Cons p show ?case by (auto simp: flagValue_unit[OF _ assms(1), simplified append_Cons append_Nil])
qed simp

lemma flagValue_forget:
  "flagValue (forget_words spec r) (''keep-'' @ n) = flagValue (keep_flags r) (''keep-'' @ n)"
  by (rule retry_words_cases[of spec]) (simp_all add: forget_words_def flag_prefix_def)

lemma unit_counts_names:
  "\<forall>(u, v)\<in>set (unit_counts r). unit_name u" "distinct (map fst (unit_counts r))"
  by (simp_all add: unit_counts_def unit_name_def)

lemma flagValue_keep:
  "(u, v) \<in> set (unit_counts r) \<Longrightarrow> flagValue (forget_words spec r) (''keep-'' @ u) = map_option Itoa v"
  using unit_counts_names[of r] flagValue_units[of u "unit_counts r"]
  by (auto simp: flagValue_forget[simplified append_Cons append_Nil] keep_flags_units)

lemma parseInt32_Itoa: "storable (Some n) \<Longrightarrow> parseInt32 (Itoa n) = Inr n"
  using ParseInt_Itoa[of n 32] by (simp add: storable_def parseInt32_def)

lemma retention_unit_forget:
  assumes "storable v" "flagValue args (''keep-'' @ u) = map_option Itoa v"
  shows "retention_unit args u = Inr v"
  using assms parseInt32_Itoa by (cases v) (simp_all add: retention_unit_def)

definition normal_retention :: "retention option \<Rightarrow> retention option" where
  "normal_retention policy =
     (case policy of None \<Rightarrow> None | Some r \<Rightarrow> if keep_flags r = [] then None else Some r)"

lemma keep_flags_empty: "keep_flags r = [] \<longleftrightarrow> list_all (\<lambda>v. v = None) (map snd (unit_counts r))"
  by (auto simp: keep_flags_units unit_flag_def list_all_iff split: option.splits)

lemma retention_units_forget:
  "\<forall>(u, v)\<in>set uvs. storable v \<and> flagValue args (''keep-'' @ u) = map_option Itoa v \<Longrightarrow>
   retention_units args (map fst uvs) = Inr (map snd uvs)"
  by (induction uvs) (auto simp: retention_unit_forget)

lemma parse_forget_words:
  assumes "storable_retention r"
  shows "parseRetention (forget_words spec r) = Inr (if keep_flags r = [] then None else Some r)"
proof -
  have "\<forall>(u, v)\<in>set (unit_counts r). storable v"
    using assms by (simp add: storable_retention_def unit_counts_def)
  then have "retention_units (forget_words spec r) (map fst (unit_counts r)) = Inr (map snd (unit_counts r))"
    using flagValue_keep by (intro retention_units_forget) blast
  then show ?thesis
    unfolding keep_flags_empty by (simp add: parseRetention_def unit_counts_def)
qed

section \<open>The whole script\<close>

lemma readable_forget:
  assumes "storable_retention r" "keep_flags r \<noteq> []"
  shows "line_of (plain_words (forget_words spec r)) (renderForget (Some r) (retryLockFlag spec))"
proof -
  let ?ws = "forget_words spec r"
  have written: "renderForget (Some r) (retryLockFlag spec) = Join (map fst (plain_words ?ws)) '' ''"
    using assms(2)
    by (cases "keep_flags r") (simp_all add: renderForget_def forget_words_def plain_words_def
        Join_concat retryLockFlag_words comp_def)
  have plain: "w \<noteq> [] \<and> list_all sh_plain w" if "w \<in> set ?ws" for w
  proof -
    have "list_all sh_plain ''restic''" "list_all sh_plain ''forget''" "list_all sh_plain ''--prune''"
      by (simp_all add: sh_plain_def sh_special_def)
    with that keep_flag_word[OF _ assms(1)] retry_words_plain show ?thesis
      by (auto simp: forget_words_def)
  qed
  have "tidy (Join (map fst (plain_words ?ws)) '' '')"
  proof (rule tidy_Join)
    have "last ?ws = last (keep_flags r)" using assms(2) by (simp add: forget_words_def)
    then show "ends_well (last (map fst (plain_words ?ws)))"
      using keep_flag_ends[OF last_in_set[OF assms(2)] assms(1)]
      by (simp add: plain_words_def comp_def)
    show "\<forall>w\<in>set (map fst (plain_words ?ws)). nl \<notin> set w"
      using plain sh_plain_bare by (fastforce simp: plain_words_def list_all_iff)
  qed (simp_all add: plain_words_def forget_words_def plain_char_def)
  then show ?thesis
    unfolding written using plain reads_plain
    by (intro line_of_single) (auto simp: plain_words_def forget_words_def)
qed

lemma parse_args_forget:
  "parseRetention (''restic'' # ''forget'' # args) = Inr r \<Longrightarrow>
   parse_args (''restic'' # ''forget'' # args) acc = Inr (acc\<lparr>sp_Retention := r\<rparr>)"
  by (simp add: parse_args_def)

lemma parse_args_backup:
  "parseBackupLine (''restic'' # ''backup'' # args) = Inr (source, engine) \<Longrightarrow>
   parse_args (''restic'' # ''backup'' # args) acc =
     Inr (acc\<lparr>sp_Sources := sp_Sources acc @ [source],
              sp_Engine := (if engine \<noteq> '''' then engine else sp_Engine acc)\<rparr>)"
  by (simp add: parse_args_def)

lemma parse_words_sources:
  assumes "list_all readable_source srcs" "list_all known_type srcs"
  shows "parse_words (map (map snd) (map (source_words spec) srcs)) acc =
    Inr (acc\<lparr>sp_Sources := sp_Sources acc @ map normal_source srcs,
             sp_Engine := foldl (\<lambda>e src. if engine_of src \<noteq> '''' then engine_of src else e) (sp_Engine acc) srcs\<rparr>)"
  using assms
proof (induction srcs arbitrary: acc)
  case (Cons src srcs)
  obtain args where "map snd (source_words spec src) = ''restic'' # ''backup'' # args"
    by (simp add: source_words_def head_words_def plain_words_def)
  moreover have "parseBackupLine (map snd (source_words spec src)) = Inr (normal_source src, engine_of src)"
    using Cons.prems parse_files_words[of src] parse_dump_words[of src]
    by (auto simp: known_type_def engine_of_def)
  ultimately have "parse_args (map snd (source_words spec src)) acc =
      Inr (acc\<lparr>sp_Sources := sp_Sources acc @ [normal_source src],
        sp_Engine := (if engine_of src \<noteq> '''' then engine_of src else sp_Engine acc)\<rparr>)"
    by (simp only: parse_args_backup)
  with Cons show ?case by simp
qed simp

text \<open>The lines of the frame: they are read, and skipped.\<close>

definition exec_words :: "(string \<times> string) list" where
  "exec_words = plain_words [''exec'', ''>'', ''>(ts''] @
     [([squote] @ ''%H:%M:%S'' @ [squote] @ '')'', ''%H:%M:%S)''), (''2>&1'', ''2>&1'')]"

definition frame_words :: "(string \<times> string) list list" where
  "frame_words = [exec_words, plain_words [''set'', ''-eu'']]"

lemma frame_lines:
  "line_of exec_words ''exec > >(ts '%H:%M:%S') 2>&1''"
  "line_of (plain_words [''set'', ''-eu'']) ''set -eu''"
  "line_of (plain_words [''restic'', ''cache'', ''--cleanup'']) postamble"
proof -
  have "tidy (Join (map fst exec_words) '' '')"
    by (simp add: exec_words_def plain_words_def tidy_def plain_char_def)
  moreover have "\<forall>(w, x)\<in>set exec_words. reads w x"
    by (simp add: exec_words_def plain_words_def reads_def)
  ultimately have "line_of exec_words (Join (map fst exec_words) '' '')"
    by (intro line_of_single) (simp_all add: exec_words_def)
  then show "line_of exec_words ''exec > >(ts '%H:%M:%S') 2>&1''"
    by (simp add: exec_words_def plain_words_def)
  have "line_of (plain_words ws) (Join ws '' '')"
    if "tidy (Join ws '' '')" "ws \<noteq> []" "\<forall>w\<in>set ws. reads w w" for ws
    using that line_of_single[of "plain_words ws"] by (simp add: plain_words_def comp_def)
  from this[of "[''set'', ''-eu'']"] this[of "[''restic'', ''cache'', ''--cleanup'']"]
  show "line_of (plain_words [''set'', ''-eu'']) ''set -eu''"
    "line_of (plain_words [''restic'', ''cache'', ''--cleanup'']) postamble"
    by (simp_all add: tidy_def plain_char_def reads_def postamble_def)
qed

lemma parse_frame:
  "parse_words (map (map snd) (frame_words @ wss)) acc = parse_words (map (map snd) wss) acc"
  "parse_words (map (map snd) [plain_words [''restic'', ''cache'', ''--cleanup'']]) acc = Inr acc"
  by (simp_all add: frame_words_def exec_words_def plain_words_def parse_args_def)

lemma unlines_preamble:
  "unlines (preamble # ls) = unlines (''exec > >(ts '%H:%M:%S') 2>&1'' # ''set -eu'' # ls)"
  by (simp add: unlines_def preamble_def)

definition forget_lines :: "backup_spec \<Rightarrow> (string \<times> string) list list" where
  "forget_lines spec =
     (case normal_retention (bs_Retention spec) of
        None \<Rightarrow> [] | Some r \<Rightarrow> [plain_words (forget_words spec r)])"

lemma parse_forget:
  assumes "list_all storable_retention (case bs_Retention spec of None \<Rightarrow> [] | Some r \<Rightarrow> [r])"
  shows "parse_words (map (map snd) (forget_lines spec)) acc =
    Inr (if forget_lines spec = [] then acc else acc\<lparr>sp_Retention := normal_retention (bs_Retention spec)\<rparr>)"
proof (cases "normal_retention (bs_Retention spec)")
  case (Some r)
  then have "bs_Retention spec = Some r" "keep_flags r \<noteq> []"
    by (auto simp: normal_retention_def split: option.splits if_splits)
  then have "parseRetention (forget_words spec r) = Inr (Some r)"
    using assms parse_forget_words[of r] by simp
  moreover obtain args where "forget_words spec r = ''restic'' # ''forget'' # args"
    by (simp add: forget_words_def)
  ultimately have "parse_args (forget_words spec r) acc = Inr (acc\<lparr>sp_Retention := Some r\<rparr>)"
    by (simp only: parse_args_forget)
  with Some show ?thesis by (simp add: forget_lines_def plain_words_def comp_def)
qed (simp add: forget_lines_def)

lemma forget_line_of:
  assumes "list_all storable_retention (case bs_Retention spec of None \<Rightarrow> [] | Some r \<Rightarrow> [r])"
  shows "list_all2 line_of (forget_lines spec)
    (let forget = renderForget (bs_Retention spec) (retryLockFlag spec)
     in if forget \<noteq> '''' then [forget] else [])"
proof (cases "normal_retention (bs_Retention spec)")
  case None
  then have "renderForget (bs_Retention spec) (retryLockFlag spec) = ''''"
    by (auto simp: normal_retention_def renderForget_def split: option.splits if_splits)
  with None show ?thesis by (simp add: forget_lines_def)
next
  case (Some r)
  then have r: "bs_Retention spec = Some r" "keep_flags r \<noteq> []"
    by (auto simp: normal_retention_def split: option.splits if_splits)
  then have "renderForget (Some r) (retryLockFlag spec) \<noteq> ''''" by (simp add: renderForget_def)
  moreover have "line_of (plain_words (forget_words spec r)) (renderForget (Some r) (retryLockFlag spec))"
    using assms r by (intro readable_forget) simp_all
  ultimately show ?thesis using Some r by (simp add: forget_lines_def)
qed

definition last_engine :: "backup_source list \<Rightarrow> string" where
  "last_engine srcs = foldl (\<lambda>e src. if engine_of src \<noteq> '''' then engine_of src else e) '''' srcs"

lemma rendered_lines:
  assumes "bs_Script spec = ''''" "Render spec = Inr script" "list_all readable_source (bs_Sources spec)"
    "list_all storable_retention (case bs_Retention spec of None \<Rightarrow> [] | Some r \<Rightarrow> [r])"
  obtains ls where "script = unlines ls" "list_all known_type (bs_Sources spec)"
    "list_all2 line_of (frame_words @ map (source_words spec) (bs_Sources spec) @ forget_lines spec @
       [plain_words [''restic'', ''cache'', ''--cleanup'']]) ls"
proof -
  from assms(1,2) obtain lines where lines: "renderSources (bs_Sources spec) (retryLockFlag spec) = Inr lines"
    by (auto simp: Render_def split: sum.splits)
  let ?forget = "let forget = renderForget (bs_Retention spec) (retryLockFlag spec)
    in if forget \<noteq> '''' then [forget] else []"
  let ?ls = "[''exec > >(ts '%H:%M:%S') 2>&1'', ''set -eu''] @ lines @ ?forget @ [postamble]"
  have "script = unlines (preamble # lines @ ?forget @ [postamble])"
    using assms(1,2) lines by (simp add: Render_def Let_def)
  then have script: "script = unlines ?ls" by (simp add: unlines_preamble)
  have "list_all2 line_of (frame_words @ map (source_words spec) (bs_Sources spec) @ forget_lines spec @
       [plain_words [''restic'', ''cache'', ''--cleanup'']]) ?ls"
    using render_source_lines[OF lines assms(3)] forget_line_of[OF assms(4)] frame_lines
    by (intro list_all2_appendI) (simp_all add: frame_words_def)
  with script render_source_lines[OF lines assms(3)] that show thesis by blast
qed

lemma rendered_script_parsed:
  assumes "bs_Script spec = ''''" "Render spec = Inr script" "list_all readable_source (bs_Sources spec)"
    "list_all storable_retention (case bs_Retention spec of None \<Rightarrow> [] | Some r \<Rightarrow> [r])"
  shows "parseBackupScript script =
    Inr \<lparr>sp_Sources = map normal_source (bs_Sources spec),
         sp_Retention = normal_retention (bs_Retention spec),
         sp_Engine = last_engine (bs_Sources spec)\<rparr>"
proof -
  obtain ls where script: "script = unlines ls" and known: "list_all known_type (bs_Sources spec)"
    and ls: "list_all2 line_of (frame_words @ map (source_words spec) (bs_Sources spec) @ forget_lines spec @
       [plain_words [''restic'', ''cache'', ''--cleanup'']]) ls"
    using rendered_lines[OF assms] .
  have "forget_lines spec = [] \<Longrightarrow> normal_retention (bs_Retention spec) = None"
    by (simp add: forget_lines_def split: option.splits)
  then show ?thesis
    unfolding script parseBackupScript_def parse_lines_of[OF ls] parse_frame(1)
    by (simp only: map_append parse_words_append parse_words_sources[OF assms(3) known]
        parse_forget[OF assms(4)] parse_frame(2) sum.case)
      (simp add: last_engine_def)
qed

section \<open>Rendering again\<close>

lemma normal_source_renders:
  assumes "known_type src"
  shows "renderSource (normal_source src) lock = renderSource src lock"
  using assms
  by (auto simp: known_type_def renderSource_def normal_source_def EffectiveTag_def EffectivePath_def Let_def
      SourceTypeFiles_def SourceTypeCNPG_def SourceTypeMariaDB_def)

lemma normal_sources_render:
  "list_all known_type srcs \<Longrightarrow> renderSources (map normal_source srcs) lock = renderSources srcs lock"
  by (induction srcs) (simp_all add: normal_source_renders split: sum.split)

lemma normal_retention_renders: "renderForget (normal_retention p) lock = renderForget p lock"
  by (auto simp: normal_retention_def renderForget_def split: option.split)

lemma renderSources_known: "renderSources srcs lock = Inr ls \<Longrightarrow> list_all known_type srcs"
  by (induction srcs arbitrary: ls) (auto split: sum.splits dest: renderSource_known)

lemma rendered_again:
  assumes "bs_Script spec = []" "Render spec = Inr script"
  shows "Render (spec\<lparr>bs_Sources := map normal_source (bs_Sources spec),
      bs_Retention := normal_retention (bs_Retention spec)\<rparr>) = Inr script"
proof -
  from assms obtain ls where ls: "renderSources (bs_Sources spec) (retryLockFlag spec) = Inr ls"
    by (auto simp: Render_def split: sum.splits)
  have "list_all known_type (bs_Sources spec)" by (rule renderSources_known[OF ls])
  moreover have "retryLockFlag (spec\<lparr>bs_Sources := srcs, bs_Retention := r\<rparr>) = retryLockFlag spec" for srcs r
    by (simp add: retryLockFlag_def)
  ultimately show ?thesis
    using assms ls by (simp add: Render_def normal_sources_render normal_retention_renders)
qed

text \<open>
  C36. The migration reads back what the operator renders. Let a spec have no script of its
  own and texts the parser can read (\<open>readable_source\<close>: paths, patterns and databases
  without single quotes and newlines, whose escapes the parser does not undo; no path or
  pattern that looks like a flag; tags and extra arguments of safe characters) and counts
  that fit 32 bits. Then the parser of the migration command recovers from the rendered
  script every source, in order, in its normal form (\<open>normal_source\<close>: tag and path
  explicit, fields that do not apply to its type empty), the retention (none if it keeps
  nothing) and the last database engine; and the spec with these sources and this
  retention renders to the same script again.
\<close>

theorem migration_reads_back:
  assumes "bs_Script spec = []" "Render spec = Inr script" "list_all readable_source (bs_Sources spec)"
    "list_all storable_retention (case bs_Retention spec of None \<Rightarrow> [] | Some r \<Rightarrow> [r])"
  shows "(\<exists>parts. parseBackupScript script = Inr parts \<and>
      sp_Sources parts = map normal_source (bs_Sources spec) \<and>
      sp_Retention parts = normal_retention (bs_Retention spec) \<and>
      sp_Engine parts = last_engine (bs_Sources spec) \<and>
      Render (spec\<lparr>bs_Sources := sp_Sources parts, bs_Retention := sp_Retention parts\<rparr>) = Inr script)"
  using rendered_script_parsed[OF assms] rendered_again[OF assms(1,2)] by simp

definition sample_sources :: "backup_source list" where
  "sample_sources =
     [\<lparr>src_Type = SourceTypeFiles, src_Tag = '''', src_Path = ''/my data'', src_Exclude = [''*.tmp'', ''a b''],
       src_Database = '''', src_ExtraArgs = []\<rparr>,
      \<lparr>src_Type = SourceTypeCNPG, src_Tag = ''db'', src_Path = '''', src_Exclude = [],
       src_Database = ''app'', src_ExtraArgs = [''--no-owner'']\<rparr>]"

definition sample_spec :: backup_spec where
  "sample_spec = (sb_Spec (new_backup ''app'' ''restic''))
     \<lparr>bs_Sources := sample_sources,
      bs_Retention := Some \<lparr>rn_Last = None, rn_Hourly = None, rn_Daily = Some 7, rn_Weekly = Some 4,
        rn_Monthly = None, rn_Yearly = None\<rparr>\<rparr>"

lemmas sample_defs = sample_spec_def sample_sources_def new_backup_def

lemma sample_types: "SourceTypeFiles \<noteq> SourceTypeCNPG" "SourceTypeFiles \<noteq> []" "SourceTypeCNPG \<noteq> []"
  "SourceTypeCNPG \<noteq> SourceTypeFiles"
  by (simp_all add: SourceTypeFiles_def SourceTypeCNPG_def)

lemma sample_spec_readable:
  "bs_Script sample_spec = []" "list_all readable_source (bs_Sources sample_spec)"
  "list_all storable_retention (case bs_Retention sample_spec of None \<Rightarrow> [] | Some r \<Rightarrow> [r])"
  "\<exists>script. Render sample_spec = Inr script"
  by (simp_all add: sample_defs readable_source_def quotable_def tag_char_def EffectivePath_def sample_types
      HasPrefix_def safeBare_def safe_char_def Contains_def storable_retention_def storable_def
      Render_def renderSource_def Let_def)

theorem migration_reads_back_witness:
  "\<exists>script. Render sample_spec = Inr script \<and>
     parseBackupScript script =
       Inr \<lparr>sp_Sources =
              [\<lparr>src_Type = SourceTypeFiles, src_Tag = ''files'', src_Path = ''/my data'',
                src_Exclude = [''*.tmp'', ''a b''], src_Database = '''', src_ExtraArgs = []\<rparr>,
               \<lparr>src_Type = SourceTypeCNPG, src_Tag = ''db'', src_Path = '''', src_Exclude = [],
                src_Database = ''app'', src_ExtraArgs = [''--no-owner'']\<rparr>],
            sp_Retention = bs_Retention sample_spec, sp_Engine = SourceTypeCNPG\<rparr>"
proof -
  obtain script where script: "Render sample_spec = Inr script" using sample_spec_readable(4) by blast
  then obtain parts where "parseBackupScript script = Inr parts"
    "sp_Sources parts = map normal_source (bs_Sources sample_spec)"
    "sp_Retention parts = normal_retention (bs_Retention sample_spec)"
    "sp_Engine parts = last_engine (bs_Sources sample_spec)"
    using migration_reads_back[OF sample_spec_readable(1) script sample_spec_readable(2,3)] by blast
  then have "parseBackupScript script =
    Inr \<lparr>sp_Sources = map normal_source (bs_Sources sample_spec),
         sp_Retention = normal_retention (bs_Retention sample_spec),
         sp_Engine = last_engine (bs_Sources sample_spec)\<rparr>"
    by (cases parts) simp
  moreover have "map normal_source (bs_Sources sample_spec) =
      [\<lparr>src_Type = SourceTypeFiles, src_Tag = ''files'', src_Path = ''/my data'',
        src_Exclude = [''*.tmp'', ''a b''], src_Database = '''', src_ExtraArgs = []\<rparr>,
       \<lparr>src_Type = SourceTypeCNPG, src_Tag = ''db'', src_Path = '''', src_Exclude = [],
        src_Database = ''app'', src_ExtraArgs = [''--no-owner'']\<rparr>]"
    by (simp add: sample_defs normal_source_def EffectiveTag_def
        EffectivePath_def sample_types)
  moreover have "normal_retention (bs_Retention sample_spec) = bs_Retention sample_spec"
    by (simp add: sample_defs normal_retention_def keep_flags_def)
  moreover have "last_engine (bs_Sources sample_spec) = SourceTypeCNPG"
    by (simp add: sample_defs last_engine_def engine_of_def sample_types)
  ultimately show ?thesis using script by simp
qed

end
