(* ===== verification/Lifecycle.thy ===== *)
theory Lifecycle
  imports RepositoryContracts BackupContracts
begin

text \<open>
  Whole histories: any number of runs of the two reconcilers, in any order, with any
  calls failing, interleaved with steps of others. The state of the cluster and of the
  BorgBase account is seen through views of the world: the data of its Secrets, the names
  of its repositories. What the calls do to a view is documented behaviour, stated as
  hypotheses; the properties are refinements of two small abstract machines, a vault of
  passwords and an account of repositories.
\<close>

section \<open>Moving along an order\<close>

text \<open>\<open>obeys R m\<close>: a call moves the world along \<open>R\<close>; \<open>moves R m\<close>: so does a computation.\<close>

definition obeys :: "('w \<Rightarrow> 'w \<Rightarrow> bool) \<Rightarrow> ('w \<Rightarrow> 'a \<times> 'w) \<Rightarrow> bool" where
  "obeys R m \<longleftrightarrow> (\<forall>w. R w (snd (m w)))"

definition moves :: "('w \<Rightarrow> 'w \<Rightarrow> bool) \<Rightarrow> ('w, 'o, 'a) comp \<Rightarrow> bool" where
  "moves R m \<longleftrightarrow> (\<forall>s. R (st_World s) (st_World (snd (m s))))"

lemma moves_mono: "moves R m \<Longrightarrow> (\<And>w w'. R w w' \<Longrightarrow> S w w') \<Longrightarrow> moves S m"
  by (simp add: moves_def)

lemma obeys_mono: "obeys R m \<Longrightarrow> (\<And>w w'. R w w' \<Longrightarrow> S w w') \<Longrightarrow> obeys S m"
  by (simp add: obeys_def)

lemma moves_wp: "moves R m \<Longrightarrow> wp m (\<lambda>_ t. R (st_World s) (st_World t)) (\<lambda>_ t. R (st_World s) (st_World t)) s"
  by (simp add: moves_def wp_same)

lemma moves_from_wp:
  "(\<And>s. wp m (\<lambda>_ t. R (st_World s) (st_World t)) (\<lambda>_ t. R (st_World s) (st_World t)) s) \<Longrightarrow> moves R m"
  by (simp add: moves_def wp_same)

text \<open>All the calls to the cluster but the two that write Secrets.\<close>

definition tame :: "('w \<Rightarrow> 'w \<Rightarrow> bool) \<Rightarrow> 'w cluster \<Rightarrow> bool" where
  "tame R k \<longleftrightarrow>
     (\<forall>n. obeys R (k_GetRepository k n)) \<and> (\<forall>n. obeys R (k_ReadRepository k n)) \<and>
     obeys R (k_ListRepositories k) \<and>
     (\<forall>x y. obeys R (k_PatchRepository k x y)) \<and> (\<forall>x y. obeys R (k_PatchRepositoryStatus k x y)) \<and>
     (\<forall>n. obeys R (k_GetSecret k n)) \<and>
     (\<forall>n. obeys R (k_GetJob k n)) \<and> (\<forall>n. obeys R (k_ListJobs k n)) \<and>
     (\<forall>x. obeys R (k_CreateJob k x)) \<and> (\<forall>x. obeys R (k_DeleteJob k x)) \<and>
     (\<forall>n. obeys R (k_GetBackup k n)) \<and> (\<forall>n. obeys R (k_ListBackups k n)) \<and>
     (\<forall>x y. obeys R (k_PatchBackupStatus k x y)) \<and>
     (\<forall>n. obeys R (k_GetCronJob k n)) \<and> (\<forall>x. obeys R (k_CreateCronJob k x)) \<and>
     (\<forall>x. obeys R (k_UpdateCronJob k x)) \<and>
     (\<forall>n. obeys R (k_GetPVC k n)) \<and> (\<forall>x. obeys R (k_CreatePVC k x)) \<and> (\<forall>x. obeys R (k_DeletePVC k x)) \<and>
     (\<forall>c cs. obeys R (k_SetStatusCondition k c cs)) \<and> obeys R (k_Now k) \<and>
     obeys R (run_generator (k_RandFuel k) (k_Rand k))"

lemma tame_mono: "tame R k \<Longrightarrow> (\<And>w w'. R w w' \<Longrightarrow> S w w') \<Longrightarrow> tame S k"
  by (simp add: tame_def obeys_def)

named_theorems moves_rules "computations that move the world along an order"

locale world_order =
  fixes R :: "'w \<Rightarrow> 'w \<Rightarrow> bool"
  assumes refl [simp]: "R w w" and trans: "R u v \<Longrightarrow> R v w \<Longrightarrow> R u w"
begin

lemma moves_ret [moves_rules]: "moves R (ret x)"
  by (simp add: moves_def ret_def)

lemma moves_fail [moves_rules]: "moves R (fail e)"
  by (simp add: moves_def fail_def)

lemma moves_lift [moves_rules]: "moves R (lift x)"
  by (simp add: moves_def lift_def)

lemma moves_get_obj [moves_rules]: "moves R get_obj"
  by (simp add: moves_def get_obj_def)

lemma moves_upd_obj [moves_rules]: "moves R (upd_obj f)"
  by (simp add: moves_def upd_obj_def modify_def)

lemma moves_put_obj [moves_rules]: "moves R (put_obj x)"
  by (simp add: moves_def put_obj_def modify_def)

lemma moves_ask [moves_rules]: "obeys R m \<Longrightarrow> moves R (ask m)"
  by (simp add: moves_def obeys_def ask_def prod.case_eq_if)

lemma moves_tick [moves_rules]: "obeys R f \<Longrightarrow> moves R (tick f)"
  by (simp add: tick_def moves_def obeys_def ask_def prod.case_eq_if)

lemma moves_call [moves_rules]: "obeys R m \<Longrightarrow> moves R (call e m)"
  by (simp add: moves_def obeys_def call_def prod.case_eq_if)

lemma moves_Eventf [moves_rules]: "moves R (Eventf ty reason action fmt args)"
  by (simp add: Eventf_def moves_def call_def ret_def)

lemma moves_bind_post:
  assumes "moves R m" "\<And>s a t. m s = (Inr a, t) \<Longrightarrow> P a" "\<And>a. P a \<Longrightarrow> moves R (f a)"
  shows "moves R (bind_go m f)"
  unfolding moves_def
proof
  fix s
  obtain x t where m: "m s = (x, t)" by (cases "m s")
  with assms(1) have "R (st_World s) (st_World t)" unfolding moves_def by (metis snd_conv)
  with m assms(2,3) trans show "R (st_World s) (st_World (snd (bind_go m f s)))"
    by (cases x) (auto simp: bind_go_def moves_def)
qed

lemma moves_bind [moves_rules]: "moves R m \<Longrightarrow> (\<And>a. moves R (f a)) \<Longrightarrow> moves R (bind_go m f)"
  by (rule moves_bind_post[where P = "\<lambda>_. True"]) simp_all

lemma moves_attempt [moves_rules]: "moves R m \<Longrightarrow> moves R (attempt m)"
  by (simp add: moves_def attempt_def)

lemma moves_when [moves_rules]: "(b \<Longrightarrow> moves R m) \<Longrightarrow> moves R (do_when b m)"
  by (simp add: do_when_def moves_ret)

lemma moves_if [moves_rules]:
  "(b \<Longrightarrow> moves R m) \<Longrightarrow> (\<not> b \<Longrightarrow> moves R n) \<Longrightarrow> moves R (if b then m else n)"
  by simp

lemma moves_option [moves_rules]:
  "(x = None \<Longrightarrow> moves R m) \<Longrightarrow> (\<And>y. x = Some y \<Longrightarrow> moves R (f y)) \<Longrightarrow>
   moves R (case x of None \<Rightarrow> m | Some y \<Rightarrow> f y)"
  by (cases x) auto

lemma moves_sum [moves_rules]:
  "(\<And>e. x = Inl e \<Longrightarrow> moves R (f e)) \<Longrightarrow> (\<And>y. x = Inr y \<Longrightarrow> moves R (g y)) \<Longrightarrow>
   moves R (case x of Inl e \<Rightarrow> f e | Inr y \<Rightarrow> g y)"
  by (cases x) auto

lemma moves_prod [moves_rules]:
  "(\<And>a b. x = (a, b) \<Longrightarrow> moves R (f a b)) \<Longrightarrow> moves R (case x of (a, b) \<Rightarrow> f a b)"
  by (cases x) auto

text \<open>The methods of the two reconcilers, given that the calls they make move along \<open>R\<close>.\<close>

lemma moves_setCondition [moves_rules]: "tame R (rr_Client r) \<Longrightarrow> moves R (setCondition r c)"
  by (auto simp: setCondition_def tame_def intro!: moves_rules)

lemma moves_setInitializing [moves_rules]: "tame R (rr_Client r) \<Longrightarrow> moves R (setInitializing r reason msg)"
  by (auto simp: setInitializing_def intro!: moves_rules)

lemma moves_patchStatus [moves_rules]: "tame R (rr_Client r) \<Longrightarrow> moves R (patchStatus r base)"
  by (auto simp: patchStatus_def tame_def intro!: moves_rules)

lemma moves_readSecretKey [moves_rules]: "tame R (rr_Client r) \<Longrightarrow> moves R (readSecretKey r ns ref)"
  by (auto simp: readSecretKey_def tame_def intro!: moves_rules)

lemma moves_apiFor [moves_rules]: "tame R (rr_Client r) \<Longrightarrow> moves R (apiFor r)"
  by (auto simp: apiFor_def Let_def intro!: moves_rules)

lemma moves_repositoryConflict [moves_rules]: "tame R (rr_Client r) \<Longrightarrow> moves R (repositoryConflict r i)"
  by (auto simp: repositoryConflict_def tame_def intro!: moves_rules)

lemma moves_reconcileSettings [moves_rules]:
  "(\<And>i opts. obeys R (api_Edit api i opts)) \<Longrightarrow> moves R (reconcileSettings r remote api)"
  by (auto simp: reconcileSettings_def Let_def intro!: moves_rules)

lemma moves_choose_password [moves_rules]:
  "tame R (rr_Client r) \<Longrightarrow> moves R (choose_password r remote known existing)"
  by (auto simp: choose_password_def tame_def Let_def intro!: moves_rules)

lemma moves_deleteJob [moves_rules]: "tame R (rr_Client r) \<Longrightarrow> moves R (deleteJob r j)"
  by (auto simp: deleteJob_def tame_def intro!: moves_rules)

lemma moves_initializationRecorded [moves_rules]:
  "tame R (rr_Client r) \<Longrightarrow> moves R (initializationRecorded r)"
  by (auto simp: initializationRecorded_def tame_def Let_def intro!: moves_rules)

lemma moves_observeInitJob [moves_rules]: "tame R (rr_Client r) \<Longrightarrow> moves R (observeInitJob r name j)"
  unfolding observeInitJob_def Let_def
  by (intro moves_rules) (auto simp: tame_def)

lemma moves_reconcileInitJob [moves_rules]: "tame R (rr_Client r) \<Longrightarrow> moves R (reconcileInitJob r)"
  unfolding reconcileInitJob_def Let_def
  by (intro moves_rules) (auto simp: tame_def)

lemma moves_cleanupInitJob [moves_rules]: "tame R (rr_Client r) \<Longrightarrow> moves R (cleanupInitJob r)"
  unfolding cleanupInitJob_def
  by (intro moves_rules) (auto simp: tame_def)

lemma moves_reconcile_init [moves_rules]: "tame R (rr_Client r) \<Longrightarrow> moves R (reconcile_init r)"
  by (auto simp: reconcile_init_def declare_ready_def intro!: moves_rules)

lemma moves_reconcile_repository:
  "tame R (rr_Client r) \<Longrightarrow> moves R (resolveRepo r api) \<Longrightarrow>
   (\<And>i opts. obeys R (api_Edit api i opts)) \<Longrightarrow> (\<And>remote known. moves R (reconcileSecret r remote known)) \<Longrightarrow>
   moves R (reconcile_repository r api)"
  by (auto simp: reconcile_repository_def Let_def intro!: moves_rules)

lemma apiFor_newAPI: "apiFor r s = (Inr api, t) \<Longrightarrow> \<exists>token. api = newAPI r token"
  by (auto simp: apiFor_def bind_go_def get_obj_def Let_def attempt_def fail_def ret_def
      split: prod.splits sum.splits option.splits)

lemma moves_apiFor_then:
  assumes "tame R (rr_Client r)"
    "\<And>got. (\<And>api. got = Inr api \<Longrightarrow> \<exists>token. api = newAPI r token) \<Longrightarrow> moves R (f got)"
  shows "moves R (bind_go (attempt (apiFor r)) f)"
proof (rule moves_bind_post[where P = "\<lambda>got. \<forall>api. got = Inr api \<longrightarrow> (\<exists>token. api = newAPI r token)"])
  show "moves R (attempt (apiFor r))" using assms(1) by (intro moves_rules)
  show "\<forall>api. got = Inr api \<longrightarrow> (\<exists>token. api = newAPI r token)" if "attempt (apiFor r) s = (Inr got, t)" for s got t
  proof (intro allI impI)
    fix api
    assume "got = Inr api"
    with that have "apiFor r s = (Inr api, t)"
      by (cases "apiFor r s") (simp add: attempt_def)
    then show "\<exists>token. api = newAPI r token" by (rule apiFor_newAPI)
  qed
  show "moves R (f got)" if "\<forall>api. got = Inr api \<longrightarrow> (\<exists>token. api = newAPI r token)" for got
    using that assms(2) by blast
qed

lemma moves_finalize [moves_rules]:
  assumes "tame R (rr_Client r)" "\<And>token i. obeys R (api_Delete (newAPI r token) i)"
  shows "moves R (finalize r)"
proof -
  have "moves R (finalize_remote r)"
    unfolding finalize_remote_def Let_def using assms
    by (auto intro!: moves_rules moves_apiFor_then)
  with assms(1) show ?thesis
    by (auto simp: finalize_def Let_def tame_def intro!: moves_rules)
qed

lemma moves_reconcileSecret:
  "tame R (rr_Client r) \<Longrightarrow> (\<And>x. obeys R (k_CreateSecret (rr_Client r) x)) \<Longrightarrow>
   (\<And>x. obeys R (k_UpdateSecret (rr_Client r) x)) \<Longrightarrow> moves R (reconcileSecret r remote known)"
  unfolding reconcileSecret_def createOrPatch_def Let_def
  by (intro moves_rules) (auto simp: tame_def)

lemma moves_Reconcile_repository:
  assumes "tame R (rr_Client r)" "\<And>token. moves R (resolveRepo r (newAPI r token))"
    "\<And>token i opts. obeys R (api_Edit (newAPI r token) i opts)"
    "\<And>token i. obeys R (api_Delete (newAPI r token) i)"
    "\<And>remote known. moves R (reconcileSecret r remote known)"
  shows "moves R (Reconcile_repository r req)"
proof -
  have "moves R (ensure_finalizer r)"
    using assms(1) by (auto simp: ensure_finalizer_def Let_def tame_def intro!: moves_rules)
  moreover have "moves R (report_failure r base reason e)" for base reason and e :: goerr
    using assms(1) by (auto simp: report_failure_def intro!: moves_rules)
  ultimately have "moves R (reconcile_live r)"
    unfolding reconcile_live_def using assms
    by (auto intro!: moves_rules moves_apiFor_then moves_reconcile_repository)
  moreover have "moves R (reconcile_deleted r)"
    unfolding reconcile_deleted_def using assms by (auto intro!: moves_rules)
  ultimately show ?thesis
    unfolding Reconcile_repository_def using assms(1) by (auto simp: tame_def intro!: moves_rules)
qed

lemma moves_Reconcile_backup:
  assumes "tame R (br_Client r)"
  shows "moves R (Reconcile_backup r req)"
proof -
  note k = assms[unfolded tame_def]
  have "moves R (setCondition_backup r c)" for c
    using k by (auto simp: setCondition_backup_def intro!: moves_rules)
  moreover have "moves R (patchStatus_backup r base)" for base
    using k by (auto simp: patchStatus_backup_def intro!: moves_rules)
  moreover have "moves R (slugConflict r)"
    using k by (auto simp: slugConflict_def Let_def intro!: moves_rules)
  moreover have "moves R (reconcileCache r)"
    using k by (auto simp: reconcileCache_def deleteCache_def Let_def intro!: moves_rules)
  moreover have "moves R (observedRuns r uid)" for uid
    using k by (auto simp: observedRuns_def intro!: moves_rules)
  moreover have "moves R (reconcileTrigger r repo runs)" for repo runs
    using k by (auto simp: reconcileTrigger_def startManualJob_def record_trigger_def Let_def
        intro!: moves_rules)
  moreover have "moves R (applyCronJob r desired)" for desired
    using k by (auto simp: applyCronJob_def Let_def intro!: moves_rules)
  ultimately show ?thesis
    using k by (auto simp: Reconcile_backup_def reconcile_backup_def reconcile_schedule_def
        finish_schedule_def intro!: moves_rules)
qed

end

section \<open>The vault\<close>

text \<open>
  The abstract machine: a partial map from the names of Secrets to the restic passwords
  they hold. Its only step adds a password under a name that has none.
\<close>

type_synonym vault = "nsname \<Rightarrow> string option"

inductive vault_step :: "vault \<Rightarrow> vault \<Rightarrow> bool" where
  provide: "v n = None \<Longrightarrow> vault_step v (v(n \<mapsto> p))"

text \<open>A view gives the data of the Secret under a name, the abstraction its password.\<close>

type_synonym 'w secret_view = "'w \<Rightarrow> nsname \<Rightarrow> string gomap option"

definition vault :: "'w secret_view \<Rightarrow> 'w \<Rightarrow> vault" where
  "vault V w n =
     (case V w n of
        None \<Rightarrow> None
      | Some data \<Rightarrow>
          (let p = lookup_str data KeyResticPassword in if p = '''' then None else Some p))"

definition same :: "('w \<Rightarrow> 'v) \<Rightarrow> 'w \<Rightarrow> 'w \<Rightarrow> bool" where
  "same V w w' \<longleftrightarrow> V w' = V w"

definition vault_le :: "'w secret_view \<Rightarrow> 'w \<Rightarrow> 'w \<Rightarrow> bool" where
  "vault_le V w w' \<longleftrightarrow> vault_step\<^sup>*\<^sup>* (vault V w) (vault V w')"

interpretation same: world_order "same V" for V :: "'w \<Rightarrow> 'v"
  by unfold_locales (simp_all add: same_def)

interpretation vault: world_order "vault_le V" for V :: "'w secret_view"
  by unfold_locales (auto simp: vault_le_def)

text \<open>
  What an API server does with Secrets: a Secret that is read is there, under the name
  asked for; a create succeeds only under a free name; an update only of a Secret that is
  there; a call that fails changes nothing; other calls leave Secrets alone.
\<close>

definition writes :: "'w secret_view \<Rightarrow> bool \<Rightarrow> secret \<Rightarrow> ('w, unit) go \<Rightarrow> bool" where
  "writes V there x m \<longleftrightarrow>
     (\<forall>w res w'. m w = (res, w') \<longrightarrow>
        (case res of
           Inl _ \<Rightarrow> V w' = V w
         | Inr _ \<Rightarrow> (V w (key_of (sec_Meta x)) \<noteq> None) = there \<and>
                   V w' = (V w)(key_of (sec_Meta x) \<mapsto> sec_Data x)))"

definition secret_laws :: "'w cluster \<Rightarrow> 'w secret_view \<Rightarrow> bool" where
  "secret_laws k V \<longleftrightarrow>
     tame (same V) k \<and>
     (\<forall>n w x w'. k_GetSecret k n w = (Inr x, w') \<longrightarrow> V w n = Some (sec_Data x) \<and> key_of (sec_Meta x) = n) \<and>
     (\<forall>x. writes V False x (k_CreateSecret k x)) \<and> (\<forall>x. writes V True x (k_UpdateSecret k x))"

text \<open>BorgBase leaves Secrets alone.\<close>

definition api_obeys :: "('w \<Rightarrow> 'w \<Rightarrow> bool) \<Rightarrow> 'w api \<Rightarrow> bool" where
  "api_obeys R api \<longleftrightarrow>
     (\<forall>i. obeys R (api_Get api i)) \<and> (\<forall>n. obeys R (api_FindByName api n)) \<and>
     (\<forall>opts. obeys R (api_Add api opts)) \<and> (\<forall>i opts. obeys R (api_Edit api i opts)) \<and>
     (\<forall>i. obeys R (api_Delete api i))"

lemma same_vault: "same V w w' \<Longrightarrow> vault V w' = vault V w"
  by (simp add: same_def vault_def fun_eq_iff)

lemma same_vault_le: "same V w w' \<Longrightarrow> vault_le V w w'"
  by (simp add: vault_le_def same_vault)

lemma vault_put:
  "vault V w n = None \<or> vault V w n = Some (lookup_str data KeyResticPassword) \<Longrightarrow>
   V w' = (V w)(n \<mapsto> data) \<Longrightarrow> vault_le V w w'"
proof -
  assume old: "vault V w n = None \<or> vault V w n = Some (lookup_str data KeyResticPassword)"
    and new: "V w' = (V w)(n \<mapsto> data)"
  let ?p = "lookup_str data KeyResticPassword"
  have v: "vault V w' = (vault V w)(n := if ?p = '''' then None else Some ?p)"
    by (rule ext) (simp add: vault_def new Let_def)
  show ?thesis
  proof (cases "vault V w n = None \<and> ?p \<noteq> ''''")
    case True
    then have "vault_step (vault V w) (vault V w')"
      unfolding v using provide[of "vault V w" n ?p] by simp
    then show ?thesis by (simp add: vault_le_def)
  next
    case False
    with old have "vault V w' = vault V w" unfolding v
      by (auto simp: fun_eq_iff vault_def Let_def split: option.splits if_splits)
    then show ?thesis by (simp add: vault_le_def)
  qed
qed

lemma writes_cases:
  assumes "writes V there x m" "m w = (res, w')"
  obtains "V w' = V w" | "(V w (key_of (sec_Meta x)) \<noteq> None) = there"
    "V w' = (V w)(key_of (sec_Meta x) \<mapsto> sec_Data x)"
  using assms unfolding writes_def by (cases res) fastforce+

lemma merged_key: "key_of (sec_Meta (merged_secret l desired existing)) = key_of (sec_Meta existing)"
  by (simp add: merged_secret_def syncControllerRef_def key_of_def Let_def)

lemma createOrPatch_vault:
  assumes laws: "secret_laws (rr_Client r) V"
    and desired: "sec_Data desired = [(KeyResticRepository, url), (KeyResticPassword, p)]"
    and existing: "existing = empty_secret \<or> V (st_World s) (key_of (sec_Meta existing)) = Some (sec_Data existing)"
    and kept: "password_of existing = '''' \<or> password_of existing = p"
  shows "wp (createOrPatch r desired existing) (\<lambda>_ t. vault_le V (st_World s) (st_World t))
    (\<lambda>_ t. vault_le V (st_World s) (st_World t)) s"
proof -
  let ?w = "st_World s"
  have create: "vault_le V ?w w'" if "k_CreateSecret (rr_Client r) desired ?w = (res, w')" for res w'
  proof -
    have "writes V False desired (k_CreateSecret (rr_Client r) desired)"
      using laws by (simp add: secret_laws_def)
    from this that show ?thesis
    proof (cases rule: writes_cases)
      case 2
      then have "vault V ?w (key_of (sec_Meta desired)) = None" by (simp add: vault_def)
      with 2 show ?thesis by (intro vault_put[OF disjI1])
    qed (auto intro: same_vault_le simp: same_def)
  qed
  let ?new = "merged_secret (rr_Lib r) desired existing"
  have update: "vault_le V ?w w'"
    if there: "om_Name (sec_Meta existing) \<noteq> ''''"
      and run: "k_UpdateSecret (rr_Client r) ?new ?w = (res, w')" for res w'
  proof -
    have "writes V True ?new (k_UpdateSecret (rr_Client r) ?new)"
      using laws by (simp add: secret_laws_def)
    from this run show ?thesis
    proof (cases rule: writes_cases)
      case 2
      have "existing \<noteq> empty_secret" using there by (auto simp: empty_secret_def new_meta_def)
      then have "V ?w (key_of (sec_Meta existing)) = Some (sec_Data existing)" using existing by simp
      moreover have "password_of ?new = p"
        using merged_password[OF desired] desired
        by (simp add: password_of_def lookup_str_def not_sym[OF key_names])
      ultimately have "vault V ?w (key_of (sec_Meta ?new)) = None \<or>
          vault V ?w (key_of (sec_Meta ?new)) = Some (lookup_str (sec_Data ?new) KeyResticPassword)"
        using kept by (auto simp: vault_def merged_key password_of_def Let_def)
      with 2(2) show ?thesis by (intro vault_put)
    qed (auto intro: same_vault_le simp: same_def)
  qed
  show ?thesis
    unfolding createOrPatch_def Let_def
    using create update by (auto simp: wp_simps split: prod.splits sum.splits)
qed

lemma wp_bind_fun: "wp (bind_go m f) Q E = wp m (\<lambda>a. wp (f a) Q E) E"
  by (rule ext) (rule wp_bind)

lemma choose_password_vault:
  assumes "tame (same V) (rr_Client r)"
  shows "wp (choose_password r remote known existing)
    (\<lambda>a t. same V (st_World s) (st_World t) \<and> (password_of existing = '''' \<or> password_of existing = fst a))
    (\<lambda>_ t. same V (st_World s) (st_World t)) s"
proof (cases "password_of existing = ''''")
  case True
  then show ?thesis
    using moves_wp[OF same.moves_choose_password[OF assms], of remote known existing s]
    by (simp add: case_prod_unfold)
next
  case False
  then show ?thesis
    by (simp add: choose_password_kept[OF refl] wp_simps same_def)
qed

lemma reconcileSecret_vault:
  assumes laws: "secret_laws (rr_Client r) V"
  shows "moves (vault_le V) (reconcileSecret r remote known)"
proof (rule moves_from_wp)
  fix s :: "('a, repository) st"
  let ?Q = "\<lambda>_ t. vault_le V (st_World s) (st_World t)"
  have tame: "tame (same V) (rr_Client r)" using laws by (simp add: secret_laws_def)
  have patch: "wp (createOrPatch r desired existing) ?Q ?Q u"
    if "same V (st_World s) (st_World u)" "sec_Data desired = [(KeyResticRepository, url), (KeyResticPassword, p)]"
      "existing = empty_secret \<or> V (st_World s) (key_of (sec_Meta existing)) = Some (sec_Data existing)"
      "password_of existing = '''' \<or> password_of existing = p" for desired existing url p u
  proof -
    have "V (st_World u) = V (st_World s)" using that(1) by (simp add: same_def)
    then show ?thesis
      using createOrPatch_vault[OF laws that(2) _ that(4), of u] that(3) same_vault_le[OF that(1)]
      by (auto intro: wp_mono vault.trans)
  qed
  have tail: "wp (bind_go (choose_password r remote known existing)
      (\<lambda>(p, gen). bind_go (f p) (\<lambda>d. bind_go (createOrPatch r d existing) (\<lambda>_. g gen)))) ?Q ?Q u"
    if u: "same V (st_World s) (st_World u)"
      and existing: "existing = empty_secret \<or> V (st_World s) (key_of (sec_Meta existing)) = Some (sec_Data existing)"
      and f: "\<And>p v. wp (f p) (\<lambda>d v'. v' = v \<and>
            sec_Data d = [(KeyResticRepository, url), (KeyResticPassword, p)]) (\<lambda>_ v'. v' = v) v"
      and g: "\<And>gen v. ?Q () v \<Longrightarrow> wp (g gen) ?Q ?Q v"
    for existing u url and f :: "string \<Rightarrow> ('a, secret) rcomp" and g :: "bool \<Rightarrow> ('a, unit) rcomp"
  proof (unfold wp_bind, rule wp_mono[OF choose_password_vault[OF tame, of remote known existing u]])
    fix a :: "string \<times> bool" and v :: "('a, repository) st"
    assume "same V (st_World u) (st_World v) \<and> (password_of existing = '''' \<or> password_of existing = fst a)"
    then have v: "same V (st_World s) (st_World v)" and p: "password_of existing = '''' \<or> password_of existing = fst a"
      using same.trans[OF u] by auto
    have create: "wp (createOrPatch r d existing) (\<lambda>_. wp (g gen) ?Q ?Q) ?Q v"
      if "sec_Data d = [(KeyResticRepository, url), (KeyResticPassword, fst a)]" for d gen
      by (rule wp_mono[OF patch[OF v that existing p]]) (use g in blast)+
    have "wp (f (fst a)) (\<lambda>d. wp (createOrPatch r d existing) (\<lambda>_. wp (g (snd a)) ?Q ?Q) ?Q) ?Q v"
      by (rule wp_mono[OF f[of "fst a" v]]) (use create same_vault_le[OF v] in auto)
    then show "wp (case a of (p, gen) \<Rightarrow> bind_go (f p) (\<lambda>d. bind_go (createOrPatch r d existing) (\<lambda>_. g gen))) ?Q ?Q v"
      by (simp add: wp_bind wp_bind_fun case_prod_unfold)
  qed (rule same_vault_le[OF same.trans[OF u]])

  obtain res w where get: "k_GetSecret (rr_Client r) (NN (rp_Namespace (st_Object s)) (SecretName (st_Object s)))
      (st_World s) = (res, w)" by fastforce
  have w: "same V (st_World s) w"
    using tame get unfolding tame_def obeys_def by (metis snd_conv)
  have found: "V (st_World s) (key_of (sec_Meta x)) = Some (sec_Data x)" if "res = Inr x" for x
    using laws get that unfolding secret_laws_def by metis
  show "wp (reconcileSecret r remote known) ?Q ?Q s"
  proof (cases "ResticURL remote")
    case (Inl e)
    then show ?thesis by (simp add: reconcileSecret_def wp_bind wp_lift)
  next
    case (Inr url)
    note steps = reconcileSecret_def Let_def wp_bind[of "lift _"] wp_bind[of get_obj] wp_bind[of "attempt _"]
      wp_bind[of "ret _"] wp_bind[of "fail _"] wp_lift wp_get_obj wp_attempt wp_ask wp_ret wp_fail
      Inr get sum.case prod.case if_True if_False
    show ?thesis
    proof (cases res)
      fix e
      assume res: "res = Inl e"
      show ?thesis
      proof (cases "IsNotFound e")
        case True
        show ?thesis
          unfolding steps res eqTrueI[OF True]
          by (rule tail[of "s\<lparr>st_World := w\<rparr>" empty_secret _ url])
            (use w in \<open>auto simp: wp_simps credentials_def split: sum.split\<close>)
      next
        case False
        then show ?thesis unfolding steps res using same_vault_le[OF w] by (simp add: wp_bind wp_fail)
      qed
    next
      fix existing
      assume res: "res = Inr existing"
      show ?thesis
        unfolding steps res
        by (rule tail[of "s\<lparr>st_World := w\<rparr>" existing _ url])
          (use w found[OF res] in \<open>auto simp: wp_simps credentials_def split: sum.split\<close>)
    qed
  qed
qed

section \<open>Histories\<close>

text \<open>
  What may happen to the world: a run of either reconciler, for any request and whatever
  comes of it, or a step of somebody else. Both controllers run up to four reconciliations
  at a time, of different objects; what other runs do between two calls of a run is part of
  the calls as the run sees them, and \<open>interrupted\<close> below makes it explicit.
\<close>

inductive operates ::
  "'w repository_reconciler \<Rightarrow> 'w backup_reconciler \<Rightarrow> ('w \<Rightarrow> 'w \<Rightarrow> bool) \<Rightarrow> 'w \<Rightarrow> 'w \<Rightarrow> bool"
  for r b others where
  idle: "operates r b others w w"
| repository: "operates r b others w v \<Longrightarrow>
    operates r b others w (st_World (snd (Reconcile_repository r req (start obj v))))"
| backup: "operates r b others w v \<Longrightarrow>
    operates r b others w (st_World (snd (Reconcile_backup b req (start sb v))))"
| other: "operates r b others w v \<Longrightarrow> others v u \<Longrightarrow> operates r b others w u"

lemma start_world [simp]: "st_World (start obj w) = w"
  by (simp add: start_def)

context world_order
begin

lemma moves_start: "moves R m \<Longrightarrow> R w (st_World (snd (m (start obj w))))"
  unfolding moves_def by (metis start_world)

lemma operates_moves:
  assumes "operates r b others w v" "\<And>req. moves R (Reconcile_repository r req)"
    "\<And>req. moves R (Reconcile_backup b req)" "\<And>v u. others v u \<Longrightarrow> R v u"
  shows "R w v"
  using assms(1)
proof (induction rule: operates.induct)
  case (repository w v req obj)
  show ?case by (rule trans[OF repository.IH moves_start[OF assms(2)]])
next
  case (backup w v req sb)
  show ?case by (rule trans[OF backup.IH moves_start[OF assms(3)]])
next
  case (other w v u)
  then show ?case using assms(4) trans by blast
qed simp

end

lemma api_obeys_mono: "api_obeys R api \<Longrightarrow> (\<And>w w'. R w w' \<Longrightarrow> S w w') \<Longrightarrow> api_obeys S api"
  by (simp add: api_obeys_def obeys_def)

lemma resolveRepo_same: "api_obeys (same V) api \<Longrightarrow> moves (same V) (resolveRepo r api)"
  unfolding resolveRepo_def Let_def api_obeys_def by (auto intro!: moves_rules)

text \<open>
  C1. The vault is only ever added to. Over any history of the operator, whatever calls
  fail and in whatever order the runs come, the restic passwords in the credentials
  Secrets evolve as in the abstract vault: a password appears under a name that had none,
  and what is there is never replaced and never removed, as long as nobody else does so.
\<close>

theorem operator_refines_vault:
  assumes "secret_laws (rr_Client r) V" "tame (same V) (br_Client b)"
    and "\<And>token. api_obeys (same V) (newAPI r token)"
    and "\<And>v u. others v u \<Longrightarrow> vault_step\<^sup>*\<^sup>* (vault V v) (vault V u)"
    and "operates r b others w w'"
  shows "vault_step\<^sup>*\<^sup>* (vault V w) (vault V w')"
proof -
  have tame: "tame (same V) (rr_Client r)" using assms(1) by (simp add: secret_laws_def)
  have "moves (vault_le V) (Reconcile_repository r req)" for req
  proof (rule vault.moves_Reconcile_repository)
    show "tame (vault_le V) (rr_Client r)" using tame by (rule tame_mono) (rule same_vault_le)
    show "moves (vault_le V) (resolveRepo r (newAPI r token))" for token
      using resolveRepo_same[OF assms(3)] by (rule moves_mono) (rule same_vault_le)
    show "moves (vault_le V) (reconcileSecret r remote known)" for remote known
      by (rule reconcileSecret_vault[OF assms(1)])
    have "api_obeys (vault_le V) (newAPI r token)" for token
      using assms(3) by (rule api_obeys_mono) (rule same_vault_le)
    then show "obeys (vault_le V) (api_Edit (newAPI r token) i opts)"
      "obeys (vault_le V) (api_Delete (newAPI r token) i)" for token i opts
      by (simp_all add: api_obeys_def)
  qed
  moreover have "moves (vault_le V) (Reconcile_backup b req)" for req
    by (rule vault.moves_Reconcile_backup[OF tame_mono[OF assms(2)]]) (rule same_vault_le)
  ultimately have "vault_le V w w'"
    using vault.operates_moves[OF assms(5), of V] assms(4) by (simp add: vault_le_def)
  then show ?thesis by (simp add: vault_le_def)
qed

section \<open>Interruptions\<close>

text \<open>
  A run is not alone: before each of its calls, whatever other runs and other users have
  done since the last one comes first. Reading the clock, the random source and the list of
  conditions of the object at hand are local.
\<close>

definition after :: "('w \<Rightarrow> 'w) \<Rightarrow> ('w \<Rightarrow> 'a \<times> 'w) \<Rightarrow> 'w \<Rightarrow> 'a \<times> 'w" where
  "after env m w = m (env w)"

definition interrupted_api :: "('w \<Rightarrow> 'w) \<Rightarrow> 'w api \<Rightarrow> 'w api" where
  "interrupted_api env api =
     \<lparr>api_Get = (\<lambda>i. after env (api_Get api i)),
      api_FindByName = (\<lambda>n. after env (api_FindByName api n)),
      api_Add = (\<lambda>opts. after env (api_Add api opts)),
      api_Edit = (\<lambda>i opts. after env (api_Edit api i opts)),
      api_Delete = (\<lambda>i. after env (api_Delete api i))\<rparr>"

definition interrupted :: "('w \<Rightarrow> 'w) \<Rightarrow> 'w cluster \<Rightarrow> 'w cluster" where
  "interrupted env k = k
     \<lparr>k_GetRepository := (\<lambda>n. after env (k_GetRepository k n)),
      k_ReadRepository := (\<lambda>n. after env (k_ReadRepository k n)),
      k_ListRepositories := after env (k_ListRepositories k),
      k_PatchRepository := (\<lambda>x y. after env (k_PatchRepository k x y)),
      k_PatchRepositoryStatus := (\<lambda>x y. after env (k_PatchRepositoryStatus k x y)),
      k_GetSecret := (\<lambda>n. after env (k_GetSecret k n)),
      k_CreateSecret := (\<lambda>x. after env (k_CreateSecret k x)),
      k_UpdateSecret := (\<lambda>x. after env (k_UpdateSecret k x)),
      k_GetJob := (\<lambda>n. after env (k_GetJob k n)),
      k_ListJobs := (\<lambda>n. after env (k_ListJobs k n)),
      k_CreateJob := (\<lambda>x. after env (k_CreateJob k x)),
      k_DeleteJob := (\<lambda>x. after env (k_DeleteJob k x)),
      k_GetBackup := (\<lambda>n. after env (k_GetBackup k n)),
      k_ListBackups := (\<lambda>n. after env (k_ListBackups k n)),
      k_PatchBackupStatus := (\<lambda>x y. after env (k_PatchBackupStatus k x y)),
      k_GetCronJob := (\<lambda>n. after env (k_GetCronJob k n)),
      k_CreateCronJob := (\<lambda>x. after env (k_CreateCronJob k x)),
      k_UpdateCronJob := (\<lambda>x. after env (k_UpdateCronJob k x)),
      k_GetPVC := (\<lambda>n. after env (k_GetPVC k n)),
      k_CreatePVC := (\<lambda>x. after env (k_CreatePVC k x)),
      k_DeletePVC := (\<lambda>x. after env (k_DeletePVC k x))\<rparr>"

definition interrupted_run :: "('w \<Rightarrow> 'w) \<Rightarrow> 'w repository_reconciler \<Rightarrow> 'w repository_reconciler" where
  "interrupted_run env r = r
     \<lparr>rr_Client := interrupted env (rr_Client r),
      rr_NewAPI := Some (\<lambda>token. interrupted_api env (newAPI r token))\<rparr>"

definition interrupted_backups :: "('w \<Rightarrow> 'w) \<Rightarrow> 'w backup_reconciler \<Rightarrow> 'w backup_reconciler" where
  "interrupted_backups env b = b\<lparr>br_Client := interrupted env (br_Client b)\<rparr>"

lemma interrupted_runs [simp]:
  "rr_Client (interrupted_run env r) = interrupted env (rr_Client r)"
  "newAPI (interrupted_run env r) token = interrupted_api env (newAPI r token)"
  "br_Client (interrupted_backups env b) = interrupted env (br_Client b)"
  by (simp_all add: interrupted_run_def interrupted_backups_def newAPI_def)

context world_order
begin

lemma obeys_after: "(\<And>w. R w (env w)) \<Longrightarrow> obeys R m \<Longrightarrow> obeys R (after env m)"
  unfolding obeys_def after_def using trans by blast

lemma tame_interrupted: "(\<And>w. R w (env w)) \<Longrightarrow> tame R k \<Longrightarrow> tame R (interrupted env k)"
  by (simp add: tame_def interrupted_def obeys_after)

end

section \<open>The account\<close>

text \<open>
  The repositories of the BorgBase account, by name; BorgBase allows several of one name,
  so the view gives a multiset. \<open>fewer B n\<close>: the name \<open>n\<close> does not come to stand for more
  repositories; \<open>few B n\<close>: nor for more than one.
\<close>

definition fewer :: "('w \<Rightarrow> string multiset) \<Rightarrow> string \<Rightarrow> 'w \<Rightarrow> 'w \<Rightarrow> bool" where
  "fewer B n w w' \<longleftrightarrow> count (B w') n \<le> count (B w) n"

definition few :: "('w \<Rightarrow> string multiset) \<Rightarrow> string \<Rightarrow> 'w \<Rightarrow> 'w \<Rightarrow> bool" where
  "few B n w w' \<longleftrightarrow> count (B w') n \<le> max 1 (count (B w) n)"

interpretation fewer: world_order "fewer B n" for B :: "'w \<Rightarrow> string multiset" and n
  by unfold_locales (auto simp: fewer_def)

interpretation few: world_order "few B n" for B :: "'w \<Rightarrow> string multiset" and n
  by unfold_locales (auto simp: few_def)

text \<open>
  What BorgBase does with a name: only a create adds to it, and only under the name it is
  given, whether or not it reports an error afterwards; a look-up that finds nothing means
  that there is nothing at that moment.
\<close>

definition account_laws :: "('w \<Rightarrow> string multiset) \<Rightarrow> string \<Rightarrow> 'w api \<Rightarrow> bool" where
  "account_laws B n api \<longleftrightarrow>
     (\<forall>i. obeys (fewer B n) (api_Get api i)) \<and> (\<forall>m. obeys (fewer B n) (api_FindByName api m)) \<and>
     (\<forall>i opts. obeys (fewer B n) (api_Edit api i opts)) \<and>
     (\<forall>i. obeys (fewer B n) (api_Delete api i)) \<and>
     (\<forall>w e w'. api_FindByName api n w = (Inl e, w') \<longrightarrow> err_is e ErrNotFound \<longrightarrow> n \<notin># B w') \<and>
     (\<forall>opts w. count (B (snd (api_Add api opts w))) n \<le>
        count (B w) n + (if ao_Name opts = n then 1 else 0))"

lemma fewer_few: "fewer B n w w' \<Longrightarrow> few B n w w'"
  by (simp add: fewer_def few_def)

lemma obeys_few: "obeys (fewer B n) m \<Longrightarrow> obeys (few B n) m"
  by (erule obeys_mono) (rule fewer_few)

text \<open>The laws bear interruptions that leave the name alone.\<close>

lemma interrupted_account:
  assumes env: "\<And>w. fewer B n w (env w)" and laws: "account_laws B n api"
  shows "account_laws B n (interrupted_api env api)"
proof -
  have "count (B (snd (api_Add api opts (env w)))) n \<le> count (B w) n + (if ao_Name opts = n then 1 else 0)"
    for opts w
    using laws env[of w] unfolding account_laws_def fewer_def by (meson add_le_mono1 order_trans)
  with laws show ?thesis
    by (simp add: account_laws_def interrupted_api_def fewer.obeys_after[OF env] after_def)
qed

lemma create_account:
  fixes B :: "'w \<Rightarrow> string multiset"
  assumes laws: "account_laws B n api" and opts: "ao_Name opts = m"
  shows "moves (few B n) (bind_go (attempt (call (ApiFindByName m) (api_FindByName api m))) (\<lambda>res.
     case res of
       Inr remote \<Rightarrow> ret remote
     | Inl e \<Rightarrow>
         if \<not> err_is e ErrNotFound then fail e
         else bind_go (attempt (call (ApiAdd opts) (api_Add api opts))) (\<lambda>added.
           case added of Inl e \<Rightarrow> fail (f e)
           | Inr remote \<Rightarrow> bind_go (Eventf ty reason action fmt (args remote)) (\<lambda>_. ret remote))))"
    (is "moves _ ?m")
proof (rule moves_from_wp)
  fix s :: "('w, 'a) st"
  let ?w = "st_World s"
  obtain x v where find: "api_FindByName api m ?w = (x, v)" by fastforce
  obtain y u where add: "api_Add api opts v = (y, u)" by fastforce
  have v: "fewer B n ?w v" using laws find unfolding account_laws_def obeys_def by (metis snd_conv)
  have new: "count (B u) n \<le> count (B v) n + (if m = n then 1 else 0)"
    using laws add opts unfolding account_laws_def by (metis snd_conv)
  have u: "few B n ?w u" if "x = Inl e" "err_is e ErrNotFound" for e
  proof (cases "m = n")
    case True
    then have "n \<notin># B v" using laws find that unfolding account_laws_def by blast
    with True new show ?thesis by (simp add: few_def not_in_iff)
  next
    case False
    with v new have "fewer B n ?w u" by (simp add: fewer_def)
    then show ?thesis by (rule fewer_few)
  qed
  show "wp ?m (\<lambda>_ t. few B n ?w (st_World t)) (\<lambda>_ t. few B n ?w (st_World t)) s"
    using fewer_few[OF v] u
    by (cases x; cases y) (simp_all add: wp_simps find add)
qed

lemma resolveRepo_account:
  assumes "account_laws B n api"
  shows "moves (few B n) (resolveRepo r api)"
proof -
  have get: "obeys (few B n) (api_Get api i)" for i
    using assms by (auto simp: account_laws_def intro: obeys_few)
  show ?thesis
    unfolding resolveRepo_def Let_def
    by (intro few.moves_bind[OF few.moves_get_obj] few.moves_if create_account[OF assms])
      (auto intro!: moves_rules get)
qed

lemma Reconcile_repository_account:
  assumes "tame (fewer B n) (rr_Client r)"
    and "\<And>x. obeys (fewer B n) (k_CreateSecret (rr_Client r) x)"
    and "\<And>x. obeys (fewer B n) (k_UpdateSecret (rr_Client r) x)"
    and "\<And>token. account_laws B n (newAPI r token)"
  shows "moves (few B n) (Reconcile_repository r req)"
proof (rule few.moves_Reconcile_repository)
  show tame: "tame (few B n) (rr_Client r)" using assms(1) by (rule tame_mono) (rule fewer_few)
  show "moves (few B n) (resolveRepo r (newAPI r token))" for token
    by (rule resolveRepo_account[OF assms(4)])
  show "obeys (few B n) (api_Edit (newAPI r token) i opts)" for token i opts
    using assms(4)[of token] by (simp add: account_laws_def obeys_few)
  show "obeys (few B n) (api_Delete (newAPI r token) i)" for token i
    using assms(4)[of token] by (simp add: account_laws_def obeys_few)
  show "moves (few B n) (reconcileSecret r remote known)" for remote known
    by (rule few.moves_reconcileSecret[OF tame obeys_few[OF assms(2)] obeys_few[OF assms(3)]])
qed

text \<open>
  C2. A repository is created once, unless two runs race for its name. Over any history of
  the operator, even when the status that records a new BorgBase repository is lost and
  even when a create reports an error after it has taken effect, a name that stands for at
  most one repository of the account stands for at most one ever after, provided that
  nobody else makes a second one (\<open>others\<close>) and that nothing else creates a repository of
  that name between two calls of a run (\<open>env\<close>): other runs may overlap with it as long as
  they are not for a Repository of the same name. \<open>overlapping_runs_create_twice\<close> shows
  that without this proviso, which the operator does not ensure, two are made.
\<close>

theorem repository_is_created_once:
  assumes "tame (fewer B n) (rr_Client r)" "tame (fewer B n) (br_Client b)"
    and "\<And>x. obeys (fewer B n) (k_CreateSecret (rr_Client r) x)"
    and "\<And>x. obeys (fewer B n) (k_UpdateSecret (rr_Client r) x)"
    and "\<And>token. account_laws B n (newAPI r token)"
    and "\<And>v. fewer B n v (env v)"
    and "\<And>v u. others v u \<Longrightarrow> few B n v u"
    and "operates (interrupted_run env r) (interrupted_backups env b) others w w'"
    and "count (B w) n \<le> 1"
  shows "count (B w') n \<le> 1"
proof -
  have "moves (few B n) (Reconcile_repository (interrupted_run env r) req)" for req
    by (rule Reconcile_repository_account)
      (simp_all add: fewer.tame_interrupted interrupted_account assms(1,5,6),
       simp_all add: interrupted_def fewer.obeys_after assms(3,4,6))
  moreover have "tame (few B n) (interrupted env (br_Client b))"
    using fewer.tame_interrupted[OF assms(6,2)] by (rule tame_mono) (rule fewer_few)
  then have "moves (few B n) (Reconcile_backup (interrupted_backups env b) req)" for req
    by (intro few.moves_Reconcile_backup) simp
  ultimately have "few B n w w'"
    using few.operates_moves[OF assms(8), of B n] assms(7) by blast
  with assms(9) show ?thesis by (simp add: few_def)
qed

section \<open>A small world\<close>

text \<open>A cluster and an account that behave as documented, for the witnesses: the state is
  the data of the Secrets and the names of the repositories.\<close>

record small =
  sm_Secrets :: "(nsname \<times> string gomap) list"
  sm_Names :: "string list"

definition small_secret :: "nsname \<Rightarrow> string gomap \<Rightarrow> secret" where
  "small_secret n data =
     \<lparr>sec_Meta = new_meta (nn_Namespace n) (nn_Name n) [(labelManagedBy, managedByValue)],
      sec_Type = ''Opaque'', sec_Data = data\<rparr>"

definition small_put :: "secret \<Rightarrow> small \<Rightarrow> small" where
  "small_put x w = w\<lparr>sm_Secrets := (key_of (sec_Meta x), sec_Data x) # sm_Secrets w\<rparr>"

definition small_secrets :: "small \<Rightarrow> nsname \<Rightarrow> string gomap option" where
  "small_secrets w = map_of (sm_Secrets w)"

definition small_cluster :: "small cluster" where
  "small_cluster =
     \<lparr>k_GetRepository = (\<lambda>_. ret (sample_repository\<lparr>rp_Spec := (rp_Spec sample_repository)\<lparr>
          rs_PasswordSecretRef := Some \<lparr>sel_Name = ''given'', sel_Key = ''password''\<rparr>\<rparr>\<rparr>)),
      k_ReadRepository = (\<lambda>_. fail not_found),
      k_ListRepositories = ret [], k_PatchRepository = (\<lambda>_ new. ret new),
      k_PatchRepositoryStatus = (\<lambda>_ _. fail not_found),
      k_GetSecret = (\<lambda>n w. (case small_secrets w n of
         None \<Rightarrow> (Inl not_found, w) | Some data \<Rightarrow> (Inr (small_secret n data), w))),
      k_CreateSecret = (\<lambda>x w. if small_secrets w (key_of (sec_Meta x)) = None
         then (Inr (), small_put x w) else (Inl not_found, w)),
      k_UpdateSecret = (\<lambda>x w. if small_secrets w (key_of (sec_Meta x)) = None
         then (Inl not_found, w) else (Inr (), small_put x w)),
      k_GetJob = (\<lambda>_. fail not_found), k_ListJobs = (\<lambda>_. ret []), k_CreateJob = (\<lambda>_. ret ()),
      k_DeleteJob = (\<lambda>_. ret ()),
      k_GetBackup = (\<lambda>_. fail not_found), k_ListBackups = (\<lambda>_. ret []),
      k_PatchBackupStatus = (\<lambda>new _. ret new),
      k_GetCronJob = (\<lambda>_. fail not_found), k_CreateCronJob = ret, k_UpdateCronJob = (\<lambda>_. ret ()),
      k_GetPVC = (\<lambda>_. fail not_found), k_CreatePVC = (\<lambda>_. ret ()), k_DeletePVC = (\<lambda>_. ret ()),
      k_SetStatusCondition = (\<lambda>c cs w. (c # filter (\<lambda>d. cond_Type d \<noteq> cond_Type c) cs, w)),
      k_Now = (\<lambda>w. (0, w)), k_Rand = (\<lambda>w. (Inl (Sentinel ''no random source''), w)), k_RandFuel = 0,
      k_Post = (\<lambda>_ w. (DoFailed (Sentinel ''no network''), w))\<rparr>"

definition small_api :: "small api" where
  "small_api =
     \<lparr>api_Get = (\<lambda>i. ret (sample_remote\<lparr>bb_ID := i\<rparr>)),
      api_FindByName = (\<lambda>n w. if n \<in> set (sm_Names w) then (Inr sample_remote, w)
        else (Inl (Errorf ''%w: name %s'' [Err ErrNotFound, Str n]), w)),
      api_Add = (\<lambda>opts w. (Inr sample_remote, w\<lparr>sm_Names := ao_Name opts # sm_Names w\<rparr>)),
      api_Edit = (\<lambda>i opts. ret sample_remote), api_Delete = (\<lambda>i. ret ())\<rparr>"

definition small_reconciler :: "small repository_reconciler" where
  "small_reconciler =
     \<lparr>rr_Client = small_cluster, rr_Lib = plain_lib, rr_NewAPI = Some (\<lambda>_. small_api),
      rr_DefaultTokenSecret = NN ''system'' ''token'', rr_DefaultTokenKey = ''token'',
      rr_BackupImage = ''restic'', rr_HasAPIReader = False, rr_Endpoint = ''''\<rparr>"

definition small_world :: small where
  "small_world =
     \<lparr>sm_Secrets = [(NN ''system'' ''token'', [(''token'', ''t'')]),
        (NN ''app'' ''given'', [(''password'', ''secret'')])], sm_Names = []\<rparr>"

text \<open>The world after two runs; the status of the first is lost.\<close>

definition small_step :: "small \<Rightarrow> small" where
  "small_step w = st_World (snd (Reconcile_repository small_reconciler (NN ''app'' ''backups'')
     (start sample_repository w)))"

lemma small_history: "operates small_reconciler b others small_world (small_step (small_step small_world))"
  unfolding small_step_def by (intro operates.intros)

definition small_names :: "small \<Rightarrow> string multiset" where
  "small_names w = mset (sm_Names w)"

lemma small_tame: "tame (same small_secrets) small_cluster" "tame (fewer small_names n) small_cluster"
  by (simp_all add: tame_def obeys_def small_cluster_def same_def fewer_def ret_def fail_def run_generator_def
      GeneratePassword_def small_names_def split: option.split)

lemma small_writes:
  "obeys (fewer small_names n) (k_CreateSecret small_cluster x)"
  "obeys (fewer small_names n) (k_UpdateSecret small_cluster x)"
  by (simp_all add: obeys_def fewer_def small_cluster_def small_put_def small_names_def)

definition small_backups :: "small backup_reconciler" where
  "small_backups =
     \<lparr>br_Client = small_cluster, br_Lib = plain_lib,
      br_Config = sample_config\<rparr>"

lemma small_secret_laws: "secret_laws small_cluster small_secrets"
  using small_tame(1)
  by (auto simp: secret_laws_def small_cluster_def writes_def small_put_def small_secret_def key_of_def
      new_meta_def small_secrets_def split: option.splits if_splits)

lemma small_api_laws: "api_obeys (same small_secrets) small_api" "account_laws small_names n small_api"
  by (auto simp: small_names_def small_secrets_def api_obeys_def account_laws_def obeys_def same_def fewer_def
      small_api_def ret_def split: if_splits)

lemma small_newAPI: "newAPI small_reconciler token = small_api"
  by (simp add: newAPI_def small_reconciler_def)

lemma small_clients: "rr_Client small_reconciler = small_cluster" "br_Client small_backups = small_cluster"
  by (simp_all add: small_reconciler_def small_backups_def)

lemmas small_defs = small_cluster_def small_reconciler_def small_api_def small_world_def small_secrets_def
  small_secret_def small_put_def

lemmas run_defs = Reconcile_repository_def reconcile_live_def ensure_finalizer_def apiFor_def readSecretKey_def
  newAPI_def first_steps patchStatus_def small_defs vault_def
  sample_repository_def plain_lib_def new_meta_def sample_remote_def key_of_def
  wp_simps start_def Let_def run_ret run_fail RepositoryName_def SecretName_def
  not_found_def ErrNotFound_def IsRestic_def wanted_edit_def no_edit_def IsZero_def
  observe_remote_def ResticURL_def Password_def DeletionPolicyDelete_def DeletionPolicyRetain_def
  empty_secret_def lookup_str_def credentials_def not_sym[OF key_names]

text \<open>The first run creates the repository and stores the given password.\<close>

lemma small_step_world:
  "vault small_secrets (small_step small_world) (NN ''app'' ''backups-borgbase'') = Some ''secret'' \<and>
   sm_Names (small_step small_world) = [''app'']"
proof -
  let ?Q = "\<lambda>_ t. vault small_secrets (st_World t) (NN ''app'' ''backups-borgbase'') = Some ''secret'' \<and>
    sm_Names (st_World t) = [''app'']"
  have "wp (Reconcile_repository small_reconciler (NN ''app'' ''backups'')) ?Q ?Q (start sample_repository small_world)"
    by (simp add: run_defs)
  then show ?thesis by (simp add: wp_same small_step_def)
qed

theorem operator_refines_vault_witness:
  "vault_step\<^sup>*\<^sup>* (vault small_secrets small_world) (vault small_secrets (small_step (small_step small_world))) \<and>
   vault small_secrets small_world (NN ''app'' ''backups-borgbase'') = None \<and>
   vault small_secrets (small_step small_world) (NN ''app'' ''backups-borgbase'') = Some ''secret''"
proof (intro conjI)
  show "vault_step\<^sup>*\<^sup>* (vault small_secrets small_world) (vault small_secrets (small_step (small_step small_world)))"
    by (rule operator_refines_vault[of small_reconciler small_secrets small_backups "\<lambda>_ _. False"])
      (simp_all add: small_clients small_secret_laws small_tame small_newAPI small_api_laws small_history)
  show "vault small_secrets small_world (NN ''app'' ''backups-borgbase'') = None"
    by (simp add: vault_def small_secrets_def small_world_def)
qed (simp add: small_step_world)

text \<open>Another tenant creates repositories of its own before every call of the runs.\<close>

definition busy :: "small \<Rightarrow> small" where
  "busy w = w\<lparr>sm_Names := ''elsewhere'' # sm_Names w\<rparr>"

definition busy_step :: "small \<Rightarrow> small" where
  "busy_step w = st_World (snd (Reconcile_repository (interrupted_run busy small_reconciler)
     (NN ''app'' ''backups'') (start sample_repository w)))"

lemma busy_history:
  "operates (interrupted_run busy small_reconciler) b others small_world (busy_step (busy_step small_world))"
  unfolding busy_step_def by (intro operates.intros)

lemma busy_step_creates: "''app'' \<in> set (sm_Names (busy_step small_world))"
proof -
  let ?Q = "\<lambda>_ t. ''app'' \<in> set (sm_Names (st_World t))"
  have "wp (Reconcile_repository (interrupted_run busy small_reconciler) (NN ''app'' ''backups'')) ?Q ?Q
      (start sample_repository small_world)"
    by (simp add: run_defs interrupted_run_def interrupted_def interrupted_api_def after_def busy_def)
  then show ?thesis by (simp add: wp_same busy_step_def)
qed

theorem repository_is_created_once_witness:
  "count (small_names (busy_step (busy_step small_world))) ''app'' \<le> 1 \<and>
   ''app'' \<in> set (sm_Names (busy_step small_world))"
proof
  show "count (small_names (busy_step (busy_step small_world))) ''app'' \<le> 1"
    by (rule repository_is_created_once[of small_names "''app''" small_reconciler small_backups busy
          "\<lambda>_ _. False" small_world])
      (simp_all add: small_clients small_tame small_writes small_newAPI small_api_laws busy_history,
       simp_all add: fewer_def small_names_def small_world_def busy_def)
qed (rule busy_step_creates)

text \<open>
  Two Repositories of one namespace that name no repository both ask for the one named
  after the namespace. If the second run comes between the look-up and the create of the
  first, both create.
\<close>

definition second_reconciler :: "small repository_reconciler" where
  "second_reconciler = small_reconciler\<lparr>rr_Client := small_cluster
     \<lparr>k_GetRepository := (\<lambda>_. ret (sample_repository\<lparr>rp_Meta := new_meta ''app'' ''mirror'' [],
        rp_Spec := (rp_Spec sample_repository)\<lparr>
          rs_PasswordSecretRef := Some \<lparr>sel_Name = ''given'', sel_Key = ''password''\<rparr>\<rparr>\<rparr>))\<rparr>\<rparr>"

definition second_run :: "small \<Rightarrow> small" where
  "second_run w = st_World (snd (Reconcile_repository second_reconciler (NN ''app'' ''mirror'')
     (start sample_repository w)))"

definition overtaken_reconciler :: "small repository_reconciler" where
  "overtaken_reconciler = small_reconciler\<lparr>rr_NewAPI := Some (\<lambda>_. small_api
     \<lparr>api_Add := (\<lambda>opts. after second_run (api_Add small_api opts))\<rparr>)\<rparr>"

lemma second_run_creates:
  "sm_Names (second_run small_world) = [''app'']"
proof -
  let ?Q = "\<lambda>_ t. sm_Names (st_World t) = [''app'']"
  have "wp (Reconcile_repository second_reconciler (NN ''app'' ''mirror'')) ?Q ?Q (start sample_repository small_world)"
    by (simp add: run_defs second_reconciler_def)
  then show ?thesis by (simp add: wp_same second_run_def)
qed

lemma second_run_secrets:
  "small_secrets (second_run small_world) (NN ''app'' ''given'') = Some [(''password'', ''secret'')] \<and>
   small_secrets (second_run small_world) (NN ''app'' ''backups-borgbase'') = None"
proof -
  let ?Q = "\<lambda>_ t. small_secrets (st_World t) (NN ''app'' ''given'') = Some [(''password'', ''secret'')] \<and>
    small_secrets (st_World t) (NN ''app'' ''backups-borgbase'') = None"
  have "wp (Reconcile_repository second_reconciler (NN ''app'' ''mirror'')) ?Q ?Q (start sample_repository small_world)"
    by (simp add: run_defs second_reconciler_def)
  then show ?thesis by (simp add: wp_same second_run_def)
qed

lemma overlapping_runs_create_twice:
  "sm_Names (st_World (snd (Reconcile_repository overtaken_reconciler (NN ''app'' ''backups'')
     (start sample_repository small_world)))) = [''app'', ''app'']"
proof -
  let ?Q = "\<lambda>_ t. sm_Names (st_World t) = [''app'', ''app'']"
  have "wp (Reconcile_repository overtaken_reconciler (NN ''app'' ''backups'')) ?Q ?Q
      (start sample_repository small_world)"
    using second_run_creates second_run_secrets
    by (simp add: run_defs overtaken_reconciler_def after_def)
  then show ?thesis by (simp add: wp_same)
qed

end
