(* ===== verification/Cli.thy ===== *)
theory Cli
  imports Helpers CronJob History
begin

text \<open>
  The ground of the command line (\<open>internal/cli/output.go\<close>, \<open>resolve.go\<close>, \<open>logs.go\<close>):
  its world, the printer, the polling loop of the API machinery, the resolution of a
  command-line argument to a Repository or a ScheduledBackup, and the Jobs of a backup.

  The library the commands call is a parameter: the record below holds the Kubernetes
  client, the streams, the random source and \<open>wait.PollUntilContextTimeout\<close>.
\<close>

section \<open>Polling\<close>

text \<open>
  A polling condition reads the world and sets the variable the closure captures; the
  three instances of the polling function are those of the three types of captured
  variables. What the commands rely on is its documented behaviour: the condition is
  tried at once and then again and again, with the world moving on between two tries,
  until it holds or fails or the deadline of the context has passed.
\<close>

type_synonym ('w, 'c) condition_fun = "('w \<times> 'c, bool) go"
type_synonym ('w, 'c) poll = "duration \<Rightarrow> duration \<Rightarrow> ('w, 'c) condition_fun \<Rightarrow> ('w \<times> 'c, unit) go"

definition DeadlineExceeded :: goerr where "DeadlineExceeded = Sentinel ''context deadline exceeded''"
definition Canceled :: goerr where "Canceled = Sentinel ''context canceled''"

inductive polled ::
  "('w, 'c) condition_fun \<Rightarrow> 'w \<times> 'c \<Rightarrow> goerr + unit \<Rightarrow> 'w \<times> 'c \<Rightarrow> bool"
  for cond where
  holds_now: "cond s = (Inr True, t) \<Longrightarrow> polled cond s (Inr ()) t"
| broken: "cond s = (Inl e, t) \<Longrightarrow> polled cond s (Inl e) t"
| again: "cond s = (Inr False, (w, c)) \<Longrightarrow> polled cond (w', c) r t \<Longrightarrow> polled cond s r t"
| expired: "cond s = (Inr False, (w, c)) \<Longrightarrow> e = DeadlineExceeded \<or> e = Canceled \<Longrightarrow>
    polled cond s (Inl e) (w', c)"

definition poll_law :: "('w, 'c) poll \<Rightarrow> bool" where
  "poll_law p \<longleftrightarrow> (\<forall>interval timeout cond s r t. p interval timeout cond s = (r, t) \<longrightarrow> polled cond s r t)"

text \<open>A polling function with that behaviour, for the witnesses: \<open>n\<close> tries after the first,
  with the world moved on by \<open>move\<close> between two tries.\<close>

primrec poll_upto :: "('w \<Rightarrow> 'w) \<Rightarrow> nat \<Rightarrow> ('w, 'c) condition_fun \<Rightarrow> ('w \<times> 'c, unit) go" where
  "poll_upto move 0 cond s =
     (case cond s of
        (Inl e, t) \<Rightarrow> (Inl e, t)
      | (Inr b, t) \<Rightarrow> if b then (Inr (), t) else (Inl DeadlineExceeded, t))"
| "poll_upto move (Suc n) cond s =
     (case cond s of
        (Inl e, t) \<Rightarrow> (Inl e, t)
      | (Inr b, t) \<Rightarrow> if b then (Inr (), t) else poll_upto move n cond (move (fst t), snd t))"

lemma expired_at: "cond s = (Inr False, t) \<Longrightarrow> polled cond s (Inl DeadlineExceeded) t"
  by (cases t) (auto intro: expired)

lemma poll_upto_polled: "poll_upto move n cond s = (r, t) \<Longrightarrow> polled cond s r t"
proof (induction n arbitrary: s)
  case 0
  then show ?case
    by (auto split: prod.splits sum.splits if_splits intro: holds_now broken expired_at)
next
  case (Suc n)
  obtain x u where c: "cond s = (x, u)" by (cases "cond s")
  show ?case
  proof (cases x)
    case (Inl e)
    with c Suc.prems show ?thesis by (auto intro: broken)
  next
    case (Inr b)
    show ?thesis
    proof (cases b)
      case True
      with c Inr Suc.prems show ?thesis by (auto intro: holds_now)
    next
      case False
      with c Inr Suc show ?thesis by (cases u) (auto intro: again)
    qed
  qed
qed

lemma poll_upto_law: "poll_law (\<lambda>_ _. poll_upto move n)"
  unfolding poll_law_def using poll_upto_polled by blast

text \<open>The rule for reasoning about a poll: what every try keeps of the captured variable
  holds of it at the end.\<close>

lemma polled_invariant:
  assumes "polled cond s r t" and "I (snd s)"
    and "\<And>w c x w' c'. I c \<Longrightarrow> cond (w, c) = (x, (w', c')) \<Longrightarrow> x \<noteq> Inr True \<Longrightarrow> I c'"
    and "\<And>w c w' c'. I c \<Longrightarrow> cond (w, c) = (Inr True, (w', c')) \<Longrightarrow> J c'"
    and "\<And>w c e w' c'. I c \<Longrightarrow> cond (w, c) = (Inl e, (w', c')) \<Longrightarrow> F e"
    and "F DeadlineExceeded" "F Canceled"
  shows "case r of Inl e \<Rightarrow> F e | Inr _ \<Rightarrow> J (snd t)"
  using assms(1,2)
proof (induction rule: polled.induct)
  case (holds_now s t)
  then show ?case using assms(4)[of "snd s" "fst s" "fst t" "snd t"] by simp
next
  case (broken s e t)
  then show ?case using assms(5)[of "snd s" "fst s" e "fst t" "snd t"] by simp
next
  case (again s w c w' r t)
  then show ?case using assms(3)[of "snd s" "fst s" "Inr False" w c] by simp
next
  case (expired s w c e w')
  then show ?case using assms(6,7) by auto
qed

section \<open>The world of a command\<close>

datatype stream = Out | ErrOut

record 'w cli =
  c_Kube :: "'w cluster"
  c_ListRepositories :: "string \<Rightarrow> ('w, repository list) go"
  c_PatchBackup :: "scheduled_backup \<Rightarrow> scheduled_backup \<Rightarrow> ('w, scheduled_backup) go"
  c_PatchSecret :: "secret \<Rightarrow> secret \<Rightarrow> ('w, unit) go"
  c_DeleteSecret :: "nsname \<Rightarrow> ('w, unit) go"
  c_ListPods :: "string \<Rightarrow> string \<Rightarrow> string \<Rightarrow> ('w, pod list) go"
  c_StreamLogs :: "nsname \<Rightarrow> ('w, unit) go"
  c_Exec :: "nsname \<Rightarrow> string \<Rightarrow> string list \<Rightarrow> ('w, unit) go"
  c_Print :: "stream \<Rightarrow> message \<Rightarrow> ('w, unit) go"
  c_ReadLine :: "('w, string) go"
  c_Interactive :: bool
  c_RandString :: "nat \<Rightarrow> 'w \<Rightarrow> string \<times> 'w"
  c_PollPod :: "('w, pod option) poll"
  c_PollJob :: "('w, job) poll"
  c_PollName :: "('w, string) poll"
  c_Lib :: lib

text \<open>A read inside a polling condition, the assignment of the captured variable, and a poll
  inside a command.\<close>

definition look :: "('w, 'a) go \<Rightarrow> ('w \<times> 'c, 'a) go" where
  "look m = (\<lambda>(w, c). let (x, w') = m w in (x, (w', c)))"

definition capture :: "'c \<Rightarrow> ('w \<times> 'c, unit) go" where
  "capture v = (\<lambda>(w, c). (Inr (), (w, v)))"

definition poll_from ::
  "(('w, 'c) condition_fun \<Rightarrow> ('w \<times> 'c, unit) go) \<Rightarrow> 'c \<Rightarrow> ('w, 'c) condition_fun \<Rightarrow> ('w, 'o, 'c) comp" where
  "poll_from p c cond = ask (\<lambda>w.
     (case p cond (w, c) of
        (Inl e, (w', _)) \<Rightarrow> (Inl e, w')
      | (Inr _, (w', c')) \<Rightarrow> (Inr c', w')))"

lemma silent_poll_from [quiet_rules]: "silent (poll_from p c cond)"
  by (simp add: poll_from_def silent_ask)

lemma wp_poll_from:
  assumes "poll_law p"
    and "\<And>r w c'. polled cond (st_World s, c) r (w, c') \<Longrightarrow>
      (case r of Inl e \<Rightarrow> E e (s\<lparr>st_World := w\<rparr>) | Inr _ \<Rightarrow> Q c' (s\<lparr>st_World := w\<rparr>))"
  shows "wp (poll_from (p i d) c cond) Q E s"
proof -
  obtain r w c' where run: "p i d cond (st_World s, c) = (r, (w, c'))"
    by (cases "p i d cond (st_World s, c)") auto
  with assms(1) have "polled cond (st_World s, c) r (w, c')" by (auto simp: poll_law_def)
  from assms(2)[OF this] run show ?thesis
    by (auto simp: poll_from_def wp_ask split: sum.splits)
qed

section \<open>Printing\<close>

text \<open>
  A printer carries the first error of its writes and drops what comes after it; here its
  error is passed along. \<open>p_Err\<close> ends a command with it. A line is a format, without the
  line end, and its arguments.
\<close>

type_synonym printer = "goerr option"

definition newPrinter :: printer where "newPrinter = None"

definition p_printf ::
  "'w cli \<Rightarrow> stream \<Rightarrow> string \<Rightarrow> goarg list \<Rightarrow> printer \<Rightarrow> ('w, 'o, printer) comp" where
  "p_printf c out fmt args p =
     (case p of
        Some e \<Rightarrow> ret p
      | None \<Rightarrow> bind_go (attempt (ask (c_Print c out (fmt, args)))) (\<lambda>res. ret (error_of res)))"

definition p_Err :: "printer \<Rightarrow> ('w, 'o, unit) comp" where
  "p_Err p = (case p of None \<Rightarrow> ret () | Some e \<Rightarrow> fail e)"

text \<open>One line on a printer of its own.\<close>

definition say :: "'w cli \<Rightarrow> stream \<Rightarrow> string \<Rightarrow> goarg list \<Rightarrow> ('w, 'o, unit) comp" where
  "say c out fmt args = bind_go (p_printf c out fmt args newPrinter) p_Err"

lemma silent_p_printf [quiet_rules]: "silent (p_printf c out fmt args p)"
  by (auto simp: p_printf_def intro!: quiet_rules)

lemma silent_p_Err [quiet_rules]: "silent (p_Err p)"
  by (auto simp: p_Err_def intro!: quiet_rules)

lemma silent_say [quiet_rules]: "silent (say c out fmt args)"
  by (auto simp: say_def intro!: quiet_rules)

text \<open>Lines on one printer, and formatted text as an argument, which is left unexpanded.\<close>

fun print_lines :: "'w cli \<Rightarrow> stream \<Rightarrow> (string \<times> goarg list) list \<Rightarrow> printer \<Rightarrow> ('w, 'o, printer) comp" where
  "print_lines c out [] p = ret p"
| "print_lines c out ((fmt, args) # ls) p =
     bind_go (p_printf c out fmt args p) (\<lambda>p. print_lines c out ls p)"

lemma silent_print_lines [quiet_rules]: "silent (print_lines c out ls p)"
  by (induction c out ls p rule: print_lines.induct) (auto intro!: quiet_rules)

lemma wp_print_lines:
  assumes "\<And>out m w. \<exists>w'. c_Print c out m w = (Inr (), w')"
    and "\<And>w. Q None (s\<lparr>st_World := w\<rparr>)"
  shows "wp (print_lines c out ls None) Q E s"
  using assms(2)
proof (induction ls arbitrary: s)
  case Nil
  then show ?case using Nil[of "st_World s"] by (simp add: wp_simps)
next
  case (Cons l ls)
  obtain w where "c_Print c out l (st_World s) = (Inr (), w)" using assms(1) by blast
  with Cons show ?case
    by (cases l) (simp add: p_printf_def wp_simps error_of_def)
qed

definition Sprintf :: "string \<Rightarrow> goarg list \<Rightarrow> goarg" where "Sprintf fmt args = Err (Errorf fmt args)"

text \<open>The argument \<open>Since(t)\<close> of a line: the time itself stands for its distance from now.\<close>

definition Since :: "time option \<Rightarrow> goarg" where
  "Since t = (case t of None \<Rightarrow> Str ''<none>'' | Some x \<Rightarrow> Num x)"

definition FindCondition :: "condition list \<Rightarrow> string \<Rightarrow> condition option" where
  "FindCondition conds ty = find (\<lambda>c. cond_Type c = ty) conds"

section \<open>Arguments\<close>

text \<open>
  \<open>strings.ToLower\<close> where its result is compared with ASCII: the ASCII letters, and the two
  other letters whose lower case is ASCII (U+0130 and U+212A in UTF-8); every other letter
  stays outside ASCII and is left as it is.
\<close>

definition lower_char :: "char \<Rightarrow> char" where
  "lower_char c = (let n = (of_char c :: nat) in if 65 \<le> n \<and> n \<le> 90 then char_of (n + 32) else c)"

fun ToLower :: "string \<Rightarrow> string" where
  "ToLower [] = []"
| "ToLower (c # s) =
     (case CutPrefix (c # s) [CHR 0xC4, CHR 0xB0] of
        Some _ \<Rightarrow> CHR ''i'' # ToLower (drop 1 s)
      | None \<Rightarrow>
        (case CutPrefix (c # s) [CHR 0xE2, CHR 0x84, CHR 0xAA] of
           Some _ \<Rightarrow> CHR ''k'' # ToLower (drop 2 s)
         | None \<Rightarrow> lower_char c # ToLower s))"

datatype target_kind = TargetRepository | TargetScheduledBackup

text \<open>A \<open>Target\<close> has the pointer of its kind set.\<close>

datatype target = RepositoryTarget repository | BackupTarget scheduled_backup

definition ErrTargetNotFound :: goerr where "ErrTargetNotFound = Sentinel ''not found''"
definition ErrAmbiguous :: goerr where "ErrAmbiguous = Sentinel ''ambiguous name''"
definition ErrUnknownKind :: goerr where "ErrUnknownKind = Sentinel ''unknown resource type''"

definition kindAliases :: "target_kind gomap" where
  "kindAliases =
     [(''repository'', TargetRepository), (''repositories'', TargetRepository),
      (''repo'', TargetRepository), (''repos'', TargetRepository),
      (''scheduledbackup'', TargetScheduledBackup), (''scheduledbackups'', TargetScheduledBackup),
      (''sb'', TargetScheduledBackup), (''backup'', TargetScheduledBackup),
      (''backups'', TargetScheduledBackup)]"

definition knownPrefixes :: "string list" where
  "knownPrefixes = sort (map fst kindAliases)"

definition kind_text :: "target_kind \<Rightarrow> string" where
  "kind_text k = (case k of TargetRepository \<Rightarrow> ''repository'' | TargetScheduledBackup \<Rightarrow> ''scheduledbackup'')"

definition tg_Kind :: "target \<Rightarrow> target_kind" where
  "tg_Kind t = (case t of RepositoryTarget _ \<Rightarrow> TargetRepository | BackupTarget _ \<Rightarrow> TargetScheduledBackup)"

definition tg_Name :: "target \<Rightarrow> string" where
  "tg_Name t = (case t of RepositoryTarget r \<Rightarrow> rp_Name r | BackupTarget sb \<Rightarrow> sb_Name sb)"

definition tg_Namespace :: "target \<Rightarrow> string" where
  "tg_Namespace t =
     (case t of RepositoryTarget r \<Rightarrow> rp_Namespace r | BackupTarget sb \<Rightarrow> sb_Namespace sb)"

definition wrapNotFound :: "goerr \<Rightarrow> string \<Rightarrow> string \<Rightarrow> string \<Rightarrow> goerr" where
  "wrapNotFound e kind ns name =
     (if IsNotFound e then
        Errorf ''%w: no %s named %q in namespace %q'' [Err ErrTargetNotFound, Str kind, Str name, Str ns]
      else e)"

definition getRepository :: "'w cli \<Rightarrow> string \<Rightarrow> string \<Rightarrow> ('w, 'o, repository) comp" where
  "getRepository c ns name = ask (k_GetRepository (c_Kube c) (NN ns name))"

definition getScheduledBackup :: "'w cli \<Rightarrow> string \<Rightarrow> string \<Rightarrow> ('w, 'o, scheduled_backup) comp" where
  "getScheduledBackup c ns name = ask (k_GetBackup (c_Kube c) (NN ns name))"

definition get_target :: "'w cli \<Rightarrow> string \<Rightarrow> target_kind \<Rightarrow> string \<Rightarrow> ('w, 'o, target) comp" where
  "get_target c ns kind name =
     (if kind = TargetRepository then
        bind_go (attempt (getRepository c ns name)) (\<lambda>got.
        case got of
          Inl e \<Rightarrow> fail (wrapNotFound e ''Repository'' ns name)
        | Inr repo \<Rightarrow> ret (RepositoryTarget repo))
      else
        bind_go (attempt (getScheduledBackup c ns name)) (\<lambda>got.
        case got of
          Inl e \<Rightarrow> fail (wrapNotFound e ''ScheduledBackup'' ns name)
        | Inr sb \<Rightarrow> ret (BackupTarget sb)))"

definition Resolve :: "'w cli \<Rightarrow> string \<Rightarrow> string \<Rightarrow> ('w, 'o, target) comp" where
  "Resolve c ns arg =
     (if arg = '''' then fail (Errorf ''%w: empty name'' [Err ErrTargetNotFound])
      else
        (case Cut arg ''/'' of
           Some (prefix, name) \<Rightarrow>
             (case map_of kindAliases (ToLower prefix) of
                None \<Rightarrow> fail (Errorf ''%w %q, expected one of: %s''
                  [Err ErrUnknownKind, Str prefix, Str (Join knownPrefixes '', '')])
              | Some kind \<Rightarrow>
                  if name = '''' then fail (Errorf ''%w: %q has no name'' [Err ErrTargetNotFound, Str arg])
                  else get_target c ns kind name)
         | None \<Rightarrow>
             bind_go (attempt (getScheduledBackup c ns arg)) (\<lambda>sb.
             bind_go (attempt (getRepository c ns arg)) (\<lambda>repo.
             case (sb, repo) of
               (Inr _, Inr _) \<Rightarrow>
                 fail (Errorf ''%w: %q is both a ScheduledBackup and a Repository; qualify it as sb/%s or repo/%s''
                   [Err ErrAmbiguous, Str arg, Str arg, Str arg])
             | (Inr b, Inl _) \<Rightarrow> ret (BackupTarget b)
             | (Inl _, Inr r) \<Rightarrow> ret (RepositoryTarget r)
             | (Inl e, Inl e') \<Rightarrow>
                 if \<not> IsNotFound e then fail e
                 else if \<not> IsNotFound e' then fail e'
                 else fail (Errorf ''%w: no ScheduledBackup or Repository named %q in namespace %q''
                   [Err ErrTargetNotFound, Str arg, Str ns])))))"

definition RepositoryFor :: "'w cli \<Rightarrow> scheduled_backup \<Rightarrow> ('w, 'o, repository) comp" where
  "RepositoryFor c sb =
     (let name = bs_RepositoryRef (sb_Spec sb)
      in bind_go (attempt (getRepository c (sb_Namespace sb) name)) (\<lambda>got.
         case got of
           Inl e \<Rightarrow> fail (wrapNotFound e ''Repository'' (sb_Namespace sb)
             (name @ '' (referenced by scheduledbackup/'' @ sb_Name sb @ '')''))
         | Inr repo \<Rightarrow> ret repo))"

lemma silent_Resolve [quiet_rules]: "silent (Resolve c ns arg)"
  unfolding Resolve_def get_target_def getRepository_def getScheduledBackup_def
  by (auto intro!: quiet_rules split: sum.split)

lemma silent_RepositoryFor [quiet_rules]: "silent (RepositoryFor c sb)"
  unfolding RepositoryFor_def getRepository_def Let_def by (auto intro!: quiet_rules)

section \<open>The Jobs of a backup\<close>

definition ErrNoRuns :: goerr where "ErrNoRuns = Sentinel ''no backup runs found''"

definition jobNameLabels :: "string list" where
  "jobNameLabels = [''batch.kubernetes.io/job-name'', ''job-name'']"

definition jobStart :: "job \<Rightarrow> time" where
  "jobStart j = (case jst_StartTime (job_Status j) of Some t \<Rightarrow> t | None \<Rightarrow> om_CreationTimestamp (job_Meta j))"

definition newest_first :: "job \<Rightarrow> job \<Rightarrow> int" where
  "newest_first a b =
     (if jobStart b < jobStart a then - 1 else if jobStart a < jobStart b then 1 else 0)"

definition owned_by :: "lib \<Rightarrow> string list \<Rightarrow> job \<Rightarrow> bool" where
  "owned_by l owners j =
     (case GetControllerOf l (job_Meta j) of None \<Rightarrow> False | Some ref \<Rightarrow> or_UID ref \<in> set owners)"

definition BackupJobs :: "'w cli \<Rightarrow> scheduled_backup \<Rightarrow> ('w, 'o, job list) comp" where
  "BackupJobs c sb =
     bind_go (attempt (ask (k_GetCronJob (c_Kube c) (NN (sb_Namespace sb) (CronJobName sb))))) (\<lambda>got.
     bind_go (case got of
         Inr cj \<Rightarrow> ret [om_UID (sb_Meta sb), om_UID (cj_Meta cj)]
       | Inl e \<Rightarrow> if \<not> IsNotFound e then fail e else ret [om_UID (sb_Meta sb)]) (\<lambda>owners.
     bind_go (ask (k_ListJobs (c_Kube c) (sb_Namespace sb))) (\<lambda>all.
     ret (SortStableFunc newest_first (filter (owned_by (c_Lib c) owners) all)))))"

definition selectJob :: "job list \<Rightarrow> bool \<Rightarrow> goerr + job" where
  "selectJob jobs previous =
     (let want = (if previous then 1 else 0)
      in if length jobs \<le> want then
           (if previous \<and> length jobs = 1
            then Inl (Errorf ''%w: only one run is still present'' [Err ErrNoRuns])
            else Inl ErrNoRuns)
         else Inr (jobs ! want))"

fun pods_by :: "'w cli \<Rightarrow> job \<Rightarrow> string list \<Rightarrow> ('w, pod list) go" where
  "pods_by c j [] = ret []"
| "pods_by c j (label # labels) =
     bind_go (c_ListPods c (om_Namespace (job_Meta j)) label (om_Name (job_Meta j))) (\<lambda>pods.
     if pods \<noteq> [] then ret pods else pods_by c j labels)"

definition podsForJob :: "'w cli \<Rightarrow> job \<Rightarrow> ('w, pod list) go" where
  "podsForJob c j = pods_by c j jobNameLabels"

fun stream_pods :: "'w cli \<Rightarrow> job \<Rightarrow> bool \<Rightarrow> pod list \<Rightarrow> ('w, 'o, unit) comp" where
  "stream_pods c j many [] = ret ()"
| "stream_pods c j many (p # ps) =
     bind_go (if many then say c Out ''# pod/%s'' [Str (om_Name (pod_Meta p))] else ret ()) (\<lambda>_.
     bind_go (ask (c_StreamLogs c (NN (om_Namespace (job_Meta j)) (om_Name (pod_Meta p))))) (\<lambda>_.
     stream_pods c j many ps))"

definition streamJobLogs :: "'w cli \<Rightarrow> job \<Rightarrow> ('w, 'o, unit) comp" where
  "streamJobLogs c j =
     bind_go (ask (podsForJob c j)) (\<lambda>pods.
     if pods = [] then
       fail (Errorf ''%w: job/%s has no pods left; they may have been garbage collected''
         [Err ErrNoRuns, Str (om_Name (job_Meta j))])
     else stream_pods c j (1 < length pods) pods)"

definition runLogs :: "'w cli \<Rightarrow> scheduled_backup \<Rightarrow> bool \<Rightarrow> ('w, 'o, unit) comp" where
  "runLogs c sb previous =
     bind_go (BackupJobs c sb) (\<lambda>jobs.
     case selectJob jobs previous of
       Inl e \<Rightarrow> fail (Errorf ''%w for scheduledbackup/%s'' [Err e, Str (sb_Name sb)])
     | Inr j \<Rightarrow>
         bind_go (say c Out ''# job/%s (started %s)'' [Str (om_Name (job_Meta j)),
           Since (jst_StartTime (job_Status j))]) (\<lambda>_.
         streamJobLogs c j))"

lemma silent_BackupJobs [quiet_rules]: "silent (BackupJobs c sb)"
  unfolding BackupJobs_def by (auto intro!: quiet_rules split: sum.split)

interpretation jobs_newest: comparison newest_first
  by unfold_locales (auto simp: newest_first_def split: if_splits)

end
