(* ===== verification/Runner.thy ===== *)
theory Runner
  imports Cli ScheduledBackupController
begin

text \<open>
  One-off Jobs modelled on a backup's CronJob (\<open>internal/cli/runner/runner.go\<close>): building
  one, checking what it mounts, creating it, following it and removing it again.
\<close>

section \<open>Constants and options\<close>

definition ManagedByValue :: string where "ManagedByValue = ''corg''"
definition dataVolume :: string where "dataVolume = ''data''"
definition dbVolume :: string where "dbVolume = ''db-credentials''"
definition ttlSeconds :: int where "ttlSeconds = 600"
definition pollInterval :: duration where "pollInterval = 500 * Millisecond"
definition podStartTimeout :: duration where "podStartTimeout = 3 * Minute"
definition jobNameLabel :: string where "jobNameLabel = ''batch.kubernetes.io/job-name''"

definition ErrNoCronJob :: goerr where "ErrNoCronJob = Sentinel ''no CronJob for this backup''"
definition ErrFailed :: goerr where "ErrFailed = Sentinel ''command failed''"
definition ErrNoPod :: goerr where "ErrNoPod = Sentinel ''no pod was created''"
definition ErrMissingDependency :: goerr where
  "ErrMissingDependency = Sentinel ''the backup references something that does not exist''"

record run_options =
  ro_Command :: "string list"
  ro_Purpose :: string
  ro_MountData :: bool
  ro_MountCache :: bool
  ro_MountDatabase :: bool
  ro_Image :: string
  ro_TTY :: bool
  ro_Keep :: bool
  ro_ExtraVolumes :: "volume list"
  ro_ExtraMounts :: "volume_mount list"

definition no_options :: run_options where
  "no_options =
     \<lparr>ro_Command = [], ro_Purpose = '''', ro_MountData = False, ro_MountCache = False,
      ro_MountDatabase = False, ro_Image = '''', ro_TTY = False, ro_Keep = False,
      ro_ExtraVolumes = [], ro_ExtraMounts = []\<rparr>"

definition idleCommand :: "string list" where "idleCommand = [''sleep'', ''infinity'']"

section \<open>Building a Job\<close>

text \<open>The container is a pointer into the pod: the position of the container that is changed.\<close>

fun restic_container :: "nat \<Rightarrow> container list \<Rightarrow> nat option" where
  "restic_container i [] = None"
| "restic_container i (c # cs) = (if ct_Name c = containerName then Some i else restic_container (Suc i) cs)"

definition findContainer :: "pod_spec \<Rightarrow> nat option" where
  "findContainer p =
     (case restic_container 0 (ps_Containers p) of
        Some i \<Rightarrow> Some i
      | None \<Rightarrow> if length (ps_Containers p) = 1 then Some 0 else None)"

definition upd_container :: "nat \<Rightarrow> (container \<Rightarrow> container) \<Rightarrow> pod_spec \<Rightarrow> pod_spec" where
  "upd_container i f p = p\<lparr>ps_Containers := (ps_Containers p)[i := f (ps_Containers p ! i)]\<rparr>"

definition useEphemeralCache :: "pod_spec \<Rightarrow> pod_spec" where
  "useEphemeralCache p = p\<lparr>ps_Volumes := map (\<lambda>v.
     if vol_Name v = cacheVolume then v\<lparr>vol_PersistentVolumeClaim := None, vol_EmptyDir := True\<rparr> else v)
     (ps_Volumes p)\<rparr>"

definition mountDataWritable :: "nat \<Rightarrow> pod_spec \<Rightarrow> pod_spec" where
  "mountDataWritable i p =
     upd_container i (\<lambda>c. c\<lparr>ct_VolumeMounts := map (\<lambda>m.
         if vm_Name m = dataVolume then m\<lparr>vm_ReadOnly := False\<rparr> else m) (ct_VolumeMounts c)\<rparr>)
       (p\<lparr>ps_Volumes := map (\<lambda>v.
         if vol_Name v = dataVolume
         then v\<lparr>vol_PersistentVolumeClaim :=
                map_option (\<lambda>s. s\<lparr>cl_ReadOnly := False\<rparr>) (vol_PersistentVolumeClaim v)\<rparr>
         else v) (ps_Volumes p)\<rparr>)"

definition filterVolumes :: "volume list \<Rightarrow> string \<Rightarrow> volume list" where
  "filterVolumes vs name = filter (\<lambda>v. vol_Name v \<noteq> name) vs"

definition filterMounts :: "volume_mount list \<Rightarrow> string \<Rightarrow> volume_mount list" where
  "filterMounts ms name = filter (\<lambda>m. vm_Name m \<noteq> name) ms"

definition drop_required :: "affinity \<Rightarrow> affinity" where
  "drop_required a =
     (case aff_PodAffinity a of
        None \<Rightarrow> a
      | Some pa \<Rightarrow>
          a\<lparr>aff_PodAffinity := (if pa_Preferred pa = [] then None else Some (pa\<lparr>pa_Required := []\<rparr>))\<rparr>)"

definition dropData :: "nat \<Rightarrow> pod_spec \<Rightarrow> pod_spec" where
  "dropData i p =
     (let p = p\<lparr>ps_Volumes := filterVolumes (ps_Volumes p) dataVolume\<rparr>;
          p = upd_container i (\<lambda>c. c\<lparr>ct_VolumeMounts := filterMounts (ct_VolumeMounts c) dataVolume\<rparr>) p
      in p\<lparr>ps_Affinity := map_option drop_required (ps_Affinity p)\<rparr>)"

definition dropDatabase :: "nat \<Rightarrow> pod_spec \<Rightarrow> pod_spec" where
  "dropDatabase i p =
     upd_container i (\<lambda>c. c\<lparr>ct_VolumeMounts := filterMounts (ct_VolumeMounts c) dbVolume\<rparr>)
       (p\<lparr>ps_Volumes := filterVolumes (ps_Volumes p) dbVolume\<rparr>)"

definition set_command :: "run_options \<Rightarrow> container \<Rightarrow> container" where
  "set_command opts c =
     (let c = (if ro_TTY opts then c\<lparr>ct_Command := idleCommand, ct_Stdin := True, ct_TTY := True\<rparr>
               else c\<lparr>ct_Command := ro_Command opts\<rparr>);
          c = c\<lparr>ct_Args := []\<rparr>
      in if ro_Image opts \<noteq> '''' then c\<lparr>ct_Image := ro_Image opts\<rparr> else c)"

definition one_off_pod :: "run_options \<Rightarrow> nat \<Rightarrow> pod_spec \<Rightarrow> pod_spec" where
  "one_off_pod opts i p =
     (let p = upd_container i (set_command opts) p;
          p = (if \<not> ro_MountCache opts then useEphemeralCache p else p);
          p = (if ro_MountData opts then mountDataWritable i p else dropData i p);
          p = (if \<not> ro_MountDatabase opts then dropDatabase i p else p);
          p = p\<lparr>ps_Volumes := ps_Volumes p @ ro_ExtraVolumes opts\<rparr>
      in upd_container i (\<lambda>c. c\<lparr>ct_VolumeMounts := ct_VolumeMounts c @ ro_ExtraMounts opts\<rparr>) p)"

text \<open>A name is cut to what the suffix leaves of 52 bytes; a suffix longer than that would be
  a run-time panic of the slice expression, here an error.\<close>

definition job_suffix :: "string \<Rightarrow> string \<Rightarrow> string" where
  "job_suffix purpose random =
     ''-corg-'' @ (if purpose = '''' then ''run'' else purpose) @ ''-'' @ random"

definition jobName :: "scheduled_backup \<Rightarrow> string \<Rightarrow> string \<Rightarrow> goerr + string" where
  "jobName sb purpose random =
     (let suffix = job_suffix purpose random; name = sb_Name sb;
          limit = 52 - int (length suffix)
      in if limit < int (length name) then
           (if limit < 0 then Inl (Sentinel ''slice bounds out of range'')
            else Inr (take (nat limit) name @ suffix))
         else Inr (name @ suffix))"

text \<open>The labels of the Job and of its pod.\<close>

definition one_off_labels :: "string gomap \<Rightarrow> string gomap" where
  "one_off_labels labels =
     (let managed = [(labelManagedBy, ManagedByValue)]
      in case map_of labels ''mariadb-client'' of
           None \<Rightarrow> managed
         | Some v \<Rightarrow> map_put ''mariadb-client'' v managed)"

definition one_off_spec :: "run_options \<Rightarrow> nat \<Rightarrow> job_spec \<Rightarrow> job_spec" where
  "one_off_spec opts i js =
     js\<lparr>js_TTLSecondsAfterFinished := Some ttlSeconds, js_BackoffLimit := Some 0,
        js_TemplateLabels := one_off_labels (js_TemplateLabels js),
        js_PodSpec := one_off_pod opts i ((js_PodSpec js)\<lparr>ps_RestartPolicy := ''Never''\<rparr>)\<rparr>"

definition build_from ::
  "cronjob \<Rightarrow> scheduled_backup \<Rightarrow> run_options \<Rightarrow> ('w \<Rightarrow> string \<times> 'w) \<Rightarrow> ('w, 'o, job) comp" where
  "build_from cj sb opts random =
     (let js = jt_Spec (cs_JobTemplate (cj_Spec cj))
      in case findContainer (js_PodSpec js) of
           None \<Rightarrow> fail (Errorf ''CronJob %s has no %q container'' [Str (CronJobName sb), Str containerName])
         | Some i \<Rightarrow>
             bind_go (tick random) (\<lambda>rnd.
             bind_go (lift (jobName sb (ro_Purpose opts) rnd)) (\<lambda>name.
             ret \<lparr>job_Meta = new_meta (sb_Namespace sb) name (one_off_labels (js_TemplateLabels js)),
                  job_Spec = one_off_spec opts i js, job_Status = new_job_status\<rparr>)))"

definition Build :: "'w cli \<Rightarrow> scheduled_backup \<Rightarrow> run_options \<Rightarrow> ('w, 'o, job) comp" where
  "Build c sb opts =
     bind_go (attempt (ask (k_GetCronJob (c_Kube c) (NN (sb_Namespace sb) (CronJobName sb))))) (\<lambda>got.
     case got of
       Inl e \<Rightarrow>
         if IsNotFound e then
           fail (Errorf ''%w: expected %s; run `corg doctor %s`''
             [Err ErrNoCronJob, Str (CronJobName sb), Str (sb_Name sb)])
         else fail e
     | Inr cj \<Rightarrow> build_from cj sb opts (c_RandString c 5))"

section \<open>Pods\<close>

definition PodPending :: string where "PodPending = ''Pending''"

definition waiting_reasons :: "string list" where
  "waiting_reasons =
     [''ErrImagePull'', ''ImagePullBackOff'', ''CreateContainerConfigError'', ''InvalidImageName'']"

fun blocked_container :: "container_status list \<Rightarrow> string option" where
  "blocked_container [] = None"
| "blocked_container (cs # css) =
     (case cstat_Waiting cs of
        None \<Rightarrow> blocked_container css
      | Some (reason, msg) \<Rightarrow>
          if reason \<in> set waiting_reasons then Some (reason @ '': '' @ msg) else blocked_container css)"

definition unschedulable :: "pod_condition \<Rightarrow> bool" where
  "unschedulable pc \<longleftrightarrow> pc_Type pc = ''PodScheduled'' \<and> pc_Status pc = ConditionFalse \<and>
     pc_Reason pc = ''Unschedulable''"

definition blockedReason :: "pod \<Rightarrow> string" where
  "blockedReason p =
     (case blocked_container (pod_ContainerStatuses p) of
        Some msg \<Rightarrow> msg
      | None \<Rightarrow>
        (case find unschedulable (pod_Conditions p) of
           Some pc \<Rightarrow> ''Unschedulable: '' @ pc_Message pc
         | None \<Rightarrow> ''''))"

definition pods_of :: "'w cli \<Rightarrow> job \<Rightarrow> ('w, pod list) go" where
  "pods_of c j = c_ListPods c (om_Namespace (job_Meta j)) jobNameLabel (om_Name (job_Meta j))"

fun scan_pods :: "pod list \<Rightarrow> ('w \<times> pod option, bool) go" where
  "scan_pods [] = ret False"
| "scan_pods (p # ps) =
     (if pod_Phase p \<noteq> PodPending then bind_go (capture (Some p)) (\<lambda>_. ret True)
      else if blockedReason p \<noteq> '''' then fail (Errorf ''%w: %s'' [Err ErrFailed, Str (blockedReason p)])
      else scan_pods ps)"

definition pod_started :: "'w cli \<Rightarrow> job \<Rightarrow> ('w, pod option) condition_fun" where
  "pod_started c j = bind_go (look (pods_of c j)) scan_pods"

fun first_waiting :: "string \<Rightarrow> container_status list \<Rightarrow> string" where
  "first_waiting detail [] = detail"
| "first_waiting detail (cs # css) =
     (case cstat_Waiting cs of None \<Rightarrow> first_waiting detail css | Some (reason, _) \<Rightarrow> reason)"

definition pendingPod :: "'w cli \<Rightarrow> job \<Rightarrow> ('w, 'o, string) comp" where
  "pendingPod c j =
     bind_go (attempt (ask (pods_of c j))) (\<lambda>got.
     ret (case got of
            Inl _ \<Rightarrow> ''''
          | Inr [] \<Rightarrow> ''''
          | Inr (p # _) \<Rightarrow> om_Name (pod_Meta p) @ '' is '' @ first_waiting (pod_Phase p) (pod_ContainerStatuses p)))"

definition WaitForPod :: "'w cli \<Rightarrow> job \<Rightarrow> duration \<Rightarrow> ('w, 'o, pod) comp" where
  "WaitForPod c j timeout =
     (let timeout = (if podStartTimeout < timeout then podStartTimeout else timeout)
      in bind_go (attempt (poll_from (c_PollPod c pollInterval timeout) None (pod_started c j))) (\<lambda>res.
         case res of
           Inl e \<Rightarrow>
             bind_go (pendingPod c j) (\<lambda>pending.
             if pending \<noteq> '''' then
               fail (Errorf ''%w: pod %s; describe it for the reason'' [Err e, Str pending])
             else fail e)
         | Inr None \<Rightarrow> fail ErrNoPod
         | Inr (Some p) \<Rightarrow> ret p))"

section \<open>Preflight\<close>

definition mustExist :: "('w, 'a) go \<Rightarrow> string \<Rightarrow> string \<Rightarrow> string \<Rightarrow> ('w, 'o, unit) comp" where
  "mustExist get ns name kind =
     bind_go (attempt (ask get)) (\<lambda>got.
     case got of
       Inr _ \<Rightarrow> ret ()
     | Inl e \<Rightarrow>
         if IsNotFound e then
           fail (Errorf ''%w: %s %q does not exist in namespace %q''
             [Err ErrMissingDependency, Str kind, Str name, Str ns])
         else fail e)"

definition needs_secret :: "'w cli \<Rightarrow> string \<Rightarrow> string \<Rightarrow> ('w, 'o, unit) comp" where
  "needs_secret c ns name = mustExist (k_GetSecret (c_Kube c) (NN ns name)) ns name ''Secret''"

definition needs_claim :: "'w cli \<Rightarrow> string \<Rightarrow> string \<Rightarrow> ('w, 'o, unit) comp" where
  "needs_claim c ns name = mustExist (k_GetPVC (c_Kube c) (NN ns name)) ns name ''PersistentVolumeClaim''"

fun each_go :: "('a \<Rightarrow> ('s, unit) go) \<Rightarrow> 'a list \<Rightarrow> ('s, unit) go" where
  "each_go f [] = ret ()"
| "each_go f (x # xs) = bind_go (f x) (\<lambda>_. each_go f xs)"

definition needs_volume :: "'w cli \<Rightarrow> string \<Rightarrow> volume \<Rightarrow> ('w, 'o, unit) comp" where
  "needs_volume c ns v =
     (case vol_Secret v of
        Some name \<Rightarrow> needs_secret c ns name
      | None \<Rightarrow>
        (case vol_PersistentVolumeClaim v of
           Some claim \<Rightarrow> needs_claim c ns (cl_ClaimName claim)
         | None \<Rightarrow> ret ()))"

definition Preflight :: "'w cli \<Rightarrow> job \<Rightarrow> ('w, 'o, unit) comp" where
  "Preflight c j =
     (let p = js_PodSpec (job_Spec j); ns = om_Namespace (job_Meta j)
      in bind_go (each_go (needs_volume c ns) (ps_Volumes p)) (\<lambda>_.
         each_go (\<lambda>ct. each_go (needs_secret c ns) (ct_EnvFromSecrets ct)) (ps_Containers p)))"

section \<open>Running a Job\<close>

definition Cleanup :: "'w cli \<Rightarrow> job \<Rightarrow> ('w, 'o, unit) comp" where
  "Cleanup c j =
     bind_go (attempt (call (DeleteJob j) (k_DeleteJob (c_Kube c) j))) (\<lambda>res.
     case res of
       Inr _ \<Rightarrow> ret ()
     | Inl e \<Rightarrow> if \<not> IsNotFound e then fail (Errorf ''deleting job/%s: %w'' [Str (om_Name (job_Meta j)), Err e])
               else ret ())"

definition StreamLogs :: "'w cli \<Rightarrow> pod \<Rightarrow> ('w, 'o, unit) comp" where
  "StreamLogs c p = ask (c_StreamLogs c (key_of (pod_Meta p)))"

text \<open>The zero value of a Job variable.\<close>

definition zero_job :: job where
  "zero_job =
     \<lparr>job_Meta = new_meta '''' '''' [],
      job_Spec = \<lparr>js_TTLSecondsAfterFinished = None, js_BackoffLimit = None, js_TemplateLabels = [],
        js_PodSpec = \<lparr>ps_RestartPolicy = '''', ps_Containers = [], ps_Volumes = [], ps_Affinity = None,
          ps_AutomountServiceAccountToken = None, ps_SecurityContext = None\<rparr>\<rparr>,
      job_Status = new_job_status\<rparr>"

definition finished :: "job \<Rightarrow> bool" where
  "finished j \<longleftrightarrow> 0 < jst_Succeeded (job_Status j) \<or> 0 < jst_Failed (job_Status j)"

definition job_finished :: "'w cli \<Rightarrow> nsname \<Rightarrow> ('w, job) condition_fun" where
  "job_finished c key =
     bind_go (attempt (look (k_GetJob (c_Kube c) key))) (\<lambda>got.
     case got of
       Inl e \<Rightarrow> if IsNotFound e then ret False else fail e
     | Inr j \<Rightarrow> bind_go (capture j) (\<lambda>_. ret (finished j)))"

definition Wait :: "'w cli \<Rightarrow> job \<Rightarrow> duration \<Rightarrow> ('w, 'o, unit) comp" where
  "Wait c j timeout =
     bind_go (poll_from (c_PollJob c pollInterval timeout) zero_job (job_finished c (key_of (job_Meta j)))) (\<lambda>final.
     if 0 < jst_Failed (job_Status final) then fail (Errorf ''%w: job/%s'' [Err ErrFailed, Str (om_Name (job_Meta j))])
     else ret ())"

text \<open>\<open>defer\<close>: the cleanup runs whatever the outcome, and its error is dropped.\<close>

definition deferred :: "bool \<Rightarrow> ('w, 'o, unit) comp \<Rightarrow> ('w, 'o, unit) comp \<Rightarrow> ('w, 'o, unit) comp" where
  "deferred keep cleanup m =
     bind_go (attempt m) (\<lambda>res.
     bind_go (if keep then ret (Inr ()) else attempt cleanup) (\<lambda>_.
     lift res))"

definition start_job :: "'w cli \<Rightarrow> scheduled_backup \<Rightarrow> run_options \<Rightarrow> ('w, 'o, job) comp" where
  "start_job c sb opts =
     bind_go (Build c sb opts) (\<lambda>j.
     bind_go (Preflight c j) (\<lambda>_.
     bind_go (attempt (call (CreateJob j) (k_CreateJob (c_Kube c) j))) (\<lambda>res.
     case res of
       Inl e \<Rightarrow> fail (Errorf ''creating job/%s: %w'' [Str (om_Name (job_Meta j)), Err e])
     | Inr _ \<Rightarrow> ret j)))"

definition Run :: "'w cli \<Rightarrow> scheduled_backup \<Rightarrow> run_options \<Rightarrow> duration \<Rightarrow> ('w, 'o, unit) comp" where
  "Run c sb opts timeout =
     bind_go (start_job c sb opts) (\<lambda>j.
     deferred (ro_Keep opts) (Cleanup c j)
       (bind_go (WaitForPod c j timeout) (\<lambda>p.
        bind_go (StreamLogs c p) (\<lambda>_.
        Wait c j timeout))))"

definition Attach ::
  "'w cli \<Rightarrow> scheduled_backup \<Rightarrow> run_options \<Rightarrow> duration \<Rightarrow> (pod \<Rightarrow> ('w, 'o, unit) comp) \<Rightarrow> ('w, 'o, unit) comp" where
  "Attach c sb opts timeout f =
     (let opts = opts\<lparr>ro_TTY := True\<rparr>
      in bind_go (start_job c sb opts) (\<lambda>j.
         deferred (ro_Keep opts) (Cleanup c j)
           (bind_go (WaitForPod c j timeout) f)))"

definition Exec :: "'w cli \<Rightarrow> pod \<Rightarrow> string \<Rightarrow> string list \<Rightarrow> ('w, 'o, unit) comp" where
  "Exec c p container command =
     (let container = (if container = '''' then containerName else container)
      in call (ExecPod (key_of (pod_Meta p)) container command)
           (c_Exec c (key_of (pod_Meta p)) container command))"

end
