(* ===== verification/RunnerContracts.thy ===== *)
theory RunnerContracts
  imports Runner
begin

text \<open>
  What the one-off Jobs of the command line promise: pods that are well formed, mounts
  limited to what was asked for, names that fit, no confusion with the runs of a backup, and
  Jobs that are removed again.
\<close>

section \<open>Well-formed pods\<close>

text \<open>A volume has exactly one source, and neither the cache nor the data is a Secret; a pod
  has one container, volumes of distinct names, and mounts of declared volumes only; a
  Secret is mounted read-only.\<close>

definition one_source :: "volume \<Rightarrow> bool" where
  "one_source v \<longleftrightarrow>
     of_bool (vol_PersistentVolumeClaim v \<noteq> None) + of_bool (vol_Secret v \<noteq> None) +
       of_bool (vol_EmptyDir v) = (1 :: nat)"

definition volume_typed :: "volume \<Rightarrow> bool" where
  "volume_typed v \<longleftrightarrow> one_source v \<and> (vol_Name v \<notin> {cacheVolume, dataVolume} \<or> vol_Secret v = None)"

definition mounts_typed :: "volume list \<Rightarrow> volume_mount list \<Rightarrow> bool" where
  "mounts_typed vs ms \<longleftrightarrow> list_all (\<lambda>m. vm_Name m \<in> set (map vol_Name vs)) ms \<and> secrets_read_only vs ms"

definition mounted_typed :: "volume list \<Rightarrow> volume_mount list \<Rightarrow> bool" where
  "mounted_typed vs ms \<longleftrightarrow> distinct (map vol_Name vs) \<and> list_all volume_typed vs \<and> mounts_typed vs ms"

definition pod_typed :: "pod_spec \<Rightarrow> bool" where
  "pod_typed p \<longleftrightarrow>
     (case ps_Containers p of [c] \<Rightarrow> mounted_typed (ps_Volumes p) (ct_VolumeMounts c) | _ \<Rightarrow> False)"

text \<open>Extra volumes and mounts that go together and collide with nothing the pod has.\<close>

definition extras_typed :: "run_options \<Rightarrow> pod_spec \<Rightarrow> bool" where
  "extras_typed opts p \<longleftrightarrow> mounted_typed (ro_ExtraVolumes opts) (ro_ExtraMounts opts) \<and>
     list_all (\<lambda>v. vol_Name v \<notin> set (map vol_Name (ps_Volumes p))) (ro_ExtraVolumes opts)"

lemma mounts_typed_iff:
  "mounts_typed vs ms \<longleftrightarrow>
    (\<forall>m\<in>set ms. vm_Name m \<in> vol_Name ` set vs \<and>
      (\<forall>v\<in>set vs. vol_Name v = vm_Name m \<longrightarrow> vol_Secret v \<noteq> None \<longrightarrow> vm_ReadOnly m))"
  by (auto simp: mounts_typed_def secrets_read_only_def list_all_iff)

lemma mounted_map:
  assumes "mounted_typed vs ms"
    and "\<And>v. vol_Name (f v) = vol_Name v" "\<And>v. vol_Secret (f v) = vol_Secret v"
    and "\<And>v. volume_typed v \<Longrightarrow> volume_typed (f v)"
  shows "mounted_typed (map f vs) ms"
  using assms by (auto simp: mounted_typed_def mounts_typed_iff list_all_iff comp_def image_image)

lemma mounted_writable:
  assumes "mounted_typed vs ms"
  shows "mounted_typed vs (map (\<lambda>m. if vm_Name m = dataVolume then m\<lparr>vm_ReadOnly := False\<rparr> else m) ms)"
  using assms
  by (auto simp: mounted_typed_def mounts_typed_iff list_all_iff volume_typed_def) (metis image_eqI)

lemma ephemeral_typed:
  "volume_typed v \<Longrightarrow> vol_Name v = cacheVolume \<Longrightarrow>
   volume_typed (v\<lparr>vol_PersistentVolumeClaim := None, vol_EmptyDir := True\<rparr>)"
  by (simp add: volume_typed_def one_source_def)

lemma writable_typed:
  "volume_typed v \<Longrightarrow>
   volume_typed (v\<lparr>vol_PersistentVolumeClaim := map_option f (vol_PersistentVolumeClaim v)\<rparr>)"
  by (simp add: volume_typed_def one_source_def)

lemma mounted_drop:
  assumes "mounted_typed vs ms"
  shows "mounted_typed (filterVolumes vs n) (filterMounts ms n)"
proof -
  have "vm_Name m \<in> vol_Name ` set (filterVolumes vs n)" if "m \<in> set ms" "vm_Name m \<noteq> n" for m
    using that assms by (force simp: mounted_typed_def mounts_typed_iff filterVolumes_def)
  with assms show ?thesis
    by (auto simp: mounted_typed_def mounts_typed_iff list_all_iff filterVolumes_def
        filterMounts_def distinct_map_filter)
qed

lemma mounted_append:
  assumes "mounted_typed vs ms" "mounted_typed vs' ms'"
    and "\<forall>v\<in>set vs'. vol_Name v \<notin> vol_Name ` set vs"
  shows "mounted_typed (vs @ vs') (ms @ ms')"
proof -
  have "vol_Name ` set vs \<inter> vol_Name ` set vs' = {}" using assms(3) by (fastforce simp: image_iff)
  with assms(1,2) show ?thesis
    by (auto simp: mounted_typed_def mounts_typed_iff image_iff disjoint_iff) metis+
qed

text \<open>Every step of the runner changes the one container of such a pod.\<close>

lemma upd_container_single [simp]:
  "ps_Containers p = [c] \<Longrightarrow> upd_container 0 f p = p\<lparr>ps_Containers := [f c]\<rparr>"
  by (simp add: upd_container_def)

lemma findContainer_single: "ps_Containers p = [c] \<Longrightarrow> findContainer p = Some 0"
  by (simp add: findContainer_def)

lemma set_command_keeps [simp]:
  "ct_VolumeMounts (set_command opts c) = ct_VolumeMounts c"
  "ct_EnvFromSecrets (set_command opts c) = ct_EnvFromSecrets c"
  "ct_Env (set_command opts c) = ct_Env c"
  by (simp_all add: set_command_def Let_def)

definition final_volumes :: "run_options \<Rightarrow> volume list \<Rightarrow> volume list" where
  "final_volumes opts vs =
     (let vs = (if ro_MountCache opts then vs
                else map (\<lambda>v. if vol_Name v = cacheVolume
                    then v\<lparr>vol_PersistentVolumeClaim := None, vol_EmptyDir := True\<rparr> else v) vs);
          vs = (if ro_MountData opts
                then map (\<lambda>v. if vol_Name v = dataVolume
                    then v\<lparr>vol_PersistentVolumeClaim :=
                        map_option (\<lambda>s. s\<lparr>cl_ReadOnly := False\<rparr>) (vol_PersistentVolumeClaim v)\<rparr>
                    else v) vs
                else filterVolumes vs dataVolume);
          vs = (if ro_MountDatabase opts then vs else filterVolumes vs dbVolume)
      in vs @ ro_ExtraVolumes opts)"

definition final_mounts :: "run_options \<Rightarrow> volume_mount list \<Rightarrow> volume_mount list" where
  "final_mounts opts ms =
     (let ms = (if ro_MountData opts
                then map (\<lambda>m. if vm_Name m = dataVolume then m\<lparr>vm_ReadOnly := False\<rparr> else m) ms
                else filterMounts ms dataVolume);
          ms = (if ro_MountDatabase opts then ms else filterMounts ms dbVolume)
      in ms @ ro_ExtraMounts opts)"

lemma one_off_pod_single:
  assumes "ps_Containers p = [c]"
  shows "ps_Volumes (one_off_pod opts 0 p) = final_volumes opts (ps_Volumes p)"
    and "\<exists>c'. ps_Containers (one_off_pod opts 0 p) = [c'] \<and>
      ct_VolumeMounts c' = final_mounts opts (ct_VolumeMounts c) \<and>
      ct_EnvFromSecrets c' = ct_EnvFromSecrets c \<and> ct_Env c' = ct_Env c"
    and "ps_RestartPolicy (one_off_pod opts 0 p) = ps_RestartPolicy p"
    and "ps_AutomountServiceAccountToken (one_off_pod opts 0 p) = ps_AutomountServiceAccountToken p"
  using assms
  by (simp_all add: one_off_pod_def Let_def useEphemeralCache_def mountDataWritable_def dropData_def
      dropDatabase_def final_volumes_def final_mounts_def)

lemma final_typed:
  assumes "mounted_typed vs ms"
    and "mounted_typed (ro_ExtraVolumes opts) (ro_ExtraMounts opts)"
    and "\<forall>v\<in>set (ro_ExtraVolumes opts). vol_Name v \<notin> vol_Name ` set vs"
  shows "mounted_typed (final_volumes opts vs) (final_mounts opts ms)"
proof -
  let ?eph = "\<lambda>v. if vol_Name v = cacheVolume
    then v\<lparr>vol_PersistentVolumeClaim := None, vol_EmptyDir := True\<rparr> else v"
  let ?rw = "\<lambda>v. if vol_Name v = dataVolume
    then v\<lparr>vol_PersistentVolumeClaim := map_option (\<lambda>s. s\<lparr>cl_ReadOnly := False\<rparr>) (vol_PersistentVolumeClaim v)\<rparr> else v"
  let ?v1 = "if ro_MountCache opts then vs else map ?eph vs"
  have v1: "mounted_typed ?v1 ms"
    using assms(1) by (auto intro!: mounted_map ephemeral_typed)
  let ?v2 = "if ro_MountData opts then map ?rw ?v1 else filterVolumes ?v1 dataVolume"
  let ?m2 = "if ro_MountData opts
    then map (\<lambda>m. if vm_Name m = dataVolume then m\<lparr>vm_ReadOnly := False\<rparr> else m) ms
    else filterMounts ms dataVolume"
  have v2: "mounted_typed ?v2 ?m2"
  proof (cases "ro_MountData opts")
    case True
    then show ?thesis
      using mounted_writable[OF mounted_map[OF v1, of ?rw]] by (simp add: writable_typed)
  next
    case False
    then show ?thesis using mounted_drop[OF v1, of dataVolume] by simp
  qed
  let ?v3 = "if ro_MountDatabase opts then ?v2 else filterVolumes ?v2 dbVolume"
  let ?m3 = "if ro_MountDatabase opts then ?m2 else filterMounts ?m2 dbVolume"
  have v3: "mounted_typed ?v3 ?m3"
    using mounted_drop[OF v2, of dbVolume] v2 by presburger
  have "vol_Name ` set ?v3 \<subseteq> vol_Name ` set vs"
    by (auto simp: filterVolumes_def) (metis image_eqI)+
  with assms(3) have "\<forall>v\<in>set (ro_ExtraVolumes opts). vol_Name v \<notin> vol_Name ` set ?v3" by blast
  from mounted_append[OF v3 assms(2) this] show ?thesis
    by (simp only: final_volumes_def final_mounts_def Let_def)
qed

lemma one_off_pod_typed:
  assumes "pod_typed p" "extras_typed opts p"
  shows "pod_typed (one_off_pod opts 0 p)"
proof -
  from assms(1) obtain c where c: "ps_Containers p = [c]" "mounted_typed (ps_Volumes p) (ct_VolumeMounts c)"
    by (auto simp: pod_typed_def split: list.splits)
  with assms(2) have "mounted_typed (final_volumes opts (ps_Volumes p)) (final_mounts opts (ct_VolumeMounts c))"
    by (intro final_typed) (auto simp: extras_typed_def list_all_iff)
  with one_off_pod_single[OF c(1), of opts] show ?thesis by (auto simp: pod_typed_def)
qed

text \<open>The pods the operator builds are well formed.\<close>

lemma buildVolumes_typed: "list_all volume_typed (fst (buildVolumes sb))"
  by (auto simp: buildVolumes_def Let_def claim_volume_def secret_volume_def volume_typed_def
      one_source_def cacheVolume_def dataVolume_def split: option.splits)

lemma backup_pod_typed:
  assumes "BuildJobTemplate sb repo cfg = Inr tmpl"
  shows "pod_typed (js_PodSpec (jt_Spec tmpl))"
proof -
  have "mounts_typed (fst (buildVolumes sb)) (snd (buildVolumes sb))"
    using buildVolumes_secrets[of sb] buildVolumes_mounted[of sb]
    by (auto simp: mounts_typed_def list_all_iff) (metis image_eqI list.set_map)
  with buildVolumes_distinct[of sb] buildVolumes_typed[of sb] assms show ?thesis
    by (auto simp: BuildJobTemplate_def pod_typed_def mounted_typed_def Let_def
        split: sum.splits if_splits prod.splits)
qed

section \<open>What is built\<close>

lemma Build_inverse:
  assumes "Build c sb opts s = (Inr j, t)"
  shows "\<exists>cj w i v name. k_GetCronJob (c_Kube c) (NN (sb_Namespace sb) (CronJobName sb)) (st_World s) = (Inr cj, w) \<and>
      findContainer (js_PodSpec (jt_Spec (cs_JobTemplate (cj_Spec cj)))) = Some i \<and>
      jobName sb (ro_Purpose opts) (fst (c_RandString c 5 v)) = Inr name \<and>
      j = \<lparr>job_Meta = new_meta (sb_Namespace sb) name
             (one_off_labels (js_TemplateLabels (jt_Spec (cs_JobTemplate (cj_Spec cj))))),
           job_Spec = one_off_spec opts i (jt_Spec (cs_JobTemplate (cj_Spec cj))), job_Status = new_job_status\<rparr>"
    (is "?B j")
proof -
  have "wp (Build c sb opts) (\<lambda>j _. ?B j) (\<lambda>_ _. True) s"
    by (auto simp: Build_def build_from_def wp_simps Let_def split: prod.splits sum.splits option.splits)
      (metis fst_conv)
  from wp_result[OF this assms] show ?thesis .
qed

lemma silent_Build [quiet_rules]: "silent (Build c sb opts)"
  unfolding Build_def build_from_def Let_def by (auto intro!: quiet_rules)

text \<open>What the CronJob of a backup holds is what the operator built, whatever else the API
  server has added to the object.\<close>

definition stored_from :: "'w cli \<Rightarrow> scheduled_backup \<Rightarrow> repository \<Rightarrow> backup_config \<Rightarrow> 'w \<Rightarrow> bool" where
  "stored_from c sb repo cfg w \<longleftrightarrow>
     (case (BuildCronJob sb repo cfg,
            fst (k_GetCronJob (c_Kube c) (NN (sb_Namespace sb) (CronJobName sb)) w)) of
        (Inr built, Inr stored) \<Rightarrow> cs_JobTemplate (cj_Spec stored) = cs_JobTemplate (cj_Spec built)
      | _ \<Rightarrow> False)"

text \<open>The Job built from such a CronJob, in terms of the operator's builders.\<close>

lemma Build_from_operator:
  assumes "stored_from c sb repo cfg (st_World s)" "Build c sb opts s = (Inr j, t)"
  shows "\<exists>tmpl. BuildJobTemplate sb repo cfg = Inr tmpl \<and>
    job_Spec j = one_off_spec opts 0 (jt_Spec tmpl)"
proof -
  from Build_inverse[OF assms(2)] obtain cj w i v name where
    cj: "k_GetCronJob (c_Kube c) (NN (sb_Namespace sb) (CronJobName sb)) (st_World s) = (Inr cj, w)"
      "findContainer (js_PodSpec (jt_Spec (cs_JobTemplate (cj_Spec cj)))) = Some i"
      "job_Spec j = one_off_spec opts i (jt_Spec (cs_JobTemplate (cj_Spec cj)))" by auto
  with assms(1) obtain built where built: "BuildCronJob sb repo cfg = Inr built"
      "cs_JobTemplate (cj_Spec cj) = cs_JobTemplate (cj_Spec built)"
    by (auto simp: stored_from_def split: sum.splits)
  then obtain tmpl where tmpl: "BuildJobTemplate sb repo cfg = Inr tmpl"
      "cs_JobTemplate (cj_Spec cj) = tmpl"
    by (auto simp: BuildCronJob_def split: sum.splits)
  from backup_pod_typed[OF tmpl(1)] have "findContainer (js_PodSpec (jt_Spec tmpl)) = Some 0"
    by (auto simp: pod_typed_def findContainer_single split: list.splits)
  with cj tmpl show ?thesis by auto
qed

text \<open>
  C16. A one-off Job is as well formed as the backup it is modelled on: for every CronJob the
  operator built and all options whose extra volumes and mounts go together, the pod has one
  container, volumes of distinct names with one source each, mounts of declared volumes
  only and Secrets mounted read-only; and the Job does not retry, is removed after ten
  minutes, restarts nothing and carries no service account token.
\<close>

theorem one_off_jobs_are_well_formed:
  assumes "stored_from c sb repo cfg (st_World s)" "Build c sb opts s = (Inr j, t)"
    and "mounted_typed (ro_ExtraVolumes opts) (ro_ExtraMounts opts)"
    and "list_all (\<lambda>v. vol_Name v \<notin> {cacheVolume, dataVolume, dbVolume}) (ro_ExtraVolumes opts)"
  shows "let js = job_Spec j; p = js_PodSpec js
    in pod_typed p \<and> js_BackoffLimit js = Some 0 \<and> js_TTLSecondsAfterFinished js = Some 600 \<and>
       ps_RestartPolicy p = ''Never'' \<and> ps_AutomountServiceAccountToken p = Some False"
proof -
  from Build_from_operator[OF assms(1,2)] obtain tmpl where
    tmpl: "BuildJobTemplate sb repo cfg = Inr tmpl" "job_Spec j = one_off_spec opts 0 (jt_Spec tmpl)" by blast
  let ?p = "(js_PodSpec (jt_Spec tmpl))\<lparr>ps_RestartPolicy := ''Never''\<rparr>"
  have typed: "pod_typed ?p" using backup_pod_typed[OF tmpl(1)]
    by (auto simp: pod_typed_def split: list.splits)
  then obtain ct where ct: "ps_Containers ?p = [ct]" by (auto simp: pod_typed_def split: list.splits)
  have "ps_Volumes ?p = fst (buildVolumes sb)" "ps_AutomountServiceAccountToken ?p = Some False"
    using tmpl(1) by (auto simp: BuildJobTemplate_def Let_def split: sum.splits if_splits prod.splits)
  moreover have "set (map vol_Name (fst (buildVolumes sb))) \<subseteq> {cacheVolume, dataVolume, dbVolume}"
    by (auto simp: buildVolumes_def Let_def claim_volume_def secret_volume_def dataVolume_def
        dbVolume_def split: option.splits)
  ultimately have "extras_typed opts ?p"
    using assms(3,4) by (auto simp: extras_typed_def list_all_iff)
  from one_off_pod_typed[OF typed this] one_off_pod_single(3,4)[OF ct, of opts] tmpl(2)
    \<open>ps_AutomountServiceAccountToken ?p = Some False\<close>
  show ?thesis by (simp add: one_off_spec_def ttlSeconds_def)
qed

text \<open>A command-line world without streams or pods, for the witnesses.\<close>

definition plain_cli :: "'w cluster \<Rightarrow> 'w cli" where
  "plain_cli k =
     \<lparr>c_Kube = k, c_ListRepositories = (\<lambda>_. ret []), c_PatchBackup = (\<lambda>_ new. ret new),
      c_PatchSecret = (\<lambda>_ _. ret ()), c_DeleteSecret = (\<lambda>_. ret ()),
      c_ListPods = (\<lambda>_ _ _. ret []), c_StreamLogs = (\<lambda>_. ret ()), c_Exec = (\<lambda>_ _ _. ret ()),
      c_Print = (\<lambda>_ _. ret ()), c_ReadLine = ret '''', c_Interactive = False,
      c_RandString = (\<lambda>n w. (replicate n (CHR ''x''), w)),
      c_PollPod = (\<lambda>_ _. poll_upto id 3), c_PollJob = (\<lambda>_ _. poll_upto id 3),
      c_PollName = (\<lambda>_ _. poll_upto id 3), c_Lib = plain_lib\<rparr>"

definition sample_cron :: cronjob where
  "sample_cron = (case BuildCronJob sample_backup sample_repository sample_config of Inr cj \<Rightarrow> cj)"

definition cron_cli :: "unit cli" where
  "cron_cli = plain_cli (empty_cluster\<lparr>k_GetCronJob := (\<lambda>_. ret sample_cron),
     k_GetSecret := (\<lambda>n. ret \<lparr>sec_Meta = new_meta (nn_Namespace n) (nn_Name n) [], sec_Type = '''',
       sec_Data = []\<rparr>)\<rparr>)"

definition sample_run :: "run_options \<Rightarrow> (goerr + job) \<times> (unit, unit) st" where
  "sample_run opts = Build cron_cli sample_backup opts (start () ())"

lemma sample_cron_stored: "stored_from cron_cli sample_backup sample_repository sample_config w"
proof -
  have "error_of (BuildCronJob sample_backup sample_repository sample_config) = None" by code_simp
  then show ?thesis
    by (auto simp: error_of_def split: sum.splits simp: stored_from_def sample_cron_def cron_cli_def plain_cli_def ret_def)
qed

lemma sample_run_builds: "error_of (fst (sample_run no_options)) = None"
  by code_simp

lemma sample_run_job:
  obtains j t where "Build cron_cli sample_backup no_options (start () ()) = (Inr j, t)"
proof -
  from sample_run_builds obtain j where "fst (sample_run no_options) = Inr j"
    by (auto simp: error_of_def split: sum.splits)
  then show thesis using that by (metis sample_run_def prod.collapse)
qed

theorem one_off_jobs_are_well_formed_witness:
  "\<exists>j t. Build cron_cli sample_backup no_options (start () ()) = (Inr j, t) \<and>
     pod_typed (js_PodSpec (job_Spec j)) \<and> js_BackoffLimit (job_Spec j) = Some 0"
proof -
  obtain j t where b: "Build cron_cli sample_backup no_options (start () ()) = (Inr j, t)"
    by (rule sample_run_job)
  from one_off_jobs_are_well_formed[OF sample_cron_stored b] have "pod_typed (js_PodSpec (job_Spec j)) \<and>
      js_BackoffLimit (job_Spec j) = Some 0"
    by (simp add: no_options_def mounted_typed_def mounts_typed_def secrets_read_only_def Let_def)
  with b show ?thesis by blast
qed

section \<open>What is mounted\<close>

lemma final_claims:
  "claims_of (final_volumes opts (fst (buildVolumes sb))) =
     (if ro_MountCache opts \<and> cacheEnabled sb then [CacheName sb] else []) @
     (case bs_Volume (sb_Spec sb) of Some v \<Rightarrow> if ro_MountData opts then [vs_ExistingClaim v] else [] | None \<Rightarrow> []) @
     claims_of (ro_ExtraVolumes opts)"
  "secrets_of (final_volumes opts (fst (buildVolumes sb))) =
     (case bs_Database (sb_Spec sb) of
        Some d \<Rightarrow> if ro_MountDatabase opts then [EffectiveSecretName d] else [] | None \<Rightarrow> []) @
     secrets_of (ro_ExtraVolumes opts)"
  by (cases "ro_MountCache opts"; cases "ro_MountData opts"; cases "ro_MountDatabase opts";
      cases "bs_Volume (sb_Spec sb)"; cases "bs_Database (sb_Spec sb)"; cases "cacheEnabled sb";
      simp add: final_volumes_def buildVolumes_def Let_def claim_volume_def secret_volume_def
        filterVolumes_def claims_of_def secrets_of_def List.map_filter_def cacheVolume_def
        dataVolume_def dbVolume_def)+

text \<open>
  C15. A one-off Job mounts only what its command asked for, provided that the CronJob it is
  made from is as the operator built it. The claims of its pod are the
  backup's cache claim if the shared cache was asked for (and the backup has one), the
  source claim of the backup if its data was asked for, and the extra volumes; its mounted
  Secrets are the database credentials if they were asked for, and those of the extra
  volumes: by default a one-off Job cannot touch the application's data, the shared cache
  or the database's credentials. Its variables are those of the scheduled backup, the
  Repository's Secret as a whole and the variables the operator builds, among them those of
  the database and of Healthchecks and what the user put in \<open>spec.env\<close>: none is added and
  none is taken away.
\<close>

theorem one_off_jobs_mount_what_was_asked:
  assumes "stored_from c sb repo cfg (st_World s)" "Build c sb opts s = (Inr j, t)"
  shows "let p = js_PodSpec (job_Spec j)
    in claims_of (ps_Volumes p) =
         (if ro_MountCache opts \<and> cacheEnabled sb then [CacheName sb] else []) @
         (case bs_Volume (sb_Spec sb) of
            Some v \<Rightarrow> if ro_MountData opts then [vs_ExistingClaim v] else [] | None \<Rightarrow> []) @
         claims_of (ro_ExtraVolumes opts) \<and>
       secrets_of (ps_Volumes p) =
         (case bs_Database (sb_Spec sb) of
            Some d \<Rightarrow> if ro_MountDatabase opts then [EffectiveSecretName d] else [] | None \<Rightarrow> []) @
         secrets_of (ro_ExtraVolumes opts) \<and>
       map ct_EnvFromSecrets (ps_Containers p) = [[SecretName repo]] \<and>
       map (\<lambda>ct. Inr (ct_Env ct)) (ps_Containers p) = [buildEnv sb cfg]"
proof -
  from Build_from_operator[OF assms(1,2)] obtain tmpl where
    tmpl: "BuildJobTemplate sb repo cfg = Inr tmpl" "job_Spec j = one_off_spec opts 0 (jt_Spec tmpl)" by blast
  let ?p = "(js_PodSpec (jt_Spec tmpl))\<lparr>ps_RestartPolicy := ''Never''\<rparr>"
  from tmpl(1) have "\<exists>ct. ps_Containers ?p = [ct] \<and> ct_EnvFromSecrets ct = [SecretName repo] \<and>
      ps_Volumes ?p = fst (buildVolumes sb) \<and> buildEnv sb cfg = Inr (ct_Env ct)"
    by (auto simp: BuildJobTemplate_def Let_def split: sum.splits if_splits prod.splits)
  then obtain ct where ct: "ps_Containers ?p = [ct]" "ct_EnvFromSecrets ct = [SecretName repo]"
      "ps_Volumes ?p = fst (buildVolumes sb)" "buildEnv sb cfg = Inr (ct_Env ct)" by blast
  from one_off_pod_single(1,2)[OF ct(1), of opts] tmpl(2) ct(2-4) final_claims[of opts sb]
  show ?thesis by (auto simp: one_off_spec_def)
qed

theorem one_off_jobs_mount_what_was_asked_witness:
  "\<exists>j t. Build cron_cli sample_backup no_options (start () ()) = (Inr j, t) \<and>
     claims_of (ps_Volumes (js_PodSpec (job_Spec j))) = [] \<and>
     secrets_of (ps_Volumes (js_PodSpec (job_Spec j))) = []"
proof -
  obtain j t where b: "Build cron_cli sample_backup no_options (start () ()) = (Inr j, t)"
    by (rule sample_run_job)
  from one_off_jobs_mount_what_was_asked[OF sample_cron_stored b] b show ?thesis
    by (auto simp: no_options_def sample_backup_def claims_of_def secrets_of_def List.map_filter_def Let_def)
qed

section \<open>Names and ownership\<close>

lemma jobName_bound:
  assumes "length random = 5" "length purpose \<le> 40"
  shows "\<exists>name. jobName sb purpose random = Inr name \<and> length name \<le> 52"
  using assms by (auto simp: jobName_def job_suffix_def Let_def)

text \<open>
  A one-off Job is never taken for a run of the backup: whichever ScheduledBackup is
  looked at and whatever the UID of its CronJob, neither the operator's history and
  concurrency check nor the list of runs of the command line counts it, although it runs in
  the same namespace and from the same template; and it is not labelled as managed by the
  operator.
\<close>

lemma one_off_jobs_are_no_runs:
  assumes "controller_laws l" "Build c sb opts s = (Inr j, t)"
  shows "\<not> belongs l sb' uid j \<and> \<not> owned_by l owners j \<and>
    map_of (om_Labels (job_Meta j)) labelManagedBy = Some ManagedByValue"
proof -
  from Build_inverse[OF assms(2)] obtain name labels where
    "job_Meta j = new_meta (sb_Namespace sb) name (one_off_labels labels)" by auto
  moreover from this assms(1) have "GetControllerOf l (job_Meta j) = None"
    by (simp add: controller_laws_def)
  ultimately show ?thesis
    by (auto simp: belongs_def owned_by_def one_off_labels_def labelManagedBy_def map_put_def Let_def
        split: option.splits)
qed

lemma one_off_jobs_are_no_runs_witness:
  "\<exists>j t. Build cron_cli sample_backup no_options (start () ()) = (Inr j, t) \<and>
     \<not> belongs plain_lib sample_backup ''u1'' j"
  using sample_run_job one_off_jobs_are_no_runs[OF plain_lib_laws(1)] by metis

text \<open>
  A one-off Job can always be named: for every backup the operator has built a CronJob
  for and every purpose of at most forty bytes, building succeeds (the name of the backup is
  never cut outside its bounds) and the name of the Job has at most 52 bytes.
\<close>

lemma one_off_jobs_have_names:
  assumes "stored_from c sb repo cfg (st_World s)" "length (ro_Purpose opts) \<le> 40"
    and "\<And>w. length (fst (c_RandString c 5 w)) = 5"
  shows "\<exists>j t. Build c sb opts s = (Inr j, t) \<and> length (om_Name (job_Meta j)) \<le> 52"
proof -
  from assms(1) obtain cj w built where cj:
      "k_GetCronJob (c_Kube c) (NN (sb_Namespace sb) (CronJobName sb)) (st_World s) = (Inr cj, w)"
      "BuildCronJob sb repo cfg = Inr built" "cs_JobTemplate (cj_Spec cj) = cs_JobTemplate (cj_Spec built)"
    by (auto simp: stored_from_def split: sum.splits)
      (metis prod.collapse)
  then obtain tmpl where tmpl: "BuildJobTemplate sb repo cfg = Inr tmpl" "cs_JobTemplate (cj_Spec cj) = tmpl"
    by (auto simp: BuildCronJob_def split: sum.splits)
  from backup_pod_typed[OF tmpl(1)] have found: "findContainer (js_PodSpec (jt_Spec tmpl)) = Some 0"
    by (auto simp: pod_typed_def findContainer_single split: list.splits)
  have "wp (Build c sb opts) (\<lambda>j _. length (om_Name (job_Meta j)) \<le> 52) (\<lambda>_ _. False) s"
  proof -
    obtain rnd v where rnd: "c_RandString c 5 w = (rnd, v)" by (cases "c_RandString c 5 w")
    with assms(3)[of w] have "length rnd = 5" by simp
    then obtain name where "jobName sb (ro_Purpose opts) rnd = Inr name" "length name \<le> 52"
      using jobName_bound[of rnd "ro_Purpose opts" sb] assms(2) by blast
    with cj(1) tmpl(2) found rnd show ?thesis
      by (auto simp: Build_def build_from_def wp_simps Let_def)
  qed
  then show ?thesis by (cases "Build c sb opts s") (auto simp: wp_def split: sum.splits)
qed

lemma one_off_jobs_have_names_witness:
  "\<exists>j t. Build cron_cli sample_backup no_options (start () ()) = (Inr j, t) \<and>
     length (om_Name (job_Meta j)) \<le> 52"
  by (rule one_off_jobs_have_names[OF sample_cron_stored])
    (simp_all add: no_options_def cron_cli_def plain_cli_def)

section \<open>Nothing is left behind\<close>

text \<open>The log of a run: nothing, or the creation of a Job, which either failed or is followed
  by entries that satisfy \<open>P\<close> and, unless the Job is to be kept, by its deletion.\<close>

fun bracketed :: "bool \<Rightarrow> ('o entry \<Rightarrow> bool) \<Rightarrow> 'o entry list \<Rightarrow> bool" where
  "bracketed keep P [] = True"
| "bracketed keep P (a # es) =
     (case en_Effect a of
        CreateJob j \<Rightarrow>
          (if en_Error a \<noteq> None then es = []
           else if keep then list_all P es
           else es \<noteq> [] \<and> list_all P (butlast es) \<and> en_Effect (last es) = DeleteJob j)
      | _ \<Rightarrow> False)"

lemma silent_each_go [quiet_rules]: "(\<And>x. silent (f x)) \<Longrightarrow> silent (each_go f xs)"
  by (induction xs) (auto intro!: quiet_rules)

lemma silent_mustExist [quiet_rules]: "silent (mustExist get ns name kind)"
  unfolding mustExist_def by (auto intro!: quiet_rules)

lemma silent_needs [quiet_rules]:
  "silent (needs_secret c ns name)" "silent (needs_claim c ns name)" "silent (needs_volume c ns v)"
  unfolding needs_volume_def needs_secret_def needs_claim_def
  by (auto intro!: quiet_rules)

lemma silent_Preflight [quiet_rules]: "silent (Preflight c j)"
  unfolding Preflight_def Let_def by (auto intro!: quiet_rules)

lemma silent_pendingPod [quiet_rules]: "silent (pendingPod c j)"
  unfolding pendingPod_def by (auto intro!: quiet_rules)

lemma silent_WaitForPod [quiet_rules]: "silent (WaitForPod c j timeout)"
  unfolding WaitForPod_def Let_def by (auto intro!: quiet_rules)

lemma silent_StreamLogs [quiet_rules]: "silent (StreamLogs c p)"
  unfolding StreamLogs_def by (auto intro!: quiet_rules)

lemma silent_Wait [quiet_rules]: "silent (Wait c j timeout)"
  unfolding Wait_def by (auto intro!: quiet_rules)

lemma start_log: "st_Log (start obj w) = []"
  by (simp add: start_def)

lemma start_job_log:
  assumes "st_Log s = []"
  shows "wp (start_job c sb opts)
    (\<lambda>j t. \<exists>x. st_Log t = [\<lparr>en_Effect = CreateJob j, en_Object = x, en_Error = None\<rparr>])
    (\<lambda>_ t. bracketed keep P (st_Log t)) s"
  unfolding start_job_def wp_bind
  by (rule wp_silent[OF silent_Build], rule wp_silent[OF silent_Preflight])
    (use assms in \<open>auto simp: wp_simps split: prod.splits sum.splits\<close>)

lemma deferred_log:
  assumes "emits P m" "st_Log s = [\<lparr>en_Effect = CreateJob j, en_Object = x, en_Error = None\<rparr>]"
  shows "wp (deferred keep (Cleanup c j) m) (\<lambda>_ t. bracketed keep P (st_Log t))
    (\<lambda>_ t. bracketed keep P (st_Log t)) s"
proof -
  have "wp m (\<lambda>_. grown P (st_Log s)) (\<lambda>_. grown P (st_Log s)) s"
    using assms(1) by (rule emits_grown) (simp add: grown_def)
  moreover have "wp (bind_go (if keep then ret (Inr ()) else attempt (Cleanup c j)) (\<lambda>_. lift r))
      (\<lambda>_ t. bracketed keep P (st_Log t)) (\<lambda>_ t. bracketed keep P (st_Log t)) u"
    if "grown P (st_Log s) u" for r u
    using that assms(2)
    by (auto simp: wp_simps Cleanup_def grown_def split: prod.splits sum.splits)
  ultimately show ?thesis
    unfolding deferred_def wp_bind wp_attempt by (auto elim!: wp_mono simp: wp_bind)
qed

text \<open>
  C14. A one-off Job is always removed again. Whatever happens while a Job runs - its pod
  never starts, its log cannot be read, it fails, the deadline passes - the run creates at
  most one Job, only after every check has passed, and ends by deleting that very Job unless
  it was to be kept; nothing else in the cluster is written.
\<close>

theorem runs_leave_nothing_behind:
  assumes "Run c sb opts timeout s = (res, t)" "st_Log s = []"
  shows "bracketed (ro_Keep opts) (\<lambda>_. False) (st_Log t)"
proof -
  have "emits (\<lambda>_. False) (bind_go (WaitForPod c j timeout) (\<lambda>p. bind_go (StreamLogs c p) (\<lambda>_. Wait c j timeout)))" for j
    by (intro silent_emits quiet_rules)
  then have "wp (Run c sb opts timeout) (\<lambda>_ t. bracketed (ro_Keep opts) (\<lambda>_. False) (st_Log t))
      (\<lambda>_ t. bracketed (ro_Keep opts) (\<lambda>_. False) (st_Log t)) s"
    unfolding Run_def wp_bind
    by (intro wp_mono[OF start_job_log[OF assms(2)]]) (auto intro: deferred_log)
  with assms(1) show ?thesis by (auto simp: wp_def split: sum.splits)
qed

definition pending_run :: "(goerr + unit) \<times> (unit, unit) st" where
  "pending_run = Run cron_cli sample_backup no_options Hour (start () ())"

theorem runs_leave_nothing_behind_witness:
  "bracketed False (\<lambda>_. False) (st_Log (snd pending_run)) \<and> length (st_Log (snd pending_run)) = 2 \<and>
   fst pending_run = Inl DeadlineExceeded"
proof (intro conjI)
  have "bracketed (ro_Keep no_options) (\<lambda>_. False) (st_Log (snd pending_run))"
    by (rule runs_leave_nothing_behind[of cron_cli sample_backup no_options Hour "start () ()"
        "fst pending_run"]) (simp_all add: pending_run_def start_log)
  then show "bracketed False (\<lambda>_. False) (st_Log (snd pending_run))" by (simp add: no_options_def)
  show "length (st_Log (snd pending_run)) = 2" by code_simp
  show "fst pending_run = Inl DeadlineExceeded" by code_simp
qed

section \<open>Dependencies\<close>

text \<open>Every Secret of the environment is read before a Job is created.\<close>

lemma each_go_reaches:
  fixes f :: "'a \<Rightarrow> ('w, 'o, unit) comp" and x :: 'a
  assumes "x \<in> set xs" "\<And>s. wp (f x) (\<lambda>_ _. False) (\<lambda>_ _. True) s" "\<And>y. silent (f y)"
  shows "wp (each_go f xs) (\<lambda>_ _. False) (\<lambda>_ _. True) s"
  using assms(1)
proof (induction xs arbitrary: s)
  case (Cons y ys s)
  have "wp (f y) (\<lambda>_ t. wp (each_go f ys) (\<lambda>_ _. False) (\<lambda>_ _. True) t) (\<lambda>_ _. True) s"
  proof (cases "y = x")
    case True
    with assms(2)[of s] show ?thesis by (auto elim!: wp_mono)
  next
    case False
    with Cons.prems have "x \<in> set ys" by auto
    then show ?thesis by (auto intro!: wp_silent[OF assms(3)] Cons.IH)
  qed
  then show ?case by (simp add: wp_bind)
qed simp

lemma unreadable_secret:
  assumes "\<And>w. fst (k_GetSecret (c_Kube c) (NN ns name) w) = Inl (e w)"
  shows "wp (needs_secret c ns name) (\<lambda>_ _. False) (\<lambda>_ _. True) s"
proof -
  obtain x w where g: "k_GetSecret (c_Kube c) (NN ns name) (st_World s) = (x, w)"
    by (cases "k_GetSecret (c_Kube c) (NN ns name) (st_World s)")
  with assms[of "st_World s"] show ?thesis by (simp add: needs_secret_def mustExist_def wp_simps)
qed

text \<open>
  C18. Without the credentials nothing runs: if the Secret with the repository's credentials
  cannot be read, a command ends with an error and has not created a Job, rather than
  leaving one behind whose pod can never start.
\<close>

theorem no_credentials_no_job:
  assumes "stored_from c sb repo cfg (st_World s)" "st_Log s = []"
    and "\<And>w. fst (k_GetSecret (c_Kube c) (NN (sb_Namespace sb) (SecretName repo)) w) = Inl (e w)"
    and "Run c sb opts timeout s = (res, t)"
  shows "st_Log t = [] \<and> (\<exists>x. res = Inl x)"
proof -
  have pre: "wp (Preflight c j) (\<lambda>_ _. False) (\<lambda>_ t. st_Log t = []) u"
    if b: "Build c sb opts s = (Inr j, u)" for j u
  proof -
    from one_off_jobs_mount_what_was_asked[OF assms(1) b] obtain ct where
      ct: "ps_Containers (js_PodSpec (job_Spec j)) = [ct]" "ct_EnvFromSecrets ct = [SecretName repo]"
      by (auto simp: Let_def map_eq_Cons_conv)
    from Build_inverse[OF b] have ns: "om_Namespace (job_Meta j) = sb_Namespace sb" by auto
    have "wp (Preflight c j) (\<lambda>_ _. False) (\<lambda>_ _. True) u"
      unfolding Preflight_def Let_def wp_bind
      by (rule wp_silent[OF silent_each_go[OF silent_needs(3)]])
        (use ct ns in \<open>auto simp: wp_bind intro!: wp_mono[OF unreadable_secret[OF assms(3)]]\<close>)
    moreover have "st_Log u = []" using silent_state[OF silent_Build b] assms(2) by auto
    then have "wp (Preflight c j) (\<lambda>_ t. st_Log t = []) (\<lambda>_ t. st_Log t = []) u"
      by (auto intro: wp_silent quiet_rules)
    ultimately show ?thesis by (auto dest: wp_conj elim: wp_mono)
  qed
  have "wp (Run c sb opts timeout) (\<lambda>_ _. False) (\<lambda>_ t. st_Log t = []) s"
    unfolding Run_def start_job_def wp_bind
    by (cases "Build c sb opts s")
      (use assms(2) in \<open>auto simp: wp_def[of "Build c sb opts"] split: sum.splits
         intro: wp_mono[OF pre] dest: silent_state[OF silent_Build]\<close>)
  with assms(4) show ?thesis by (auto simp: wp_def split: sum.splits)
qed

definition bare_cli :: "unit cli" where
  "bare_cli = plain_cli (empty_cluster\<lparr>k_GetCronJob := (\<lambda>_. ret sample_cron)\<rparr>)"

theorem no_credentials_no_job_witness:
  "st_Log (snd (Run bare_cli sample_backup no_options Hour (start () ()))) = [] \<and>
   (\<exists>x. fst (Run bare_cli sample_backup no_options Hour (start () ())) = Inl x)"
proof (rule no_credentials_no_job)
  show "stored_from bare_cli sample_backup sample_repository sample_config (st_World (start () ()))"
    using sample_cron_stored by (simp add: stored_from_def bare_cli_def cron_cli_def plain_cli_def)
qed (simp_all add: start_log bare_cli_def plain_cli_def empty_cluster_def fail_def)

section \<open>The verdict\<close>

definition job_key :: "job \<Rightarrow> nsname" where "job_key j = key_of (job_Meta j)"

text \<open>What the API server answers about a Job in a world.\<close>

definition seen :: "'w cli \<Rightarrow> nsname \<Rightarrow> 'w \<Rightarrow> goerr + job" where
  "seen c key w = fst (k_GetJob (c_Kube c) key w)"

definition failure :: "job \<Rightarrow> goerr" where
  "failure j = Errorf ''%w: job/%s'' [Err ErrFailed, Str (om_Name (job_Meta j))]"

lemma job_finished_step:
  assumes "job_finished c key (w, v) = (x, (w', v'))"
  shows "(x = Inr True \<and> seen c key w = Inr v' \<and> finished v') \<or>
    (x = Inr False) \<or> (\<exists>e. x = Inl e \<and> seen c key w = Inl e \<and> \<not> IsNotFound e)"
proof -
  obtain r u where g: "k_GetJob (c_Kube c) key w = (r, u)" by (cases "k_GetJob (c_Kube c) key w")
  with assms show ?thesis
    by (cases r) (auto simp: job_finished_def bind_go_def attempt_def look_def capture_def seen_def
        ret_def fail_def split: if_splits)
qed

lemma poll_job_finished:
  assumes "polled (job_finished c key) s r t"
  shows "case r of
      Inl e \<Rightarrow> e = DeadlineExceeded \<or> e = Canceled \<or> (\<exists>w. seen c key w = Inl e \<and> \<not> IsNotFound e)
    | Inr _ \<Rightarrow> finished (snd t) \<and> (\<exists>w. seen c key w = Inr (snd t))"
  by (rule polled_invariant[OF assms, where I = "\<lambda>_. True"]) (auto dest: job_finished_step)

text \<open>
  Waiting for a Job tells the truth: it ends without an error only if the Job was seen
  succeeded and not failed, with the failure of that Job only if it was seen failed, and
  otherwise only because the deadline passed, the command was interrupted, or the API server
  answered with an error other than not found.
\<close>

lemma wait_tells_the_truth:
  assumes "poll_law (c_PollJob c)" "Wait c j timeout s = (res, t)"
  shows "case res of
      Inr _ \<Rightarrow> (\<exists>w j'. seen c (job_key j) w = Inr j' \<and> 0 < jst_Succeeded (job_Status j') \<and>
        \<not> 0 < jst_Failed (job_Status j'))
    | Inl e \<Rightarrow> e = DeadlineExceeded \<or> e = Canceled \<or>
        (\<exists>w. seen c (job_key j) w = Inl e \<and> \<not> IsNotFound e) \<or>
        e = failure j \<and> (\<exists>w j'. seen c (job_key j) w = Inr j' \<and> 0 < jst_Failed (job_Status j'))"
proof -
  let ?R = "\<lambda>_ _. \<exists>w j'. seen c (job_key j) w = Inr j' \<and> 0 < jst_Succeeded (job_Status j') \<and>
        \<not> 0 < jst_Failed (job_Status j')"
  let ?E = "\<lambda>e _. e = DeadlineExceeded \<or> e = Canceled \<or>
        (\<exists>w. seen c (job_key j) w = Inl e \<and> \<not> IsNotFound e) \<or>
        e = failure j \<and> (\<exists>w j'. seen c (job_key j) w = Inr j' \<and> 0 < jst_Failed (job_Status j'))"
  have "wp (Wait c j timeout) ?R ?E s"
    unfolding Wait_def wp_bind
  proof (rule wp_poll_from[OF assms(1)])
    fix r w c'
    assume "polled (job_finished c (key_of (job_Meta j))) (st_World s, zero_job) r (w, c')"
    from poll_job_finished[OF this]
    show "case r of Inl e \<Rightarrow> ?E e (s\<lparr>st_World := w\<rparr>)
      | Inr _ \<Rightarrow> wp (if 0 < jst_Failed (job_Status c')
          then fail (Errorf ''%w: job/%s'' [Err ErrFailed, Str (om_Name (job_Meta j))]) else ret ())
          ?R ?E (s\<lparr>st_World := w\<rparr>)"
      by (auto simp: wp_simps job_key_def failure_def finished_def split: sum.splits)
  qed
  with assms(2) show ?thesis by (auto simp: wp_def split: sum.splits)
qed

definition failing_job :: job where
  "failing_job = zero_job\<lparr>job_Status := new_job_status\<lparr>jst_Failed := 1\<rparr>\<rparr>"

definition failing_cli :: "unit cli" where
  "failing_cli = plain_cli (empty_cluster\<lparr>k_GetJob := (\<lambda>_. ret failing_job)\<rparr>)"

lemma wait_tells_the_truth_witness:
  "fst (Wait failing_cli zero_job Hour (start () ())) = Inl (failure zero_job) \<and>
   (case fst (Wait failing_cli zero_job Hour (start () ())) of
      Inr _ \<Rightarrow> False
    | Inl e \<Rightarrow> e = DeadlineExceeded \<or> e = Canceled \<or>
        (\<exists>w. seen failing_cli (job_key zero_job) w = Inl e \<and> \<not> IsNotFound e) \<or>
        e = failure zero_job \<and> (\<exists>w j'. seen failing_cli (job_key zero_job) w = Inr j' \<and> 0 < jst_Failed (job_Status j')))"
proof -
  obtain res t where run: "Wait failing_cli zero_job Hour (start () ()) = (res, t)"
    by (cases "Wait failing_cli zero_job Hour (start () ())")
  have "fst (Wait failing_cli zero_job Hour (start () ())) = Inl (failure zero_job)" by code_simp
  moreover have "poll_law (c_PollJob failing_cli)"
    using poll_upto_law[of id 3] by (simp add: failing_cli_def plain_cli_def)
  from wait_tells_the_truth[OF this run] calculation run show ?thesis by simp
qed

text \<open>A Job that is looked at between moves of the world, with reads that leave it alone.\<close>

definition looks_only :: "'w cli \<Rightarrow> bool" where
  "looks_only c \<longleftrightarrow> (\<forall>key w. snd (k_GetJob (c_Kube c) key w) = w)"

definition still_running :: "goerr + job \<Rightarrow> bool" where
  "still_running r = (case r of Inl e \<Rightarrow> IsNotFound e | Inr j \<Rightarrow> \<not> finished j)"

lemma job_finished_run:
  assumes "looks_only c"
  shows "still_running (seen c key w) \<Longrightarrow>
      \<exists>v'. job_finished c key (w, v) = (Inr False, (w, v'))"
    and "seen c key w = Inr j' \<Longrightarrow> finished j' \<Longrightarrow> job_finished c key (w, v) = (Inr True, (w, j'))"
proof -
  obtain r where g: "k_GetJob (c_Kube c) key w = (r, w)"
    using assms unfolding looks_only_def by (metis prod.collapse)
  then show "still_running (seen c key w) \<Longrightarrow>
      \<exists>v'. job_finished c key (w, v) = (Inr False, (w, v'))"
    by (cases r) (auto simp: job_finished_def bind_go_def attempt_def look_def capture_def seen_def
        still_running_def ret_def fail_def)
  from g show "seen c key w = Inr j' \<Longrightarrow> finished j' \<Longrightarrow> job_finished c key (w, v) = (Inr True, (w, j'))"
    by (auto simp: job_finished_def bind_go_def attempt_def look_def capture_def seen_def ret_def)
qed

lemma poll_upto_finds:
  assumes "looks_only c"
  shows "(\<forall>m<k. still_running (seen c key ((move ^^ m) w))) \<Longrightarrow>
    seen c key ((move ^^ k) w) = Inr j' \<Longrightarrow> finished j' \<Longrightarrow> k \<le> n \<Longrightarrow>
    poll_upto move n (job_finished c key) (w, v) = (Inr (), ((move ^^ k) w, j'))"
proof (induction k arbitrary: n w v)
  case 0
  then have "job_finished c key (w, v) = (Inr True, (w, j'))"
    by (intro job_finished_run(2)[OF assms]) auto
  then show ?case by (cases n) auto
next
  case (Suc k)
  from Suc.prems(4) obtain n' where n: "n = Suc n'" "k \<le> n'" by (cases n) auto
  from Suc.prems(1) have "still_running (seen c key w)" by (force dest: spec[of _ 0])
  from job_finished_run(1)[OF assms this] obtain v' where
    "job_finished c key (w, v) = (Inr False, (w, v'))" by blast
  moreover have "poll_upto move n' (job_finished c key) (move w, v') = (Inr (), ((move ^^ k) (move w), j'))"
    using Suc.prems n(2)
    by (intro Suc.IH) (auto simp: funpow_swap1 dest: spec[of _ "Suc _"])
  ultimately show ?case using n(1) by (simp add: funpow_swap1)
qed

text \<open>
  C17. Waiting for a Job comes to an end: if the Job finishes after \<open>k\<close> moves of the world and
  the polling function tries at least that often before its deadline, the wait ends at that
  very try with the verdict of the Job, although the Job may not even exist at first. With
  \<open>k = 0\<close>: a Job that has already finished is reported at once, whatever the timeout.
\<close>

theorem wait_ends_with_the_verdict:
  assumes "looks_only c" "c_PollJob c = (\<lambda>_ _. poll_upto move n)" "k \<le> n"
    and "\<forall>m<k. still_running (seen c (job_key j) ((move ^^ m) (st_World s)))"
    and "seen c (job_key j) ((move ^^ k) (st_World s)) = Inr j'" "finished j'"
  shows "Wait c j timeout s =
    (if 0 < jst_Failed (job_Status j') then Inl (failure j) else Inr (),
     s\<lparr>st_World := (move ^^ k) (st_World s)\<rparr>)"
proof -
  have "poll_upto move n (job_finished c (job_key j)) (st_World s, zero_job) =
      (Inr (), ((move ^^ k) (st_World s), j'))"
    by (rule poll_upto_finds[OF assms(1,4,5,6,3)])
  with assms(2) show ?thesis
    by (simp add: Wait_def bind_go_def poll_from_def ask_def job_key_def failure_def ret_def fail_def)
qed

text \<open>A world that counts: the Job appears at 1 and has succeeded at 2.\<close>

definition counting_cluster :: "nat cluster" where
  "counting_cluster =
     \<lparr>k_GetRepository = (\<lambda>_. fail not_found), k_ReadRepository = (\<lambda>_. fail not_found),
      k_ListRepositories = ret [], k_PatchRepository = (\<lambda>_ new. ret new),
      k_PatchRepositoryStatus = (\<lambda>new _. ret new),
      k_GetSecret = (\<lambda>_. fail not_found), k_CreateSecret = (\<lambda>_. ret ()), k_UpdateSecret = (\<lambda>_. ret ()),
      k_GetJob = (\<lambda>_ w. (if w = 0 then Inl not_found else if w = 1 then Inr zero_job
        else Inr (zero_job\<lparr>job_Status := new_job_status\<lparr>jst_Succeeded := 1\<rparr>\<rparr>), w)),
      k_ListJobs = (\<lambda>_. ret []), k_CreateJob = (\<lambda>_. ret ()), k_DeleteJob = (\<lambda>_. ret ()),
      k_GetBackup = (\<lambda>_. fail not_found), k_ListBackups = (\<lambda>_. ret []),
      k_PatchBackupStatus = (\<lambda>new _. ret new),
      k_GetCronJob = (\<lambda>_. fail not_found), k_CreateCronJob = ret, k_UpdateCronJob = (\<lambda>_. ret ()),
      k_GetPVC = (\<lambda>_. fail not_found), k_CreatePVC = (\<lambda>_. ret ()), k_DeletePVC = (\<lambda>_. ret ()),
      k_SetStatusCondition = (\<lambda>c cs w. (cs, w)),
      k_Now = (\<lambda>w. (0, w)), k_Rand = (\<lambda>w. (Inl (Sentinel ''no random source''), w)), k_RandFuel = 0,
      k_Post = (\<lambda>_ w. (DoFailed (Sentinel ''no network''), w))\<rparr>"

definition counting_cli :: "nat cli" where
  "counting_cli =
     \<lparr>c_Kube = counting_cluster, c_ListRepositories = (\<lambda>_. ret []), c_PatchBackup = (\<lambda>_ new. ret new),
      c_PatchSecret = (\<lambda>_ _. ret ()), c_DeleteSecret = (\<lambda>_. ret ()),
      c_ListPods = (\<lambda>_ _ _. ret []), c_StreamLogs = (\<lambda>_. ret ()), c_Exec = (\<lambda>_ _ _. ret ()),
      c_Print = (\<lambda>_ _. ret ()), c_ReadLine = ret '''', c_Interactive = False,
      c_RandString = (\<lambda>n w. (replicate n (CHR ''x''), w)),
      c_PollPod = (\<lambda>_ _. poll_upto Suc 5), c_PollJob = (\<lambda>_ _. poll_upto Suc 5),
      c_PollName = (\<lambda>_ _. poll_upto Suc 5), c_Lib = plain_lib\<rparr>"

theorem wait_ends_with_the_verdict_witness:
  "Wait counting_cli zero_job Hour (start () 0) = (Inr (), start () 2)"
proof -
  have running: "\<forall>m<2. still_running (seen counting_cli (job_key zero_job) ((Suc ^^ m) 0))"
    by (auto simp: less_2_cases_iff still_running_def seen_def counting_cli_def counting_cluster_def
        not_found_def zero_job_def finished_def new_job_status_def)
  from wait_ends_with_the_verdict[of counting_cli Suc 5 2 zero_job "start () 0" _ Hour] running
  show ?thesis
    by (simp add: looks_only_def seen_def counting_cli_def counting_cluster_def start_def
        zero_job_def finished_def new_job_status_def numeral_2_eq_2)
qed

end
