(* ===== verification/TimeFormat.thy ===== *)
theory TimeFormat
  imports GoTime
begin

text \<open>
  \<open>time.Time.Format(time.RFC3339)\<close> for times in UTC, which the command line writes into an
  annotation and the operator parses: the calendar date of a day number, and the proof that
  parsing gets the time back.
\<close>

section \<open>Dates\<close>

definition year_days :: "int \<Rightarrow> int" where
  "year_days y = (if leap_year y then 366 else 365)"

text \<open>The year and the day of the year, counted up from a year that starts \<open>d\<close> days earlier,
  and the month and day of the month.\<close>

function year_from :: "int \<Rightarrow> int \<Rightarrow> int \<times> int" where
  "year_from y d = (if d < year_days y then (y, d) else year_from (y + 1) (d - year_days y))"
  by auto
termination
  by (relation "measure (nat \<circ> snd)") (auto simp: year_days_def split: if_splits)

declare year_from.simps [simp del]

function month_from :: "int \<Rightarrow> int \<Rightarrow> int \<Rightarrow> int \<times> int" where
  "month_from y m d =
     (if 12 \<le> m \<or> d < days_in m y then (m, d + 1) else month_from y (m + 1) (d - days_in m y))"
  by auto
termination
  by (relation "measure (\<lambda>(y, m, d). nat (12 - m))") auto

declare month_from.simps [simp del]

text \<open>A number with leading zeros in two or four places.\<close>

definition pad2 :: "int \<Rightarrow> string" where
  "pad2 n = [digit_char (n div 10 mod 10), digit_char (n mod 10)]"

definition pad4 :: "int \<Rightarrow> string" where
  "pad4 n = pad2 (n div 100) @ pad2 (n mod 100)"

definition FormatRFC3339 :: "time \<Rightarrow> string" where
  "FormatRFC3339 t =
     (let days = Unix t div 86400; secs = Unix t mod 86400;
          (y, yday) = year_from 1970 days; (m, d) = month_from y 1 yday
      in (if y < 10000 then pad4 y else Itoa y) @ ''-'' @ pad2 m @ ''-'' @ pad2 d @ ''T'' @
         pad2 (secs div 3600) @ '':'' @ pad2 (secs div 60 mod 60) @ '':'' @ pad2 (secs mod 60) @ ''Z'')"

section \<open>Day numbers\<close>

lemma div_pred:
  assumes "0 < (n :: int)"
  shows "y div n = (y - 1) div n + (if y mod n = 0 then 1 else 0)"
proof (cases "y mod n = 0")
  case True
  then have "y - 1 = n * (y div n - 1) + (n - 1)" using mult_div_mod_eq[of n y] by (simp add: algebra_simps)
  from int_div_pos_eq[OF this] assms have "(y - 1) div n = y div n - 1" by simp
  with True show ?thesis by simp
next
  case False
  have "y - 1 = n * (y div n) + (y mod n - 1)" using mult_div_mod_eq[of n y] by linarith
  moreover have "0 \<le> y mod n - 1" "y mod n - 1 < n"
    using False assms pos_mod_sign[of n y] pos_mod_bound[of n y] by linarith+
  ultimately have "(y - 1) div n = y div n" by (intro int_div_pos_eq)
  with False show ?thesis by simp
qed

lemma leap_div:
  assumes "0 < (n :: int)" "k = n - 1"
  shows "(y + 1 + k) div n = (y + k) div n + (if y mod n = 0 then 1 else 0)"
proof -
  have sums: "y + n = y + 1 + k" "y + n - 1 = y + k" "(y + n) mod n = y mod n" using assms(2) by simp_all
  show ?thesis by (rule div_pred[OF assms(1), of "y + n", unfolded sums(2,3), unfolded sums(1)])
qed

lemma leap_mod: "(y :: int) mod 400 = 0 \<Longrightarrow> y mod 100 = 0" "(y :: int) mod 100 = 0 \<Longrightarrow> y mod 4 = 0"
  using dvd_trans[of 100 400 y] dvd_trans[of 4 100 y] by (simp_all add: mod_eq_0_iff_dvd)

lemma epoch_day_next_year: "epoch_day (y + 1) 1 1 = epoch_day y 1 1 + year_days y"
proof -
  have divs: "(y + 1 + 3) div 4 = (y + 3) div 4 + (if y mod 4 = 0 then 1 else 0)"
    "(y + 1 + 99) div 100 = (y + 99) div 100 + (if y mod 100 = 0 then 1 else 0)"
    "(y + 1 + 399) div 400 = (y + 399) div 400 + (if y mod 400 = 0 then 1 else 0)"
    by (rule leap_div; simp)+
  obtain a b c where abc: "(y + 3) div 4 = a" "(y + 99) div 100 = b" "(y + 399) div 400 = c" by simp
  obtain p q r where pqr: "(y mod 4 = 0) = p" "(y mod 100 = 0) = q" "(y mod 400 = 0) = r" by simp
  have "r \<Longrightarrow> q" "q \<Longrightarrow> p" using leap_mod[of y] unfolding pqr by blast+
  then show ?thesis
    unfolding epoch_day_def days_before_month_def year_days_def leap_year_def divs abc pqr
    by (cases p; cases q; cases r) simp_all
qed

lemma year_from_spec:
  "0 \<le> d \<Longrightarrow> year_from y d = (y', d') \<Longrightarrow>
   epoch_day y' 1 1 + d' = epoch_day y 1 1 + d \<and> 0 \<le> d' \<and> d' < year_days y' \<and> y \<le> y'"
proof (induction y d arbitrary: y' d' rule: year_from.induct)
  case (1 y d)
  show ?case
  proof (cases "d < year_days y")
    case True
    with 1 show ?thesis by (simp add: year_from.simps[of y d])
  next
    case False
    with 1(3) have "year_from (y + 1) (d - year_days y) = (y', d')" by (simp add: year_from.simps[of y d])
    from 1(1)[OF False _ this] False show ?thesis by (auto simp: epoch_day_next_year)
  qed
qed

lemma days_before_next_month: "1 \<le> m \<Longrightarrow> days_before_month (m + 1) y = days_before_month m y + days_in m y"
  using upto_rec2[of 1 m] by (simp add: days_before_month_def)

lemma days_in_bounds: "0 < days_in m y" "days_in m y \<le> 31"
  by (auto simp: days_in_def)

lemma month_from_spec:
  "1 \<le> m \<Longrightarrow> m \<le> 12 \<Longrightarrow> 0 \<le> d \<Longrightarrow> days_before_month m y + d < days_before_month 13 y \<Longrightarrow>
   month_from y m d = (m', d') \<Longrightarrow>
   days_before_month m' y + d' - 1 = days_before_month m y + d \<and> 1 \<le> m' \<and> m' \<le> 12 \<and>
   1 \<le> d' \<and> d' \<le> days_in m' y"
proof (induction y m d arbitrary: m' d' rule: month_from.induct)
  case (1 y m d)
  show ?case
  proof (cases "12 \<le> m \<or> d < days_in m y")
    case True
    with 1 show ?thesis
      using days_before_next_month[of 12 y] by (auto simp: month_from.simps[of y m d])
  next
    case False
    with 1(6) have "month_from y (m + 1) (d - days_in m y) = (m', d')" by (simp add: month_from.simps[of y m d])
    from 1(1)[OF False _ _ _ _ this] False 1(2-5) show ?thesis
      by (auto simp: days_before_next_month)
  qed
qed

lemma year_length: "days_before_month 13 y = year_days y"
  by (simp add: days_before_month_def upto.simps days_in_def year_days_def)

lemma epoch_day_split: "epoch_day y m d = epoch_day y 1 1 + days_before_month m y + d - 1"
  by (simp add: epoch_day_def days_before_month_def)

lemma epoch_day_mono: "y \<le> y' \<Longrightarrow> epoch_day y 1 1 \<le> epoch_day y' 1 1"
proof (induction y' rule: int_ge_induct)
  case (step z)
  then show ?case by (simp add: epoch_day_next_year year_days_def split: if_splits)
qed simp

text \<open>The date of a day from 1970 to 9999.\<close>

lemma date_of_day:
  assumes "0 \<le> n" "n < 2932897" "year_from 1970 n = (y, r)" "month_from y 1 r = (m, d)"
  shows "epoch_day y m d = n" "1970 \<le> y" "y < 10000" "1 \<le> m" "m \<le> 12" "1 \<le> d" "d \<le> days_in m y"
proof -
  have start: "epoch_day 1970 1 1 = 0" "epoch_day 10000 1 1 = 2932897"
    by (simp_all add: epoch_day_def days_before_month_def)
  from year_from_spec[OF assms(1,3)] have year: "epoch_day y 1 1 + r = n" "0 \<le> r" "r < year_days y" "1970 \<le> y"
    using start(1) by auto
  have "days_before_month 1 y = 0" by (simp add: days_before_month_def)
  with month_from_spec[OF _ _ year(2) _ assms(4)] year(3) show
      "epoch_day y m d = n" "1 \<le> m" "m \<le> 12" "1 \<le> d" "d \<le> days_in m y"
    using year(1) by (auto simp: year_length epoch_day_split[of y m d])
  show "1970 \<le> y" by (fact year(4))
  show "y < 10000"
  proof (rule ccontr)
    assume "\<not> y < 10000"
    with epoch_day_mono[of 10000 y] start(2) year(1,2) assms(2) show False by simp
  qed
qed

section \<open>Parsing gets the time back\<close>

lemma digit_back:
  assumes "0 \<le> k" "k < 10"
  shows "is_digit (digit_char k)" "digit_val (digit_char k) = k"
proof -
  from assms have "k \<in> set [0..9]" by simp
  then have "k \<in> {0, 1, 2, 3, 4, 5, 6, 7, 8, 9}" by (simp add: upto.simps)
  then show "is_digit (digit_char k)" "digit_val (digit_char k) = k"
    by (auto simp: digit_char_def digit_val_def is_digit_def)
qed

lemma digits_of_pair: "0 \<le> n \<Longrightarrow> n < 100 \<Longrightarrow> n div 10 mod 10 * 10 + n mod 10 = (n :: int)"
  by simp

lemma pad2_digits: "list_all is_digit (pad2 n)" "length (pad2 n) = 2"
  by (simp_all add: pad2_def digit_back)

lemma getnum_pad2: "0 \<le> n \<Longrightarrow> n < 100 \<Longrightarrow> getnum fixed (pad2 n @ s) = Some (n, s)"
  using digits_of_pair[of n] by (simp add: pad2_def digit_back)

lemma numfield_pad2:
  "0 \<le> n \<Longrightarrow> n < 100 \<Longrightarrow> lo \<le> n \<Longrightarrow> n \<le> hi \<Longrightarrow>
   numfield [c] fixed lo hi (c # pad2 n @ s) = Some (n, s)"
  by (simp add: numfield_def getnum_pad2)

lemma digits_val_pads:
  "digits_val (pad2 a @ pad2 b) = (a div 10 mod 10 * 10 + a mod 10) * 100 + (b div 10 mod 10 * 10 + b mod 10)"
  by (simp add: digits_val_def pad2_def digit_back algebra_simps)

lemma year4_pad4:
  assumes "0 \<le> y" "y < 10000"
  shows "year4 (pad4 y @ s) = Some (y, s)"
proof -
  have "y div 100 div 10 mod 10 * 10 + y div 100 mod 10 = y div 100"
    using assms by (intro digits_of_pair) auto
  moreover have "y mod 100 div 10 mod 10 * 10 + y mod 100 mod 10 = y mod 100"
    by (intro digits_of_pair) auto
  ultimately have "digits_val (pad4 y) = y div 100 * 100 + y mod 100"
    by (simp only: pad4_def digits_val_pads)
  then have "digits_val (pad4 y) = y" by (simp only: div_mult_mod_eq)
  moreover have "list_all is_digit (pad4 y)" "length (pad4 y) = 4"
    by (simp_all add: pad4_def pad2_digits)
  ultimately show ?thesis by (simp add: year4_def)
qed

lemma FormatRFC3339_fields:
  assumes "0 \<le> t" "t < 253402300800 * Second"
  obtains y m d where "epoch_day y m d = Unix t div 86400" "0 \<le> y" "y < 10000" "1 \<le> m" "m \<le> 12"
    "1 \<le> d" "d \<le> days_in m y"
    "FormatRFC3339 t = pad4 y @ ''-'' @ pad2 m @ ''-'' @ pad2 d @ ''T'' @ pad2 (Unix t mod 86400 div 3600) @
       '':'' @ pad2 (Unix t mod 86400 div 60 mod 60) @ '':'' @ pad2 (Unix t mod 86400 mod 60) @ ''Z''"
proof -
  have "0 \<le> Unix t div 86400" "Unix t div 86400 < 2932897"
    using assms by (simp_all add: Unix_def pos_imp_zdiv_nonneg_iff zdiv_zmult2_eq[symmetric] pos_imp_zdiv_neg_iff)
  moreover obtain y r where y: "year_from 1970 (Unix t div 86400) = (y, r)"
    by (cases "year_from 1970 (Unix t div 86400)")
  moreover obtain m d where m: "month_from y 1 r = (m, d)" by (cases "month_from y 1 r")
  ultimately show thesis
    using that[of y m d] date_of_day[of "Unix t div 86400" y r m d]
    by (simp add: FormatRFC3339_def Let_def)
qed

lemma parse_fields:
  assumes "0 \<le> y" "y < 10000" "1 \<le> m" "m \<le> 12" "1 \<le> d" "d \<le> days_in m y"
    and "0 \<le> h" "h \<le> 23" "0 \<le> mi" "mi \<le> 59" "0 \<le> sc" "sc \<le> 59"
  shows "ParseRFC3339 (pad4 y @ ''-'' @ pad2 m @ ''-'' @ pad2 d @ ''T'' @ pad2 h @ '':'' @ pad2 mi @
      '':'' @ pad2 sc @ ''Z'') =
    Some ((epoch_day y m d * 86400 + h * 3600 + mi * 60 + sc) * Second)"
proof -
  have "d \<le> 31" using assms(6) days_in_bounds(2)[of m y] by simp
  with assms show ?thesis
    by (simp add: ParseRFC3339_def year4_pad4 numfield_pad2 fraction_def zone_def)
qed

lemma timestamps_survive_the_annotation:
  assumes "0 \<le> t" "t < 253402300800 * Second" "t mod Second = 0"
  shows "ParseRFC3339 (FormatRFC3339 t) = Some t"
proof -
  from FormatRFC3339_fields[OF assms(1,2)] obtain y m d where
    f: "epoch_day y m d = Unix t div 86400" "0 \<le> y" "y < 10000" "1 \<le> m" "m \<le> 12" "1 \<le> d" "d \<le> days_in m y"
      "FormatRFC3339 t = pad4 y @ ''-'' @ pad2 m @ ''-'' @ pad2 d @ ''T'' @ pad2 (Unix t mod 86400 div 3600) @
       '':'' @ pad2 (Unix t mod 86400 div 60 mod 60) @ '':'' @ pad2 (Unix t mod 86400 mod 60) @ ''Z''" by blast
  have secs: "0 \<le> u mod 86400 div 3600" "u mod 86400 div 3600 \<le> 23" "0 \<le> u mod 86400 div 60 mod 60"
    "u mod 86400 div 60 mod 60 \<le> 59" "0 \<le> u mod 86400 mod 60" "u mod 86400 mod 60 \<le> 59" for u :: int
    by (auto simp: pos_imp_zdiv_nonneg_iff)
  have hms: "n div 3600 * 3600 + n div 60 mod 60 * 60 + n mod 60 = n" for n :: int
  proof -
    have "n div 3600 = n div 60 div 60" by (simp add: zdiv_zmult2_eq[symmetric])
    moreover have "a * 60 + b = c \<Longrightarrow> c * 60 + e = n \<Longrightarrow> a * 3600 + b * 60 + e = n" for a b c e :: int
      by linarith
    ultimately show ?thesis by (metis div_mult_mod_eq)
  qed
  have pair: "d < 100" "days_in m y \<le> 31" using f(7) days_in_bounds[of m y] by simp_all
  have "Unix t div 86400 * 86400 + Unix t mod 86400 div 3600 * 3600 +
      Unix t mod 86400 div 60 mod 60 * 60 + Unix t mod 86400 mod 60 = Unix t"
    using hms[of "Unix t mod 86400"] div_mult_mod_eq[of "Unix t" 86400] by linarith
  moreover have "Unix t * Second = t"
    using assms(3) div_mult_mod_eq[of t Second] by (simp add: Unix_def)
  ultimately have whole: "(epoch_day y m d * 86400 + Unix t mod 86400 div 3600 * 3600 +
      Unix t mod 86400 div 60 mod 60 * 60 + Unix t mod 86400 mod 60) * Second = t"
    unfolding f(1) by simp
  obtain h mi sc where hms': "Unix t mod 86400 div 3600 = h" "Unix t mod 86400 div 60 mod 60 = mi"
    "Unix t mod 86400 mod 60 = sc" by blast
  from secs[of "Unix t"] have "0 \<le> h" "h \<le> 23" "0 \<le> mi" "mi \<le> 59" "0 \<le> sc" "sc \<le> 59"
    unfolding hms' by blast+
  with parse_fields[OF f(2-7), of h mi sc] whole show ?thesis
    unfolding f(8) hms' by simp
qed

end
