(* ===== verification/RunCommands.thy ===== *)
theory RunCommands
  imports Runner TimeFormat
begin

text \<open>
  The commands that run, stop and hold backups (\<open>internal/cli/backup.go\<close>, \<open>cancel.go\<close>,
  \<open>lifecycle.go\<close>): triggering a backup and waiting for it, cancelling the runs in flight,
  waiting for one, and suspending or resuming a resource. They start from the resolved
  target; flag parsing is left out.
\<close>

section \<open>Triggering a backup\<close>

definition commandPollInterval :: duration where "commandPollInterval = Second"
definition defaultWaitTimeout :: duration where "defaultWaitTimeout = 2 * Hour"
definition ErrTriggerSkipped :: goerr where "ErrTriggerSkipped = Sentinel ''backup was not started''"
definition ErrBackupFailed :: goerr where "ErrBackupFailed = Sentinel ''backup failed''"

text \<open>\<open>time.Time.Truncate(time.Second)\<close>.\<close>

definition truncate_second :: "time \<Rightarrow> time" where
  "truncate_second t = Unix t * Second"

definition annotate_trigger :: "time \<Rightarrow> scheduled_backup \<Rightarrow> scheduled_backup" where
  "annotate_trigger t sb = sb\<lparr>sb_Meta := (sb_Meta sb)\<lparr>om_Annotations :=
     map_put AnnotationTriggerAt (FormatRFC3339 t) (om_Annotations (sb_Meta sb))\<rparr>\<rparr>"

definition triggerBackup :: "'w cli \<Rightarrow> scheduled_backup \<Rightarrow> time \<Rightarrow> ('w, 'o, scheduled_backup) comp" where
  "triggerBackup c sb t =
     (let new = annotate_trigger t sb
      in call (PatchBackup sb new) (c_PatchBackup c sb new))"

definition trigger_acked :: "'w cli \<Rightarrow> nsname \<Rightarrow> time \<Rightarrow> ('w, string) condition_fun" where
  "trigger_acked c key t =
     bind_go (look (k_GetBackup (c_Kube c) key)) (\<lambda>latest.
     case bt_LastTriggerTime (sb_Status latest) of
       None \<Rightarrow> ret False
     | Some acked \<Rightarrow>
         if acked < t then ret False
         else bind_go (capture (bt_LastTriggerJob (sb_Status latest))) (\<lambda>_. ret True))"

definition awaitTrigger :: "'w cli \<Rightarrow> scheduled_backup \<Rightarrow> time \<Rightarrow> duration \<Rightarrow> ('w, 'o, string) comp" where
  "awaitTrigger c sb t timeout =
     bind_go (attempt (poll_from (c_PollName c commandPollInterval timeout) ''''
       (trigger_acked c (NN (sb_Namespace sb) (sb_Name sb)) t))) (\<lambda>res.
     case res of
       Inl e \<Rightarrow> fail (Errorf ''waiting for the operator to start the backup: %w'' [Err e])
     | Inr name \<Rightarrow>
         if name = '''' then
           fail (Errorf (''%w: a backup is already running and concurrencyPolicy is Forbid; '' @
             ''wait for it to finish, or use `corg status %s` to see it'') [Err ErrTriggerSkipped, Str (sb_Name sb)])
         else ret name)"

definition pods_running :: "'w cli \<Rightarrow> nsname \<Rightarrow> ('w, job) condition_fun" where
  "pods_running c key =
     bind_go (attempt (look (k_GetJob (c_Kube c) key))) (\<lambda>got.
     case got of
       Inl e \<Rightarrow> if IsNotFound e then ret False else fail e
     | Inr j \<Rightarrow>
         bind_go (capture j) (\<lambda>_.
         bind_go (look (podsForJob c j)) (\<lambda>pods.
         ret (list_ex (\<lambda>p. pod_Phase p \<noteq> PodPending) pods))))"

definition followJobLogs :: "'w cli \<Rightarrow> nsname \<Rightarrow> duration \<Rightarrow> ('w, 'o, unit) comp" where
  "followJobLogs c key timeout =
     bind_go (attempt (poll_from (c_PollJob c commandPollInterval timeout) zero_job (pods_running c key))) (\<lambda>res.
     case res of
       Inl e \<Rightarrow> fail (Errorf ''waiting for the backup pod: %w'' [Err e])
     | Inr j \<Rightarrow> streamJobLogs c j)"

definition awaitJob ::
  "'w cli \<Rightarrow> scheduled_backup \<Rightarrow> string \<Rightarrow> bool \<Rightarrow> duration \<Rightarrow> ('w, 'o, unit) comp" where
  "awaitJob c sb name follow timeout =
     (let key = NN (sb_Namespace sb) name
      in bind_go (if follow then followJobLogs c key timeout else ret ()) (\<lambda>_.
         bind_go (attempt (poll_from (c_PollJob c commandPollInterval timeout) zero_job (job_finished c key))) (\<lambda>res.
         case res of
           Inl e \<Rightarrow> fail (Errorf ''waiting for job/%s: %w'' [Str name, Err e])
         | Inr j \<Rightarrow>
             if 0 < jst_Failed (job_Status j) then
               bind_go (say c Out ''job/%s failed'' [Str name]) (\<lambda>_.
               fail (Errorf ''%w: see `corg logs %s`'' [Err ErrBackupFailed, Str (sb_Name sb)]))
             else say c Out ''job/%s succeeded'' [Str name])))"

definition warn_not_ready :: "'w cli \<Rightarrow> scheduled_backup \<Rightarrow> ('w, 'o, printer) comp" where
  "warn_not_ready c sb =
     (case FindCondition (bt_Conditions (sb_Status sb)) ScheduledBackupConditionReady of
        None \<Rightarrow> p_printf c Out ''! this backup has not been reconciled yet; the run will start once it is'' [] newPrinter
      | Some cond \<Rightarrow>
          if cond_Status cond \<noteq> ConditionTrue then
            p_printf c Out ''! this backup is not ready (%s); the run will start once it is''
              [Str (cond_Reason cond)] newPrinter
          else ret newPrinter)"

definition runBackupNow ::
  "'w cli \<Rightarrow> scheduled_backup \<Rightarrow> bool \<Rightarrow> bool \<Rightarrow> duration \<Rightarrow> ('w, 'o, unit) comp" where
  "runBackupNow c sb waitForIt follow timeout =
     bind_go (warn_not_ready c sb) (\<lambda>p.
     bind_go (tick (k_Now (c_Kube c))) (\<lambda>now.
     let t = truncate_second now
     in bind_go (triggerBackup c sb t) (\<lambda>sb.
        bind_go (p_printf c Out ''triggered backup of scheduledbackup/%s'' [Str (sb_Name sb)] p) (\<lambda>p.
        if \<not> waitForIt then
          bind_go (p_printf c Out ''  the operator will create job/%s'' [Str (ManualJobName sb t)] p) p_Err
        else
          bind_go (p_Err p) (\<lambda>_.
          bind_go (awaitTrigger c sb t timeout) (\<lambda>name.
          bind_go (p_printf c Out ''  started job/%s'' [Str name] p) (\<lambda>p.
          bind_go (p_Err p) (\<lambda>_.
          awaitJob c sb name follow timeout))))))))"

section \<open>Cancelling and waiting\<close>

definition jobIsRunning :: "job \<Rightarrow> bool" where
  "jobIsRunning j \<longleftrightarrow> jst_Succeeded (job_Status j) = 0 \<and> jst_Failed (job_Status j) = 0"

fun cancel_jobs :: "'w cli \<Rightarrow> job list \<Rightarrow> printer \<Rightarrow> nat \<Rightarrow> ('w, 'o, printer \<times> nat) comp" where
  "cancel_jobs c [] p n = ret (p, n)"
| "cancel_jobs c (j # js) p n =
     (if \<not> jobIsRunning j then cancel_jobs c js p n
      else
        bind_go (attempt (call (DeleteJob j) (k_DeleteJob (c_Kube c) j))) (\<lambda>res.
        bind_go (case res of
            Inr _ \<Rightarrow> ret ()
          | Inl e \<Rightarrow> if \<not> IsNotFound e then fail (Errorf ''deleting job/%s: %w'' [Str (om_Name (job_Meta j)), Err e])
                    else ret ()) (\<lambda>_.
        bind_go (p_printf c Out ''cancelled job/%s'' [Str (om_Name (job_Meta j))] p) (\<lambda>p.
        cancel_jobs c js p (Suc n)))))"

definition runCancel :: "'w cli \<Rightarrow> scheduled_backup \<Rightarrow> ('w, 'o, unit) comp" where
  "runCancel c sb =
     bind_go (BackupJobs c sb) (\<lambda>jobs.
     bind_go (cancel_jobs c jobs newPrinter 0) (\<lambda>(p, cancelled).
     if cancelled = 0 then
       bind_go (p_printf c Out ''no backup is running for scheduledbackup/%s'' [Str (sb_Name sb)] p) p_Err
     else
       bind_go (p_printf c Out
         ''restic may have left a lock behind; if the next run reports one, use: corg unlock'' [] p) p_Err))"

text \<open>A Job that is not found any more ends the wait, with what was last seen of it.\<close>

definition job_over :: "'w cli \<Rightarrow> nsname \<Rightarrow> ('w, job) condition_fun" where
  "job_over c key =
     bind_go (attempt (look (k_GetJob (c_Kube c) key))) (\<lambda>got.
     case got of
       Inl e \<Rightarrow> if IsNotFound e then ret True else fail e
     | Inr j \<Rightarrow> bind_go (capture j) (\<lambda>_. ret (\<not> jobIsRunning j)))"

definition runWait :: "'w cli \<Rightarrow> scheduled_backup \<Rightarrow> duration \<Rightarrow> ('w, 'o, unit) comp" where
  "runWait c sb timeout =
     bind_go (BackupJobs c sb) (\<lambda>jobs.
     case find jobIsRunning jobs of
       None \<Rightarrow> say c Out ''no backup is running for scheduledbackup/%s'' [Str (sb_Name sb)]
     | Some running \<Rightarrow>
         let name = om_Name (job_Meta running)
         in bind_go (say c Out ''waiting for job/%s'' [Str name]) (\<lambda>_.
            bind_go (attempt (poll_from (c_PollJob c commandPollInterval timeout) zero_job
              (job_over c (key_of (job_Meta running))))) (\<lambda>res.
            case res of
              Inl e \<Rightarrow> fail (Errorf ''waiting for job/%s: %w'' [Str name, Err e])
            | Inr final \<Rightarrow>
                if 0 < jst_Failed (job_Status final) then
                  bind_go (say c Out ''job/%s failed'' [Str name]) (\<lambda>_.
                  fail (Errorf ''%w: see `corg logs %s`'' [Err ErrBackupFailed, Str (sb_Name sb)]))
                else say c Out ''job/%s finished'' [Str name])))"

section \<open>Suspending and resuming\<close>

definition tg_suspended :: "target \<Rightarrow> bool" where
  "tg_suspended t =
     (case t of RepositoryTarget r \<Rightarrow> rs_Suspend (rp_Spec r) | BackupTarget sb \<Rightarrow> bs_Suspend (sb_Spec sb))"

definition suspend_repository :: "bool \<Rightarrow> repository \<Rightarrow> repository" where
  "suspend_repository b r = r\<lparr>rp_Spec := (rp_Spec r)\<lparr>rs_Suspend := b\<rparr>\<rparr>"

definition suspend_backup :: "bool \<Rightarrow> scheduled_backup \<Rightarrow> scheduled_backup" where
  "suspend_backup b sb = sb\<lparr>sb_Spec := (sb_Spec sb)\<lparr>bs_Suspend := b\<rparr>\<rparr>"

definition patch_suspend :: "'w cli \<Rightarrow> target \<Rightarrow> bool \<Rightarrow> ('w, 'o, unit) comp" where
  "patch_suspend c t b =
     (case t of
        RepositoryTarget r \<Rightarrow>
          bind_go (call (PatchRepository r (suspend_repository b r))
            (k_PatchRepository (c_Kube c) r (suspend_repository b r))) (\<lambda>_. ret ())
      | BackupTarget sb \<Rightarrow>
          bind_go (call (PatchBackup sb (suspend_backup b sb))
            (c_PatchBackup c sb (suspend_backup b sb))) (\<lambda>_. ret ()))"

definition runSetSuspend ::
  "'w cli \<Rightarrow> string \<Rightarrow> string \<Rightarrow> bool \<Rightarrow> string \<Rightarrow> ('w, 'o, unit) comp" where
  "runSetSuspend c ns arg suspend past =
     bind_go (Resolve c ns arg) (\<lambda>t.
     let label = kind_text (tg_Kind t) @ ''/'' @ tg_Name t
     in if tg_suspended t = suspend then say c Out ''%s is already %s'' [Str label, Str past]
        else bind_go (patch_suspend c t suspend) (\<lambda>_. say c Out ''%s %s'' [Str label, Str past]))"

end
