(* ===== verification/RunCommandContracts.thy ===== *)
theory RunCommandContracts
  imports RunCommands RunnerContracts BackupContracts
begin

text \<open>
  What the commands that run backups promise, together with the operator: the annotation of
  a trigger is read back, the operator's answer reaches the command, the reported outcome is
  the outcome of the Job, cancelling stops exactly the runs of the backup, and suspending is
  one patch.
\<close>

section \<open>The annotation\<close>

lemma annotate_fields [simp]:
  "sb_Spec (annotate_trigger t sb) = sb_Spec sb" "sb_Status (annotate_trigger t sb) = sb_Status sb"
  "om_Name (sb_Meta (annotate_trigger t sb)) = sb_Name sb"
  "om_Namespace (sb_Meta (annotate_trigger t sb)) = sb_Namespace sb"
  "trigger_annotation (annotate_trigger t sb) = FormatRFC3339 t"
  by (simp_all add: annotate_trigger_def lookup_str_def)

lemma annotate_name [simp]: "ManualJobName (annotate_trigger t sb) u = ManualJobName sb u"
  by (simp add: ManualJobName_def)

lemma truncated_second: "0 \<le> now \<Longrightarrow> 0 \<le> truncate_second now \<and> truncate_second now mod Second = 0 \<and> truncate_second now \<le> now"
  using zmod_le_nonneg_dividend[of now Second]
  by (simp add: truncate_second_def Unix_def pos_imp_zdiv_nonneg_iff minus_mod_eq_div_mult[symmetric])

lemma annotation_parses:
  assumes "0 \<le> now" "now < 253402300800 * Second"
  shows "ParseRFC3339 (FormatRFC3339 (truncate_second now)) = Some (truncate_second now)"
  using timestamps_survive_the_annotation[of "truncate_second now"] truncated_second[OF assms(1)] assms(2)
  by simp

text \<open>
  What the command writes is what the operator reads: a trigger is one patch of the
  ScheduledBackup that sets one annotation and leaves the other annotations, the spec and
  the status alone, and the operator's parser gets from the annotation the very second the
  command was started in, for every clock from 1970 to the year 9999.
\<close>

lemma triggers_are_read_back:
  assumes "0 \<le> now" "now < 253402300800 * Second"
    and "triggerBackup c sb (truncate_second now) s = (res, u)"
  shows "\<exists>new. map en_Effect (st_Log u) = map en_Effect (st_Log s) @ [PatchBackup sb new] \<and>
    ParseRFC3339 (trigger_annotation new) = Some (truncate_second now) \<and>
    map_of (om_Annotations (sb_Meta new)) =
      (map_of (om_Annotations (sb_Meta sb)))(AnnotationTriggerAt \<mapsto> FormatRFC3339 (truncate_second now)) \<and>
    sb_Spec new = sb_Spec sb \<and> sb_Status new = sb_Status sb \<and> key_of (sb_Meta new) = key_of (sb_Meta sb)"
proof -
  let ?new = "annotate_trigger (truncate_second now) sb"
  have "map en_Effect (st_Log u) = map en_Effect (st_Log s) @ [PatchBackup sb ?new]"
    using assms(3) by (auto simp: triggerBackup_def call_def Let_def split: prod.splits)
  moreover have "map_of (om_Annotations (sb_Meta ?new)) =
      (map_of (om_Annotations (sb_Meta sb)))(AnnotationTriggerAt \<mapsto> FormatRFC3339 (truncate_second now))"
    "key_of (sb_Meta ?new) = key_of (sb_Meta sb)"
    by (simp_all add: annotate_trigger_def key_of_def)
  ultimately show ?thesis using annotation_parses[OF assms(1,2)] by auto
qed

lemma triggers_are_read_back_witness:
  "\<exists>new. map en_Effect (st_Log (snd (triggerBackup bare_cli sample_backup (truncate_second 1704067200500000000) (start () ())))) =
      [PatchBackup sample_backup new] \<and>
    ParseRFC3339 (trigger_annotation new) = Some 1704067200000000000"
proof -
  have "truncate_second 1704067200500000000 = 1704067200000000000"
    by (simp add: truncate_second_def Unix_def)
  with triggers_are_read_back[OF _ _ prod.collapse[symmetric],
      of 1704067200500000000 bare_cli sample_backup "start () ()"]
  show ?thesis by (auto simp: start_log)
qed

section \<open>The operator's answer\<close>

definition not_handled :: "scheduled_backup \<Rightarrow> time \<Rightarrow> bool" where
  "not_handled sb t \<longleftrightarrow> (case bt_LastTriggerTime (sb_Status sb) of None \<Rightarrow> True | Some prev \<Rightarrow> prev < t)"

text \<open>Whether the operator refuses a trigger because another run is in flight.\<close>

definition refused :: "scheduled_backup \<Rightarrow> observed_run list \<Rightarrow> time \<Rightarrow> bool" where
  "refused sb runs t \<longleftrightarrow> bs_ConcurrencyPolicy (sb_Spec sb) = ForbidConcurrent \<and>
     activeRun runs \<noteq> '''' \<and> activeRun runs \<noteq> ManualJobName sb t"

lemma startManualJob_records:
  assumes "controller_laws (br_Lib r)"
  shows "wp (startManualJob r repo t)
    (\<lambda>_ u. bt_LastTriggerTime (sb_Status (st_Object u)) = Some t \<and>
      bt_LastTriggerJob (sb_Status (st_Object u)) = ManualJobName (st_Object s) t) (\<lambda>_ _. True) s"
  unfolding startManualJob_def record_trigger_def
  by (auto simp: wp_simps Let_def manual_job_name_kept[OF assms] split: prod.splits sum.splits)

lemma reconcileTrigger_records:
  assumes "controller_laws (br_Lib r)" "ParseRFC3339 (trigger_annotation (st_Object s)) = Some t"
    and "not_handled (st_Object s) t"
  shows "wp (reconcileTrigger r repo runs)
    (\<lambda>_ u. bt_LastTriggerTime (sb_Status (st_Object u)) = Some t \<and>
      bt_LastTriggerJob (sb_Status (st_Object u)) =
        (if refused (st_Object s) runs t then '''' else ManualJobName (st_Object s) t)) (\<lambda>_ _. True) s"
proof -
  have "trigger_annotation (st_Object s) \<noteq> ''''" using assms(2) by auto
  with assms(2,3) startManualJob_records[OF assms(1), of repo t s] show ?thesis
    unfolding reconcileTrigger_def record_trigger_def
    by (auto simp: wp_simps Let_def refused_def not_handled_def split: option.splits)
qed

lemma polled_at_once:
  "polled cond s r t \<Longrightarrow> cond s = (Inr True, u) \<Longrightarrow> r = Inr () \<and> t = u"
  by (erule polled.cases) auto

lemma trigger_acked_now:
  assumes "k_GetBackup (c_Kube c) key w = (Inr latest, w')" "bt_LastTriggerTime (sb_Status latest) = Some t"
  shows "trigger_acked c key t (w, v) = (Inr True, (w', bt_LastTriggerJob (sb_Status latest)))"
  using assms by (simp add: trigger_acked_def bind_go_def look_def capture_def ret_def)

text \<open>
  C19. Triggering is a handshake: when the operator has reconciled the annotated object, and
  its status has been stored (times in whole seconds), the waiting command learns the
  outcome at its first look. It is told the name of the Job the operator has started, which
  is the name the command announces when it does not wait; or, if the policy forbids it and
  another run is in flight, it ends with the error that the backup was not started.
\<close>

theorem triggering_is_a_handshake:
  assumes "controller_laws (br_Lib r)" "0 \<le> now" "now < 253402300800 * Second"
    and "st_Object s = annotate_trigger (truncate_second now) sb" "not_handled sb (truncate_second now)"
    and "reconcileTrigger r repo runs s = (Inr (), u)"
    and "poll_law (c_PollName c)"
    and "k_GetBackup (c_Kube c) (NN (sb_Namespace sb) (sb_Name sb)) (st_World v) = (Inr latest, w)"
    and "bt_LastTriggerTime (sb_Status latest) =
      map_option stored_time (bt_LastTriggerTime (sb_Status (st_Object u)))"
    and "bt_LastTriggerJob (sb_Status latest) = bt_LastTriggerJob (sb_Status (st_Object u))"
  shows "fst (awaitTrigger c sb (truncate_second now) timeout v) =
    (if refused sb runs (truncate_second now) then
       Inl (Errorf (''%w: a backup is already running and concurrencyPolicy is Forbid; '' @
         ''wait for it to finish, or use `corg status %s` to see it'') [Err ErrTriggerSkipped, Str (sb_Name sb)])
     else Inr (ManualJobName sb (truncate_second now)))"
proof -
  let ?t = "truncate_second now"
  have parsed: "ParseRFC3339 (trigger_annotation (st_Object s)) = Some ?t"
    using assms(4) annotation_parses[OF assms(2,3)] by simp
  have "refused (st_Object s) runs ?t = refused sb runs ?t" "not_handled (st_Object s) ?t"
    using assms(4,5) by (simp_all add: refused_def not_handled_def)
  with wp_result[OF reconcileTrigger_records[OF assms(1) parsed] assms(6)] assms(4)
  have "bt_LastTriggerTime (sb_Status (st_Object u)) = Some ?t"
    "bt_LastTriggerJob (sb_Status (st_Object u)) = (if refused sb runs ?t then '''' else ManualJobName sb ?t)"
    by simp_all
  moreover have "stored_time ?t = ?t"
    by (simp add: stored_time_def truncate_second_def Unix_def)
  ultimately have latest: "bt_LastTriggerTime (sb_Status latest) = Some ?t"
    "bt_LastTriggerJob (sb_Status latest) = (if refused sb runs ?t then '''' else ManualJobName sb ?t)"
    using assms(9,10) by simp_all
  obtain r' w' x where p: "c_PollName c commandPollInterval timeout
      (trigger_acked c (NN (sb_Namespace sb) (sb_Name sb)) ?t) (st_World v, '''') = (r', (w', x))"
    by (metis prod.collapse)
  with assms(7) have "polled (trigger_acked c (NN (sb_Namespace sb) (sb_Name sb)) ?t) (st_World v, '''') r' (w', x)"
    by (auto simp: poll_law_def)
  from polled_at_once[OF this trigger_acked_now[OF assms(8) latest(1)]] latest(2)
  have "r' = Inr ()" "x = (if refused sb runs ?t then '''' else ManualJobName sb ?t)" by auto
  moreover have "ManualJobName sb ?t \<noteq> ''''"
    using ManualJobName_form[of sb ?t] by auto
  ultimately show ?thesis
    using p by (auto simp: awaitTrigger_def bind_go_def attempt_def poll_from_def ask_def fail_def ret_def)
qed

definition answered_backup :: scheduled_backup where
  "answered_backup =
     (let sb = st_Object (snd (trigger_run ''2024-01-01T00:00:00Z''))
      in sb\<lparr>sb_Status := (sb_Status sb)\<lparr>bt_LastTriggerTime :=
        map_option stored_time (bt_LastTriggerTime (sb_Status sb))\<rparr>\<rparr>)"

definition answering_cli :: "unit cli" where
  "answering_cli = plain_cli (empty_cluster\<lparr>k_GetBackup := (\<lambda>_. ret answered_backup)\<rparr>)"

theorem triggering_is_a_handshake_witness:
  "fst (awaitTrigger answering_cli sample_backup (truncate_second 1704067200500000000) Hour (start () ())) =
     Inr (ManualJobName sample_backup (truncate_second 1704067200500000000))"
proof -
  let ?now = "1704067200500000000 :: int"
  have t: "truncate_second ?now = 1704067200000000000" by (simp add: truncate_second_def Unix_def)
  have "FormatRFC3339 1704067200000000000 = ''2024-01-01T00:00:00Z''" by code_simp
  then have same: "triggered_backup ''2024-01-01T00:00:00Z'' = annotate_trigger (truncate_second ?now) sample_backup"
    by (simp add: t annotate_trigger_def triggered_backup_def sample_backup_def map_put_def new_meta_def)
  have "fst (awaitTrigger answering_cli sample_backup (truncate_second ?now) Hour (start () ())) =
    (if refused sample_backup [] (truncate_second ?now) then
       Inl (Errorf (''%w: a backup is already running and concurrencyPolicy is Forbid; '' @
         ''wait for it to finish, or use `corg status %s` to see it'') [Err ErrTriggerSkipped, Str (sb_Name sample_backup)])
     else Inr (ManualJobName sample_backup (truncate_second ?now)))"
  proof (rule triggering_is_a_handshake)
    show "controller_laws (br_Lib (plain_backups empty_cluster))" by (simp add: plain_backups_def plain_lib_laws)
    show "st_Object (start (triggered_backup ''2024-01-01T00:00:00Z'') ()) = annotate_trigger (truncate_second ?now) sample_backup"
      by (simp add: same start_def)
    show "trigger_run ''2024-01-01T00:00:00Z'' = (Inr (), snd (trigger_run ''2024-01-01T00:00:00Z''))"
      using trigger_run_result by (metis prod.collapse)
    show "poll_law (c_PollName answering_cli)"
      using poll_upto_law[of id 3] by (simp add: answering_cli_def plain_cli_def)
    show "k_GetBackup (c_Kube answering_cli) (NN (sb_Namespace sample_backup) (sb_Name sample_backup))
        (st_World (start () ())) = (Inr answered_backup, ())"
      by (simp add: answering_cli_def plain_cli_def ret_def start_def)
  qed (simp_all add: not_handled_def sample_backup_def answered_backup_def Let_def)
  then show ?thesis by (simp add: refused_def)
qed

section \<open>The reported outcome\<close>

lemma polled_name:
  assumes "polled (trigger_acked c key t) s r u"
  shows "case r of Inl _ \<Rightarrow> True
    | Inr _ \<Rightarrow> \<exists>w latest acked. fst (k_GetBackup (c_Kube c) key w) = Inr latest \<and>
        bt_LastTriggerTime (sb_Status latest) = Some acked \<and> t \<le> acked \<and>
        bt_LastTriggerJob (sb_Status latest) = snd u"
proof (rule polled_invariant[OF assms, where I = "\<lambda>_. True"], goal_cases)
  case (3 w c' w' c'')
  obtain x v where g: "k_GetBackup (c_Kube c) key w = (x, v)" by (cases "k_GetBackup (c_Kube c) key w")
  show ?case
  proof (cases x)
    case (Inl e)
    with 3(2) g show ?thesis by (simp add: trigger_acked_def bind_go_def look_def)
  next
    case (Inr b)
    with 3(2) g have "\<exists>acked. bt_LastTriggerTime (sb_Status b) = Some acked \<and> t \<le> acked \<and>
        bt_LastTriggerJob (sb_Status b) = c''"
      by (cases "bt_LastTriggerTime (sb_Status b)")
        (auto simp: trigger_acked_def bind_go_def look_def capture_def ret_def split: if_splits)
    with g Inr show ?thesis by (metis fst_conv snd_conv)
  qed
qed auto

text \<open>A condition that holds of every outcome.\<close>

lemma wp_always: "(\<And>a t. Q a t) \<Longrightarrow> (\<And>e t. E e t) \<Longrightarrow> wp m Q E s"
  by (auto simp: wp_def split: prod.splits sum.splits)

lemma wp_skip: "(\<And>a t. wp (f a) Q E t) \<Longrightarrow> (\<And>e t. E e t) \<Longrightarrow> wp (bind_go m f) Q E s"
  unfolding wp_bind by (rule wp_always)

lemma awaitTrigger_truth:
  assumes "poll_law (c_PollName c)"
  shows "wp (awaitTrigger c sb t timeout)
    (\<lambda>name _. \<exists>w latest acked. fst (k_GetBackup (c_Kube c) (NN (sb_Namespace sb) (sb_Name sb)) w) = Inr latest \<and>
        bt_LastTriggerTime (sb_Status latest) = Some acked \<and> t \<le> acked \<and>
        bt_LastTriggerJob (sb_Status latest) = name \<and> name \<noteq> '''') (\<lambda>_ _. True) s"
  unfolding awaitTrigger_def wp_bind wp_attempt
  by (rule wp_poll_from[OF assms]) (auto simp: wp_simps dest!: polled_name split: sum.splits)

lemma awaitJob_truth:
  assumes "poll_law (c_PollJob c)"
  shows "wp (awaitJob c sb name follow timeout)
    (\<lambda>_ _. \<exists>w j. seen c (NN (sb_Namespace sb) name) w = Inr j \<and> 0 < jst_Succeeded (job_Status j) \<and>
       \<not> 0 < jst_Failed (job_Status j)) (\<lambda>_ _. True) s"
proof -
  let ?Q = "\<lambda>_ _. \<exists>w j. seen c (NN (sb_Namespace sb) name) w = Inr j \<and> 0 < jst_Succeeded (job_Status j) \<and>
       \<not> 0 < jst_Failed (job_Status j)"
  have "wp (bind_go (attempt (poll_from (c_PollJob c commandPollInterval timeout) zero_job
      (job_finished c (NN (sb_Namespace sb) name)))) (\<lambda>res. case res of
           Inl e \<Rightarrow> fail (Errorf ''waiting for job/%s: %w'' [Str name, Err e])
         | Inr j \<Rightarrow>
             if 0 < jst_Failed (job_Status j) then
               bind_go (say c Out ''job/%s failed'' [Str name]) (\<lambda>_.
               fail (Errorf ''%w: see `corg logs %s`'' [Err ErrBackupFailed, Str (sb_Name sb)]))
             else say c Out ''job/%s succeeded'' [Str name])) ?Q (\<lambda>_ _. True) u" for u
  proof (subst wp_bind, subst wp_attempt, rule wp_poll_from[OF assms], goal_cases)
    case (1 r w j)
    have "wp (bind_go (say c Out ''job/%s failed'' [Str name]) (\<lambda>_. fail e)) ?Q (\<lambda>_ _. True) u" for u e
      unfolding wp_bind by (rule wp_always) (auto simp: wp_fail)
    note told = this
    show ?case
    proof (cases "0 < jst_Failed (job_Status j)")
      case True
      with told show ?thesis by (cases r) (simp_all add: wp_fail)
    next
      case False
      with poll_job_finished[OF 1] show ?thesis
        by (cases r) (auto simp: wp_fail finished_def intro!: wp_always)
    qed
  qed
  then show ?thesis
    unfolding awaitJob_def Let_def by (rule wp_skip) simp
qed

text \<open>The operator has acknowledged a trigger not before \<open>t\<close> with the name of a Job, and that
  Job was seen succeeded and not failed.\<close>

definition backup_succeeded :: "'w cli \<Rightarrow> scheduled_backup \<Rightarrow> time \<Rightarrow> bool" where
  "backup_succeeded c sb t \<longleftrightarrow>
     (\<exists>w latest acked. fst (k_GetBackup (c_Kube c) (NN (sb_Namespace sb) (sb_Name sb)) w) = Inr latest \<and>
        bt_LastTriggerTime (sb_Status latest) = Some acked \<and> t \<le> acked \<and>
        (\<exists>w' j. seen c (NN (sb_Namespace sb) (bt_LastTriggerJob (sb_Status latest))) w' = Inr j \<and>
           0 < jst_Succeeded (job_Status j) \<and> \<not> 0 < jst_Failed (job_Status j)))"

lemma backup_succeeded_key:
  "key_of (sb_Meta sb') = key_of (sb_Meta sb) \<Longrightarrow> backup_succeeded c sb' t = backup_succeeded c sb t"
  by (simp add: backup_succeeded_def key_of_def)

lemma awaited_backup_succeeded:
  assumes "poll_law (c_PollName c)" "poll_law (c_PollJob c)"
  shows "wp (bind_go (awaitTrigger c sb t timeout) (\<lambda>name.
      bind_go (p_printf c Out ''  started job/%s'' [Str name] p) (\<lambda>p.
      bind_go (p_Err p) (\<lambda>_. awaitJob c sb name follow timeout))))
    (\<lambda>_ _. backup_succeeded c sb t) (\<lambda>_ _. True) s"
  unfolding wp_bind[of "awaitTrigger c sb t timeout"]
proof (rule wp_mono[OF awaitTrigger_truth[OF assms(1)]], goal_cases)
  case (1 name x)
  then have "wp (awaitJob c sb name follow timeout) (\<lambda>_ _. backup_succeeded c sb t) (\<lambda>_ _. True) y" for y
    by (intro wp_mono[OF awaitJob_truth[OF assms(2)]]) (unfold backup_succeeded_def, blast+)
  then show ?case by (intro wp_skip) auto
qed simp

text \<open>
  C20. The outcome the command reports is the outcome of the backup: when waiting for a
  triggered backup ends without an error, the operator has acknowledged a trigger of that
  second or later under a Job name, and exactly that Job was seen succeeded and not failed.
\<close>

theorem reported_backups_succeeded:
  fixes c :: "'w cli" and s :: "('w, 'o) st"
  assumes "poll_law (c_PollName c)" "poll_law (c_PollJob c)"
    and "\<And>base new w. case fst (c_PatchBackup c base new w) of Inl _ \<Rightarrow> True
      | Inr sb' \<Rightarrow> key_of (sb_Meta sb') = key_of (sb_Meta new)"
    and "runBackupNow c sb True follow timeout s = (Inr (), u)"
  shows "\<exists>w. backup_succeeded c sb (truncate_second (fst (k_Now (c_Kube c) w)))"
proof -
  let ?claim = "\<exists>w. backup_succeeded c sb (truncate_second (fst (k_Now (c_Kube c) w)))"
  have patched: "wp (triggerBackup c sb t) (\<lambda>sb' _. key_of (sb_Meta sb') = key_of (sb_Meta sb)) (\<lambda>_ _. True) v" for t v
    using assms(3)[where base = sb and new = "annotate_trigger t sb" and w = "st_World v"]
    by (auto simp: triggerBackup_def wp_call key_of_def Let_def split: prod.splits sum.splits)
  have told: "wp (bind_go (awaitTrigger c sb' (truncate_second (fst (k_Now (c_Kube c) w))) timeout) (\<lambda>name.
      bind_go (p_printf c Out ''  started job/%s'' [Str name] p) (\<lambda>p.
      bind_go (p_Err p) (\<lambda>_. awaitJob c sb' name follow timeout)))) (\<lambda>_ _. ?claim) (\<lambda>_ _. True) v"
    if "key_of (sb_Meta sb') = key_of (sb_Meta sb)" for sb' w p v
    by (rule wp_mono[OF awaited_backup_succeeded[OF assms(1,2)]])
      (auto simp: backup_succeeded_key[OF that])
  have "wp (runBackupNow c sb True follow timeout) (\<lambda>_ _. ?claim) (\<lambda>_ _. True) s"
    unfolding runBackupNow_def Let_def
  proof (rule wp_skip)
    fix p and v :: "('w, 'o) st"
    obtain now w where now: "k_Now (c_Kube c) (st_World v) = (now, w)"
      by (cases "k_Now (c_Kube c) (st_World v)")
    show "wp (bind_go (tick (k_Now (c_Kube c))) (\<lambda>now. bind_go (triggerBackup c sb (truncate_second now)) (\<lambda>sb.
        bind_go (p_printf c Out ''triggered backup of scheduledbackup/%s'' [Str (sb_Name sb)] p) (\<lambda>p.
        if \<not> True then
          bind_go (p_printf c Out ''  the operator will create job/%s'' [Str (ManualJobName sb (truncate_second now))] p) p_Err
        else
          bind_go (p_Err p) (\<lambda>_.
          bind_go (awaitTrigger c sb (truncate_second now) timeout) (\<lambda>name.
          bind_go (p_printf c Out ''  started job/%s'' [Str name] p) (\<lambda>p.
          bind_go (p_Err p) (\<lambda>_.
          awaitJob c sb name follow timeout)))))))) (\<lambda>_ _. ?claim) (\<lambda>_ _. True) v"
      unfolding wp_bind[of "tick (k_Now (c_Kube c))"] wp_tick now prod.case
      unfolding wp_bind[of "triggerBackup c sb (truncate_second now)"]
    proof (rule wp_mono[OF patched], goal_cases)
      case (1 sb' x)
      note rest = told[OF this, of "st_World v", unfolded now fst_conv]
      show ?case
        by (rule wp_skip) (simp_all only: not_True_eq_False if_False, rule wp_skip, rule rest, simp)
    qed simp
  qed simp
  with assms(4) show ?thesis by (simp add: wp_def)
qed

definition done_cli :: "unit cli" where
  "done_cli = plain_cli (empty_cluster\<lparr>
     k_GetBackup := (\<lambda>_. ret (sample_backup\<lparr>sb_Status := (sb_Status sample_backup)\<lparr>
       bt_LastTriggerTime := Some 0, bt_LastTriggerJob := ''nightly-manual-0''\<rparr>\<rparr>)),
     k_GetJob := (\<lambda>_. ret (zero_job\<lparr>job_Status := new_job_status\<lparr>jst_Succeeded := 1\<rparr>\<rparr>))\<rparr>)"

theorem reported_backups_succeeded_witness:
  "\<exists>w. backup_succeeded done_cli sample_backup (truncate_second (fst (k_Now (c_Kube done_cli) w)))"
proof (rule reported_backups_succeeded)
  have "error_of (fst (runBackupNow done_cli sample_backup True False Hour (start () ()))) = None" by code_simp
  then show "runBackupNow done_cli sample_backup True False Hour (start () ()) =
      (Inr (), snd (runBackupNow done_cli sample_backup True False Hour (start () ())))"
    by (auto simp: error_of_def prod_eq_iff split: sum.splits)
qed (use poll_upto_law[of id 3] in \<open>simp_all add: done_cli_def plain_cli_def ret_def\<close>)

section \<open>Cancelling\<close>

text \<open>A Job is one of the backup's own runs if its controller is the backup or its CronJob.\<close>

definition own_run :: "'w cli \<Rightarrow> scheduled_backup \<Rightarrow> job \<Rightarrow> bool" where
  "own_run c sb j \<longleftrightarrow> owned_by (c_Lib c) [om_UID (sb_Meta sb)] j \<or>
     (\<exists>w cj. fst (k_GetCronJob (c_Kube c) (NN (sb_Namespace sb) (CronJobName sb)) w) = Inr cj \<and>
        owned_by (c_Lib c) [om_UID (cj_Meta cj)] j)"

lemma BackupJobs_own:
  "wp (BackupJobs c sb) (\<lambda>jobs t. list_all (own_run c sb) jobs \<and> st_Log t = st_Log s) (\<lambda>_ t. st_Log t = st_Log s) s"
proof -
  have own: "owned_by (c_Lib c) [om_UID (sb_Meta sb)] j \<Longrightarrow> own_run c sb j" for j
    by (simp add: own_run_def)
  have own_cron: "owned_by (c_Lib c) [om_UID (sb_Meta sb), om_UID (cj_Meta cj)] j \<Longrightarrow>
      k_GetCronJob (c_Kube c) (NN (sb_Namespace sb) (CronJobName sb)) w = (Inr cj, w') \<Longrightarrow> own_run c sb j" for j cj w w'
    unfolding own_run_def owned_by_def by (auto split: option.splits) (metis fst_conv)
  show ?thesis
    unfolding BackupJobs_def
    by (auto simp: wp_simps list_all_iff own own_cron split: prod.splits sum.splits)
qed

text \<open>The effects of cancelling a list of Jobs: the running ones are deleted one by one, in
  order, up to the first deletion that fails.\<close>

lemma cancel_jobs_effects:
  "cancel_jobs c js p n s = (res, u) \<Longrightarrow>
   \<exists>k. map en_Effect (st_Log u) = map en_Effect (st_Log s) @ map DeleteJob (take k (filter jobIsRunning js)) \<and>
     (case res of Inl _ \<Rightarrow> True | Inr _ \<Rightarrow> k = length (filter jobIsRunning js))"
proof (induction js arbitrary: p n s)
  case Nil
  then show ?case by (auto simp: ret_def)
next
  case (Cons j js)
  show ?case
  proof (cases "jobIsRunning j")
    case False
    with Cons.prems have "cancel_jobs c js p n s = (res, u)" by simp
    from Cons.IH[OF this] False show ?thesis by (cases res) auto
  next
    case True
    obtain x w where d: "k_DeleteJob (c_Kube c) j (st_World s) = (x, w)"
      by (cases "k_DeleteJob (c_Kube c) j (st_World s)")
    let ?s = "s\<lparr>st_World := w, st_Log := st_Log s @
      [\<lparr>en_Effect = DeleteJob j, en_Object = st_Object s, en_Error = error_of x\<rparr>]\<rparr>"
    show ?thesis
    proof (cases "case x of Inl e \<Rightarrow> \<not> IsNotFound e | Inr _ \<Rightarrow> False")
      case True
      with Cons.prems d \<open>jobIsRunning j\<close> show ?thesis
        by (auto simp: bind_go_def attempt_def call_def fail_def split: sum.splits intro!: exI[of _ 1])
    next
      case False
      obtain q v where q: "p_printf c Out ''cancelled job/%s'' [Str (om_Name (job_Meta j))] p ?s = (q, v)"
        by (cases "p_printf c Out ''cancelled job/%s'' [Str (om_Name (job_Meta j))] p ?s")
      then obtain p' where q': "q = Inr p'"
        by (auto simp: p_printf_def bind_go_def attempt_def ask_def ret_def split: option.splits prod.splits)
      from silent_state[OF silent_p_printf q] obtain w' where v: "st_Log v = st_Log ?s" by auto
      from Cons.prems d \<open>jobIsRunning j\<close> False q q' have "cancel_jobs c js p' (Suc n) v = (res, u)"
        by (auto simp: bind_go_def attempt_def call_def ret_def split: sum.splits)
      from Cons.IH[OF this] obtain k where
        "map en_Effect (st_Log u) = map en_Effect (st_Log v) @ map DeleteJob (take k (filter jobIsRunning js))"
        "case res of Inl _ \<Rightarrow> True | Inr _ \<Rightarrow> k = length (filter jobIsRunning js)" by blast
      with v \<open>jobIsRunning j\<close> show ?thesis
        by (intro exI[of _ "Suc k"]) (auto split: sum.splits)
    qed
  qed
qed

text \<open>
  C21. Cancelling stops the runs of this backup and nothing else: it deletes running Jobs whose
  controller is the ScheduledBackup or its CronJob, each once and newest first, and has no
  other effect; when it ends well, every run that was in flight has been deleted. One-off
  Jobs and the Jobs of other backups are never touched.
\<close>

theorem cancelling_stops_own_runs:
  assumes "BackupJobs c sb s = (Inr jobs, v)" "runCancel c sb s = (res, u)"
  shows "\<exists>k. map en_Effect (st_Log u) = map en_Effect (st_Log s) @ map DeleteJob (take k (filter jobIsRunning jobs)) \<and>
    (if res = Inr () then k = length (filter jobIsRunning jobs) else True) \<and>
    list_all (own_run c sb) jobs \<and> sorted_wrt (\<lambda>a b. jobStart b \<le> jobStart a) jobs"
proof -
  from wp_result[OF BackupJobs_own assms(1)] have own: "list_all (own_run c sb) jobs" "st_Log v = st_Log s" by auto
  have "wp (BackupJobs c sb) (\<lambda>jobs _. \<exists>js. jobs = SortStableFunc newest_first js) (\<lambda>_ _. True) s"
    unfolding BackupJobs_def by (auto simp: wp_simps split: prod.splits sum.splits)
  from wp_result[OF this assms(1)] jobs_newest.sorted_SortStableFunc
  have "sorted_wrt (\<lambda>a b. newest_first a b \<le> 0) jobs" by auto
  then have sorted: "sorted_wrt (\<lambda>a b. jobStart b \<le> jobStart a) jobs"
    by (rule sorted_wrt_mono_rel[rotated]) (auto simp: newest_first_def split: if_splits)
  obtain r x where run: "cancel_jobs c jobs newPrinter 0 v = (r, x)" by (cases "cancel_jobs c jobs newPrinter 0 v")
  from cancel_jobs_effects[OF run] own(2) obtain k where
    k: "map en_Effect (st_Log x) = map en_Effect (st_Log s) @ map DeleteJob (take k (filter jobIsRunning jobs))"
      "case r of Inl _ \<Rightarrow> True | Inr _ \<Rightarrow> k = length (filter jobIsRunning jobs)" by auto
  have "st_Log u = st_Log x \<and> (if res = Inr () then \<exists>y. r = Inr y else True)"
  proof (cases r)
    case (Inl e)
    with assms run show ?thesis by (auto simp: runCancel_def bind_go_def)
  next
    case (Inr y)
    obtain p n where y: "y = (p, n)" by (cases y)
    have "silent (if n = 0 then bind_go (p_printf c Out ''no backup is running for scheduledbackup/%s'' [Str (sb_Name sb)] p) p_Err
      else bind_go (p_printf c Out ''restic may have left a lock behind; if the next run reports one, use: corg unlock'' [] p) p_Err
      :: ('a, 'b, unit) comp)" by (intro quiet_rules)
    with assms run Inr y show ?thesis
      by (auto simp: runCancel_def bind_go_def[of "BackupJobs c sb"] bind_go_def[of "cancel_jobs c jobs newPrinter 0"]
          dest!: silent_state)
  qed
  with k own(1) sorted show ?thesis by (auto split: if_splits)
qed

definition running_own_job :: job where
  "running_own_job = zero_job\<lparr>job_Meta := (new_meta ''app'' ''nightly-backup-1'' [])\<lparr>om_OwnerReferences :=
     [\<lparr>or_Kind = ''ScheduledBackup'', or_Name = ''nightly'', or_UID = ''u1'', or_Controller = Some True\<rparr>]\<rparr>\<rparr>"

definition busy_cli :: "unit cli" where
  "busy_cli = plain_cli (empty_cluster\<lparr>k_ListJobs := (\<lambda>_. ret [zero_job, running_own_job])\<rparr>)"

theorem cancelling_stops_own_runs_witness:
  "\<exists>k. map en_Effect (st_Log (snd (runCancel busy_cli sample_backup (start () ())))) =
      map DeleteJob (take k [running_own_job]) \<and> k = 1"
proof -
  have listed: "BackupJobs busy_cli sample_backup (start () ()) = (Inr [running_own_job], start () ())"
    by (simp add: BackupJobs_def busy_cli_def plain_cli_def empty_cluster_def bind_go_def attempt_def ask_def
        ret_def fail_def not_found_def start_def owned_by_def plain_lib_def running_own_job_def zero_job_def
        is_controller_def sample_backup_def)
  have running: "filter jobIsRunning [running_own_job] = [running_own_job]"
    by (simp add: jobIsRunning_def running_own_job_def zero_job_def new_job_status_def)
  have "error_of (fst (runCancel busy_cli sample_backup (start () ()))) = None" by code_simp
  then have ok: "fst (runCancel busy_cli sample_backup (start () ())) = Inr ()"
    by (auto simp: error_of_def split: sum.splits)
  have "\<exists>k. map en_Effect (st_Log (snd (runCancel busy_cli sample_backup (start () ())))) =
      map en_Effect (st_Log (start () ())) @ map DeleteJob (take k (filter jobIsRunning [running_own_job])) \<and>
      (if fst (runCancel busy_cli sample_backup (start () ())) = Inr () then k = length (filter jobIsRunning [running_own_job]) else True) \<and>
      list_all (own_run busy_cli sample_backup) [running_own_job] \<and>
      sorted_wrt (\<lambda>a b. jobStart b \<le> jobStart a) [running_own_job]"
    by (rule cancelling_stops_own_runs[OF listed]) simp
  then show ?thesis unfolding running ok start_log by auto
qed

section \<open>Suspending\<close>

lemma suspended_fields:
  defines "sb' sb b \<equiv> suspend_backup b sb"
  shows "bs_Image (sb_Spec (sb' sb b)) = bs_Image (sb_Spec sb)"
    "bs_Volume (sb_Spec (sb' sb b)) = bs_Volume (sb_Spec sb)"
    "bs_Schedule (sb_Spec (sb' sb b)) = bs_Schedule (sb_Spec sb)"
    "bs_SuccessfulJobsHistoryLimit (sb_Spec (sb' sb b)) = bs_SuccessfulJobsHistoryLimit (sb_Spec sb)"
    "bs_FailedJobsHistoryLimit (sb_Spec (sb' sb b)) = bs_FailedJobsHistoryLimit (sb_Spec sb)"
    "bs_Suspend (sb_Spec (sb' sb b)) = b"
    "om_Name (sb_Meta (sb' sb b)) = sb_Name sb" "om_Namespace (sb_Meta (sb' sb b)) = sb_Namespace sb"
    "Render (sb_Spec (sb' sb b)) = Render (sb_Spec sb)"
    "buildEnv (sb' sb b) cfg = buildEnv sb cfg"
    "buildVolumes (sb' sb b) = buildVolumes sb"
    "buildCommand (sb' sb b) cfg = buildCommand sb cfg"
    "resources (sb' sb b) = resources sb" "containerSecurityContext (sb' sb b) = containerSecurityContext sb"
    "podSecurityContext (sb' sb b) = podSecurityContext sb" "commonLabels (sb' sb b) = commonLabels sb"
    "podLabels (sb' sb b) = podLabels sb" "buildAffinity (sb' sb b) = buildAffinity sb"
    "timeZone (sb' sb b) = timeZone sb" "concurrencyPolicy (sb' sb b) = concurrencyPolicy sb"
    "CronJobName (sb' sb b) = CronJobName sb"
  by (simp_all add: sb'_def suspend_backup_def Render_def retryLockFlag_def buildVolumes_def cacheEnabled_def
      CacheName_def commonLabels_def podLabels_def mariadb_def buildCommand_def Reporter_def buildEnv_def
      resources_def containerSecurityContext_def buildAffinity_def podSecurityContext_def timeZone_def
      concurrencyPolicy_def CronJobName_def Let_def fun_eq_iff split: sum.split option.split)

lemma suspended_template: "BuildJobTemplate (suspend_backup b sb) repo cfg = BuildJobTemplate sb repo cfg"
  unfolding BuildJobTemplate_def suspended_fields ..

text \<open>What a patch of the commands may be.\<close>

definition suspend_ok :: "bool \<Rightarrow> 'o entry \<Rightarrow> bool" where
  "suspend_ok b e \<longleftrightarrow>
     (case en_Effect e of
        PatchBackup base new \<Rightarrow> bs_Suspend (sb_Spec base) \<noteq> b \<and> new = suspend_backup b base
      | PatchRepository base new \<Rightarrow> rs_Suspend (rp_Spec base) \<noteq> b \<and> new = suspend_repository b base
      | _ \<Rightarrow> False)"

text \<open>
  Suspending and resuming flip one flag: the command makes at most one patch, only of a
  resource that is not in the wanted state already, and the patch changes nothing but
  \<open>spec.suspend\<close>. For a ScheduledBackup the CronJob the operator then builds is the one it
  built before with its suspend flag set accordingly: schedule, pod and credentials stay.
\<close>

lemma suspending_flips_one_flag:
  assumes "runSetSuspend c ns arg b past s = (res, u)"
  shows "(\<exists>l. st_Log u = st_Log s @ l \<and> length l \<le> 1 \<and> list_all (suspend_ok b) l) \<and>
    BuildCronJob (suspend_backup b sb) repo cfg =
      map_sum id (\<lambda>cj. cj\<lparr>cj_Spec := (cj_Spec cj)\<lparr>cs_Suspend := Some b\<rparr>\<rparr>) (BuildCronJob sb repo cfg)"
proof
  let ?P = "\<lambda>u. \<exists>l. st_Log u = st_Log s @ l \<and> length l \<le> 1 \<and> list_all (suspend_ok b) l"
  have patch: "wp (bind_go (patch_suspend c t b) (\<lambda>_. say c Out fmt args)) (\<lambda>_. ?P) (\<lambda>_. ?P) v"
    if "tg_suspended t \<noteq> b" "st_Log v = st_Log s" for t v fmt args
  proof (cases t)
    case (RepositoryTarget r)
    with that show ?thesis unfolding patch_suspend_def
      by (auto simp: wp_simps tg_suspended_def suspend_ok_def intro!: wp_silent[OF silent_say]
          split: prod.splits sum.splits)
  next
    case (BackupTarget sb)
    with that show ?thesis unfolding patch_suspend_def
      by (auto simp: wp_simps tg_suspended_def suspend_ok_def intro!: wp_silent[OF silent_say]
          split: prod.splits sum.splits)
  qed
  have step: "wp (let label = kind_text (tg_Kind a) @ ''/'' @ tg_Name a
      in if tg_suspended a = b then say c Out ''%s is already %s'' [Str label, Str past]
         else bind_go (patch_suspend c a b) (\<lambda>_. say c Out ''%s %s'' [Str label, Str past]))
      (\<lambda>_. ?P) (\<lambda>_. ?P) v" if v: "st_Log v = st_Log s" for a v
  proof (cases "tg_suspended a = b")
    case True
    show ?thesis unfolding Let_def if_P[OF True] by (rule wp_silent[OF silent_say]) (simp_all add: v)
  next
    case False
    then show ?thesis unfolding Let_def if_not_P[OF False] by (rule patch) (rule v)
  qed
  have "wp (runSetSuspend c ns arg b past) (\<lambda>_. ?P) (\<lambda>_. ?P) s"
    unfolding runSetSuspend_def wp_bind[of "Resolve c ns arg"]
    by (rule wp_silent[OF silent_Resolve]) (rule step, simp, simp)
  with assms show "?P u" by (auto simp: wp_def split: sum.splits)
next
  show "BuildCronJob (suspend_backup b sb) repo cfg =
      map_sum id (\<lambda>cj. cj\<lparr>cj_Spec := (cj_Spec cj)\<lparr>cs_Suspend := Some b\<rparr>\<rparr>) (BuildCronJob sb repo cfg)"
    unfolding BuildCronJob_def suspended_fields suspended_template by (simp split: sum.split)
qed

definition held_cli :: "unit cli" where
  "held_cli = plain_cli (empty_cluster\<lparr>k_GetBackup := (\<lambda>_. ret sample_backup)\<rparr>)"

lemma suspending_flips_one_flag_witness:
  "list_all (suspend_ok True) (st_Log (snd (runSetSuspend held_cli ''app'' ''nightly'' True ''suspended'' (start () ())))) \<and>
   length (st_Log (snd (runSetSuspend held_cli ''app'' ''nightly'' True ''suspended'' (start () ())))) = 1"
proof
  from suspending_flips_one_flag[OF prod.collapse[symmetric], of held_cli "''app''" "''nightly''" True "''suspended''" "start () ()"]
  show "list_all (suspend_ok True) (st_Log (snd (runSetSuspend held_cli ''app'' ''nightly'' True ''suspended'' (start () ()))))"
    by (auto simp: start_log)
  show "length (st_Log (snd (runSetSuspend held_cli ''app'' ''nightly'' True ''suspended'' (start () ())))) = 1"
    by code_simp
qed

end
