(* ===== verification/Restic.thy ===== *)
theory Restic
  imports Runner
begin

text \<open>
  The commands around restic (\<open>internal/cli/restic.go\<close>, \<open>maintenance.go\<close>, \<open>snapshots.go\<close>,
  \<open>shell.go\<close>, and \<open>confirm\<close> of \<open>restore.go\<close>): the backup a command runs as, the argument
  vectors of the subcommands, the questions asked before snapshots or locks are given up, and
  the interactive shell. Flags are the arguments of the definitions.
\<close>

definition defaultResticTimeout :: duration where "defaultResticTimeout = Hour"
definition cleanupTimeout :: duration where "cleanupTimeout = 30 * Second"
definition ErrNoBackupForRepository :: goerr where
  "ErrNoBackupForRepository = Sentinel ''no ScheduledBackup uses this repository''"
definition ErrNotConfirmed :: goerr where "ErrNotConfirmed = Sentinel ''not confirmed''"
definition ErrAppendOnly :: goerr where "ErrAppendOnly = Sentinel ''repository is append-only''"

section \<open>The backup a command runs as\<close>

definition resolveRunTarget ::
  "'w cli \<Rightarrow> string \<Rightarrow> string \<Rightarrow> ('w, 'o, scheduled_backup \<times> repository) comp" where
  "resolveRunTarget c ns arg =
     bind_go (Resolve c ns arg) (\<lambda>t.
     case t of
       BackupTarget sb \<Rightarrow> bind_go (RepositoryFor c sb) (\<lambda>repo. ret (sb, repo))
     | RepositoryTarget repo \<Rightarrow>
         bind_go (ask (k_ListBackups (c_Kube c) (rp_Namespace repo))) (\<lambda>backups.
         case find (\<lambda>b. bs_RepositoryRef (sb_Spec b) = rp_Name repo) backups of
           Some sb \<Rightarrow> ret (sb, repo)
         | None \<Rightarrow> fail (Errorf ''%w: repository/%s has no ScheduledBackup to borrow credentials and placement from''
             [Err ErrNoBackupForRepository, Str (rp_Name repo)])))"

text \<open>The loop of \<open>sourceTags\<close>: the tags seen so far are the tags collected.\<close>

fun tags_from :: "string list \<Rightarrow> backup_source list \<Rightarrow> string list" where
  "tags_from tags [] = tags"
| "tags_from tags (src # srcs) =
     (let tag = EffectiveTag src
      in if tag \<noteq> '''' \<and> tag \<notin> set tags then tags_from (tags @ [tag]) srcs else tags_from tags srcs)"

definition sourceTags :: "scheduled_backup \<Rightarrow> string list" where
  "sourceTags sb = tags_from [] (bs_Sources (sb_Spec sb))"

definition resticCommand :: "string list \<Rightarrow> string list" where
  "resticCommand args = ''restic'' # args"

definition runRestic ::
  "'w cli \<Rightarrow> string \<Rightarrow> string \<Rightarrow> string \<Rightarrow> (scheduled_backup \<Rightarrow> repository \<Rightarrow> goerr + string list) \<Rightarrow>
   run_options \<Rightarrow> ('w, 'o, unit) comp" where
  "runRestic c ns arg purpose build opts =
     bind_go (resolveRunTarget c ns arg) (\<lambda>(sb, repo).
     bind_go (lift (build sb repo)) (\<lambda>command.
     Run c sb (opts\<lparr>ro_Command := command, ro_Purpose := purpose\<rparr>) defaultResticTimeout))"

section \<open>Asking\<close>

text \<open>\<open>c_ReadLine\<close> is one line of the input stream; the end of the stream ends a line too.\<close>



definition confirm :: "'w cli \<Rightarrow> bool \<Rightarrow> goarg \<Rightarrow> string \<Rightarrow> ('w, 'o, unit) comp" where
  "confirm c skip what name =
     (if skip then ret ()
      else if \<not> c_Interactive c then
        fail (Errorf ''%w: this overwrites %s, and there is no terminal to confirm on; pass --yes to proceed''
          [Err ErrNotConfirmed, what])
      else
        bind_go (p_printf c ErrOut ''This overwrites %s.'' [what] newPrinter) (\<lambda>p.
        bind_go (p_printf c ErrOut ''Type %q to confirm: '' [Str name] p) (\<lambda>p.
        bind_go (p_Err p) (\<lambda>_.
        bind_go (ask (c_ReadLine c)) (\<lambda>line.
        if TrimSpace line \<noteq> name then
          fail (Errorf ''%w: %s was not changed'' [Err ErrNotConfirmed, what])
        else ret ())))))"

section \<open>Maintenance\<close>

definition unlock_command :: "bool \<Rightarrow> scheduled_backup \<Rightarrow> repository \<Rightarrow> goerr + string list" where
  "unlock_command everything sb repo =
     Inr (resticCommand (''unlock'' # (if everything then [''--remove-all''] else [])))"

definition runUnlock :: "'w cli \<Rightarrow> string \<Rightarrow> string \<Rightarrow> bool \<Rightarrow> bool \<Rightarrow> ('w, 'o, unit) comp" where
  "runUnlock c ns arg everything yes =
     bind_go (if everything then confirm c yes (Str ''every lock on the repository, including live ones'') arg
              else ret ()) (\<lambda>_.
     runRestic c ns arg ''unlock'' (unlock_command everything) no_options)"

definition check_command :: "string \<Rightarrow> scheduled_backup \<Rightarrow> repository \<Rightarrow> goerr + string list" where
  "check_command readData sb repo =
     Inr (resticCommand (''check'' # (if readData \<noteq> '''' then [''--read-data-subset='' @ readData] else [])))"

definition runCheck :: "'w cli \<Rightarrow> string \<Rightarrow> string \<Rightarrow> string \<Rightarrow> ('w, 'o, unit) comp" where
  "runCheck c ns arg readData = runRestic c ns arg ''check'' (check_command readData) no_options"

fun keep_flags_of :: "(string \<times> int option) list \<Rightarrow> string list \<Rightarrow> string list" where
  "keep_flags_of [] flags = flags"
| "keep_flags_of ((name, value) # fs) flags =
     (case value of
        None \<Rightarrow> keep_flags_of fs flags
      | Some n \<Rightarrow> keep_flags_of fs (flags @ [''--keep-'' @ name @ ''='' @ Itoa n]))"

definition retentionFlags :: "retention option \<Rightarrow> string list" where
  "retentionFlags policy =
     (case policy of
        None \<Rightarrow> []
      | Some r \<Rightarrow>
          keep_flags_of [(''last'', rn_Last r), (''hourly'', rn_Hourly r), (''daily'', rn_Daily r),
            (''weekly'', rn_Weekly r), (''monthly'', rn_Monthly r), (''yearly'', rn_Yearly r)] [])"

definition prune_command :: "bool \<Rightarrow> scheduled_backup \<Rightarrow> repository \<Rightarrow> goerr + string list" where
  "prune_command dryRun sb repo =
     (if rs_AppendOnly (rp_Spec repo) then
        Inl (Errorf ''%w: repository/%s cannot forget or prune; clear spec.appendOnly first''
          [Err ErrAppendOnly, Str (rp_Name repo)])
      else
        (let flags = retentionFlags (bs_Retention (sb_Spec sb))
         in if flags = [] then
              Inl (Errorf ''scheduledbackup/%s has no spec.retention, so there is nothing to forget''
                [Str (sb_Name sb)])
            else Inr (resticCommand ([''forget'', ''--prune''] @ flags @ (if dryRun then [''--dry-run''] else [])))))"

definition runPrune :: "'w cli \<Rightarrow> string \<Rightarrow> string \<Rightarrow> bool \<Rightarrow> bool \<Rightarrow> ('w, 'o, unit) comp" where
  "runPrune c ns arg dryRun yes =
     bind_go (if \<not> dryRun then confirm c yes (Str ''snapshots outside the retention policy, permanently'') arg
              else ret ()) (\<lambda>_.
     runRestic c ns arg ''prune'' (prune_command dryRun) no_options)"

definition stats_command :: "string \<Rightarrow> scheduled_backup \<Rightarrow> repository \<Rightarrow> goerr + string list" where
  "stats_command mode sb repo = Inr (resticCommand [''stats'', ''--mode='' @ mode])"

definition runStats :: "'w cli \<Rightarrow> string \<Rightarrow> string \<Rightarrow> string \<Rightarrow> ('w, 'o, unit) comp" where
  "runStats c ns arg mode = runRestic c ns arg ''stats'' (stats_command mode) no_options"

section \<open>Snapshots\<close>

definition snapshots_command ::
  "bool \<Rightarrow> string \<Rightarrow> bool \<Rightarrow> int \<Rightarrow> scheduled_backup \<Rightarrow> repository \<Rightarrow> goerr + string list" where
  "snapshots_command allTags host asJSON latest sb repo =
     Inr (resticCommand (''snapshots'' #
       (if \<not> allTags then map (\<lambda>tag. ''--tag='' @ tag) (sourceTags sb) else []) @
       (if host \<noteq> '''' then [''--host='' @ host] else []) @
       (if asJSON then [''--json''] else []) @
       (if 0 < latest then [''--latest='' @ Itoa latest] else [])))"

text \<open>The host flag is the namespace of the command unless it was given.\<close>

definition runSnapshots ::
  "'w cli \<Rightarrow> string \<Rightarrow> string \<Rightarrow> bool \<Rightarrow> string option \<Rightarrow> bool \<Rightarrow> int \<Rightarrow> ('w, 'o, unit) comp" where
  "runSnapshots c ns arg allTags host asJSON latest =
     (let host = (case host of None \<Rightarrow> ns | Some h \<Rightarrow> h)
      in runRestic c ns arg ''snapshots'' (snapshots_command allTags host asJSON latest) no_options)"

section \<open>Shell and exec\<close>

text \<open>The terminal of the command, where its input is one: raw mode and back
  (\<open>internal/cli/kube/tty.go\<close>).\<close>

record 'w terminal =
  t_MakeRaw :: "('w, unit) go"
  t_Restore :: "'w \<Rightarrow> 'w"

definition WithRawTerminal :: "'w terminal \<Rightarrow> ('w, 'o, unit) comp \<Rightarrow> ('w, 'o, unit) comp" where
  "WithRawTerminal t m =
     bind_go (ask (t_MakeRaw t)) (\<lambda>_.
     bind_go (attempt m) (\<lambda>res.
     bind_go (ask (\<lambda>w. (Inr (), t_Restore t w))) (\<lambda>_.
     lift res)))"

definition openShell ::
  "'w cli \<Rightarrow> 'w terminal option \<Rightarrow> scheduled_backup \<Rightarrow> run_options \<Rightarrow> string \<Rightarrow> ('w, 'o, unit) comp" where
  "openShell c term sb opts shell =
     Attach c sb opts defaultResticTimeout (\<lambda>p.
       bind_go (say c ErrOut ''connected to pod/%s'' [Str (om_Name (pod_Meta p))]) (\<lambda>_.
       let exec = Exec c p containerName [shell]
       in case term of
            None \<Rightarrow> exec
          | Some t \<Rightarrow> WithRawTerminal t exec))"

definition runShell ::
  "'w cli \<Rightarrow> 'w terminal option \<Rightarrow> string \<Rightarrow> string \<Rightarrow> run_options \<Rightarrow> string \<Rightarrow> ('w, 'o, unit) comp" where
  "runShell c term ns arg opts shell =
     bind_go (resolveRunTarget c ns arg) (\<lambda>(sb, _).
     openShell c term sb (opts\<lparr>ro_Purpose := ''shell''\<rparr>) shell)"

text \<open>\<open>dash\<close> is the position of \<open>--\<close> among the arguments, of which there are at least two.\<close>

definition runExec ::
  "'w cli \<Rightarrow> string \<Rightarrow> string list \<Rightarrow> int \<Rightarrow> run_options \<Rightarrow> ('w, 'o, unit) comp" where
  "runExec c ns args dash opts =
     (let arg = hd args; command = tl args
      in if dash \<noteq> 1 then
           fail (Errorf ''separate the command with --, e.g. corg exec %s -- restic snapshots'' [Str arg])
         else runRestic c ns arg ''exec'' (\<lambda>_ _. Inr command) opts)"

lemma silent_resolveRunTarget [quiet_rules]: "silent (resolveRunTarget c ns arg)"
  unfolding resolveRunTarget_def
  by (auto intro!: quiet_rules split: target.split option.split)

lemma silent_confirm [quiet_rules]: "silent (confirm c skip what name)"
  unfolding confirm_def by (auto intro!: quiet_rules)

end
