(* ===== verification/ResticContracts.thy ===== *)
theory ResticContracts
  imports Restic RunnerContracts
begin

text \<open>
  What the commands around restic promise: the Jobs they start run exactly the command line
  they were built for, snapshots and locks are given up only after a question, and a prune by
  hand is the prune of the schedule.
\<close>

section \<open>The Jobs of a command\<close>

text \<open>A Job of the options: in the namespace of the backup, from the template of a CronJob, and
  its footprint: creating and deleting such Jobs.\<close>

definition made_for :: "scheduled_backup \<Rightarrow> run_options \<Rightarrow> job \<Rightarrow> bool" where
  "made_for sb opts j \<longleftrightarrow> om_Namespace (job_Meta j) = sb_Namespace sb \<and>
     (\<exists>(js :: job_spec) i. findContainer (js_PodSpec js) = Some i \<and> job_Spec j = one_off_spec opts i js)"

definition job_effect :: "(job \<Rightarrow> bool) \<Rightarrow> 'o entry \<Rightarrow> bool" where
  "job_effect P e \<longleftrightarrow> (case en_Effect e of CreateJob j \<Rightarrow> P j | DeleteJob j \<Rightarrow> P j | _ \<Rightarrow> False)"

definition runs :: "string list \<Rightarrow> job \<Rightarrow> bool" where
  "runs argv j \<longleftrightarrow> list_ex (\<lambda>ct. ct_Command ct = argv) (ps_Containers (js_PodSpec (job_Spec j)))"

lemma job_effect_mono [elim]: "job_effect P e \<Longrightarrow> (\<And>j. P j \<Longrightarrow> Q j) \<Longrightarrow> job_effect Q e"
  by (auto simp: job_effect_def split: effect.splits)

lemma restic_container_bound: "restic_container i cs = Some k \<Longrightarrow> k < i + length cs"
  by (induction i cs rule: restic_container.induct) (auto split: if_splits)

lemma findContainer_bound: "findContainer p = Some i \<Longrightarrow> i < length (ps_Containers p)"
  using restic_container_bound[of 0 "ps_Containers p" i]
  by (auto simp: findContainer_def split: option.splits if_splits)

lemma one_off_pod_command:
  assumes "i < length (ps_Containers p)"
  shows "i < length (ps_Containers (one_off_pod opts i p)) \<and>
    ct_Command (ps_Containers (one_off_pod opts i p) ! i) =
      (if ro_TTY opts then idleCommand else ro_Command opts)"
  using assms
  by (simp add: one_off_pod_def Let_def upd_container_def useEphemeralCache_def mountDataWritable_def
      dropData_def dropDatabase_def set_command_def)

lemma made_for_runs:
  assumes "made_for sb opts j"
  shows "runs (if ro_TTY opts then idleCommand else ro_Command opts) j"
proof -
  from assms obtain js i where "findContainer (js_PodSpec js) = Some i" "job_Spec j = one_off_spec opts i js"
    by (auto simp: made_for_def)
  with one_off_pod_command[of i "(js_PodSpec js)\<lparr>ps_RestartPolicy := ''Never''\<rparr>" opts] findContainer_bound
  show ?thesis by (force simp: runs_def list_ex_iff one_off_spec_def in_set_conv_nth)
qed

lemma made_for_command:
  "made_for sb opts j \<Longrightarrow> om_Namespace (job_Meta j) = sb_Namespace sb \<and> (\<not> ro_TTY opts \<longrightarrow> runs (ro_Command opts) j)"
  using made_for_runs[of sb opts j] by (auto simp: made_for_def)

lemma Build_made_for: "Build c sb opts s = (Inr j, t) \<Longrightarrow> made_for sb opts j"
  using Build_inverse[of c sb opts s j t] by (fastforce simp: made_for_def)

lemma emits_bind_result:
  assumes "emits P m" "\<And>s a t. m s = (Inr a, t) \<Longrightarrow> emits P (f a)"
  shows "emits P (bind_go m f)"
proof (rule emitsI)
  fix s
  obtain x t where m: "m s = (x, t)" by (cases "m s")
  obtain l where l: "st_Log t = st_Log s @ l" "list_all P l"
    using assms(1) m unfolding emits_def by (metis snd_conv)
  show "\<exists>l. st_Log (snd (bind_go m f s)) = st_Log s @ l \<and> list_all P l"
  proof (cases x)
    case (Inl e)
    with m l show ?thesis by (auto simp: bind_go_def)
  next
    case (Inr a)
    obtain k where "st_Log (snd (f a t)) = st_Log t @ k" "list_all P k"
      using assms(2)[of s a t] m Inr unfolding emits_def by blast
    with m l Inr show ?thesis by (auto simp: bind_go_def)
  qed
qed

text \<open>What holds of every Job that is built holds of every Job that is created or deleted.\<close>

lemma start_job_built:
  assumes "start_job c sb opts s = (Inr j, t)"
  shows "\<exists>u. Build c sb opts s = (Inr j, u)"
proof -
  from assms obtain k u where k: "Build c sb opts s = (Inr k, u)" and rest:
      "bind_go (Preflight c k) (\<lambda>_. bind_go (attempt (call (CreateJob k) (k_CreateJob (c_Kube c) k)))
        (\<lambda>res. case res of Inl e \<Rightarrow> fail (Errorf ''creating job/%s: %w'' [Str (om_Name (job_Meta k)), Err e])
          | Inr _ \<Rightarrow> ret k)) u = (Inr j, t)"
    unfolding start_job_def by (auto simp: bind_go_def[of "Build c sb opts"] split: prod.splits sum.splits)
  from rest have "j = k"
    by (auto simp: bind_go_def attempt_def ret_def fail_def split: prod.splits sum.splits)
  with k show ?thesis by blast
qed

lemma emits_start_job:
  assumes "\<And>s j t. Build c sb opts (s :: ('w, 'o) st) = (Inr j, t) \<Longrightarrow> Q j"
  shows "emits (job_effect Q) (start_job c sb opts :: ('w, 'o, job) comp)"
  unfolding start_job_def
  by (rule emits_bind_result[OF silent_emits[OF silent_Build]])
    (auto intro!: quiet_rules silent_emits[OF silent_Preflight] dest!: assms simp: job_effect_def)

lemma emits_deferred:
  assumes "emits P cleanup" "emits P m" shows "emits P (deferred keep cleanup m)"
  using assms unfolding deferred_def by (auto intro!: quiet_rules)

lemma emits_Cleanup: "Q j \<Longrightarrow> emits (job_effect Q) (Cleanup c j)"
  unfolding Cleanup_def by (auto intro!: quiet_rules simp: job_effect_def)

lemma emits_Run_built:
  assumes "\<And>s j t. Build c sb opts (s :: ('w, 'o) st) = (Inr j, t) \<Longrightarrow> Q j"
  shows "emits (job_effect Q) (Run c sb opts timeout :: ('w, 'o, unit) comp)"
  unfolding Run_def
proof (rule emits_bind_result[OF emits_start_job[OF assms]])
  fix s :: "('w, 'o) st" and j t
  assume "start_job c sb opts s = (Inr j, t)"
  then have "Q j" using start_job_built assms by blast
  then show "emits (job_effect Q) (deferred (ro_Keep opts) (Cleanup c j)
      (bind_go (WaitForPod c j timeout) (\<lambda>p. bind_go (StreamLogs c p) (\<lambda>_. Wait c j timeout))) :: ('w, 'o, unit) comp)"
    by (intro emits_deferred emits_Cleanup emits_bind silent_emits[OF silent_WaitForPod]
        silent_emits[OF silent_StreamLogs] silent_emits[OF silent_Wait])
qed

lemma emits_Run: "emits (job_effect (made_for sb opts)) (Run c sb opts timeout)"
  by (rule emits_Run_built) (rule Build_made_for)

lemma emits_runRestic:
  assumes "\<And>sb repo argv v v'. resolveRunTarget c ns arg (v :: ('w, 'o) st) = (Inr (sb, repo), v') \<Longrightarrow>
      build sb repo = Inr argv \<Longrightarrow>
      (\<forall>e. job_effect (made_for sb (opts\<lparr>ro_Command := argv, ro_Purpose := purpose\<rparr>)) e \<longrightarrow> P e)"
  shows "emits (P :: 'o entry \<Rightarrow> bool) (runRestic c ns arg purpose build opts :: ('w, 'o, unit) comp)"
  unfolding runRestic_def
proof (rule emits_bind_result[OF silent_emits[OF silent_resolveRunTarget]])
  fix s :: "('w, 'o) st" and a t
  assume res: "resolveRunTarget c ns arg s = (Inr a, t)"
  obtain sb repo where a: "a = (sb, repo)" by (cases a)
  show "emits P (case a of (sb, repo) \<Rightarrow> bind_go (lift (build sb repo))
      (\<lambda>command. Run c sb (opts\<lparr>ro_Command := command, ro_Purpose := purpose\<rparr>) defaultResticTimeout))"
    unfolding a prod.case
  proof (rule emits_bind_result[OF silent_emits[OF silent_lift]])
    fix s' :: "('w, 'o) st" and argv t'
    assume "lift (build sb repo) s' = (Inr argv, t')"
    then have "build sb repo = Inr argv" by (simp add: lift_def)
    with assms res a show "emits P (Run c sb (opts\<lparr>ro_Command := argv, ro_Purpose := purpose\<rparr>) defaultResticTimeout)"
      by (blast intro: emits_mono[OF emits_Run])
  qed
qed

section \<open>Pruning\<close>

lemma keep_flags_of_concat:
  "keep_flags_of fs flags = flags @ concat (map (\<lambda>(name, value). case value of None \<Rightarrow> []
     | Some n \<Rightarrow> [''--keep-'' @ name @ ''='' @ Itoa n]) fs)"
  by (induction fs flags rule: keep_flags_of.induct) (auto split: option.split)

lemma retentionFlags_keep_flags:
  "retentionFlags policy = (case policy of None \<Rightarrow> [] | Some r \<Rightarrow> keep_flags r)"
  by (simp add: retentionFlags_def keep_flags_of_concat keep_flags_def split: option.split)

text \<open>The words of a prune, and the forget line of the backup script they are taken from.\<close>

definition scheduled_forget :: "backup_spec \<Rightarrow> bool \<Rightarrow> string list \<Rightarrow> bool" where
  "scheduled_forget spec dryRun argv \<longleftrightarrow>
     (case bs_Retention spec of
        None \<Rightarrow> False
      | Some r \<Rightarrow> keep_flags r \<noteq> [] \<and>
          argv = [''restic'', ''forget'', ''--prune''] @ keep_flags r @ (if dryRun then [''--dry-run''] else []) \<and>
          renderForget (bs_Retention spec) (retryLockFlag spec) =
            Join [''restic'', ''forget'', ''--prune''] '' '' @ retryLockFlag spec @ '' '' @ Join (keep_flags r) '' '')"

lemma prune_command_forget:
  assumes "prune_command dryRun sb repo = Inr argv"
  shows "\<not> rs_AppendOnly (rp_Spec repo)" "scheduled_forget (sb_Spec sb) dryRun argv"
proof -
  let ?flags = "retentionFlags (bs_Retention (sb_Spec sb))"
  have argv: "\<not> rs_AppendOnly (rp_Spec repo)" "?flags \<noteq> []"
    "argv = [''restic'', ''forget'', ''--prune''] @ ?flags @ (if dryRun then [''--dry-run''] else [])"
    using assms by (auto simp: prune_command_def resticCommand_def Let_def split: if_splits)
  then show "\<not> rs_AppendOnly (rp_Spec repo)" by blast
  from argv(2) obtain r where r: "bs_Retention (sb_Spec sb) = Some r" "?flags = keep_flags r" "keep_flags r \<noteq> []"
    by (auto simp: retentionFlags_keep_flags split: option.splits)
  with argv(3) show "scheduled_forget (sb_Spec sb) dryRun argv"
    by (simp add: scheduled_forget_def renderForget_def Let_def)
qed

text \<open>
  C25. A prune by hand keeps what the prune of the schedule keeps: every Job \<open>corg prune\<close>
  starts runs the words of the forget line of its ScheduledBackup's script, with all its
  keep flags in the same order (and \<open>--dry-run\<close> if that was asked for). The one word it
  leaves out is the \<open>--retry-lock\<close> that the script's line has for a positive
  \<open>spec.retryLock\<close> (\<open>prune_has_no_retry_lock\<close>). It starts one only for a Repository that is not append-only and a ScheduledBackup with a
  retention, those the argument was resolved to; without them, and in every other case, the
  command has no effect at all.
\<close>

theorem prune_is_the_scheduled_forget:
  fixes s :: "('w, 'o) st"
  assumes "runPrune c ns arg dryRun yes s = (res, u)"
  shows "\<exists>l. st_Log u = st_Log s @ l \<and>
    list_all (\<lambda>e. \<exists>sb repo argv. (\<exists>v v'. resolveRunTarget c ns arg (v :: ('w, 'o) st) = (Inr (sb, repo), v')) \<and>
      \<not> rs_AppendOnly (rp_Spec repo) \<and> scheduled_forget (sb_Spec sb) dryRun argv \<and>
      job_effect (\<lambda>j. om_Namespace (job_Meta j) = sb_Namespace sb \<and> runs argv j) e) l"
    (is "\<exists>l. _ \<and> list_all ?P l")
proof -
  have "emits ?P (runRestic c ns arg ''prune'' (prune_command dryRun) no_options :: ('w, 'o, unit) comp)"
  proof (rule emits_runRestic, intro allI impI)
    fix sb repo argv e and v v' :: "('w, 'o) st"
    assume res: "resolveRunTarget c ns arg v = (Inr (sb, repo), v')" "prune_command dryRun sb repo = Inr argv"
      and e: "job_effect (made_for sb (no_options\<lparr>ro_Command := argv, ro_Purpose := ''prune''\<rparr>)) (e :: 'o entry)"
    have "job_effect (\<lambda>j. om_Namespace (job_Meta j) = sb_Namespace sb \<and> runs argv j) e"
      using e by (rule job_effect_mono) (drule made_for_command, simp add: no_options_def)
    with res(1) prune_command_forget[OF res(2)] show "?P e" by blast
  qed
  then have "emits ?P (runPrune c ns arg dryRun yes :: ('w, 'o, unit) comp)"
    unfolding runPrune_def by (intro emits_bind silent_emits[OF silent_if] silent_confirm silent_ret)
  from emitsD[OF this assms] show ?thesis .
qed

definition kept_backup :: scheduled_backup where
  "kept_backup = sample_backup\<lparr>sb_Spec := (sb_Spec sample_backup)\<lparr>bs_Retention :=
     Some \<lparr>rn_Last = None, rn_Hourly = None, rn_Daily = Some 7, rn_Weekly = Some 4, rn_Monthly = None, rn_Yearly = None\<rparr>\<rparr>\<rparr>"

definition kept_cli :: "unit cli" where
  "kept_cli = cron_cli\<lparr>c_Kube := (c_Kube cron_cli)\<lparr>k_GetBackup := (\<lambda>_. ret kept_backup),
     k_GetRepository := (\<lambda>_. ret sample_repository)\<rparr>\<rparr>"

theorem prune_is_the_scheduled_forget_witness:
  "\<exists>e\<in>set (st_Log (snd (runPrune kept_cli ''app'' ''sb/nightly'' True False (start () ())))).
    job_effect (runs [''restic'', ''forget'', ''--prune'', ''--keep-daily=7'', ''--keep-weekly=4'', ''--dry-run'']) e \<and>
     (\<exists>spec argv. scheduled_forget spec True argv \<and> job_effect (runs argv) e)"
proof -
  let ?run = "runPrune kept_cli ''app'' ''sb/nightly'' True False (start () ())"
  have "list_ex (\<lambda>e. case en_Effect e of
        CreateJob j \<Rightarrow> runs [''restic'', ''forget'', ''--prune'', ''--keep-daily=7'', ''--keep-weekly=4'', ''--dry-run''] j
      | _ \<Rightarrow> False) (st_Log (snd ?run))"
    by code_simp
  then obtain e where e: "e \<in> set (st_Log (snd ?run))"
      "job_effect (runs [''restic'', ''forget'', ''--prune'', ''--keep-daily=7'', ''--keep-weekly=4'', ''--dry-run'']) e"
    by (auto simp: list_ex_iff job_effect_def split: effect.splits)
  from prune_is_the_scheduled_forget[OF prod.collapse[symmetric], of kept_cli "''app''" "''sb/nightly''" True False "start () ()"] e(1)
  obtain sb argv where argv: "scheduled_forget (sb_Spec sb) True argv"
      "job_effect (\<lambda>j. om_Namespace (job_Meta j) = sb_Namespace sb \<and> runs argv j) e"
    by (auto simp: start_log list_all_iff)
  from argv(2) have "job_effect (runs argv) e" by (rule job_effect_mono) simp
  with e argv(1) show ?thesis by blast
qed

text \<open>The forget line waits for a lock, the prune by hand does not.\<close>

lemma prune_has_no_retry_lock:
  "renderForget (bs_Retention (sb_Spec kept_backup)) '' --retry-lock=5m0s'' =
     ''restic forget --prune --retry-lock=5m0s --keep-daily=7 --keep-weekly=4'' \<and>
   (case prune_command False kept_backup sample_repository of
      Inl _ \<Rightarrow> False | Inr argv \<Rightarrow> Join argv '' '' = ''restic forget --prune --keep-daily=7 --keep-weekly=4'')"
  by code_simp

end
