(* ===== verification/FilePath.thy ===== *)
theory FilePath
  imports GoStrings
begin

text \<open>
  Lexical paths of the Go library (\<open>path/filepath\<close> on Unix): \<open>Clean\<close>, \<open>Join\<close> and \<open>Dir\<close>, and
  what they do to absolute paths. No file system is involved: symbolic links are not followed.
\<close>

section \<open>Clean, Join, Dir\<close>

text \<open>The elements of a path one by one, with the cleaned elements so far in reverse.\<close>

fun clean_walk :: "bool \<Rightarrow> string list \<Rightarrow> string list \<Rightarrow> string list" where
  "clean_walk rooted st [] = rev st"
| "clean_walk rooted st (c # cs) =
     (if c = '''' \<or> c = ''.'' then clean_walk rooted st cs
      else if c = ''..'' then
        (if st \<noteq> [] \<and> hd st \<noteq> ''..'' then clean_walk rooted (tl st) cs
         else if rooted then clean_walk rooted st cs
         else clean_walk rooted (c # st) cs)
      else clean_walk rooted (c # st) cs)"

definition IsAbs :: "string \<Rightarrow> bool" where "IsAbs p \<longleftrightarrow> HasPrefix p ''/''"

definition Clean :: "string \<Rightarrow> string" where
  "Clean p =
     (let cs = clean_walk (IsAbs p) [] (SplitChar p (CHR ''/''))
      in if IsAbs p then ''/'' @ Join cs ''/''
         else if cs = [] then ''.'' else Join cs ''/'')"

definition JoinPath :: "string list \<Rightarrow> string" where
  "JoinPath elems =
     (case dropWhile (\<lambda>e. e = '''') elems of [] \<Rightarrow> '''' | es \<Rightarrow> Clean (Join es ''/''))"

definition Dir :: "string \<Rightarrow> string" where
  "Dir p = Clean (rev (dropWhile (\<lambda>c. c \<noteq> CHR ''/'') (rev p)))"

section \<open>Clean absolute paths\<close>

text \<open>The elements of a clean path.\<close>

definition element :: "string \<Rightarrow> bool" where
  "element c \<longleftrightarrow> c \<noteq> '''' \<and> c \<noteq> ''.'' \<and> c \<noteq> ''..'' \<and> CHR ''/'' \<notin> set c"

definition abs_path :: "string list \<Rightarrow> string" where
  "abs_path cs = ''/'' @ Join cs ''/''"

lemma clean_walk_elements:
  assumes "\<forall>c\<in>set cs. CHR ''/'' \<notin> set c" "list_all element st"
  shows "list_all element (clean_walk True st cs)"
  using assms
proof (induction cs arbitrary: st)
  case (Cons c cs)
  then show ?case by (cases st) (auto simp: element_def)
qed simp

lemma clean_walk_plain:
  "list_all element ds \<Longrightarrow> clean_walk True st (ds @ cs) = clean_walk True (rev ds @ st) cs"
  by (induction ds arbitrary: st) (auto simp: element_def)

lemma SplitChar_no_sep: "c \<in> set (SplitChar s d) \<Longrightarrow> d \<notin> set c"
  by (induction s d arbitrary: c rule: SplitChar.induct) (auto split: list.splits if_splits)

lemma IsAbs_slash [simp]: "IsAbs (CHR ''/'' # s)"
  by (simp add: IsAbs_def HasPrefix_iff)

text \<open>An absolute path is clean exactly as the path of its elements.\<close>

definition elements :: "string \<Rightarrow> string list" where
  "elements p = clean_walk True [] (SplitChar p (CHR ''/''))"

lemma elements_good: "list_all element (elements p)"
  unfolding elements_def by (rule clean_walk_elements) (auto dest: SplitChar_no_sep)

lemma Clean_abs: "IsAbs p \<Longrightarrow> Clean p = abs_path (elements p)"
  by (simp add: Clean_def elements_def abs_path_def Let_def)

lemma SplitChar_slash: "SplitChar (CHR ''/'' # s) (CHR ''/'') = '''' # SplitChar s (CHR ''/'')"
  using SplitChar_append[of "CHR ''/''" "''''" s] by simp

lemma Split_abs_path:
  assumes "list_all element cs" "cs \<noteq> []"
  shows "SplitChar (abs_path cs) (CHR ''/'') = '''' # cs"
proof -
  have "SplitChar (Join cs ''/'') (CHR ''/'') = cs"
    using assms by (intro SplitChar_Join) (auto simp: element_def list_all_iff)
  then show ?thesis by (simp add: abs_path_def SplitChar_slash)
qed

lemma elements_abs_path: "list_all element cs \<Longrightarrow> elements (abs_path cs) = cs"
proof (cases "cs = []")
  case True
  then show ?thesis by (simp add: elements_def abs_path_def SplitChar_slash)
next
  case False
  assume "list_all element cs"
  with False clean_walk_plain[of cs "[]" "[]"] show ?thesis
    by (simp add: elements_def Split_abs_path)
qed

lemma Clean_abs_path: "list_all element cs \<Longrightarrow> Clean (abs_path cs) = abs_path cs"
  using Clean_abs[of "abs_path cs"] elements_abs_path by (simp add: abs_path_def)

lemma Split_append_slash:
  "SplitChar (p @ CHR ''/'' # q) (CHR ''/'') = SplitChar p (CHR ''/'') @ SplitChar q (CHR ''/'')"
proof (induction p)
  case (Cons c p)
  then show ?case by (cases "SplitChar p (CHR ''/'')") (auto simp: neq_Nil_conv)
qed (simp add: SplitChar_slash)

text \<open>Joining an absolute path with a path that starts at the root stays below it.\<close>

lemma clean_walk_append: "clean_walk True st (cs @ ds) = clean_walk True (rev (clean_walk True st cs)) ds"
  by (induction cs arbitrary: st) auto

lemma elements_append: "elements (p @ CHR ''/'' # q) = clean_walk True (rev (elements p)) (SplitChar q (CHR ''/''))"
  by (simp add: elements_def Split_append_slash clean_walk_append)

lemma JoinPath_rooted:
  assumes "IsAbs d"
  shows "JoinPath [d, Clean (''/'' @ name)] = abs_path (elements d @ elements (''/'' @ name))"
proof -
  let ?n = "elements (''/'' @ name)"
  have d: "d \<noteq> ''''" using assms by (auto simp: IsAbs_def HasPrefix_iff)
  have n: "Clean (''/'' @ name) = abs_path ?n" by (rule Clean_abs) simp
  have "elements (d @ CHR ''/'' # abs_path ?n) = elements d @ ?n"
  proof (cases "?n = []")
    case True
    then show ?thesis by (simp add: elements_append abs_path_def SplitChar_slash)
  next
    case False
    have good: "list_all element ?n" by (rule elements_good)
    from Split_abs_path[OF good False] clean_walk_plain[OF good, of "rev (elements d)" "[]"]
    show ?thesis by (simp add: elements_append)
  qed
  moreover have "IsAbs (d @ CHR ''/'' # abs_path ?n)" using assms by (auto simp: IsAbs_def HasPrefix_iff)
  ultimately show ?thesis using d n Clean_abs[of "d @ CHR ''/'' # abs_path ?n"]
    by (simp add: JoinPath_def)
qed

section \<open>Below a directory\<close>

definition inside :: "string \<Rightarrow> string \<Rightarrow> bool" where
  "inside d p \<longleftrightarrow> p = d \<or> HasPrefix p (d @ ''/'')"

lemma abs_path_append:
  "ds \<noteq> [] \<Longrightarrow> ns \<noteq> [] \<Longrightarrow> abs_path (ds @ ns) = abs_path ds @ ''/'' @ Join ns ''/''"
proof (induction ds)
  case (Cons d ds)
  then show ?case by (cases "ds = []") (simp_all add: abs_path_def Join_Cons)
qed simp

lemma inside_append: "ds \<noteq> [] \<or> ns = [] \<Longrightarrow> inside (abs_path ds) (abs_path (ds @ ns))"
  by (cases "ns = []") (auto simp: inside_def abs_path_append HasPrefix_iff)

lemma not_inside_root: "ns \<noteq> [] \<Longrightarrow> list_all element ns \<Longrightarrow> \<not> inside (abs_path []) (abs_path ns)"
proof -
  assume "ns \<noteq> []" "list_all element ns"
  then obtain x xs rest where "ns = (x # xs) # rest" "x \<noteq> CHR ''/''"
    by (auto simp: element_def neq_Nil_conv)
  then show ?thesis by (cases rest) (auto simp: inside_def abs_path_def HasPrefix_iff)
qed

lemma Dir_abs_path:
  assumes "list_all element cs"
  shows "Dir (abs_path cs) = abs_path (butlast cs)"
proof (cases cs rule: rev_cases)
  case Nil
  then show ?thesis using Clean_abs_path[of "[]"] by (simp add: Dir_def abs_path_def)
next
  case (snoc ds c)
  then have c: "CHR ''/'' \<notin> set c" and ds: "list_all element ds" using assms by (auto simp: element_def)
  have cut: "rev (dropWhile (\<lambda>x. x \<noteq> CHR ''/'') (rev (p @ CHR ''/'' # c))) = p @ ''/''" for p
  proof -
    have "dropWhile (\<lambda>x. x \<noteq> CHR ''/'') (rev c @ CHR ''/'' # rev p) = CHR ''/'' # rev p"
      using c by (subst dropWhile_append3) auto
    then show ?thesis by simp
  qed
  show ?thesis
  proof (cases "ds = []")
    case True
    with snoc cut[of "[]"] Clean_abs_path[of "[]"] show ?thesis by (simp add: Dir_def abs_path_def)
  next
    case False
    have "elements (abs_path ds @ ''/'') = ds"
      using elements_append[of "abs_path ds" "[]"] elements_abs_path[OF ds] by simp
    moreover have "IsAbs (abs_path ds @ ''/'')" by (simp add: abs_path_def)
    ultimately have "Clean (abs_path ds @ ''/'') = abs_path ds" by (simp add: Clean_abs)
    with snoc False cut[of "abs_path ds"] show ?thesis by (simp add: Dir_def abs_path_append)
  qed
qed

end
