(* ===== verification/Restore.thy ===== *)
theory Restore
  imports Restic RunCommands FilePath
begin

text \<open>
  Restoring a snapshot (\<open>internal/cli/restore.go\<close>, \<open>restore_targets.go\<close>): the choice of one of
  four targets, the arguments of restic, unpacking a downloaded archive, restoring into a new
  claim, over the source volume with the schedule held, and into the database through a
  shell pipeline.
\<close>

definition ErrNoTarget :: goerr where "ErrNoTarget = Sentinel ''no restore target specified''"
definition ErrNoDatabase :: goerr where "ErrNoDatabase = Sentinel ''this backup has no database''"
definition ErrNoSourceVolume :: goerr where "ErrNoSourceVolume = Sentinel ''this backup has no source volume''"
definition restoreMountPath :: string where "restoreMountPath = ''/restore''"
definition purposeRestore :: string where "purposeRestore = ''restore''"

record restore_options =
  o_snapshot :: string
  o_inPlace :: bool
  o_toNewPVC :: string
  o_toDatabase :: bool
  o_toDir :: string
  o_size :: string
  o_path :: string
  o_include :: "string list"
  o_exclude :: "string list"
  o_delete :: bool
  o_dryRun :: bool
  o_yes :: bool

definition targets :: "restore_options \<Rightarrow> string list" where
  "targets o1 =
     (if o_inPlace o1 then [''--in-place''] else []) @
     (if o_toNewPVC o1 \<noteq> '''' then [''--to-new-pvc''] else []) @
     (if o_toDatabase o1 then [''--to-database''] else []) @
     (if o_toDir o1 \<noteq> '''' then [''--to''] else [])"

definition resticRestoreArgs :: "restore_options \<Rightarrow> string \<Rightarrow> string list" where
  "resticRestoreArgs o1 target =
     [''restore'', o_snapshot o1, ''--target='' @ target] @
     (if o_path o1 \<noteq> '''' then [''--include='' @ o_path o1] else []) @
     map (\<lambda>p. ''--include='' @ p) (o_include o1) @
     map (\<lambda>p. ''--exclude='' @ p) (o_exclude o1) @
     (if o_delete o1 then [''--delete''] else []) @
     (if o_dryRun o1 then [''--dry-run'', ''--verbose''] else [])"

section \<open>Unpacking an archive\<close>

text \<open>
  The local file system is a parameter, and so is the stream of a command run in a pod: the
  entries that arrive (\<open>archive/tar\<close>), the error the archive ends with if it is not complete,
  and how the command ends, which depends on whether its output was read to the end: the
  write side of the pipe waits for its reader.
\<close>

record tar_entry =
  te_Name :: string
  te_Typeflag :: char
  te_Mode :: int
  te_Linkname :: string
  te_Data :: string

definition TypeReg :: char where "TypeReg = CHR ''0''"
definition TypeSymlink :: char where "TypeSymlink = CHR ''2''"
definition TypeDir :: char where "TypeDir = CHR ''5''"

record 'w files =
  f_Getwd :: "('w, string) go"
  f_MkdirAll :: "string \<Rightarrow> int \<Rightarrow> ('w, unit) go"
  f_Open :: "string \<Rightarrow> int \<Rightarrow> ('w, unit) go"
  f_Copy :: "string \<Rightarrow> string \<Rightarrow> ('w, unit) go"
  f_Close :: "string \<Rightarrow> ('w, unit) go"
  f_Remove :: "string \<Rightarrow> ('w, unit) go"
  f_Symlink :: "string \<Rightarrow> string \<Rightarrow> ('w, unit) go"
  f_Stream :: "nsname \<Rightarrow> string \<Rightarrow> string list \<Rightarrow> ('w, tar_entry list \<times> goerr option) go"
  f_Finish :: "nsname \<Rightarrow> string \<Rightarrow> string list \<Rightarrow> bool \<Rightarrow> ('w, unit) go"

definition Abs :: "'w files \<Rightarrow> string \<Rightarrow> ('w, 'o, string) comp" where
  "Abs f p = (if IsAbs p then ret (Clean p)
              else bind_go (ask (f_Getwd f)) (\<lambda>wd. ret (JoinPath [wd, p])))"

definition mkdir_all :: "'w files \<Rightarrow> string \<Rightarrow> int \<Rightarrow> ('w, 'o, unit) comp" where
  "mkdir_all f path mode = call (Local (Mkdir path)) (f_MkdirAll f path mode)"

definition writeFile :: "'w files \<Rightarrow> string \<Rightarrow> int \<Rightarrow> string \<Rightarrow> ('w, 'o, unit) comp" where
  "writeFile f path mode data =
     bind_go (call (Local (Write path)) (f_Open f path mode)) (\<lambda>_.
     bind_go (attempt (ask (f_Copy f path data))) (\<lambda>res.
     case res of
       Inl e \<Rightarrow> bind_go (attempt (ask (f_Close f path))) (\<lambda>_. fail e)
     | Inr _ \<Rightarrow> ask (f_Close f path)))"

text \<open>Where an entry goes, or the refusal of it.\<close>

definition entry_target :: "string \<Rightarrow> string \<Rightarrow> goerr + string" where
  "entry_target dest name =
     (let target = JoinPath [dest, Clean (''/'' @ name)]
      in if \<not> HasPrefix target (Clean dest @ ''/'') \<and> target \<noteq> Clean dest then
           Inl (Errorf ''refusing entry outside the target directory: %q'' [Str name])
         else Inr target)"

definition unpack_entry :: "'w files \<Rightarrow> string \<Rightarrow> tar_entry \<Rightarrow> ('w, 'o, nat) comp" where
  "unpack_entry f dest header =
     bind_go (lift (entry_target dest (te_Name header))) (\<lambda>target.
     if te_Typeflag header = TypeDir then
       bind_go (mkdir_all f target (te_Mode header)) (\<lambda>_. ret 0)
     else if te_Typeflag header = TypeReg then
       bind_go (mkdir_all f (Dir target) 0x1ED) (\<lambda>_.
       bind_go (writeFile f target (te_Mode header) (te_Data header)) (\<lambda>_. ret 1))
     else if te_Typeflag header = TypeSymlink then
       bind_go (mkdir_all f (Dir target) 0x1ED) (\<lambda>_.
       bind_go (attempt (call (Local (Remove target)) (f_Remove f target))) (\<lambda>_.
       bind_go (call (Local (Symlink (te_Linkname header) target))
         (f_Symlink f (te_Linkname header) target)) (\<lambda>_. ret 1)))
     else ret 0)"

fun untar :: "'w files \<Rightarrow> string \<Rightarrow> tar_entry list \<Rightarrow> goerr option \<Rightarrow> nat \<Rightarrow> ('w, 'o, nat) comp" where
  "untar f dest [] ending n = (case ending of None \<Rightarrow> ret n | Some e \<Rightarrow> fail e)"
| "untar f dest (header # rest) ending n =
     bind_go (unpack_entry f dest header) (\<lambda>k. untar f dest rest ending (n + k))"

definition unpack_stream ::
  "'w cli \<Rightarrow> 'w files \<Rightarrow> string \<Rightarrow> string list \<Rightarrow> pod \<Rightarrow> ('w, 'o, unit) comp" where
  "unpack_stream c f dest command p =
     (let key = key_of (pod_Meta p)
      in bind_go (call (ExecPod key containerName command) (f_Stream f key containerName command)) (\<lambda>(entries, ending).
         bind_go (attempt (untar f dest entries ending 0)) (\<lambda>untarErr.
         bind_go (ask (f_Finish f key containerName command (error_of untarErr = None))) (\<lambda>_.
         bind_go (lift untarErr) (\<lambda>n.
         say c ErrOut ''restored %d files into %s'' [Num (int n), Str dest])))))"

definition restoreToDir ::
  "'w cli \<Rightarrow> 'w files \<Rightarrow> scheduled_backup \<Rightarrow> restore_options \<Rightarrow> ('w, 'o, unit) comp" where
  "restoreToDir c f sb o1 =
     bind_go (Abs f (o_toDir o1)) (\<lambda>dest.
     bind_go (mkdir_all f dest 0x1ED) (\<lambda>_.
     let path = (if o_path o1 = '''' then ''/'' else o_path o1)
     in bind_go (say c ErrOut ''downloading %s from snapshot %s into %s''
          [Str path, Str (o_snapshot o1), Str dest]) (\<lambda>_.
        Attach c sb (no_options\<lparr>ro_Purpose := ''download''\<rparr>) defaultResticTimeout
          (unpack_stream c f dest (resticCommand [''dump'', ''--archive=tar'', o_snapshot o1, path])))))"

section \<open>A new claim\<close>

fun quantity_text :: "quantity \<Rightarrow> string" where "quantity_text (Quantity t) = t"

definition claimSize :: "'w cli \<Rightarrow> scheduled_backup \<Rightarrow> volume_spec \<Rightarrow> string \<Rightarrow> ('w, 'o, quantity) comp" where
  "claimSize c sb v override =
     (if override \<noteq> '''' then lift (ParseQuantity (c_Lib c) override)
      else
        bind_go (attempt (ask (k_GetPVC (c_Kube c) (NN (sb_Namespace sb) (vs_ExistingClaim v))))) (\<lambda>got.
        case got of
          Inl e \<Rightarrow> fail (Errorf ''reading pvc/%s to size the new claim: %w; pass --size to set it directly''
            [Str (vs_ExistingClaim v), Err e])
        | Inr source \<Rightarrow>
            (case map_of (pvc_Requests source) ''storage'' of
               Some sz \<Rightarrow> ret sz
             | None \<Rightarrow> fail (Errorf ''pvc/%s requests no storage size; pass --size''
                 [Str (om_Name (pvc_Meta source))]))))"

definition restore_claim :: "scheduled_backup \<Rightarrow> string \<Rightarrow> quantity \<Rightarrow> pvc" where
  "restore_claim sb name sz =
     \<lparr>pvc_Meta = new_meta (sb_Namespace sb) name [(labelManagedBy, ManagedByValue)],
      pvc_AccessModes = [''ReadWriteOnce''], pvc_Requests = [(''storage'', sz)],
      pvc_StorageClassName = None, pvc_Phase = ''''\<rparr>"

definition new_claim_options :: "restore_options \<Rightarrow> run_options" where
  "new_claim_options o1 =
     no_options\<lparr>ro_Purpose := purposeRestore,
       ro_Command := resticCommand (resticRestoreArgs o1 restoreMountPath),
       ro_ExtraVolumes := [claim_volume ''restore-target'' (o_toNewPVC o1) False],
       ro_ExtraMounts := [\<lparr>vm_Name = ''restore-target'', vm_MountPath = restoreMountPath, vm_ReadOnly = False\<rparr>]\<rparr>"

definition restoreToNewPVC ::
  "'w cli \<Rightarrow> scheduled_backup \<Rightarrow> restore_options \<Rightarrow> ('w, 'o, unit) comp" where
  "restoreToNewPVC c sb o1 =
     (case bs_Volume (sb_Spec sb) of
        None \<Rightarrow> fail (Errorf ''%w: scheduledbackup/%s has no spec.volume'' [Err ErrNoSourceVolume, Str (sb_Name sb)])
      | Some v \<Rightarrow>
          bind_go (claimSize c sb v (o_size o1)) (\<lambda>sz.
          let pvc = restore_claim sb (o_toNewPVC o1) sz
          in bind_go (attempt (call (CreatePVC pvc) (k_CreatePVC (c_Kube c) pvc))) (\<lambda>res.
             case res of
               Inl e \<Rightarrow> fail (Errorf ''creating pvc/%s: %w'' [Str (o_toNewPVC o1), Err e])
             | Inr _ \<Rightarrow>
                 bind_go (say c ErrOut ''created pvc/%s (%s)'' [Str (o_toNewPVC o1), Str (quantity_text sz)]) (\<lambda>_.
                 bind_go (Run c sb (new_claim_options o1) defaultResticTimeout) (\<lambda>_.
                 bind_go (p_printf c ErrOut ''restored into pvc/%s; inspect it with:'' [Str (o_toNewPVC o1)] newPrinter) (\<lambda>p.
                 bind_go (p_printf c ErrOut ''  corg shell %s --mount-data'' [Str (sb_Name sb)] p) p_Err))))))"

section \<open>Over the source volume\<close>

text \<open>
  The schedule is held while the volume is written. The patch answers with the object as the
  server has stored it, which the rest of the command works on; the flag tells whether the
  schedule has to be released again. A panic of the code is an error here.
\<close>

definition suspendForRestore ::
  "'w cli \<Rightarrow> scheduled_backup \<Rightarrow> bool \<Rightarrow> ('w, 'o, scheduled_backup \<times> bool) comp" where
  "suspendForRestore c sb dryRun =
     (if dryRun \<or> bs_Suspend (sb_Spec sb) then ret (sb, False)
      else
        bind_go (attempt (call (PatchBackup sb (suspend_backup True sb))
          (c_PatchBackup c sb (suspend_backup True sb)))) (\<lambda>res.
        case res of
          Inl e \<Rightarrow> fail (Errorf ''suspending scheduledbackup/%s: %w'' [Str (sb_Name sb), Err e])
        | Inr sb \<Rightarrow> ret (sb, True)))"

definition release_schedule :: "'w cli \<Rightarrow> scheduled_backup \<Rightarrow> ('w, 'o, unit) comp" where
  "release_schedule c sb =
     bind_go (ask (k_GetBackup (c_Kube c) (NN (sb_Namespace sb) (sb_Name sb)))) (\<lambda>latest.
     bind_go (call (PatchBackup latest (suspend_backup False latest))
       (c_PatchBackup c latest (suspend_backup False latest))) (\<lambda>_. ret ()))"

text \<open>\<open>defer\<close>: the schedule is released whatever the outcome; an error is only printed.\<close>

definition warn_held :: "'w cli \<Rightarrow> scheduled_backup \<Rightarrow> goerr + unit \<Rightarrow> ('w, 'o, printer) comp" where
  "warn_held c sb res =
     (case res of
        Inr _ \<Rightarrow> ret newPrinter
      | Inl e \<Rightarrow>
          bind_go (p_printf c ErrOut ''! could not restore spec.suspend on scheduledbackup/%s: %v''
            [Str (sb_Name sb), Err e] newPrinter) (\<lambda>p.
          p_printf c ErrOut ''! check it with: corg status %s'' [Str (sb_Name sb)] p))"

definition released :: "'w cli \<Rightarrow> scheduled_backup \<Rightarrow> bool \<Rightarrow> ('w, 'o, unit) comp \<Rightarrow> ('w, 'o, unit) comp" where
  "released c sb held m =
     bind_go (attempt m) (\<lambda>res.
     bind_go (attempt (if held then release_schedule c sb else ret ())) (\<lambda>freed.
     bind_go (warn_held c sb freed) (\<lambda>_.
     lift res)))"

definition in_place_options :: "restore_options \<Rightarrow> volume_spec \<Rightarrow> run_options" where
  "in_place_options o1 v =
     no_options\<lparr>ro_Purpose := purposeRestore, ro_MountData := True,
       ro_Command := resticCommand (resticRestoreArgs o1 (EffectiveMountPath v))\<rparr>"

definition restoreInPlace ::
  "'w cli \<Rightarrow> scheduled_backup \<Rightarrow> restore_options \<Rightarrow> ('w, 'o, unit) comp" where
  "restoreInPlace c sb o1 =
     (case bs_Volume (sb_Spec sb) of
        None \<Rightarrow> fail (Errorf ''%w: scheduledbackup/%s has no spec.volume'' [Err ErrNoSourceVolume, Str (sb_Name sb)])
      | Some v \<Rightarrow>
          bind_go (confirm c (o_yes o1 \<or> o_dryRun o1)
            (Sprintf ''pvc/%s in namespace %s'' [Str (vs_ExistingClaim v), Str (sb_Namespace sb)]) (sb_Name sb)) (\<lambda>_.
          bind_go (suspendForRestore c sb (o_dryRun o1)) (\<lambda>(sb, held).
          released c sb held
            (bind_go (say c ErrOut ''restoring snapshot %s over pvc/%s'' [Str (o_snapshot o1), Str (vs_ExistingClaim v)]) (\<lambda>_.
             case bs_Volume (sb_Spec sb) of
               None \<Rightarrow> fail (Sentinel ''invalid memory address or nil pointer dereference'')
             | Some v \<Rightarrow> Run c sb (in_place_options o1 v) defaultResticTimeout)))))"

section \<open>Into the database\<close>

definition dumpExtension :: "string \<Rightarrow> string" where
  "dumpExtension engine = (if engine = DatabaseEngineCNPG then ''.dmp'' else ''.sql'')"

fun database_tag :: "backup_source list \<Rightarrow> string" where
  "database_tag [] = ''''"
| "database_tag (src # srcs) =
     (if src_Type src = SourceTypeCNPG \<or> src_Type src = SourceTypeMariaDB then EffectiveTag src
      else database_tag srcs)"

definition databaseSourceTag :: "scheduled_backup \<Rightarrow> string" where
  "databaseSourceTag sb = database_tag (bs_Sources (sb_Spec sb))"

definition restore_pipeline :: "scheduled_backup \<Rightarrow> database_spec \<Rightarrow> restore_options \<Rightarrow> string" where
  "restore_pipeline sb db o1 =
     (let dumpFile = sb_Namespace sb @ dumpExtension (db_Engine db);
          tag = databaseSourceTag sb;
          dump = ''dump'' @ (if tag \<noteq> '''' then '' --tag='' @ shellQuote tag else '''')
      in ''restic '' @ dump @ '' '' @ shellQuote (o_snapshot o1) @ '' '' @ shellQuote dumpFile @
         '' | restoredb '' @ db_Engine db @ '' --secret-mount='' @ DBSecretMountPath @
         (if o_dryRun o1 then '' --dry-run'' else ''''))"

definition guarded_pipeline :: "string \<Rightarrow> string" where
  "guarded_pipeline pipeline =
     ''command -v restoredb >/dev/null 2>&1 || { echo '' @
     shellQuote (''this backup image has no restoredb; re-pull ghcr.io/clevyr/restic '' @ ''or unpin spec.image'') @
     '' >&2; exit 1; }'' @ [CHR 0x0A] @ pipeline"

definition database_options :: "scheduled_backup \<Rightarrow> database_spec \<Rightarrow> restore_options \<Rightarrow> run_options" where
  "database_options sb db o1 =
     no_options\<lparr>ro_Purpose := ''restoredb'', ro_MountDatabase := True,
       ro_Command := [''sh'', ''-c'', guarded_pipeline (restore_pipeline sb db o1)]\<rparr>"

definition restoreToDatabase ::
  "'w cli \<Rightarrow> scheduled_backup \<Rightarrow> restore_options \<Rightarrow> ('w, 'o, unit) comp" where
  "restoreToDatabase c sb o1 =
     (case bs_Database (sb_Spec sb) of
        None \<Rightarrow> fail (Errorf ''%w: scheduledbackup/%s has no spec.database'' [Err ErrNoDatabase, Str (sb_Name sb)])
      | Some db \<Rightarrow>
          let target = (if db_Host db = '''' then Sprintf ''the %s database'' [Str (db_Engine db)]
                        else Sprintf ''the %s database %q on %s'' [Str (db_Engine db), Str (db_Name db), Str (db_Host db)])
          in bind_go (confirm c (o_yes o1 \<or> o_dryRun o1) target (sb_Name sb)) (\<lambda>_.
             bind_go (say c ErrOut ''restoring %s from snapshot %s'' [target, Str (o_snapshot o1)]) (\<lambda>_.
             Run c sb (database_options sb db o1) defaultResticTimeout)))"

section \<open>The choice of a target\<close>

definition availableTargets :: "scheduled_backup \<Rightarrow> string list" where
  "availableTargets sb =
     ''--to DIR (download to this machine)'' #
     (case bs_Volume (sb_Spec sb) of
        None \<Rightarrow> []
      | Some v \<Rightarrow> [''--to-new-pvc NAME (a fresh claim, for inspection)'',
          ''--in-place (overwrite pvc/'' @ vs_ExistingClaim v @ '')'']) @
     (if bs_Database (sb_Spec sb) \<noteq> None then [''--to-database (overwrite the live database)''] else [])"



text \<open>\<open>fmt.Sscanf(s, "%d", &choice)\<close> reads an optional sign and digits at the front; what
  follows them is ignored. The text has no leading space.\<close>

definition scan_int :: "string \<Rightarrow> int option" where
  "scan_int s =
     (let (neg, ds) = (case s of
          [] \<Rightarrow> (False, [])
        | c # r \<Rightarrow> if c = CHR ''-'' then (True, r) else if c = CHR ''+'' then (False, r) else (False, s));
          digits = takeWhile is_digit ds;
          n = (if neg then - digits_val digits else digits_val digits)
      in if digits = [] \<or> n < - (2 ^ 63) \<or> 2 ^ 63 \<le> n then None else Some n)"

definition chosen_target :: "string list \<Rightarrow> string \<Rightarrow> goerr + string" where
  "chosen_target ts line =
     (let s = TrimSpace line
      in if s = '''' then Inr (ts ! 0)
         else
           (case scan_int s of
              Some choice \<Rightarrow>
                if choice < 1 \<or> int (length ts) < choice then
                  Inl (Errorf ''%w: %q is not one of 1-%d'' [Err ErrNoTarget, Str s, Num (int (length ts))])
                else Inr (ts ! nat (choice - 1))
            | None \<Rightarrow> Inl (Errorf ''%w: %q is not one of 1-%d'' [Err ErrNoTarget, Str s, Num (int (length ts))])))"

definition take_target :: "restore_options \<Rightarrow> string \<Rightarrow> goerr + restore_options" where
  "take_target o1 t =
     (if HasPrefix t ''--to '' then
        Inl (Errorf ''%w: pass --to DIR with the directory to download into'' [Err ErrNoTarget])
      else if HasPrefix t ''--to-new-pvc'' then
        Inl (Errorf ''%w: pass --to-new-pvc NAME with a name for the new claim'' [Err ErrNoTarget])
      else if HasPrefix t ''--in-place'' then Inr (o1\<lparr>o_inPlace := True\<rparr>)
      else Inr (o1\<lparr>o_toDatabase := True\<rparr>))"

definition chooseTarget ::
  "'w cli \<Rightarrow> scheduled_backup \<Rightarrow> restore_options \<Rightarrow> ('w, 'o, restore_options) comp" where
  "chooseTarget c sb o1 =
     (let ts = availableTargets sb
      in if \<not> c_Interactive c then
           bind_go (print_lines c ErrOut
             ((''scheduledbackup/%s can restore to:'', [Str (sb_Name sb)]) # map (\<lambda>t. (''  %s'', [Str t])) ts) newPrinter) (\<lambda>p.
           bind_go (p_Err p) (\<lambda>_. fail ErrNoTarget))
         else
           bind_go (print_lines c ErrOut
             ((''Where should scheduledbackup/%s be restored?'', [Str (sb_Name sb)]) #
              map (\<lambda>(i, t). (''  %d) %s'', [Num (int i + 1), Str t])) (enumerate 0 ts) @
              [(''Choose [1]: '', [])]) newPrinter) (\<lambda>p.
           bind_go (p_Err p) (\<lambda>_.
           bind_go (ask (c_ReadLine c)) (\<lambda>line.
           bind_go (lift (chosen_target ts line)) (\<lambda>t.
           lift (take_target o1 t))))))"

definition runRestore ::
  "'w cli \<Rightarrow> 'w files \<Rightarrow> scheduled_backup \<Rightarrow> restore_options \<Rightarrow> ('w, 'o, unit) comp" where
  "runRestore c f sb o1 =
     (let set = targets o1
      in bind_go (if 1 < length set then
                    fail (Errorf ''choose one restore target, got %s'' [Str (Join set '' and '')])
                  else if set = [] then chooseTarget c sb o1
                  else ret o1) (\<lambda>o1.
         if o_toDir o1 \<noteq> '''' then restoreToDir c f sb o1
         else if o_toNewPVC o1 \<noteq> '''' then restoreToNewPVC c sb o1
         else if o_toDatabase o1 then restoreToDatabase c sb o1
         else restoreInPlace c sb o1))"

end
