(* ===== verification/RestoreContracts.thy ===== *)
theory RestoreContracts
  imports Restore ResticContracts
begin

text \<open>
  What restoring promises: nothing is overwritten without a clear word, the schedule is
  released whatever happens, a restore for inspection touches the new claim only, the
  entries of an archive stay below the directory asked for, and the shell reads the words
  it was meant to read.
\<close>

section \<open>Consent\<close>

text \<open>The flag, or a terminal on which a line was read that is the name.\<close>

definition consented :: "'w cli \<Rightarrow> bool \<Rightarrow> string \<Rightarrow> bool" where
  "consented c skip name \<longleftrightarrow> skip \<or>
     (c_Interactive c \<and> (\<exists>w line w'. c_ReadLine c w = (Inr line, w') \<and> TrimSpace line = name))"

lemma confirm_consented:
  "wp (confirm c skip what name) (\<lambda>_ t. consented c skip name \<and> (\<exists>w. t = s\<lparr>st_World := w\<rparr>))
     (\<lambda>_ t. st_Log t = st_Log s) s"
proof (cases "skip \<or> \<not> c_Interactive c")
  case True
  then show ?thesis by (auto simp: confirm_def wp_simps consented_def silent_same)
next
  case False
  then have asks: "skip = False" "c_Interactive c" by auto
  have ask: "wp (bind_go (p_Err p) (\<lambda>_. bind_go (ask (c_ReadLine c)) (\<lambda>line.
      if TrimSpace line \<noteq> name then fail (Errorf ''%w: %s was not changed'' [Err ErrNotConfirmed, what]) else ret ())))
      (\<lambda>_ t. consented c False name \<and> (\<exists>w. t = s\<lparr>st_World := w\<rparr>)) (\<lambda>_ t. st_Log t = st_Log s) (s\<lparr>st_World := w\<rparr>)"
    for p w
    using asks by (auto simp: wp_simps p_Err_def consented_def split: option.split sum.split prod.split)
  show ?thesis unfolding confirm_def asks(1) using asks(2)
    by (simp, subst wp_bind, intro wp_silent[OF silent_p_printf])
      (auto simp: wp_bind[of "p_printf _ _ _ _ _"] intro!: wp_silent[OF silent_p_printf] ask)
qed

text \<open>What follows a question has an effect only with consent.\<close>

lemma asked_first:
  assumes "bind_go (confirm c skip what name) f s = (res, u)" "st_Log u \<noteq> st_Log s"
  shows "consented c skip name"
proof -
  obtain x t where x: "confirm c skip what name s = (x, t)" by (cases "confirm c skip what name s")
  with confirm_consented[where s = s and c = c and skip = skip and what = what and name = name] assms
  show ?thesis by (cases x) (auto simp: wp_def bind_go_def)
qed





lemma choice_needs_terminal:
  assumes "\<not> c_Interactive c"
  shows "st_Log (snd (chooseTarget c sb o1 s)) = st_Log s \<and> error_of (fst (chooseTarget c sb o1 s)) \<noteq> None"
proof -
  have "wp (chooseTarget c sb o1) (\<lambda>_ _. False) (\<lambda>_ t. st_Log t = st_Log s) s"
    unfolding chooseTarget_def Let_def if_P[OF assms]
    by (subst wp_bind, rule wp_silent[OF silent_print_lines])
      (auto simp: wp_simps p_Err_def split: option.split)
  then show ?thesis by (auto simp: wp_def error_of_def split: sum.splits)
qed

text \<open>
  C22. Nothing is overwritten without a clear word. If pruning, removing every lock, restoring
  over the source volume or restoring into the database has any effect on the cluster, the
  command was told to go ahead by its flag, was a dry run of a restore, or was attached to a
  terminal on which the name was typed. And a restore that names no target, without a
  terminal to ask on, or that names several, ends with an error and has no effect.
\<close>

theorem overwriting_needs_consent:
  fixes s :: "('w, 'o) st" and c :: "'w cli"
  shows "(st_Log (snd (runPrune c ns arg False yes s)) \<noteq> st_Log s \<longrightarrow> consented c yes arg) \<and>
    (st_Log (snd (runUnlock c ns arg True yes s)) \<noteq> st_Log s \<longrightarrow> consented c yes arg) \<and>
    (st_Log (snd (restoreInPlace c sb o1 s)) \<noteq> st_Log s \<longrightarrow> consented c (o_yes o1 \<or> o_dryRun o1) (sb_Name sb)) \<and>
    (st_Log (snd (restoreToDatabase c sb o1 s)) \<noteq> st_Log s \<longrightarrow> consented c (o_yes o1 \<or> o_dryRun o1) (sb_Name sb)) \<and>
    (if 1 < length (targets o1) \<or> targets o1 = [] \<and> \<not> c_Interactive c
     then st_Log (snd (runRestore c f sb o1 s)) = st_Log s \<and> error_of (fst (runRestore c f sb o1 s)) \<noteq> None
     else True)"
proof (intro conjI impI)
  assume "st_Log (snd (runPrune c ns arg False yes s)) \<noteq> st_Log s"
  then show "consented c yes arg"
    by (intro asked_first[OF prod.collapse[symmetric]]) (simp add: runPrune_def)
next
  assume "st_Log (snd (runUnlock c ns arg True yes s)) \<noteq> st_Log s"
  then show "consented c yes arg"
    by (intro asked_first[OF prod.collapse[symmetric]]) (simp add: runUnlock_def)
next
  assume "st_Log (snd (restoreInPlace c sb o1 s)) \<noteq> st_Log s"
  then show "consented c (o_yes o1 \<or> o_dryRun o1) (sb_Name sb)"
    by (cases "bs_Volume (sb_Spec sb)")
      (auto simp: restoreInPlace_def fail_def intro: asked_first[OF prod.collapse[symmetric]])
next
  assume "st_Log (snd (restoreToDatabase c sb o1 s)) \<noteq> st_Log s"
  then show "consented c (o_yes o1 \<or> o_dryRun o1) (sb_Name sb)"
    by (cases "bs_Database (sb_Spec sb)")
      (auto simp: restoreToDatabase_def Let_def fail_def intro: asked_first[OF prod.collapse[symmetric]])
next
  have "st_Log (snd (runRestore c f sb o1 s)) = st_Log s \<and> error_of (fst (runRestore c f sb o1 s)) \<noteq> None"
    if many: "1 < length (targets o1)"
    using many by (simp add: runRestore_def Let_def bind_go_def fail_def error_of_def)
  moreover have "st_Log (snd (runRestore c f sb o1 s)) = st_Log s \<and> error_of (fst (runRestore c f sb o1 s)) \<noteq> None"
    if none: "targets o1 = []" "\<not> c_Interactive c"
    using none(1) choice_needs_terminal[OF none(2), of sb o1 s]
    by (auto simp: runRestore_def Let_def bind_go_def error_of_def split: prod.splits sum.splits)
  ultimately show "if 1 < length (targets o1) \<or> targets o1 = [] \<and> \<not> c_Interactive c
     then st_Log (snd (runRestore c f sb o1 s)) = st_Log s \<and> error_of (fst (runRestore c f sb o1 s)) \<noteq> None
     else True" by auto
qed

definition asked_cli :: "unit cli" where
  "asked_cli = kept_cli\<lparr>c_Interactive := True, c_ReadLine := ret (''sb/nightly'' @ [CHR 0x0A])\<rparr>"

theorem overwriting_needs_consent_witness:
  "st_Log (snd (runPrune asked_cli ''app'' ''sb/nightly'' False False (start () ()))) \<noteq> [] \<and>
   consented asked_cli False ''sb/nightly''"
proof -
  have "st_Log (snd (runPrune asked_cli ''app'' ''sb/nightly'' False False (start () ()))) \<noteq> []"
  proof -
    have "length (st_Log (snd (runPrune asked_cli ''app'' ''sb/nightly'' False False (start () ())))) = 2"
      by code_simp
    then show ?thesis by auto
  qed
  with overwriting_needs_consent[of asked_cli "''app''" "''sb/nightly''" False "start () ()"] show ?thesis
    by (simp add: start_log)
qed

section \<open>The schedule is held\<close>

text \<open>How a held schedule is let go: one patch of the object that bears the name \<open>n\<close> in the
  world \<open>w\<close>, as it is there, which clears the flag and changes nothing else; or nothing, when
  that object cannot be read.\<close>

definition let_go :: "'w cli \<Rightarrow> nsname \<Rightarrow> 'w \<Rightarrow> 'o entry list \<Rightarrow> bool" where
  "let_go c n w l \<longleftrightarrow>
     (case fst (k_GetBackup (c_Kube c) n w) of
        Inl e \<Rightarrow> l = []
      | Inr latest \<Rightarrow> map en_Effect l = [PatchBackup latest (suspend_backup False latest)])"

lemma release_lets_go:
  "\<exists>l. st_Log (snd (release_schedule c sb s)) = st_Log s @ l \<and>
     let_go c (NN (sb_Namespace sb) (sb_Name sb)) (st_World s) l"
  by (force simp: release_schedule_def bind_go_def ask_def call_def ret_def Let_def let_go_def
      split: prod.split sum.split)

lemma st_log_world: "st_Log (t\<lparr>st_World := w\<rparr>) = st_Log t"
  by simp

lemma released_log:
  assumes m: "m s = (x, t)"
  shows "\<exists>r. st_Log (snd (released c sb held m s)) = st_Log t @ r \<and>
    (if held then let_go c (NN (sb_Namespace sb) (sb_Name sb)) (st_World t) r else r = [])"
proof -
  let ?free = "if held then release_schedule c sb else ret ()"
  have "\<exists>r. st_Log (snd (?free t)) = st_Log t @ r \<and>
      (if held then let_go c (NN (sb_Namespace sb) (sb_Name sb)) (st_World t) r else r = [])"
    using release_lets_go[of c sb t] by (cases held) (auto simp: ret_def)
  then obtain r where r: "st_Log (snd (?free t)) = st_Log t @ r"
    "if held then let_go c (NN (sb_Namespace sb) (sb_Name sb)) (st_World t) r else r = []" by blast
  have quiet: "silent (bind_go (warn_held c sb y) (\<lambda>_. lift x))" for y
    unfolding warn_held_def by (auto intro!: quiet_rules)
  have "released c sb held m s = bind_go (warn_held c sb (fst (?free t))) (\<lambda>_. lift x) (snd (?free t))"
    unfolding released_def by (simp add: bind_go_def attempt_def m split: sum.split prod.split)
  with silent_state[OF quiet prod.collapse[symmetric]]
  have "st_Log (snd (released c sb held m s)) = st_Log (snd (?free t))" by (metis st_log_world)
  with r show ?thesis by (intro exI[of _ r]) simp
qed

text \<open>What is held while the schedule is suspended: the Jobs of the restore.\<close>

definition restoring :: "restore_options \<Rightarrow> 'o entry \<Rightarrow> bool" where
  "restoring o1 = job_effect (\<lambda>j. \<exists>dir. runs (resticCommand (resticRestoreArgs o1 dir)) j)"

definition in_place_run ::
  "'w cli \<Rightarrow> restore_options \<Rightarrow> volume_spec \<Rightarrow> scheduled_backup \<Rightarrow> ('w, 'o, unit) comp" where
  "in_place_run c o1 v sb =
     bind_go (say c ErrOut ''restoring snapshot %s over pvc/%s'' [Str (o_snapshot o1), Str (vs_ExistingClaim v)]) (\<lambda>_.
     case bs_Volume (sb_Spec sb) of
       None \<Rightarrow> fail (Sentinel ''invalid memory address or nil pointer dereference'')
     | Some v \<Rightarrow> Run c sb (in_place_options o1 v) defaultResticTimeout)"

lemma emits_in_place_run: "emits (restoring o1) (in_place_run c o1 v sb)"
proof -
  have "emits (restoring o1) (Run c sb (in_place_options o1 w) defaultResticTimeout)" for w
    by (rule emits_mono[OF emits_Run])
      (auto simp: restoring_def in_place_options_def no_options_def elim!: job_effect_mono dest!: made_for_command)
  then show ?thesis unfolding in_place_run_def
    by (auto intro!: emits_bind silent_emits[OF silent_say] emits_fail split: option.split)
qed

text \<open>A restore over the volume that has done anything has got past the question.\<close>

lemma restoreInPlace_confirmed:
  assumes "restoreInPlace c sb o1 s = (res, u)" "\<not> (\<exists>e. res = Inl e \<and> st_Log u = st_Log s)"
  obtains v t where "bs_Volume (sb_Spec sb) = Some v" "st_Log t = st_Log s"
    "bind_go (suspendForRestore c sb (o_dryRun o1)) (\<lambda>(sb, held). released c sb held (in_place_run c o1 v sb)) t = (res, u)"
proof -
  obtain v where v: "bs_Volume (sb_Spec sb) = Some v"
    using assms by (auto simp: restoreInPlace_def fail_def split: option.splits)
  obtain x t where x: "confirm c (o_yes o1 \<or> o_dryRun o1)
      (Sprintf ''pvc/%s in namespace %s'' [Str (vs_ExistingClaim v), Str (sb_Namespace sb)]) (sb_Name sb) s = (x, t)" by fastforce
  have t: "st_Log t = st_Log s" using silent_state[OF silent_confirm x] by auto
  let ?rest = "bind_go (suspendForRestore c sb (o_dryRun o1)) (\<lambda>(sb, held). released c sb held (in_place_run c o1 v sb))"
  have "restoreInPlace c sb o1 s = (case x of Inl e \<Rightarrow> (Inl e, t) | Inr _ \<Rightarrow> ?rest t)"
    unfolding restoreInPlace_def v option.case in_place_run_def[symmetric]
    by (simp add: bind_go_def[of "confirm _ _ _ _"] x split: sum.split)
  with assms t v show thesis by (cases x) (auto intro: that)
qed

text \<open>Suspending for a restore: not at all, or one patch, after which the schedule is held.\<close>

lemma suspendForRestore_cases:
  assumes "suspendForRestore c sb dryRun t = (x, w)"
  shows "if dryRun \<or> bs_Suspend (sb_Spec sb) then x = Inr (sb, False) \<and> w = t
    else \<exists>hold. st_Log w = st_Log t @ [hold] \<and> en_Effect hold = PatchBackup sb (suspend_backup True sb) \<and>
      (case x of Inl _ \<Rightarrow> en_Error hold \<noteq> None
       | Inr (sb', held) \<Rightarrow> en_Error hold = None \<and> held \<and>
           c_PatchBackup c sb (suspend_backup True sb) (st_World t) = (Inr sb', st_World w))"
  using assms
  by (auto simp: suspendForRestore_def bind_go_def attempt_def call_def ret_def fail_def error_of_def
      split: prod.splits sum.splits if_splits)

text \<open>
  \<open>held_while c o1 sb res prior l\<close>: what a restore that holds the schedule of \<open>sb\<close> does. It is
  refused before it has done anything; or the patch that suspends the schedule fails and
  nothing follows; or the patch succeeds, the Jobs of the restore run, and, whatever has
  become of them, the ScheduledBackup is let go as it is in the world they have left.
\<close>

definition held_while ::
  "'w cli \<Rightarrow> restore_options \<Rightarrow> scheduled_backup \<Rightarrow> (goerr + unit) \<Rightarrow> 'o entry list \<Rightarrow> 'o entry list \<Rightarrow> bool" where
  "held_while c o1 sb res prior l \<longleftrightarrow>
     l = [] \<and> (\<exists>e. res = Inl e) \<or>
     (\<exists>hold rest. l = hold # rest \<and> en_Effect hold = PatchBackup sb (suspend_backup True sb) \<and>
        (if en_Error hold \<noteq> None then rest = [] \<and> (\<exists>e. res = Inl e)
         else \<exists>v sb' t during freed.
           bs_Volume (sb_Spec sb) = Some v \<and> st_Log t = prior @ [hold] \<and>
           (\<exists>w. c_PatchBackup c sb (suspend_backup True sb) w = (Inr sb', st_World t)) \<and>
           rest = during @ freed \<and> list_all (restoring o1) during \<and>
           st_Log (snd (in_place_run c o1 v sb' t)) = prior @ hold # during \<and>
           let_go c (NN (sb_Namespace sb) (sb_Name sb)) (st_World (snd (in_place_run c o1 v sb' t))) freed))"

text \<open>
  C23. The schedule is held while its volume is overwritten, and the same ScheduledBackup is
  let go again, whether the restore has succeeded or failed. A dry run, or a restore of a
  ScheduledBackup that is suspended already, touches nothing but its own Job. Every other
  restore over the source volume that does anything starts with the patch that sets
  \<open>spec.suspend\<close>; if it fails, nothing follows; if it succeeds, the Job runs the restore
  that was asked for, and the last effect is a patch that clears the flag on the object
  that bears the backup's name in the world the Job has left, and changes nothing else.
  The one exception is an object that cannot be read by then: it is left suspended, with a
  warning. The API server is relied on to answer a patch with the object patched.
\<close>

theorem restore_holds_the_schedule:
  assumes "restoreInPlace c sb o1 s = (res, u)"
    and "\<And>w sb' w'. c_PatchBackup c sb (suspend_backup True sb) w = (Inr sb', w') \<Longrightarrow>
      sb_Namespace sb' = sb_Namespace sb \<and> sb_Name sb' = sb_Name sb"
  shows "\<exists>l. st_Log u = st_Log s @ l \<and>
    (if o_dryRun o1 \<or> bs_Suspend (sb_Spec sb) then list_all (restoring o1) l
     else held_while c o1 sb res (st_Log s) l)"
proof (cases "\<exists>e. res = Inl e \<and> st_Log u = st_Log s")
  case True
  then show ?thesis by (intro exI[of _ "[]"]) (auto simp: held_while_def)
next
  case False
  with assms(1) obtain v t where v: "bs_Volume (sb_Spec sb) = Some v" and t: "st_Log t = st_Log s" and run: "bind_go (suspendForRestore c sb (o_dryRun o1))
      (\<lambda>(sb, held). released c sb held (in_place_run c o1 v sb)) t = (res, u)"
    by (rule restoreInPlace_confirmed)
  obtain x w where x: "suspendForRestore c sb (o_dryRun o1) t = (x, w)" by fastforce
  show ?thesis
  proof (cases x)
    case (Inl e)
    with suspendForRestore_cases[OF x] obtain hold where "\<not> (o_dryRun o1 \<or> bs_Suspend (sb_Spec sb))"
      "st_Log w = st_Log t @ [hold]" "en_Effect hold = PatchBackup sb (suspend_backup True sb)" "en_Error hold \<noteq> None"
      by (auto split: if_splits)
    moreover have "u = w" "res = Inl e" using run x Inl by (simp_all add: bind_error)
    ultimately show ?thesis using t by (intro exI[of _ "[hold]"]) (auto simp: held_while_def)
  next
    case (Inr y)
    obtain sb' held where y: "y = (sb', held)" by (cases y)
    with run x Inr have rel: "released c sb' held (in_place_run c o1 v sb') w = (res, u)" by (simp add: bind_result)
    obtain z i where i: "in_place_run c o1 v sb' w = (z, i)" by fastforce
    from emitsD[OF emits_in_place_run i] obtain d where d: "st_Log i = st_Log w @ d" "list_all (restoring o1) d" by blast
    from released_log[where m = "in_place_run c o1 v sb'" and s = w, OF i, of c sb' held] rel obtain r where r: "st_Log u = st_Log i @ r"
      "if held then let_go c (NN (sb_Namespace sb') (sb_Name sb')) (st_World i) r else r = []" by auto
    show ?thesis
    proof (cases "o_dryRun o1 \<or> bs_Suspend (sb_Spec sb)")
      case True
      with suspendForRestore_cases[OF x] Inr y d r t show ?thesis by auto
    next
      case False
      with suspendForRestore_cases[OF x] Inr y obtain hold where hold: "st_Log w = st_Log t @ [hold]"
        "en_Effect hold = PatchBackup sb (suspend_backup True sb)" "en_Error hold = None" held
        "c_PatchBackup c sb (suspend_backup True sb) (st_World t) = (Inr sb', st_World w)" by auto
      from assms(2)[OF hold(5)] r(2) hold(4)
      have "let_go c (NN (sb_Namespace sb) (sb_Name sb)) (st_World i) r" by simp
      with hold d(2) i d t v have "held_while c o1 sb res (st_Log s) (hold # d @ r)"
        unfolding held_while_def
        by (intro disjI2 exI[of _ hold] exI[of _ "d @ r"])
          (simp, intro exI[of _ v] exI[of _ sb'] exI[of _ w] exI[of _ d] exI[of _ r], auto)
      with False hold(1) d r(1) t show ?thesis by (intro exI[of _ "hold # d @ r"]) simp
    qed
  qed
qed

definition volume_backup :: scheduled_backup where
  "volume_backup = sample_backup\<lparr>sb_Spec := (sb_Spec sample_backup)\<lparr>bs_Volume :=
     Some \<lparr>vs_ExistingClaim = ''data'', vs_MountPath = '''', vs_ReadOnly = True\<rparr>\<rparr>\<rparr>"

text \<open>A cluster that holds the ScheduledBackup but no CronJob, so that the Job cannot be built.\<close>

definition restore_cli :: "unit cli" where
  "restore_cli = plain_cli (empty_cluster\<lparr>k_GetBackup := (\<lambda>_. ret volume_backup)\<rparr>)"

definition no_restore :: restore_options where
  "no_restore = \<lparr>o_snapshot = ''latest'', o_inPlace = False, o_toNewPVC = '''', o_toDatabase = False, o_toDir = '''',
     o_size = '''', o_path = '''', o_include = [], o_exclude = [], o_delete = False, o_dryRun = False, o_yes = True\<rparr>"

theorem restore_holds_the_schedule_witness:
  "\<exists>hold freed. map en_Effect (st_Log (snd (restoreInPlace restore_cli volume_backup no_restore (start () ())))) =
     [hold, freed] \<and> hold = PatchBackup volume_backup (suspend_backup True volume_backup)"
proof -
  let ?l = "st_Log (snd (restoreInPlace restore_cli volume_backup no_restore (start () ())))"
  have two: "length ?l = 2" by code_simp
  have off: "\<not> (o_dryRun no_restore \<or> bs_Suspend (sb_Spec volume_backup))"
    by (simp add: no_restore_def volume_backup_def sample_backup_def)
  have same: "sb_Namespace sb' = sb_Namespace volume_backup \<and> sb_Name sb' = sb_Name volume_backup"
    if "c_PatchBackup restore_cli volume_backup (suspend_backup True volume_backup) w = (Inr sb', w')" for w sb' w'
    using that by (auto simp: restore_cli_def plain_cli_def ret_def suspend_backup_def)
  have "\<exists>l. ?l = st_Log (start () ()) @ l \<and>
      (if o_dryRun no_restore \<or> bs_Suspend (sb_Spec volume_backup) then list_all (restoring no_restore) l
       else held_while restore_cli no_restore volume_backup
         (fst (restoreInPlace restore_cli volume_backup no_restore (start () ()))) (st_Log (start () ())) l)"
    by (rule restore_holds_the_schedule[OF prod.collapse[symmetric]]) (rule same)
  with off have "held_while restore_cli no_restore volume_backup
      (fst (restoreInPlace restore_cli volume_backup no_restore (start () ()))) [] ?l"
    by (simp add: start_log)
  with two obtain hold rest where "?l = hold # rest"
    "en_Effect hold = PatchBackup volume_backup (suspend_backup True volume_backup)"
    by (auto simp: held_while_def)
  with two show ?thesis by (cases rest) auto
qed

section \<open>Archives\<close>

lemma entry_target_eq:
  assumes "IsAbs dest"
  shows "entry_target dest name =
    (if elements dest = [] \<and> elements (''/'' @ name) \<noteq> []
     then Inl (Errorf ''refusing entry outside the target directory: %q'' [Str name])
     else Inr (abs_path (elements dest @ elements (''/'' @ name))))"
proof -
  let ?ds = "elements dest" and ?ns = "elements (''/'' @ name)"
  have target: "JoinPath [dest, Clean (''/'' @ name)] = abs_path (?ds @ ?ns)" by (rule JoinPath_rooted[OF assms])
  have "inside (Clean dest) (abs_path (?ds @ ?ns)) \<longleftrightarrow> \<not> (?ds = [] \<and> ?ns \<noteq> [])"
    unfolding Clean_abs[OF assms]
    using inside_append[of ?ds ?ns] not_inside_root[OF _ elements_good, of "''/'' @ name"]
    by (cases "?ds = []"; cases "?ns = []") (simp_all only: append_Nil simp_thms)
  then show ?thesis unfolding entry_target_def Let_def target by (auto simp: inside_def)
qed

text \<open>The local operations an entry may lead to.\<close>

definition local_below :: "string \<Rightarrow> local_op \<Rightarrow> bool" where
  "local_below d op =
     (case op of
        Mkdir p \<Rightarrow> inside d p \<or> p = Dir d
      | Write p \<Rightarrow> inside d p
      | Remove p \<Rightarrow> inside d p
      | Symlink _ p \<Rightarrow> inside d p)"

definition below :: "string \<Rightarrow> 'o entry \<Rightarrow> bool" where
  "below d e \<longleftrightarrow> (case en_Effect e of Local op \<Rightarrow> local_below d op | _ \<Rightarrow> False)"

lemma entry_target_inside:
  assumes "IsAbs dest" "entry_target dest name = Inr t"
  shows "inside (Clean dest) t \<and> (inside (Clean dest) (Dir t) \<or> Dir t = Dir (Clean dest))"
proof -
  let ?ds = "elements dest" and ?ns = "elements (''/'' @ name)"
  have t: "t = abs_path (?ds @ ?ns)" "?ds \<noteq> [] \<or> ?ns = []"
    using assms(2) unfolding entry_target_eq[OF assms(1)] by (auto split: if_splits)
  have good: "list_all element (?ds @ ?ns)" using elements_good by simp
  show ?thesis
  proof (cases "?ns = []")
    case True
    with t show ?thesis by (simp add: Clean_abs[OF assms(1)] inside_def)
  next
    case False
    with t good have "Dir t = abs_path (?ds @ butlast ?ns)" by (simp add: Dir_abs_path butlast_append)
    with t False show ?thesis using inside_append[of ?ds] by (simp add: Clean_abs[OF assms(1)])
  qed
qed

lemma emits_unpack_entry:
  assumes "IsAbs dest"
  shows "emits (below (Clean dest)) (unpack_entry f dest header)"
proof (cases "entry_target dest (te_Name header)")
  case (Inl e)
  then show ?thesis by (simp add: unpack_entry_def bind_go_def lift_def emits_def)
next
  case (Inr t)
  from entry_target_inside[OF assms Inr] show ?thesis
    unfolding unpack_entry_def Inr mkdir_all_def writeFile_def
    by (intro emits_bind_result[OF emits_lift])
      (auto simp: lift_def below_def local_below_def intro!: quiet_rules)
qed

lemma unpack_entry_count:
  "unpack_entry f dest header s = (Inr k, t) \<Longrightarrow>
   k = (if te_Typeflag header \<in> {TypeReg, TypeSymlink} then 1 else 0)"
  by (auto simp: unpack_entry_def bind_go_def ret_def TypeReg_def TypeDir_def TypeSymlink_def
      split: prod.splits sum.splits if_splits)

text \<open>
  The names alone do not say where a path leads: an archive may bring a link and then an
  entry that goes through it. \<open>off_links l\<close>: none of the operations goes through a link
  that another has made. \<open>keeps_off_links\<close> is what the archive must be like for that: none
  of its entries lies at or below a link of its own, unless it is a link that takes its
  place.
\<close>

definition off_links :: "'o entry list \<Rightarrow> bool" where
  "off_links l \<longleftrightarrow>
     list_all (\<lambda>k. case en_Effect k of
       Local (Symlink _ q) \<Rightarrow>
         list_all (\<lambda>e. case en_Effect e of
           Local op \<Rightarrow>
             (case op of
                Mkdir p \<Rightarrow> \<not> inside q p
              | Write p \<Rightarrow> \<not> inside q p
              | Remove p \<Rightarrow> inside q p \<longrightarrow> p = q
              | Symlink _ p \<Rightarrow> inside q p \<longrightarrow> p = q)
         | _ \<Rightarrow> True) l
     | _ \<Rightarrow> True) l"

definition keeps_off_links :: "string \<Rightarrow> tar_entry list \<Rightarrow> bool" where
  "keeps_off_links dest entries \<longleftrightarrow> Clean dest \<noteq> ''/'' \<and>
     list_all (\<lambda>k. te_Typeflag k = TypeSymlink \<longrightarrow> list_all (\<lambda>h.
       case (entry_target dest (te_Name k), entry_target dest (te_Name h)) of
         (Inr q, Inr p) \<Rightarrow> inside q p \<longrightarrow> te_Typeflag h = TypeSymlink \<and> p = q
       | _ \<Rightarrow> True) entries) entries"

text \<open>The entry an operation comes from.\<close>

definition comes_from :: "string \<Rightarrow> tar_entry \<Rightarrow> 'o entry \<Rightarrow> bool" where
  "comes_from dest h e \<longleftrightarrow>
     (\<exists>t. entry_target dest (te_Name h) = Inr t \<and>
       (case en_Effect e of
          Local (Mkdir p) \<Rightarrow> te_Typeflag h = TypeDir \<and> p = t \<or> p = Dir t
        | Local (Write p) \<Rightarrow> te_Typeflag h = TypeReg \<and> p = t
        | Local (Remove p) \<Rightarrow> te_Typeflag h = TypeSymlink \<and> p = t
        | Local (Symlink _ p) \<Rightarrow> te_Typeflag h = TypeSymlink \<and> p = t
        | _ \<Rightarrow> False))"

lemma emits_comes_from: "emits (comes_from dest header) (unpack_entry f dest header)"
proof (cases "entry_target dest (te_Name header)")
  case (Inl e)
  then show ?thesis by (simp add: unpack_entry_def bind_go_def lift_def emits_def)
next
  case (Inr t)
  then show ?thesis
    unfolding unpack_entry_def Inr mkdir_all_def writeFile_def
    by (intro emits_bind_result[OF emits_lift])
      (auto simp: lift_def comes_from_def Inr intro!: quiet_rules)
qed

lemma untar_comes_from: "emits (\<lambda>e. \<exists>h\<in>set entries. comes_from dest h e) (untar f dest entries ending n)"
proof (induction f dest entries ending n rule: untar.induct)
  case (2 f dest header rest ending n)
  show ?case
    unfolding untar.simps by (intro emits_bind emits_mono[OF emits_comes_from] emits_mono[OF 2]) auto
qed (auto intro!: quiet_rules)

lemma abs_path_root: "list_all element cs \<Longrightarrow> abs_path cs = ''/'' \<longleftrightarrow> cs = []"
  using not_inside_root[of cs] by (cases "cs = []") (auto simp: abs_path_def inside_def)

lemma below_parent:
  assumes "IsAbs dest" "Clean dest \<noteq> ''/''" "entry_target dest name = Inr t" "entry_target dest link = Inr q"
    and "inside q (Dir t)"
  shows "inside q t \<and> t \<noteq> q"
proof -
  let ?ds = "elements dest" and ?ns = "elements (''/'' @ name)" and ?ls = "elements (''/'' @ link)"
  have ds: "?ds \<noteq> []" using assms(1,2) by (auto simp: Clean_abs abs_path_def)
  have t: "t = abs_path (?ds @ ?ns)" and q: "q = abs_path (?ds @ ?ls)"
    using assms(3,4) ds unfolding entry_target_eq[OF assms(1)] by (auto split: if_splits)
  have dir: "Dir t = abs_path (butlast (?ds @ ?ns))" unfolding t by (rule Dir_abs_path) (simp add: elements_good)
  have "q \<noteq> ''/''" using ds abs_path_root[of "?ds @ ?ls"] elements_good by (simp add: q)
  moreover have "q \<noteq> []" by (simp add: q abs_path_def)
  ultimately have "\<not> inside q ''/''" by (cases q) (auto simp: inside_def HasPrefix_iff)
  then have "butlast (?ds @ ?ns) \<noteq> []"
    using assms(5) unfolding dir by (auto simp: abs_path_def)
  then obtain cs c where cs: "?ds @ ?ns = cs @ [c]" "cs \<noteq> []" by (cases "?ds @ ?ns" rule: rev_cases) auto
  then have t': "t = Dir t @ ''/'' @ c"
    using abs_path_append[of cs "[c]"] unfolding dir by (simp add: t)
  from assms(5) obtain r where r: "Dir t = q @ r" by (auto simp: inside_def HasPrefix_iff)
  show ?thesis
  proof
    show "inside q t"
      using assms(5) by (subst t') (auto simp: inside_def HasPrefix_iff)
    show "t \<noteq> q" using r by (subst t') simp
  qed
qed

lemma untar_off_links:
  assumes "IsAbs dest" "keeps_off_links dest entries" "list_all (\<lambda>e. \<exists>h\<in>set entries. comes_from dest h e) l"
  shows "off_links l"
  unfolding off_links_def list_all_iff
proof (intro ballI)
  fix k
  assume "k \<in> set l"
  show "case en_Effect k of
      Local (Symlink _ q) \<Rightarrow> \<forall>e\<in>set l. case en_Effect e of
        Local op \<Rightarrow> (case op of Mkdir p \<Rightarrow> \<not> inside q p | Write p \<Rightarrow> \<not> inside q p
          | Remove p \<Rightarrow> inside q p \<longrightarrow> p = q | Symlink _ p \<Rightarrow> inside q p \<longrightarrow> p = q)
      | _ \<Rightarrow> True
    | _ \<Rightarrow> True"
  proof (cases "\<exists>x q. en_Effect k = Local (Symlink x q)")
    case True
    then obtain x q where k: "en_Effect k = Local (Symlink x q)" by blast
    with \<open>k \<in> set l\<close> assms(3) obtain m where m: "m \<in> set entries" "te_Typeflag m = TypeSymlink"
      "entry_target dest (te_Name m) = Inr q"
      by (fastforce simp: list_all_iff comes_from_def)
    have "case en_Effect e of
        Local op \<Rightarrow> (case op of Mkdir p \<Rightarrow> \<not> inside q p | Write p \<Rightarrow> \<not> inside q p
          | Remove p \<Rightarrow> inside q p \<longrightarrow> p = q | Symlink _ p \<Rightarrow> inside q p \<longrightarrow> p = q)
      | _ \<Rightarrow> True" if "e \<in> set l" for e
    proof -
      from that assms(3) obtain h where h: "h \<in> set entries" "comes_from dest h e" by (auto simp: list_all_iff)
      then obtain t where t: "entry_target dest (te_Name h) = Inr t" by (auto simp: comes_from_def)
      have off: "inside q t \<longrightarrow> te_Typeflag h = TypeSymlink \<and> t = q"
        using assms(2) h(1) m t by (fastforce simp: keeps_off_links_def list_all_iff)
      moreover have "\<not> inside q (Dir t)"
        using below_parent[OF assms(1) _ t m(3)] off assms(2) by (auto simp: keeps_off_links_def)
      ultimately show ?thesis
        using h(2) t by (auto simp: comes_from_def TypeDir_def TypeReg_def TypeSymlink_def
            split: effect.splits local_op.splits)
    qed
    then show ?thesis by (simp add: k)
  next
    case False
    then show ?thesis by (auto split: effect.split local_op.split)
  qed
qed

text \<open>
  C24. The entries of an archive are put below the (absolute) directory asked for. Whatever their names
  and in whatever state the file system is, every path that unpacking writes, removes or
  links is, as a name, that directory or starts with it and a slash, and it creates no
  directory but those and the parent of the one asked for; it counts exactly the files and
  links. An archive that puts no entry at or below one of its own links has none of these
  operations go through a link it has made; any other has them follow the link, wherever it
  points (\<open>links_lead_outside\<close>), as the code checks names only. An entry is refused only
  when the directory is the root, where all but the root itself are refused; in any other
  directory it lands at the directory followed by its cleaned name.
\<close>

theorem entries_stay_below:
  fixes s :: "('w, 'o) st"
  assumes "IsAbs dest" "untar f dest entries ending n s = (res, u)"
  shows "(\<exists>l. st_Log u = st_Log s @ l \<and> list_all (below (Clean dest)) l \<and>
       (if keeps_off_links dest entries then off_links l else True)) \<and>
    (case res of
       Inl _ \<Rightarrow> True
     | Inr k \<Rightarrow> ending = None \<and> k = n + length (filter (\<lambda>h. te_Typeflag h \<in> {TypeReg, TypeSymlink}) entries)) \<and>
    entry_target dest name =
      (if Clean dest = ''/'' \<and> Clean (''/'' @ name) \<noteq> ''/''
       then Inl (Errorf ''refusing entry outside the target directory: %q'' [Str name])
       else Inr (if Clean dest = ''/'' then ''/''
                 else if Clean (''/'' @ name) = ''/'' then Clean dest else Clean dest @ Clean (''/'' @ name)))"
proof (intro conjI)
  have "emits (below (Clean dest)) (untar f dest entries ending n)"
    using assms(1) by (induction f dest entries ending n rule: untar.induct)
      (auto intro!: quiet_rules emits_unpack_entry)
  from emitsD[OF emits_conj[OF this untar_comes_from] assms(2)] obtain l where "st_Log u = st_Log s @ l"
    "list_all (\<lambda>e. below (Clean dest) e \<and> (\<exists>h\<in>set entries. comes_from dest h e)) l" by blast
  then show "\<exists>l. st_Log u = st_Log s @ l \<and> list_all (below (Clean dest)) l \<and>
      (if keeps_off_links dest entries then off_links l else True)"
    using untar_off_links[OF assms(1), of entries l] by (intro exI[of _ l]) (auto simp: list_all_iff)
  show "case res of Inl _ \<Rightarrow> True
     | Inr k \<Rightarrow> ending = None \<and> k = n + length (filter (\<lambda>h. te_Typeflag h \<in> {TypeReg, TypeSymlink}) entries)"
    using assms(2)
  proof (induction f dest entries ending n arbitrary: s rule: untar.induct)
    case (2 f dest header rest ending n)
    obtain x t where x: "unpack_entry f dest header s = (x, t)" by fastforce
    show ?case
    proof (cases x)
      case (Inl e)
      with 2 x show ?thesis by (auto simp: bind_go_def)
    next
      case (Inr k)
      with 2 x have "untar f dest rest ending (n + k) t = (res, u)" by (simp add: bind_go_def)
      from 2(1)[OF this] unpack_entry_count[OF x[unfolded Inr]] show ?thesis by (auto split: sum.splits)
    qed
  qed (auto simp: ret_def fail_def split: option.splits sum.splits)
  let ?ds = "elements dest" and ?ns = "elements (''/'' @ name)"
  have "Clean dest = abs_path ?ds" "Clean (''/'' @ name) = abs_path ?ns"
    using assms(1) by (simp_all add: Clean_abs)
  moreover have "abs_path (?ds @ ?ns) = abs_path ?ds @ abs_path ?ns" if "?ds \<noteq> []" "?ns \<noteq> []"
    using that by (simp add: abs_path_append) (simp add: abs_path_def)
  ultimately show "entry_target dest name =
      (if Clean dest = ''/'' \<and> Clean (''/'' @ name) \<noteq> ''/''
       then Inl (Errorf ''refusing entry outside the target directory: %q'' [Str name])
       else Inr (if Clean dest = ''/'' then ''/''
                 else if Clean (''/'' @ name) = ''/'' then Clean dest else Clean dest @ Clean (''/'' @ name)))"
    using abs_path_root[OF elements_good, of dest] abs_path_root[OF elements_good, of "''/'' @ name"]
    unfolding entry_target_eq[OF assms(1)] by (cases "?ds = []"; cases "?ns = []") (auto simp: abs_path_def)
qed

definition plain_files :: "unit files" where
  "plain_files = \<lparr>f_Getwd = ret ''/root'', f_MkdirAll = (\<lambda>_ _. ret ()), f_Open = (\<lambda>_ _. ret ()), f_Copy = (\<lambda>_ _. ret ()),
     f_Close = (\<lambda>_. ret ()), f_Remove = (\<lambda>_. ret ()), f_Symlink = (\<lambda>_ _. ret ()),
     f_Stream = (\<lambda>_ _ _. ret ([], None)), f_Finish = (\<lambda>_ _ _ _. ret ())\<rparr>"

definition regular :: "string \<Rightarrow> tar_entry" where
  "regular name = \<lparr>te_Name = name, te_Typeflag = TypeReg, te_Mode = 0, te_Linkname = '''', te_Data = ''x''\<rparr>"

definition linked :: "string \<Rightarrow> string \<Rightarrow> tar_entry" where
  "linked name to = \<lparr>te_Name = name, te_Typeflag = TypeSymlink, te_Mode = 0, te_Linkname = to, te_Data = ''''\<rparr>"

theorem entries_stay_below_witness:
  "(let l = st_Log (snd (untar plain_files ''/tmp/out'' [linked ''a'' ''/etc'', regular ''../../etc/passwd''] None 0
       (start () ())))
    in list_all (below ''/tmp/out'') l \<and> off_links l) \<and>
   entry_target ''/tmp/out'' ''../../etc/passwd'' = Inr ''/tmp/out/etc/passwd''"
proof -
  have clean: "Clean ''/tmp/out'' = ''/tmp/out''" "Clean (''/'' @ ''../../etc/passwd'') = ''/etc/passwd''" by code_simp+
  have abs: "IsAbs ''/tmp/out''" by simp
  have off: "keeps_off_links ''/tmp/out'' [linked ''a'' ''/etc'', regular ''../../etc/passwd'']" by code_simp
  from entries_stay_below[OF abs prod.collapse[symmetric], of plain_files
      "[linked ''a'' ''/etc'', regular ''../../etc/passwd'']" None 0 "start () ()" "''../../etc/passwd''",
      unfolded clean start_log append_Nil]
  show ?thesis using off by (auto simp: Let_def)
qed

text \<open>
  The check looks at names only. An archive that brings a link and then an entry below it has
  that entry written through the link, to wherever the link points.
\<close>

lemma links_lead_outside:
  "map en_Effect (st_Log (snd (untar plain_files ''/tmp/out''
     [linked ''a'' ''/etc'', regular ''a/passwd''] None 0 (start () ())))) =
   [Local (Mkdir ''/tmp/out''), Local (Remove ''/tmp/out/a''), Local (Symlink ''/etc'' ''/tmp/out/a''),
    Local (Mkdir ''/tmp/out/a''), Local (Write ''/tmp/out/a/passwd'')]"
  by code_simp

section \<open>The pipeline into the database\<close>

lemma sh_plain_pipeline:
  "list_all sh_plain ''dump''" "list_all sh_plain ''--tag=''" "list_all sh_plain ''restoredb''"
  "list_all sh_plain (''--secret-mount='' @ DBSecretMountPath)" "list_all sh_plain ''--dry-run''"
  "list_all sh_plain DatabaseEngineCNPG" "list_all sh_plain DatabaseEngineMariaDB"
  "DatabaseEngineCNPG \<noteq> []" "DatabaseEngineMariaDB \<noteq> []"
  by (simp_all add: sh_plain_def sh_special_def DBSecretMountPath_def DatabaseEngineCNPG_def DatabaseEngineMariaDB_def)

text \<open>
  The shell reads the restore into the database as it was meant. Whatever characters the
  snapshot, the tag of the database source and the namespace hold, the pipeline is two
  commands, of exactly these words: \<open>restic dump\<close> with the tag (if there is one), the
  snapshot and the dump file of the namespace, and \<open>restoredb\<close> with the engine, the place of
  the credentials and \<open>--dry-run\<close> if that was asked for. Nothing in them can start another
  command.
\<close>

lemma pipeline_is_two_commands:
  assumes "db_Engine db = DatabaseEngineCNPG \<or> db_Engine db = DatabaseEngineMariaDB"
  shows "\<exists>source sink. restore_pipeline sb db o1 = source @ '' | '' @ sink \<and>
    sh_words source = Some ([''restic'', ''dump''] @
      (if databaseSourceTag sb \<noteq> '''' then [''--tag='' @ databaseSourceTag sb] else []) @
      [o_snapshot o1, sb_Namespace sb @ dumpExtension (db_Engine db)]) \<and>
    sh_words sink = Some ([''restoredb'', db_Engine db, ''--secret-mount='' @ DBSecretMountPath] @
      (if o_dryRun o1 then [''--dry-run''] else []))"
proof -
  let ?tag = "databaseSourceTag sb" and ?file = "sb_Namespace sb @ dumpExtension (db_Engine db)"
  let ?tags = "if ?tag \<noteq> '''' then '' '' @ ''--tag='' @ shellQuote ?tag else ''''"
  let ?args = "'' '' @ shellQuote (o_snapshot o1) @ '' '' @ shellQuote ?file @ ''''"
  let ?source = "''restic'' @ '' '' @ ''dump'' @ ?tags @ ?args"
  let ?dry = "if o_dryRun o1 then '' '' @ ''--dry-run'' @ '''' else ''''"
  let ?sink = "''restoredb'' @ '' '' @ db_Engine db @ '' '' @ (''--secret-mount='' @ DBSecretMountPath) @ ?dry"
  have args: "sh_read False (Some v) ?args = Some [rev v, o_snapshot o1, ?file]" for v
    unfolding sh_quoted_word by (simp add: option.map_comp)
  have tags: "sh_read False (Some v) (?tags @ ?args) =
      Some (rev v # (if ?tag \<noteq> '''' then [''--tag='' @ ?tag] else []) @ [o_snapshot o1, ?file])" for v
  proof (cases "?tag = ''''")
    case True
    show ?thesis using args[of v] by (simp only: True if_False simp_thms append_Nil)
  next
    case False
    have "sh_read False (Some v) (('' '' @ ''--tag='' @ shellQuote ?tag) @ ?args) =
        map_option (\<lambda>ws. rev v # ws) (Some [''--tag='' @ ?tag, o_snapshot o1, ?file])"
      using sh_quoted_flag[OF sh_plain_pipeline(2), of v ?tag ?args] args[of "rev (''--tag='' @ ?tag)"]
      by (simp only: append_assoc rev_rev_ident) simp
    with False show ?thesis by (simp only: if_True simp_thms) simp
  qed
  have "sh_words ?source = Some ([''restic'', ''dump''] @ (if ?tag \<noteq> '''' then [''--tag='' @ ?tag] else []) @ [o_snapshot o1, ?file])"
    by (simp only: sh_first_word[OF sh_plain_literals(1) list.distinct(2)]
        sh_next_word[OF sh_plain_pipeline(1) list.distinct(2)] tags option.map rev_rev_ident) simp
  moreover have "sh_words ?sink = Some ([''restoredb'', db_Engine db, ''--secret-mount='' @ DBSecretMountPath] @
      (if o_dryRun o1 then [''--dry-run''] else []))"
  proof -
    have engine: "list_all sh_plain (db_Engine db)" "db_Engine db \<noteq> []"
      using assms sh_plain_pipeline(6-9) by auto
    have dry: "sh_read False (Some v) ?dry = Some (rev v # (if o_dryRun o1 then [''--dry-run''] else []))" for v
    proof (cases "o_dryRun o1")
      case True
      then show ?thesis using sh_next_word[OF sh_plain_pipeline(5) list.distinct(2), of v "[]"]
        by (simp only: if_True) simp
    qed simp
    have mount: "''--secret-mount='' @ DBSecretMountPath \<noteq> []" by simp
    show ?thesis
      by (simp only: sh_first_word[OF sh_plain_pipeline(3) list.distinct(2)] sh_next_word[OF engine]
          sh_next_word[OF sh_plain_pipeline(4) mount] dry option.map rev_rev_ident) simp
  qed
  moreover have "restore_pipeline sb db o1 = ?source @ '' | '' @ ?sink"
    by (simp add: restore_pipeline_def Let_def)
  ultimately show ?thesis by blast
qed

definition database_backup :: scheduled_backup where
  "database_backup = sample_backup\<lparr>sb_Spec := (sb_Spec sample_backup)\<lparr>bs_Sources :=
     [\<lparr>src_Type = SourceTypeCNPG, src_Tag = '''', src_Path = '''', src_Exclude = [], src_Database = '''', src_ExtraArgs = []\<rparr>]\<rparr>\<rparr>"

definition sample_database :: database_spec where
  "sample_database = \<lparr>db_Engine = DatabaseEngineCNPG, db_SecretName = '''', db_Host = '''', db_Name = '''', db_User = ''''\<rparr>"

lemma pipeline_is_two_commands_witness:
  "\<exists>source sink. restore_pipeline database_backup sample_database (no_restore\<lparr>o_snapshot := ''a; reboot''\<rparr>) = source @ '' | '' @ sink \<and>
     sh_words source = Some [''restic'', ''dump'', ''--tag=db'', ''a; reboot'', ''app.dmp'']"
proof -
  have tag: "databaseSourceTag database_backup = ''db''" by code_simp
  have dump: "sb_Namespace database_backup @ dumpExtension (db_Engine sample_database) = ''app.dmp''" by code_simp
  have "db_Engine sample_database = DatabaseEngineCNPG \<or> db_Engine sample_database = DatabaseEngineMariaDB"
    by (simp add: sample_database_def)
  from pipeline_is_two_commands[OF this, of database_backup "no_restore\<lparr>o_snapshot := ''a; reboot''\<rparr>", unfolded tag dump]
  obtain source sink where "restore_pipeline database_backup sample_database (no_restore\<lparr>o_snapshot := ''a; reboot''\<rparr>) = source @ '' | '' @ sink"
    "sh_words source = Some ([''restic'', ''dump''] @ (if ''db'' \<noteq> '''' then [''--tag='' @ ''db''] else []) @
      [o_snapshot (no_restore\<lparr>o_snapshot := ''a; reboot''\<rparr>), ''app.dmp''])" by blast
  then show ?thesis by (intro exI[of _ source] exI[of _ sink]) simp
qed

section \<open>A new claim\<close>

text \<open>A Job that mounts one claim and no Secret, at one place, and runs one command.\<close>

definition mounts_only :: "string \<Rightarrow> string \<Rightarrow> string list \<Rightarrow> job \<Rightarrow> bool" where
  "mounts_only claim dir argv j \<longleftrightarrow>
     (let p = js_PodSpec (job_Spec j)
      in claims_of (ps_Volumes p) = [claim] \<and> secrets_of (ps_Volumes p) = [] \<and>
         list_all (\<lambda>ct. ct_Command ct = argv \<and>
           (\<exists>v\<in>set (ps_Volumes p). \<exists>m\<in>set (ct_VolumeMounts ct). vm_Name m = vol_Name v \<and>
              vol_PersistentVolumeClaim v = Some \<lparr>cl_ClaimName = claim, cl_ReadOnly = False\<rparr> \<and>
              vm_MountPath m = dir \<and> \<not> vm_ReadOnly m)) (ps_Containers p))"

lemma new_claim_job:
  assumes "stored_from c sb repo cfg (st_World s)" "Build c sb (new_claim_options o1) s = (Inr j, t)"
  shows "mounts_only (o_toNewPVC o1) restoreMountPath (resticCommand (resticRestoreArgs o1 restoreMountPath)) j"
proof -
  let ?opts = "new_claim_options o1"
  from Build_from_operator[OF assms] obtain tmpl where
    tmpl: "BuildJobTemplate sb repo cfg = Inr tmpl" "job_Spec j = one_off_spec ?opts 0 (jt_Spec tmpl)" by blast
  let ?p = "(js_PodSpec (jt_Spec tmpl))\<lparr>ps_RestartPolicy := ''Never''\<rparr>"
  from tmpl(1) obtain ct where ct: "ps_Containers ?p = [ct]" "ps_Volumes ?p = fst (buildVolumes sb)"
    by (auto simp: BuildJobTemplate_def Let_def split: sum.splits if_splits prod.splits)
  from one_off_pod_single(1,2)[OF ct(1), of ?opts] obtain c' where pod:
      "ps_Volumes (js_PodSpec (job_Spec j)) = final_volumes ?opts (fst (buildVolumes sb))"
      "ps_Containers (js_PodSpec (job_Spec j)) = [c']" "ct_VolumeMounts c' = final_mounts ?opts (ct_VolumeMounts ct)"
    using tmpl(2) ct(2) by (auto simp: one_off_spec_def)
  from one_off_pod_command[of 0 ?p ?opts] have "ct_Command c' = resticCommand (resticRestoreArgs o1 restoreMountPath)"
    using ct(1) pod(2) tmpl(2) by (simp add: one_off_spec_def new_claim_options_def no_options_def)
  moreover have "claim_volume ''restore-target'' (o_toNewPVC o1) False \<in> set (final_volumes ?opts (fst (buildVolumes sb)))"
      "\<lparr>vm_Name = ''restore-target'', vm_MountPath = restoreMountPath, vm_ReadOnly = False\<rparr> \<in> set (final_mounts ?opts (ct_VolumeMounts ct))"
    by (simp_all add: final_volumes_def final_mounts_def Let_def new_claim_options_def)
  ultimately show ?thesis using final_claims[of ?opts sb] unfolding mounts_only_def Let_def pod
    by (force simp: pod(3) new_claim_options_def no_options_def claim_volume_def claims_of_def secrets_of_def
        List.map_filter_def split: option.splits)
qed

lemma silent_claimSize [quiet_rules]: "silent (claimSize c sb v override)"
  unfolding claimSize_def by (auto intro!: quiet_rules)

text \<open>One effect, and what follows if it succeeds.\<close>

definition first_then :: "('o entry \<Rightarrow> bool) \<Rightarrow> ('o entry \<Rightarrow> bool) \<Rightarrow> 'o entry list \<Rightarrow> bool" where
  "first_then P Q l \<longleftrightarrow>
     (case l of [] \<Rightarrow> True
      | e # rest \<Rightarrow> P e \<and> (if en_Error e = None then list_all Q rest else rest = []))"

lemma call_first:
  assumes "\<And>obj err. P \<lparr>en_Effect = eff, en_Object = obj, en_Error = err\<rparr>" "emits Q k" "st_Log t = st_Log s"
  shows "wp (bind_go (attempt (call eff m)) (\<lambda>res. case res of Inl e \<Rightarrow> fail (g e) | Inr _ \<Rightarrow> k))
    (\<lambda>_ u. \<exists>l. st_Log u = st_Log s @ l \<and> first_then P Q l) (\<lambda>_ u. \<exists>l. st_Log u = st_Log s @ l \<and> first_then P Q l) t"
proof -
  obtain z w where z: "m (st_World t) = (z, w)" by fastforce
  let ?e = "\<lparr>en_Effect = eff, en_Object = st_Object t, en_Error = error_of z\<rparr>"
  let ?t = "t\<lparr>st_World := w, st_Log := st_Log t @ [?e]\<rparr>"
  have made: "attempt (call eff m) t = (Inr z, ?t)" using z by (simp add: attempt_def call_def)
  from assms(2) obtain r where "st_Log (snd (k ?t)) = st_Log ?t @ r" and r: "list_all Q r"
    unfolding emits_def by blast
  then have log: "st_Log (snd (k ?t)) = st_Log s @ ?e # r" using assms(3) by simp
  have "bind_go (attempt (call eff m)) (\<lambda>res. case res of Inl e \<Rightarrow> fail (g e) | Inr _ \<Rightarrow> k) t =
      (case z of Inl e \<Rightarrow> (Inl (g e), ?t) | Inr _ \<Rightarrow> k ?t)"
    by (subst bind_result, rule made) (simp add: fail_def split: sum.split)
  moreover have "first_then P Q [?e]" "first_then P Q (?e # r)" if "z = Inr y" for y
    using that assms(1) r by (auto simp: first_then_def error_of_def)
  moreover have "first_then P Q [?e]" if "z = Inl e" for e
    using that assms(1) by (auto simp: first_then_def error_of_def)
  ultimately show ?thesis unfolding wp_same
    by (cases z) (use log assms(3) in auto)
qed

text \<open>
  A restore for inspection leaves the application alone. Its first effect is to create the
  claim that was named; only if that succeeds is a Job started, and every Job mounts that
  claim and no other, no Secret, writable at the directory restic is told to restore into:
  not the source volume, not the shared cache, not the database credentials. This holds
  whenever the CronJob of the backup is the one the operator built.
\<close>

lemma new_claim_is_restored_into:
  fixes s :: "('w, 'o) st"
  assumes "\<And>w. stored_from c sb repo cfg w" "restoreToNewPVC c sb o1 s = (res, u)"
  shows "\<exists>l. st_Log u = st_Log s @ l \<and>
    first_then (\<lambda>e. \<exists>amount. en_Effect e = CreatePVC (restore_claim sb (o_toNewPVC o1) amount))
      (job_effect (mounts_only (o_toNewPVC o1) restoreMountPath
         (resticCommand (resticRestoreArgs o1 restoreMountPath)))) l"
proof -
  let ?P = "\<lambda>u. \<exists>l. st_Log u = st_Log s @ l \<and>
    first_then (\<lambda>e. \<exists>amount. en_Effect e = CreatePVC (restore_claim sb (o_toNewPVC o1) amount))
      (job_effect (mounts_only (o_toNewPVC o1) restoreMountPath
         (resticCommand (resticRestoreArgs o1 restoreMountPath)))) l"

  have "wp (restoreToNewPVC c sb o1) (\<lambda>_. ?P) (\<lambda>_. ?P) s"
  proof (cases "bs_Volume (sb_Spec sb)")
    case None
    then show ?thesis by (auto simp: restoreToNewPVC_def wp_simps first_then_def)
  next
    case (Some v)
    show ?thesis unfolding restoreToNewPVC_def Some option.case wp_bind[of "claimSize c sb v (o_size o1)"] Let_def
    proof (rule wp_silent[OF silent_claimSize], goal_cases)
      case (1 amount w)
      show ?case
        by (rule call_first)
          (auto intro!: emits_bind silent_emits[OF silent_say] silent_emits[OF silent_p_printf]
            silent_emits[OF silent_p_Err] emits_Run_built new_claim_job[OF assms(1)])
    next
      case (2 e w)
      show ?case by (intro exI[of _ "[]"]) (simp add: first_then_def)
    qed
  qed
  with assms(2) show ?thesis by (simp add: wp_same)
qed

definition volume_cron :: cronjob where
  "volume_cron = (case BuildCronJob volume_backup sample_repository sample_config of Inr cj \<Rightarrow> cj)"

definition claim_cli :: "unit cli" where
  "claim_cli = plain_cli ((c_Kube cron_cli)\<lparr>k_GetCronJob := (\<lambda>_. ret volume_cron),
     k_GetPVC := (\<lambda>n. ret (restore_claim volume_backup (nn_Name n) (Quantity ''1Gi'')))\<rparr>)"

definition inspect_options :: restore_options where
  "inspect_options = no_restore\<lparr>o_toNewPVC := ''inspect'', o_size := ''1Gi''\<rparr>"

lemma volume_cron_stored: "stored_from claim_cli volume_backup sample_repository sample_config w"
proof -
  have "error_of (BuildCronJob volume_backup sample_repository sample_config) = None" by code_simp
  then show ?thesis
    by (auto simp: error_of_def split: sum.splits simp: stored_from_def volume_cron_def claim_cli_def plain_cli_def ret_def)
qed

lemma new_claim_is_restored_into_witness:
  "\<exists>e jobs. st_Log (snd (restoreToNewPVC claim_cli volume_backup inspect_options (start () ()))) = e # jobs \<and> length jobs = 2 \<and>
     list_all (job_effect (mounts_only ''inspect'' ''/restore'' [''restic'', ''restore'', ''latest'', ''--target=/restore''])) jobs"
proof -
  let ?log = "st_Log (snd (restoreToNewPVC claim_cli volume_backup inspect_options (start () ())))"
  have errors: "map en_Error ?log = [None, None, None]" by code_simp
  from arg_cong[OF this, of length] have three: "length ?log = 3" by simp
  have argv: "resticCommand (resticRestoreArgs inspect_options restoreMountPath) = [''restic'', ''restore'', ''latest'', ''--target=/restore'']"
    "o_toNewPVC inspect_options = ''inspect''" "restoreMountPath = ''/restore''" by code_simp+
  from new_claim_is_restored_into[OF volume_cron_stored prod.collapse[symmetric], of inspect_options "start () ()",
      unfolded argv(1,2), unfolded argv(3) start_log append_Nil]
  obtain l where l: "?log = l" and rest: "first_then (\<lambda>e. \<exists>amount. en_Effect e = CreatePVC (restore_claim volume_backup ''inspect'' amount))
      (job_effect (mounts_only ''inspect'' ''/restore'' [''restic'', ''restore'', ''latest'', ''--target=/restore''])) l" by blast
  from three l obtain e jobs where "l = e # jobs" "length jobs = 2" by (cases l) auto
  with l rest errors show ?thesis by (auto simp: first_then_def)
qed

end
