(* ===== verification/Doctor.thy ===== *)
theory Doctor
  imports Cli RepositoryController
begin

text \<open>
  The diagnosis (\<open>internal/cli/doctor.go\<close>) and the environment of a repository
  (\<open>internal/cli/env.go\<close>). A check has a level, a summary and details; a report is the list of
  the checks of one resource. Summaries and details are formatted texts left unexpanded.
\<close>

section \<open>Reports\<close>

definition ErrUnhealthy :: goerr where "ErrUnhealthy = Sentinel ''one or more checks failed''"

datatype check_level = levelOK | levelInfo | levelWarn | levelFail

text \<open>The symbols in UTF-8: U+2714, U+00B7, an exclamation mark, U+2716.\<close>

definition symbol :: "check_level \<Rightarrow> string" where
  "symbol l =
     (case l of
        levelOK \<Rightarrow> [CHR 0xE2, CHR 0x9C, CHR 0x94]
      | levelInfo \<Rightarrow> [CHR 0xC2, CHR 0xB7]
      | levelWarn \<Rightarrow> ''!''
      | levelFail \<Rightarrow> [CHR 0xE2, CHR 0x9C, CHR 0x96])"

record check =
  ck_level :: check_level
  ck_summary :: message
  ck_detail :: "message list"

record report =
  rpt_subject :: string
  rpt_checks :: "check list"

definition add :: "check_level \<Rightarrow> message \<Rightarrow> message list \<Rightarrow> report \<Rightarrow> report" where
  "add level summary detail r =
     r\<lparr>rpt_checks := rpt_checks r @ [\<lparr>ck_level = level, ck_summary = summary, ck_detail = detail\<rparr>]\<rparr>"

definition failed :: "report \<Rightarrow> bool" where
  "failed r \<longleftrightarrow> list_ex (\<lambda>c. ck_level c = levelFail) (rpt_checks r)"

definition text_arg :: "message \<Rightarrow> goarg" where
  "text_arg m = (case m of (fmt, args) \<Rightarrow> Sprintf fmt args)"

definition report_lines :: "report \<Rightarrow> message list" where
  "report_lines r =
     (''%s'', [Str (rpt_subject r)]) #
     concat (map (\<lambda>c. (''  %s %s'', [Str (symbol (ck_level c)), text_arg (ck_summary c)]) #
       map (\<lambda>d. (''      %s'', [text_arg d])) (ck_detail c)) (rpt_checks r))"

section \<open>Checks of a resource\<close>

definition checkGeneration :: "int \<Rightarrow> int \<Rightarrow> report \<Rightarrow> report" where
  "checkGeneration generation observed r =
     (if observed \<noteq> 0 \<and> observed < generation then
        add levelWarn (''the operator has not caught up with the latest spec change'', [])
          [(''generation %d, observed %d.'', [Num generation, Num observed])] r
      else r)"

definition checkCondition :: "condition list \<Rightarrow> string \<Rightarrow> string \<Rightarrow> report \<Rightarrow> report" where
  "checkCondition conds condType noun r =
     (case FindCondition conds condType of
        None \<Rightarrow> add levelWarn (''the operator has not reconciled this '' @ noun @ '' yet'', []) [] r
      | Some cond \<Rightarrow>
          if cond_Status cond = ConditionTrue then add levelOK (noun @ '' is ready'', []) [] r
          else add levelFail (''%s is not ready (%s)'', [Str noun, Str (cond_Reason cond)])
                 (if cond_Message cond \<noteq> ('''', []) then [cond_Message cond] else []) r)"

definition credentials_keys :: "string list" where
  "credentials_keys = [KeyResticRepository, KeyResticPassword]"

definition missing_keys :: "secret \<Rightarrow> string list" where
  "missing_keys s = filter (\<lambda>key. length (lookup_str (sec_Data s) key) = 0) credentials_keys"

definition checkCredentialsSecret :: "'w cli \<Rightarrow> repository \<Rightarrow> report \<Rightarrow> ('w, 'o, report) comp" where
  "checkCredentialsSecret c repo r =
     (let name = SecretName repo
      in bind_go (attempt (ask (k_GetSecret (c_Kube c) (NN (rp_Namespace repo) name)))) (\<lambda>got.
         ret (case got of
           Inl e \<Rightarrow>
             if IsNotFound e then
               add levelFail (''credentials Secret %q does not exist'', [Str name])
                 [(''The operator writes it on reconcile; if it is missing the repository has not reconciled.'', [])] r
             else add levelFail (''could not read Secret %q'', [Str name]) [err_text e] r
         | Inr s \<Rightarrow>
             let missing = missing_keys s
             in if missing \<noteq> [] then
                  add levelFail (''Secret %q is missing %v'', [Str name, Str (''['' @ Join missing '' '' @ '']'')]) [] r
                else add levelOK (''credentials Secret %q has both keys'', [Str name]) [] r)))"

definition init_job_detail :: "job \<Rightarrow> message list" where
  "init_job_detail j =
     fold (\<lambda>cond detail.
         if jc_Type cond = ''Failed'' \<and> jc_Message cond \<noteq> '''' then (''%s'', [Str (jc_Message cond)]) # detail
         else detail)
       (jst_Conditions (job_Status j)) [(''Run: kubectl logs job/%s'', [Str (om_Name (job_Meta j))])]"

definition describeInitJobs :: "'w cli \<Rightarrow> repository \<Rightarrow> report \<Rightarrow> ('w, 'o, report) comp" where
  "describeInitJobs c repo r =
     bind_go (attempt (ask (k_ListJobs (c_Kube c) (rp_Namespace repo)))) (\<lambda>got.
     ret (case got of
       Inl _ \<Rightarrow> r
     | Inr jobs \<Rightarrow>
         (case find (\<lambda>j. IsControlledBy (c_Lib c) (job_Meta j) (rp_Meta repo)) jobs of
            None \<Rightarrow> add levelInfo (''no init Job exists yet'', []) [] r
          | Some j \<Rightarrow>
              if 0 < jst_Failed (job_Status j) then
                add levelInfo (''init Job %q has failed %d time(s)'',
                  [Str (om_Name (job_Meta j)), Num (jst_Failed (job_Status j))]) (init_job_detail j) r
              else if 0 < jst_Active (job_Status j) then
                add levelInfo (''init Job %q is running'', [Str (om_Name (job_Meta j))]) [] r
              else r)))"

definition checkRepository :: "'w cli \<Rightarrow> repository \<Rightarrow> ('w, 'o, report) comp" where
  "checkRepository c repo =
     (let r = \<lparr>rpt_subject = ''repository/'' @ rp_Name repo, rpt_checks = []\<rparr>
      in if rs_Suspend (rp_Spec repo) then
           ret (add levelWarn (''reconciliation is suspended'', [])
             [(''The operator will not touch this repository until spec.suspend is cleared.'', [])] r)
         else
           let st = rp_Status repo;
               r = checkGeneration (om_Generation (rp_Meta repo)) (rt_ObservedGeneration st) r;
               r = checkCondition (rt_Conditions st) RepositoryConditionReady ''repository'' r
           in if (case FindCondition (rt_Conditions st) RepositoryConditionReady of
                    None \<Rightarrow> False | Some cond \<Rightarrow> cond_Reason cond = ''RepositoryConflict'') then ret r
              else
                bind_go (if rt_Initialized st then ret (add levelOK (''restic repository is initialized'', []) [] r)
                         else describeInitJobs c repo (add levelFail (''restic repository is not initialized'', []) [] r)) (\<lambda>r.
                checkCredentialsSecret c repo
                  (if rt_RepositoryID st = '''' then add levelWarn (''no BorgBase repository ID recorded yet'', []) [] r
                   else if rt_Adopted st then
                     add levelInfo (''adopted existing BorgBase repository %s'', [Str (rt_RepositoryID st)]) [] r
                   else r)))"

definition checkReferencedRepository :: "'w cli \<Rightarrow> repository \<Rightarrow> report \<Rightarrow> ('w, 'o, report) comp" where
  "checkReferencedRepository c repo r =
     checkCredentialsSecret c repo
       (if \<not> rt_Initialized (rp_Status repo) then
          add levelFail (''repository %q is not initialized'', [Str (rp_Name repo)])
            [(''Backups cannot run until `restic init` succeeds. Run: corg doctor repo/%s'', [Str (rp_Name repo)])] r
        else if (case FindCondition (rt_Conditions (rp_Status repo)) RepositoryConditionReady of
                   None \<Rightarrow> True | Some ready \<Rightarrow> cond_Status ready \<noteq> ConditionTrue) then
          add levelWarn (''repository %q is not ready'', [Str (rp_Name repo)])
            [(''Run: corg doctor repo/%s'', [Str (rp_Name repo)])] r
        else add levelOK (''repository %q is ready and initialized'', [Str (rp_Name repo)]) [] r)"

definition owner_detail :: "owner_ref option \<Rightarrow> string \<Rightarrow> message list" where
  "owner_detail owner name =
     [(''The operator will not adopt a CronJob it does not own.'', [])] @
     (case owner of None \<Rightarrow> []
      | Some ref \<Rightarrow> [(''It is controlled by %s/%s.'', [Str (or_Kind ref), Str (or_Name ref)])]) @
     [(''Remove whatever created it, then delete cronjob/%s.'', [Str name])]"

definition checkCronJob :: "'w cli \<Rightarrow> scheduled_backup \<Rightarrow> report \<Rightarrow> ('w, 'o, report) comp" where
  "checkCronJob c sb r =
     (let name = CronJobName sb
      in bind_go (attempt (ask (k_GetCronJob (c_Kube c) (NN (sb_Namespace sb) name)))) (\<lambda>got.
         ret (case got of
           Inl e \<Rightarrow>
             if IsNotFound e then
               add levelFail (''CronJob %q does not exist'', [Str name])
                 [(''The operator creates it once the backup is ready.'', [])] r
             else add levelFail (''could not read CronJob %q'', [Str name]) [err_text e] r
         | Inr cj \<Rightarrow>
             if \<not> IsControlledBy (c_Lib c) (cj_Meta cj) (sb_Meta sb) then
               add levelFail (''CronJob %q is not controlled by this ScheduledBackup'', [Str name])
                 (owner_detail (GetControllerOf (c_Lib c) (cj_Meta cj)) name) r
             else
               let r = add levelOK (''CronJob %q is owned by this ScheduledBackup'', [Str name]) [] r;
                   suspended = (case cs_Suspend (cj_Spec cj) of None \<Rightarrow> False | Some b \<Rightarrow> b)
               in if suspended \<noteq> bs_Suspend (sb_Spec sb) then
                    add levelWarn (''CronJob suspend state does not match spec.suspend'', [])
                      [(''CronJob suspended=%t, spec.suspend=%t. The operator has not reconciled yet.'',
                        [Num (of_bool suspended), Num (of_bool (bs_Suspend (sb_Spec sb)))])] r
                  else r)))"

definition checkCachePVC :: "'w cli \<Rightarrow> scheduled_backup \<Rightarrow> report \<Rightarrow> ('w, 'o, report) comp" where
  "checkCachePVC c sb r =
     (if (case bs_Cache (sb_Spec sb) of
            None \<Rightarrow> False
          | Some cache \<Rightarrow> (case ca_Enabled cache of None \<Rightarrow> False | Some b \<Rightarrow> \<not> b)) then ret r
      else
        let name = CacheName sb
        in bind_go (attempt (ask (k_GetPVC (c_Kube c) (NN (sb_Namespace sb) name)))) (\<lambda>got.
           ret (case got of
             Inl e \<Rightarrow>
               if IsNotFound e then
                 add levelWarn (''cache PVC %q does not exist'', [Str name])
                   [(''Backups still run, but restic re-reads the repository index every time.'', [])] r
               else add levelWarn (''could not read PVC %q'', [Str name]) [err_text e] r
           | Inr pvc \<Rightarrow>
               if pvc_Phase pvc \<noteq> ''Bound'' then
                 add levelWarn (''cache PVC %q is %s, not Bound'', [Str name, Str (pvc_Phase pvc)])
                   [(''A pending claim will block the backup pod from starting.'', [])] r
               else add levelOK (''cache PVC %q is bound'', [Str name]) [] r)))"

definition trigger_text :: "run_trigger \<Rightarrow> string" where
  "trigger_text t = (case t of BackupTriggerScheduled \<Rightarrow> ''Scheduled'' | BackupTriggerManual \<Rightarrow> ''Manual'')"

definition checkRecordedRuns :: "backup_run list \<Rightarrow> string \<Rightarrow> report \<Rightarrow> report" where
  "checkRecordedRuns history name r =
     (let last = hd history;
          when = (case run_CompletionTime last of None \<Rightarrow> Since (run_StartTime last) | Some t \<Rightarrow> Since (Some t))
      in case run_Result last of
           BackupRunSucceeded \<Rightarrow> add levelOK (''last backup succeeded %s (%s)'', [when, Str (ToLower (trigger_text (run_Trigger last)))]) [] r
         | BackupRunRunning \<Rightarrow> add levelInfo (''a backup started %s is still running'', [Since (run_StartTime last)]) [] r
         | BackupRunFailed \<Rightarrow> add levelFail (''the most recent run (%s) failed'', [when])
             [(''Run: corg logs %s'', [Str name])] r)"

definition checkLastRun :: "scheduled_backup \<Rightarrow> report \<Rightarrow> report" where
  "checkLastRun sb r =
     (let st = sb_Status sb; logs = (''Run: corg logs %s'', [Str (sb_Name sb)])
      in if 0 < bt_Active st then add levelInfo (''%d backup(s) running now'', [Num (bt_Active st)]) [] r
         else if bt_History st \<noteq> [] then checkRecordedRuns (bt_History st) (sb_Name sb) r
         else
           (case (bt_LastScheduleTime st, bt_LastSuccessfulTime st) of
              (None, _) \<Rightarrow> add levelWarn (''no backup has run yet'', [])
                [(''The first run happens at the next scheduled slot.'', []),
                 (''To take one now: corg backup %s'', [Str (sb_Name sb)])] r
            | (Some scheduled, None) \<Rightarrow>
                add levelFail (''a backup started %s but none has ever succeeded'', [Since (Some scheduled)]) [logs] r
            | (Some scheduled, Some successful) \<Rightarrow>
                if successful < scheduled then
                  add levelFail (''the most recent run (%s) did not succeed'', [Since (Some scheduled)])
                    [(''Last success was %s.'', [Since (Some successful)]), logs] r
                else add levelOK (''last backup succeeded %s'', [Since (Some successful)]) [] r))"

definition checkScheduledBackup :: "'w cli \<Rightarrow> scheduled_backup \<Rightarrow> ('w, 'o, report) comp" where
  "checkScheduledBackup c sb =
     (let st = sb_Status sb;
          r = \<lparr>rpt_subject = ''scheduledbackup/'' @ sb_Name sb, rpt_checks = []\<rparr>;
          r = (if bs_Suspend (sb_Spec sb) then
                 add levelWarn (''backups are suspended'', [])
                   [(''The CronJob is kept but will not fire. Clear spec.suspend to resume.'', [])] r else r);
          r = checkGeneration (om_Generation (sb_Meta sb)) (bt_ObservedGeneration st) r;
          r = checkCondition (bt_Conditions st) ScheduledBackupConditionReady ''backup'' r
      in bind_go (attempt (RepositoryFor c sb)) (\<lambda>got.
         bind_go (case got of
             Inl e \<Rightarrow>
               ret (if err_is e ErrTargetNotFound then
                      add levelFail (''repository %q does not exist'', [Str (bs_RepositoryRef (sb_Spec sb))])
                        [(''spec.repositoryRef must name a Repository in this namespace.'', [])] r
                    else add levelFail (''could not read the referenced repository'', []) [err_text e] r)
           | Inr repo \<Rightarrow> checkReferencedRepository c repo r) (\<lambda>r.
         bind_go (checkCronJob c sb r) (\<lambda>r.
         bind_go (checkCachePVC c sb r) (\<lambda>r.
         ret (checkLastRun sb r))))))"

section \<open>The command\<close>

fun each_report :: "('a \<Rightarrow> ('w, 'o, report) comp) \<Rightarrow> 'a list \<Rightarrow> ('w, 'o, report list) comp" where
  "each_report f [] = ret []"
| "each_report f (x # xs) = bind_go (f x) (\<lambda>r. bind_go (each_report f xs) (\<lambda>rs. ret (r # rs)))"

definition collectReports :: "'w cli \<Rightarrow> string \<Rightarrow> string \<Rightarrow> ('w, 'o, report list) comp" where
  "collectReports c ns arg =
     (if arg \<noteq> '''' then
        bind_go (Resolve c ns arg) (\<lambda>t.
        bind_go (case t of RepositoryTarget repo \<Rightarrow> checkRepository c repo
                 | BackupTarget sb \<Rightarrow> checkScheduledBackup c sb) (\<lambda>r. ret [r]))
      else
        bind_go (ask (c_ListRepositories c ns)) (\<lambda>repos.
        bind_go (ask (k_ListBackups (c_Kube c) ns)) (\<lambda>backups.
        bind_go (each_report (checkRepository c) repos) (\<lambda>rs.
        bind_go (each_report (checkScheduledBackup c) backups) (\<lambda>bs.
        ret (rs @ bs))))))"

text \<open>An empty line between two reports.\<close>

fun all_lines :: "report list \<Rightarrow> message list" where
  "all_lines [] = []"
| "all_lines [r] = report_lines r"
| "all_lines (r # rs) = report_lines r @ ('''', []) # all_lines rs"

definition runDoctor :: "'w cli \<Rightarrow> string \<Rightarrow> string \<Rightarrow> ('w, 'o, unit) comp" where
  "runDoctor c ns arg =
     bind_go (collectReports c ns arg) (\<lambda>reports.
     if reports = [] then say c Out ''No resources found in namespace %q.'' [Str ns]
     else
       bind_go (print_lines c Out (all_lines reports) newPrinter) (\<lambda>p.
       bind_go (p_Err p) (\<lambda>_.
       if list_ex failed reports then fail ErrUnhealthy else ret ())))"

section \<open>The environment of a repository\<close>

definition redacted :: string where "redacted = ''***''"

definition get_credentials :: "'w cli \<Rightarrow> repository \<Rightarrow> ('w, 'o, secret) comp" where
  "get_credentials c repo =
     (let name = SecretName repo
      in bind_go (attempt (ask (k_GetSecret (c_Kube c) (NN (rp_Namespace repo) name)))) (\<lambda>got.
         case got of
           Inl e \<Rightarrow>
             if IsNotFound e then
               fail (Errorf ''%w: credentials Secret %q for repository %q; run: corg doctor repo/%s''
                 [Err ErrTargetNotFound, Str name, Str (rp_Name repo), Str (rp_Name repo)])
             else fail e
         | Inr s \<Rightarrow> ret s))"

text \<open>
  A parsed URL of \<open>net/url\<close> is a parameter: parsing, its user information (a name and
  perhaps a password), replacing that, and its text. The pattern of the replacement is
  \<open>url.QueryEscape(redacted)\<close>.
\<close>

record 'u urls =
  url_Parse :: "string \<Rightarrow> goerr + 'u"
  url_User :: "'u \<Rightarrow> (string \<times> string option) option"
  url_SetUser :: "'u \<Rightarrow> string \<times> string option \<Rightarrow> 'u"
  url_String :: "'u \<Rightarrow> string"

definition RedactResticURL :: "'u urls \<Rightarrow> string \<Rightarrow> string" where
  "RedactResticURL ul raw =
     (case Cut raw '':'' of
        None \<Rightarrow> redacted
      | Some (scheme, rest) \<Rightarrow>
          if scheme \<noteq> ''rest'' then redacted
          else
            (case url_Parse ul rest of
               Inl _ \<Rightarrow> redacted
             | Inr u \<Rightarrow>
                 (case url_User ul u of
                    None \<Rightarrow> redacted
                  | Some (_, None) \<Rightarrow> raw
                  | Some (name, Some _) \<Rightarrow>
                      scheme @ '':'' @ ReplaceAll ''%2A%2A%2A'' redacted
                        (url_String ul (url_SetUser ul u (name, Some redacted))))))"

definition target_repository :: "'w cli \<Rightarrow> target \<Rightarrow> ('w, 'o, repository) comp" where
  "target_repository c t =
     (case t of RepositoryTarget repo \<Rightarrow> ret repo | BackupTarget sb \<Rightarrow> RepositoryFor c sb)"

definition runEnv :: "'u urls \<Rightarrow> 'w cli \<Rightarrow> string \<Rightarrow> string \<Rightarrow> bool \<Rightarrow> ('w, 'o, unit) comp" where
  "runEnv ul c ns arg showPassword =
     bind_go (Resolve c ns arg) (\<lambda>t.
     bind_go (target_repository c t) (\<lambda>repo.
     bind_go (get_credentials c repo) (\<lambda>secret.
     let repoURL = lookup_str (sec_Data secret) KeyResticRepository;
         password = lookup_str (sec_Data secret) KeyResticPassword
     in bind_go (if showPassword then ret (repoURL, password)
                 else bind_go (say c ErrOut ''# password redacted; pass --show-password to reveal it'' [])
                   (\<lambda>_. ret (RedactResticURL ul repoURL, redacted))) (\<lambda>(repoURL, password).
        bind_go (print_lines c Out
          [(''export %s=%s'', [Str KeyResticRepository, Str (shellQuote repoURL)]),
           (''export %s=%s'', [Str KeyResticPassword, Str (shellQuote password)])] newPrinter) p_Err))))"

section \<open>Diagnosing only reads and prints\<close>

lemma silent_get_credentials [quiet_rules]: "silent (get_credentials c repo)"
  unfolding get_credentials_def Let_def by (auto intro!: quiet_rules)

lemma silent_checkCredentialsSecret [quiet_rules]: "silent (checkCredentialsSecret c repo r)"
  unfolding checkCredentialsSecret_def Let_def by (auto intro!: quiet_rules)

lemma silent_checkRepository [quiet_rules]: "silent (checkRepository c repo)"
  unfolding checkRepository_def describeInitJobs_def Let_def by (auto intro!: quiet_rules)

lemma silent_checkScheduledBackup [quiet_rules]: "silent (checkScheduledBackup c sb)"
  unfolding checkScheduledBackup_def checkReferencedRepository_def checkCronJob_def checkCachePVC_def Let_def
  by (auto intro!: quiet_rules split: sum.split)

lemma silent_each_report [quiet_rules]: "(\<And>x. silent (f x)) \<Longrightarrow> silent (each_report f xs)"
  by (induction xs) (auto intro!: quiet_rules)

lemma silent_collectReports [quiet_rules]: "silent (collectReports c ns arg)"
  unfolding collectReports_def by (auto intro!: quiet_rules split: target.split)

lemma silent_runDoctor [quiet_rules]: "silent (runDoctor c ns arg)"
  unfolding runDoctor_def by (auto intro!: quiet_rules)

lemma silent_runEnv [quiet_rules]: "silent (runEnv ul c ns arg show)"
  unfolding runEnv_def target_repository_def Let_def by (auto intro!: quiet_rules split: target.split)

end
