(* ===== verification/DoctorContracts.thy ===== *)
theory DoctorContracts
  imports Doctor RunnerContracts
begin

text \<open>
  What the diagnosis promises: the exit code of \<open>corg doctor\<close> for a resource is zero exactly
  when none of its checks fails (warnings do not count), and the environment that is printed is read
  by a shell as the two variables, or does not depend on the password.
\<close>

section \<open>Verdicts\<close>

text \<open>
  The specification of the verdict: the checks that count, all passed. A report has levels,
  and only \<open>levelFail\<close> makes the command fail. What is merely a warning does not count: a
  suspended resource, a condition that is not there yet, an operator that has not caught up,
  a referenced Repository that is initialized but not ready, a CronJob whose suspension does
  not match, and whatever is the matter with the cache claim. The three answers are those of
  the cluster one after another.
\<close>

definition not_unready :: "condition list \<Rightarrow> string \<Rightarrow> bool" where
  "not_unready conds ty \<longleftrightarrow>
     (case FindCondition conds ty of None \<Rightarrow> True | Some cond \<Rightarrow> cond_Status cond = ConditionTrue)"

definition last_run_ok :: "backup_status \<Rightarrow> bool" where
  "last_run_ok st \<longleftrightarrow>
     0 < bt_Active st \<or>
     (case bt_History st of
        run # _ \<Rightarrow> run_Result run \<noteq> BackupRunFailed
      | [] \<Rightarrow> (case bt_LastScheduleTime st of
                None \<Rightarrow> True
              | Some scheduled \<Rightarrow> (case bt_LastSuccessfulTime st of None \<Rightarrow> False | Some t \<Rightarrow> scheduled \<le> t)))"

definition usable :: "secret \<Rightarrow> bool" where
  "usable sec \<longleftrightarrow> lookup_str (sec_Data sec) KeyResticRepository \<noteq> '''' \<and>
     lookup_str (sec_Data sec) KeyResticPassword \<noteq> ''''"

definition backup_passes :: "'w cli \<Rightarrow> scheduled_backup \<Rightarrow> 'w \<Rightarrow> bool" where
  "backup_passes c sb w \<longleftrightarrow>
     not_unready (bt_Conditions (sb_Status sb)) ScheduledBackupConditionReady \<and> last_run_ok (sb_Status sb) \<and>
     (case k_GetRepository (c_Kube c) (NN (sb_Namespace sb) (bs_RepositoryRef (sb_Spec sb))) w of
        (Inl _, _) \<Rightarrow> False
      | (Inr repo, w1) \<Rightarrow> rt_Initialized (rp_Status repo) \<and>
          (case k_GetSecret (c_Kube c) (NN (rp_Namespace repo) (SecretName repo)) w1 of
             (Inl _, _) \<Rightarrow> False
           | (Inr sec, w2) \<Rightarrow> usable sec \<and>
               (case k_GetCronJob (c_Kube c) (NN (sb_Namespace sb) (CronJobName sb)) w2 of
                  (Inl _, _) \<Rightarrow> False
                | (Inr cj, _) \<Rightarrow> IsControlledBy (c_Lib c) (cj_Meta cj) (sb_Meta sb))))"

text \<open>A suspended Repository passes unseen; one that has lost a conflict is checked no further
  than its condition.\<close>

definition conflicting :: "repository \<Rightarrow> bool" where
  "conflicting repo \<longleftrightarrow>
     (case FindCondition (rt_Conditions (rp_Status repo)) RepositoryConditionReady of
        None \<Rightarrow> False | Some cond \<Rightarrow> cond_Reason cond = ''RepositoryConflict'')"

definition repository_passes :: "'w cli \<Rightarrow> repository \<Rightarrow> 'w \<Rightarrow> bool" where
  "repository_passes c repo w \<longleftrightarrow>
     rs_Suspend (rp_Spec repo) \<or>
     not_unready (rt_Conditions (rp_Status repo)) RepositoryConditionReady \<and>
     (conflicting repo \<or> rt_Initialized (rp_Status repo) \<and>
       (case fst (k_GetSecret (c_Kube c) (NN (rp_Namespace repo) (SecretName repo)) w) of
          Inl _ \<Rightarrow> False | Inr sec \<Rightarrow> usable sec))"

definition passes :: "'w cli \<Rightarrow> target \<Rightarrow> 'w \<Rightarrow> bool" where
  "passes c t w = (case t of RepositoryTarget repo \<Rightarrow> repository_passes c repo w | BackupTarget sb \<Rightarrow> backup_passes c sb w)"

lemma failed_add [simp]: "failed (add l m d r) \<longleftrightarrow> failed r \<or> l = levelFail"
  by (auto simp: failed_def add_def)

lemma failed_empty [simp]: "\<not> failed \<lparr>rpt_subject = x, rpt_checks = []\<rparr>"
  by (simp add: failed_def)

lemma failed_checkGeneration [simp]: "failed (checkGeneration g ob r) = failed r"
  by (simp add: checkGeneration_def)

lemma failed_checkCondition [simp]:
  "failed (checkCondition conds ty noun r) \<longleftrightarrow> failed r \<or> \<not> not_unready conds ty"
  by (auto simp: checkCondition_def not_unready_def split: option.splits)

lemma missing_keys_usable: "missing_keys sec = [] \<longleftrightarrow> usable sec"
  by (simp add: missing_keys_def usable_def credentials_keys_def)

lemma failed_checkLastRun [simp]: "failed (checkLastRun sb r) \<longleftrightarrow> failed r \<or> \<not> last_run_ok (sb_Status sb)"
  by (auto simp: checkLastRun_def last_run_ok_def checkRecordedRuns_def Let_def
      split: option.splits run_result.splits list.splits)

lemma wp_checkCredentialsSecret:
  assumes "\<And>x w r'. k_GetSecret (c_Kube c) (NN (rp_Namespace repo) (SecretName repo)) (st_World s) = (x, w) \<Longrightarrow>
    failed r' = (failed r \<or> (case x of Inl _ \<Rightarrow> True | Inr sec \<Rightarrow> \<not> usable sec)) \<Longrightarrow> Q r' (s\<lparr>st_World := w\<rparr>)"
  shows "wp (checkCredentialsSecret c repo r) Q E s"
  using assms
  by (cases "k_GetSecret (c_Kube c) (NN (rp_Namespace repo) (SecretName repo)) (st_World s)")
    (auto simp: checkCredentialsSecret_def Let_def wp_simps missing_keys_usable split: sum.splits)

lemma wp_checkCronJob:
  assumes "\<And>x w r'. k_GetCronJob (c_Kube c) (NN (sb_Namespace sb) (CronJobName sb)) (st_World s) = (x, w) \<Longrightarrow>
    failed r' = (failed r \<or> (case x of Inl _ \<Rightarrow> True
      | Inr cj \<Rightarrow> \<not> IsControlledBy (c_Lib c) (cj_Meta cj) (sb_Meta sb))) \<Longrightarrow> Q r' (s\<lparr>st_World := w\<rparr>)"
  shows "wp (checkCronJob c sb r) Q E s"
  using assms
  by (cases "k_GetCronJob (c_Kube c) (NN (sb_Namespace sb) (CronJobName sb)) (st_World s)")
    (auto simp: checkCronJob_def Let_def wp_simps split: sum.splits)

lemma wp_checkCachePVC:
  assumes "\<And>w r'. failed r' = failed r \<Longrightarrow> Q r' (s\<lparr>st_World := w\<rparr>)"
  shows "wp (checkCachePVC c sb r) Q E s"
  using assms assms[of r "st_World s"]
  by (cases "k_GetPVC (c_Kube c) (NN (sb_Namespace sb) (CacheName sb)) (st_World s)")
    (auto simp: checkCachePVC_def Let_def wp_simps split: sum.splits)

lemma wp_RepositoryFor:
  assumes "\<And>x w. k_GetRepository (c_Kube c) (NN (sb_Namespace sb) (bs_RepositoryRef (sb_Spec sb))) (st_World s) = (x, w) \<Longrightarrow>
    (case x of Inl _ \<Rightarrow> \<forall>e. E e (s\<lparr>st_World := w\<rparr>) | Inr repo \<Rightarrow> Q repo (s\<lparr>st_World := w\<rparr>))"
  shows "wp (RepositoryFor c sb) Q E s"
  using assms
  by (cases "k_GetRepository (c_Kube c) (NN (sb_Namespace sb) (bs_RepositoryRef (sb_Spec sb))) (st_World s)")
    (auto simp: RepositoryFor_def getRepository_def Let_def wp_simps split: sum.splits)

lemma wp_checkReferencedRepository:
  assumes "\<And>x w r'. k_GetSecret (c_Kube c) (NN (rp_Namespace repo) (SecretName repo)) (st_World s) = (x, w) \<Longrightarrow>
    failed r' = (failed r \<or> \<not> rt_Initialized (rp_Status repo) \<or>
      (case x of Inl _ \<Rightarrow> True | Inr sec \<Rightarrow> \<not> usable sec)) \<Longrightarrow> Q r' (s\<lparr>st_World := w\<rparr>)"
  shows "wp (checkReferencedRepository c repo r) Q E s"
  unfolding checkReferencedRepository_def
  by (rule wp_checkCredentialsSecret) (rule assms, assumption, auto)

lemma wp_checkScheduledBackup:
  assumes "\<And>r' w. failed r' \<longleftrightarrow> \<not> backup_passes c sb (st_World s) \<Longrightarrow> Q r' (s\<lparr>st_World := w\<rparr>)"
  shows "wp (checkScheduledBackup c sb) Q E s"
proof -
  obtain x w where x: "k_GetRepository (c_Kube c) (NN (sb_Namespace sb) (bs_RepositoryRef (sb_Spec sb))) (st_World s) = (x, w)"
    by (cases "k_GetRepository (c_Kube c) (NN (sb_Namespace sb) (bs_RepositoryRef (sb_Spec sb))) (st_World s)")
  have step: "wp (bind_go (checkCronJob c sb r) (\<lambda>r. bind_go (checkCachePVC c sb r) (\<lambda>r. ret (checkLastRun sb r)))) Q E t"
    if "\<And>y v r' v'. k_GetCronJob (c_Kube c) (NN (sb_Namespace sb) (CronJobName sb)) (st_World t) = (y, v) \<Longrightarrow>
        failed r' \<longleftrightarrow> failed r \<or> \<not> last_run_ok (sb_Status sb) \<or> (case y of Inl _ \<Rightarrow> True
          | Inr cj \<Rightarrow> \<not> IsControlledBy (c_Lib c) (cj_Meta cj) (sb_Meta sb)) \<Longrightarrow> Q r' (t\<lparr>st_World := v'\<rparr>)" for r t
    unfolding wp_bind wp_ret
    by (rule wp_checkCronJob, rule wp_checkCachePVC) (simp, rule that, assumption, auto)
  show ?thesis
    unfolding checkScheduledBackup_def Let_def
  proof (subst wp_bind, subst wp_attempt, rule wp_RepositoryFor, unfold x prod.inject, elim conjE, goal_cases)
    case (1 y v)
    show ?case
    proof (cases x)
      case (Inl e)
      have "\<not> backup_passes c sb (st_World s)" using x Inl by (simp add: backup_passes_def)
      then show ?thesis
        unfolding 1[symmetric] Inl sum.case
        by (intro allI, subst wp_bind, subst wp_ret, intro step) (simp add: assms)
    next
      case (Inr repo)
      show ?thesis
        unfolding 1[symmetric] Inr sum.case
      proof (subst wp_bind, rule wp_checkReferencedRepository, rule step, goal_cases)
        case (1 z u r' y' v' r'' v'')
        with x Inr have "failed r'' \<longleftrightarrow> \<not> backup_passes c sb (st_World s)"
          by (auto simp: backup_passes_def split: sum.splits if_splits)
        then show ?case by (simp add: assms)
      qed
    qed
  qed
qed

lemma wp_describeInitJobs:
  assumes "\<And>w r'. failed r' = failed r \<Longrightarrow> Q r' (s\<lparr>st_World := w\<rparr>)"
  shows "wp (describeInitJobs c repo r) Q E s"
  using assms
  by (cases "k_ListJobs (c_Kube c) (rp_Namespace repo) (st_World s)")
    (auto simp: describeInitJobs_def wp_simps split: sum.splits option.splits)

lemma wp_checkRepository:
  assumes "\<And>r' w. failed r' \<longleftrightarrow> \<not> repository_passes c repo (st_World s) \<Longrightarrow> Q r' (s\<lparr>st_World := w\<rparr>)"
  shows "wp (checkRepository c repo) Q E s"
proof -
  have here: "Q r s" if "failed r \<longleftrightarrow> \<not> repository_passes c repo (st_World s)" for r
    using assms[OF that, of "st_World s"] by simp
  show ?thesis
  proof (cases "rs_Suspend (rp_Spec repo) \<or> conflicting repo")
    case True
    then show ?thesis
      by (auto simp: checkRepository_def Let_def wp_ret conflicting_def[symmetric] repository_passes_def intro!: here)
  next
    case False
    note settled = this[unfolded de_Morgan_disj]
    show ?thesis
    proof (cases "rt_Initialized (rp_Status repo)")
      case True
      with settled show ?thesis
        by (auto simp: checkRepository_def Let_def wp_bind wp_ret conflicting_def[symmetric] repository_passes_def split: sum.splits
            intro!: wp_checkCredentialsSecret assms)
    next
      case False
      with settled have "\<not> repository_passes c repo (st_World s)" by (simp add: repository_passes_def)
      with settled False show ?thesis
        by (auto simp: checkRepository_def Let_def wp_bind conflicting_def[symmetric]
            intro!: wp_describeInitJobs wp_checkCredentialsSecret assms)
    qed
  qed
qed

section \<open>The exit code\<close>

text \<open>
  C28. When nothing keeps the command from printing, \<open>corg doctor\<close> for a named resource
  succeeds exactly if none of these checks fails, and ends with \<open>ErrUnhealthy\<close> otherwise. For
  a ScheduledBackup: its Ready condition, if there is one, is true, the last run on record has
  not failed (which is not asked while one is active), its Repository can be read and is initialized, the credentials Secret can be read
  and holds both keys, and the CronJob can be read and is controlled by the backup. For a
  Repository that is not suspended: its Ready condition, if there is one, is true, and
  unless it is reported as the loser of a conflict it is initialized and its credentials
  Secret holds both keys. Nothing else changes the exit code, in particular no warning: not
  even that of a cache claim that keeps the backup pod from starting
  (\<open>pending_claim_passes\<close>).
\<close>

theorem doctor_exit_code:
  assumes "Resolve c ns arg s = (Inr target, u)"
    and print: "\<And>out m w. \<exists>w'. c_Print c out m w = (Inr (), w')"
  shows "fst (runDoctor c ns arg s) = (if passes c target (st_World u) then Inr () else Inl ErrUnhealthy)"
proof -
  have arg: "arg \<noteq> ''''" using assms(1) by (auto simp: Resolve_def fail_def)
  have known: "wp (Resolve c ns arg) Q E s = Q target u" for Q E
    using assms(1) by (simp add: wp_def)
  let ?fine = "passes c target (st_World u)"
  have verdict: "wp (bind_go (print_lines c Out (all_lines [r]) newPrinter)
        (\<lambda>p. bind_go (p_Err p) (\<lambda>_. if list_ex failed [r] then fail ErrUnhealthy else ret ())))
      (\<lambda>_ _. ?fine) (\<lambda>e _. \<not> ?fine \<and> e = ErrUnhealthy) (u\<lparr>st_World := w\<rparr>)" if "failed r \<longleftrightarrow> \<not> ?fine" for r w
    unfolding wp_bind newPrinter_def
    by (rule wp_print_lines[OF print]) (simp add: p_Err_def wp_simps that)
  have "wp (runDoctor c ns arg) (\<lambda>_ _. ?fine) (\<lambda>e _. \<not> ?fine \<and> e = ErrUnhealthy) s"
    unfolding runDoctor_def collectReports_def if_P[OF arg] wp_bind known wp_ret
    using verdict
    by (cases target) (auto simp: passes_def wp_bind intro!: wp_checkRepository wp_checkScheduledBackup)
  then show ?thesis by (auto simp: wp_def split: prod.splits sum.splits)
qed

text \<open>A namespace where everything is in place.\<close>

definition healthy_repository :: repository where
  "healthy_repository = sample_repository\<lparr>rp_Status := (rp_Status sample_repository)\<lparr>rt_Initialized := True\<rparr>\<rparr>"

definition healthy_secret :: secret where
  "healthy_secret = \<lparr>sec_Meta = new_meta ''app'' ''backups'' [], sec_Type = '''',
     sec_Data = [(KeyResticRepository, ''rest:https://x''), (KeyResticPassword, ''it'' @ [squote] @ ''s'')]\<rparr>"

definition owned_cron :: cronjob where
  "owned_cron = sample_cron\<lparr>cj_Meta := (cj_Meta sample_cron)\<lparr>om_OwnerReferences :=
     [\<lparr>or_Kind = ''ScheduledBackup'', or_Name = ''nightly'', or_UID = ''u1'', or_Controller = Some True\<rparr>]\<rparr>\<rparr>"

definition healthy_cli :: "unit cli" where
  "healthy_cli = plain_cli (empty_cluster\<lparr>
     k_GetBackup := (\<lambda>_. ret sample_backup), k_GetRepository := (\<lambda>_. ret healthy_repository),
     k_GetSecret := (\<lambda>_. ret healthy_secret), k_GetCronJob := (\<lambda>_. ret owned_cron)\<rparr>)"

theorem doctor_exit_code_witness:
  "fst (runDoctor healthy_cli ''app'' ''sb/nightly'' (start () ())) = Inr ()"
proof -
  have "Resolve healthy_cli ''app'' ''sb/nightly'' (start () ()) = (Inr (BackupTarget sample_backup), start () ())"
    by code_simp
  moreover have "passes healthy_cli (BackupTarget sample_backup) ()" by code_simp
  ultimately show ?thesis
    by (subst doctor_exit_code) (auto simp: healthy_cli_def plain_cli_def ret_def)
qed

text \<open>The cache claim of this backup is pending: the report warns of it, the command succeeds.\<close>

definition pending_cli :: "unit cli" where
  "pending_cli = plain_cli ((c_Kube healthy_cli)\<lparr>k_GetPVC := (\<lambda>_. ret
     \<lparr>pvc_Meta = new_meta ''app'' ''cache'' [], pvc_AccessModes = [], pvc_Requests = [],
        pvc_StorageClassName = None, pvc_Phase = ''Pending''\<rparr>)\<rparr>)"

lemma pending_claim_passes:
  "fst (runDoctor pending_cli ''app'' ''sb/nightly'' (start () ())) = Inr ()"
  by code_simp

section \<open>The environment\<close>

text \<open>The text of a line whose format has no verb but \<open>%s\<close>.\<close>

fun expand :: "string \<Rightarrow> goarg list \<Rightarrow> string option" where
  "expand [] args = Some []"
| "expand (c # f) args =
     (if c \<noteq> CHR ''%'' then map_option (Cons c) (expand f args)
      else
        (case (f, args) of
           (d # g, Str a # rest) \<Rightarrow> if d = CHR ''s'' then map_option ((@) a) (expand g rest) else None
         | _ \<Rightarrow> None))"

definition read_line :: "message \<Rightarrow> string list option" where
  "read_line m = (case m of (fmt, args) \<Rightarrow> Option.bind (expand fmt args) sh_words)"

lemma read_export:
  assumes "list_all sh_plain key"
  shows "read_line (''export %s=%s'', [Str key, Str (shellQuote v)]) = Some [''export'', key @ ''='' @ v]"
proof -
  have "list_all sh_plain (key @ ''='')" "list_all sh_plain ''export''"
    using assms by (simp_all add: sh_plain_def sh_special_def)
  then have "sh_words (''export'' @ '' '' @ (key @ ''='') @ shellQuote v @ []) = Some [''export'', key @ ''='' @ v]"
    using sh_read_plain_start[of "''export''" "'' '' @ (key @ ''='') @ shellQuote v @ []"]
      sh_read_words[of "key @ ''=''" "rev ''export''" "shellQuote v @ []"]
      sh_read_shellQuote[of "Some (rev (key @ ''=''))" v "[]"]
    by (simp add: sh_words_def del: sh_read.simps(2))
  then show ?thesis by (simp add: read_line_def)
qed

lemma sh_plain_keys: "list_all sh_plain KeyResticRepository" "list_all sh_plain KeyResticPassword"
  by (simp_all add: sh_plain_def sh_special_def KeyResticRepository_def KeyResticPassword_def)

text \<open>URLs of the form \<open>name:password@rest\<close>, for the witnesses.\<close>

definition plain_urls :: "((string \<times> string option) option \<times> string) urls" where
  "plain_urls =
     \<lparr>url_Parse = (\<lambda>s. case Cut s ''@'' of
          None \<Rightarrow> Inr (None, s)
        | Some (user, rest) \<Rightarrow>
            (case Cut user '':'' of
               None \<Rightarrow> Inr (Some (user, None), rest)
             | Some (name, password) \<Rightarrow> Inr (Some (name, Some password), rest))),
      url_User = fst,
      url_SetUser = (\<lambda>u user. (Some user, snd u)),
      url_String = (\<lambda>u. case u of
          (None, rest) \<Rightarrow> rest
        | (Some (name, None), rest) \<Rightarrow> name @ ''@'' @ rest
        | (Some (name, Some password), rest) \<Rightarrow> name @ '':'' @ password @ ''@'' @ rest)\<rparr>"

text \<open>
  With \<open>--show-password\<close> the command prints, after its reads, two lines that a shell
  reads as \<open>export\<close> with exactly the two variables of the credentials Secret, whatever
  characters their values have.
\<close>

lemma exports_are_read_back:
  assumes "bind_go (Resolve c ns arg) (target_repository c) s = (Inr repo, t)"
    and "get_credentials c repo t = (Inr secret, u)"
  shows "\<exists>lines. runEnv ul c ns arg True s = bind_go (print_lines c Out lines newPrinter) p_Err u \<and>
    map read_line lines =
      [Some [''export'', KeyResticRepository @ ''='' @ lookup_str (sec_Data secret) KeyResticRepository],
       Some [''export'', KeyResticPassword @ ''='' @ lookup_str (sec_Data secret) KeyResticPassword]]"
proof -
  from assms(1) obtain target v where "Resolve c ns arg s = (Inr target, v)" "target_repository c target v = (Inr repo, t)"
    by (auto simp: bind_go_def split: prod.splits sum.splits)
  then have "runEnv ul c ns arg True s = bind_go (print_lines c Out
      (map (\<lambda>key. (''export %s=%s'', [Str key, Str (shellQuote (lookup_str (sec_Data secret) key))]))
        [KeyResticRepository, KeyResticPassword]) newPrinter) p_Err u"
    using assms(2) unfolding runEnv_def by (simp add: bind_go_def[of "Resolve c ns arg"]
        bind_go_def[of "target_repository c target"] bind_go_def[of "get_credentials c repo"] bind_ret Let_def)
  then show ?thesis by (intro exI conjI) (assumption, simp add: read_export sh_plain_keys)
qed

lemma exports_are_read_back_witness:
  "\<exists>lines. runEnv plain_urls healthy_cli ''app'' ''sb/nightly'' True (start () ()) =
      bind_go (print_lines healthy_cli Out lines newPrinter) p_Err (start () ()) \<and>
    map read_line lines =
      [Some [''export'', KeyResticRepository @ ''='' @ lookup_str (sec_Data healthy_secret) KeyResticRepository],
       Some [''export'', KeyResticPassword @ ''='' @ lookup_str (sec_Data healthy_secret) KeyResticPassword]]"
proof (rule exports_are_read_back)
  show "bind_go (Resolve healthy_cli ''app'' ''sb/nightly'') (target_repository healthy_cli) (start () ()) =
    (Inr healthy_repository, start () ())" by code_simp
  show "get_credentials healthy_cli healthy_repository (start () ()) = (Inr healthy_secret, start () ())" by code_simp
qed

text \<open>The same cluster with another Secret.\<close>

definition with_secret :: "'w cli \<Rightarrow> secret \<Rightarrow> 'w cli" where
  "with_secret c sec = c\<lparr>c_Kube := (c_Kube c)\<lparr>k_GetSecret := (\<lambda>_ w. (Inr sec, w))\<rparr>\<rparr>"

lemma p_printf_with_secret: "p_printf (with_secret c sec) out fmt args p = p_printf c out fmt args p"
  by (cases p) (simp_all add: p_printf_def with_secret_def)

lemma print_lines_with_secret: "print_lines (with_secret c sec) out ls = print_lines c out ls"
proof (induction ls)
  case Nil
  show ?case by (rule ext) simp
next
  case (Cons l ls)
  then show ?case by (cases l) (auto simp: p_printf_with_secret)
qed

lemma say_with_secret: "say (with_secret c sec) out fmt args = say c out fmt args"
  by (simp add: say_def p_printf_with_secret)

lemma gets_with_secret:
  "getRepository (with_secret c sec) = getRepository c"
  "getScheduledBackup (with_secret c sec) = getScheduledBackup c"
  by (intro ext, simp add: getRepository_def getScheduledBackup_def with_secret_def)+

lemma lookups_with_secret:
  "get_target (with_secret c sec) = get_target c" "RepositoryFor (with_secret c sec) = RepositoryFor c"
  by (intro ext, simp add: get_target_def RepositoryFor_def gets_with_secret)+

lemma Resolve_with_secret: "Resolve (with_secret c sec) ns arg = Resolve c ns arg"
  unfolding Resolve_def gets_with_secret lookups_with_secret ..

lemma target_repository_with_secret: "target_repository (with_secret c sec) t = target_repository c t"
  unfolding target_repository_def lookups_with_secret ..

lemma get_credentials_with_secret: "get_credentials (with_secret c sec) repo = ret sec"
  by (rule ext) (simp add: get_credentials_def with_secret_def ask_def attempt_def bind_go_def ret_def)

lemmas with_secret_reads = print_lines_with_secret say_with_secret Resolve_with_secret
  target_repository_with_secret get_credentials_with_secret

text \<open>
  URLs the command may show something of: \<open>opaque\<close> are those it cannot take apart, which
  are not \<open>rest:\<close> URLs, cannot be parsed or have no user, and may hold a password anywhere;
  \<open>twins\<close> are \<open>rest:\<close> URLs that differ at most in the password of their user.
\<close>

definition opaque :: "'u urls \<Rightarrow> string \<Rightarrow> bool" where
  "opaque ul raw \<longleftrightarrow>
     (\<forall>rest u. Cut raw '':'' = Some (''rest'', rest) \<longrightarrow> url_Parse ul rest = Inr u \<longrightarrow> url_User ul u = None)"

definition twins :: "'u urls \<Rightarrow> string \<Rightarrow> string \<Rightarrow> bool" where
  "twins ul a b \<longleftrightarrow>
     (\<exists>r1 r2 u1 u2 name p1 p2. a = ''rest:'' @ r1 \<and> b = ''rest:'' @ r2 \<and>
        url_Parse ul r1 = Inr u1 \<and> url_User ul u1 = Some (name, Some p1) \<and>
        url_Parse ul r2 = Inr u2 \<and> url_User ul u2 = Some (name, Some p2) \<and>
        (\<forall>x. url_SetUser ul u1 x = url_SetUser ul u2 x))"

lemma opaque_redacted: "opaque ul raw \<Longrightarrow> RedactResticURL ul raw = redacted"
  by (auto simp: opaque_def RedactResticURL_def split: option.split sum.split)

lemma twins_redacted: "twins ul a b \<Longrightarrow> RedactResticURL ul a = RedactResticURL ul b"
  by (auto simp: twins_def RedactResticURL_def)

text \<open>
  C29. Without \<open>--show-password\<close> the whole run of the command, down to every line and
  error, is the same for any two credentials Secrets, whatever their passwords, whose URLs
  are the same, or \<open>rest:\<close> URLs that differ in the password within them, or both of a kind
  that the command cannot take apart: not a \<open>rest:\<close> URL, unparsable, or without a user. Of
  the last it shows nothing but the placeholder.
\<close>

theorem passwords_stay_hidden:
  assumes "let url1 = lookup_str (sec_Data s1) KeyResticRepository; url2 = lookup_str (sec_Data s2) KeyResticRepository
    in url1 = url2 \<or> twins ul url1 url2 \<or> opaque ul url1 \<and> opaque ul url2"
  shows "runEnv ul (with_secret c s1) ns arg False = runEnv ul (with_secret c s2) ns arg False"
proof -
  have "RedactResticURL ul (lookup_str (sec_Data s1) KeyResticRepository) =
      RedactResticURL ul (lookup_str (sec_Data s2) KeyResticRepository)"
    using assms twins_redacted opaque_redacted by (metis (no_types))
  then show ?thesis
    by (simp add: runEnv_def with_secret_reads bind_ret del: append.simps)
qed

definition secret_of :: "string \<Rightarrow> string \<Rightarrow> secret" where
  "secret_of url password = healthy_secret\<lparr>sec_Data := [(KeyResticRepository, url), (KeyResticPassword, password)]\<rparr>"

theorem passwords_stay_hidden_witness:
  "runEnv plain_urls (with_secret healthy_cli (secret_of ''rest:u:one@host/repo'' ''one'')) ''app'' ''sb/nightly'' False =
   runEnv plain_urls (with_secret healthy_cli (secret_of ''rest:u:two@host/repo'' ''two'')) ''app'' ''sb/nightly'' False \<and>
   runEnv plain_urls (with_secret healthy_cli (secret_of ''sftp:u:one@host/repo'' ''one'')) ''app'' ''sb/nightly'' False =
   runEnv plain_urls (with_secret healthy_cli (secret_of ''garbage'' ''two'')) ''app'' ''sb/nightly'' False"
proof
  have "url_Parse plain_urls ''u:one@host/repo'' = Inr (Some (''u'', Some ''one''), ''host/repo'')"
    "url_Parse plain_urls ''u:two@host/repo'' = Inr (Some (''u'', Some ''two''), ''host/repo'')" by code_simp+
  then have "twins plain_urls (''rest:'' @ ''u:one@host/repo'') (''rest:'' @ ''u:two@host/repo'')"
    unfolding twins_def by (metis (no_types, lifting) plain_urls_def urls.select_convs(2,3) fst_conv snd_conv)
  then show "runEnv plain_urls (with_secret healthy_cli (secret_of ''rest:u:one@host/repo'' ''one'')) ''app'' ''sb/nightly'' False =
    runEnv plain_urls (with_secret healthy_cli (secret_of ''rest:u:two@host/repo'' ''two'')) ''app'' ''sb/nightly'' False"
    by (intro passwords_stay_hidden) (simp add: secret_of_def lookup_str_def)
  have "Cut ''sftp:u:one@host/repo'' '':'' = Some (''sftp'', ''u:one@host/repo'')" "Cut ''garbage'' '':'' = None"
    by code_simp+
  then have "opaque plain_urls ''sftp:u:one@host/repo''" "opaque plain_urls ''garbage''"
    by (simp_all add: opaque_def)
  then show "runEnv plain_urls (with_secret healthy_cli (secret_of ''sftp:u:one@host/repo'' ''one'')) ''app'' ''sb/nightly'' False =
    runEnv plain_urls (with_secret healthy_cli (secret_of ''garbage'' ''two'')) ''app'' ''sb/nightly'' False"
    by (intro passwords_stay_hidden) (simp add: secret_of_def lookup_str_def)
qed

end
