(* ===== verification/Repair.thy ===== *)
theory Repair
  imports Doctor Restic
begin

text \<open>
  Repairing a repository (\<open>internal/cli/repair.go\<close>): initializing it again, and rotating its
  encryption password by adding a key and pointing the credentials Secret at it. The commands
  start from the resolved target; the runner they ask the factory for is the one of
  \<open>Runner\<close>.
\<close>

definition ErrNotInitialized :: goerr where "ErrNotInitialized = Sentinel ''repository is not initialized''"

section \<open>Initializing again\<close>

fun delete_jobs :: "'w cli \<Rightarrow> repository \<Rightarrow> job list \<Rightarrow> printer \<Rightarrow> ('w, 'o, printer) comp" where
  "delete_jobs c repo [] p = ret p"
| "delete_jobs c repo (j # js) p =
     (if \<not> IsControlledBy (c_Lib c) (job_Meta j) (rp_Meta repo) then delete_jobs c repo js p
      else
        bind_go (attempt (call (DeleteJob j) (k_DeleteJob (c_Kube c) j))) (\<lambda>res.
        bind_go (case res of
            Inr _ \<Rightarrow> ret ()
          | Inl e \<Rightarrow> if \<not> IsNotFound e then fail (Errorf ''deleting job/%s: %w'' [Str (om_Name (job_Meta j)), Err e])
                    else ret ()) (\<lambda>_.
        bind_go (p_printf c Out ''deleted job/%s'' [Str (om_Name (job_Meta j))] p) (\<lambda>p.
        delete_jobs c repo js p))))"

definition uninitialized :: "repository \<Rightarrow> repository" where
  "uninitialized repo = repo\<lparr>rp_Status := (rp_Status repo)\<lparr>rt_Initialized := False\<rparr>\<rparr>"

text \<open>The target of \<open>corg reinit\<close> must be a Repository.\<close>

definition reinit_target :: "target \<Rightarrow> goerr + repository" where
  "reinit_target t =
     (case t of
        RepositoryTarget repo \<Rightarrow> Inr repo
      | BackupTarget _ \<Rightarrow> Inl (Errorf ''reinit needs a Repository, not a %s'' [Str (kind_text (tg_Kind t))]))"

definition runReinit :: "'w cli \<Rightarrow> repository \<Rightarrow> ('w, 'o, unit) comp" where
  "runReinit c repo =
     bind_go (ask (k_ListJobs (c_Kube c) (rp_Namespace repo))) (\<lambda>jobs.
     bind_go (delete_jobs c repo jobs newPrinter) (\<lambda>p.
     let new = uninitialized repo
     in bind_go (on_error (call (PatchRepositoryStatus new) (k_PatchRepositoryStatus (c_Kube c) new repo))
            (\<lambda>e. fail (Errorf ''clearing status.initialized: %w'' [Err e]))) (\<lambda>repo.
        bind_go (print_lines c Out
          [(''repository/%s will be initialized again'', [Str (rp_Name repo)]),
           (''  watch it with: corg doctor repo/%s'', [Str (rp_Name repo)])] p) p_Err)))"

section \<open>Rotating the password\<close>

definition newKeyMountPath :: string where "newKeyMountPath = ''/newkey''"

definition newKeySecretName :: "'w cli \<Rightarrow> repository \<Rightarrow> ('w, 'o, string) comp" where
  "newKeySecretName c repo =
     bind_go (tick (c_RandString c 5)) (\<lambda>suffix. ret (rp_Name repo @ ''-corg-newkey-'' @ suffix))"

definition key_secret :: "repository \<Rightarrow> string \<Rightarrow> string \<Rightarrow> secret" where
  "key_secret repo name password =
     \<lparr>sec_Meta = new_meta (rp_Namespace repo) name [(''app.kubernetes.io/managed-by'', ManagedByValue)],
      sec_Type = '''', sec_Data = [(''password'', password)]\<rparr>"

definition rotate_options :: "secret \<Rightarrow> run_options" where
  "rotate_options temp =
     no_options\<lparr>ro_Purpose := ''rotate'',
       ro_Command := resticCommand [''key'', ''add'', ''--new-password-file='' @ newKeyMountPath @ ''/password''],
       ro_ExtraVolumes := [\<lparr>vol_Name = ''newkey'', vol_PersistentVolumeClaim = None,
         vol_Secret = Some (om_Name (sec_Meta temp)), vol_EmptyDir = False\<rparr>],
       ro_ExtraMounts := [\<lparr>vm_Name = ''newkey'', vm_MountPath = newKeyMountPath, vm_ReadOnly = True\<rparr>]\<rparr>"

definition deleteTempKeySecret :: "'w cli \<Rightarrow> secret \<Rightarrow> ('w, 'o, unit) comp" where
  "deleteTempKeySecret c temp =
     (let key = key_of (sec_Meta temp)
      in bind_go (attempt (call (DeleteSecret key) (c_DeleteSecret c key))) (\<lambda>res.
         case res of
           Inr _ \<Rightarrow> ret ()
         | Inl e \<Rightarrow> if \<not> IsNotFound e then fail e else ret ()))"

text \<open>What is deferred: a failed deletion is only reported.\<close>

definition clean_up_key :: "'w cli \<Rightarrow> secret \<Rightarrow> ('w, 'o, unit) comp" where
  "clean_up_key c temp =
     bind_go (attempt (deleteTempKeySecret c temp)) (\<lambda>res.
     case res of
       Inr _ \<Rightarrow> ret ()
     | Inl e \<Rightarrow>
         bind_go (print_lines c ErrOut
           [(''! could not delete the temporary key secret/%s: %v'', [Str (om_Name (sec_Meta temp)), Err e]),
            (''! it holds the new password in plaintext; delete it with: kubectl -n %s delete secret %s'',
              [Str (om_Namespace (sec_Meta temp)), Str (om_Name (sec_Meta temp))])] newPrinter) (\<lambda>_. ret ()))"

definition point_at :: "string \<Rightarrow> secret \<Rightarrow> secret" where
  "point_at password s = s\<lparr>sec_Data := map_put KeyResticPassword password (sec_Data s)\<rparr>"

definition add_key :: "'w cli \<Rightarrow> scheduled_backup \<Rightarrow> repository \<Rightarrow> secret \<Rightarrow> string \<Rightarrow> secret \<Rightarrow> ('w, 'o, unit) comp" where
  "add_key c sb repo current password temp =
     bind_go (say c ErrOut ''adding a new key to repository/%s'' [Str (rp_Name repo)]) (\<lambda>_.
     bind_go (on_error (Run c sb (rotate_options temp) defaultResticTimeout)
       (\<lambda>e. fail (Errorf ''adding the new key: %w'' [Err e]))) (\<lambda>_.
     let new = point_at password current
     in bind_go (on_error (call (PatchSecret current new) (c_PatchSecret c current new))
          (\<lambda>e. fail (Errorf ''updating %s in secret/%s: %w''
            [Str KeyResticPassword, Str (om_Name (sec_Meta current)), Err e]))) (\<lambda>_.
        bind_go (print_lines c Out
          [(''rotated the encryption key for repository/%s'', [Str (rp_Name repo)]),
           (''  archive it now:   corg env repo/%s --show-password'', [Str (rp_Name repo)]),
           (''  the old key still works; remove it with:'', []),
           (''    corg exec %s -- restic key list'', [Str (sb_Name sb)])] newPrinter) p_Err)))"

definition runRotatePassword :: "'w cli \<Rightarrow> scheduled_backup \<Rightarrow> repository \<Rightarrow> ('w, 'o, unit) comp" where
  "runRotatePassword c sb repo =
     (if \<not> rt_Initialized (rp_Status repo) then
        fail (Errorf ''%w: repository/%s has nothing to rotate yet'' [Err ErrNotInitialized, Str (rp_Name repo)])
      else
        bind_go (get_credentials c repo) (\<lambda>current.
        bind_go (ask (run_generator (k_RandFuel (c_Kube c)) (k_Rand (c_Kube c)))) (\<lambda>password.
        bind_go (newKeySecretName c repo) (\<lambda>name.
        let temp = key_secret repo name password
        in bind_go (on_error (call (CreateSecret temp) (k_CreateSecret (c_Kube c) temp))
             (\<lambda>e. fail (Errorf ''creating the temporary key Secret: %w'' [Err e]))) (\<lambda>_.
           deferred False (clean_up_key c temp) (add_key c sb repo current password temp))))))"

text \<open>The flag the command insists on.\<close>

definition rotate_password :: "'w cli \<Rightarrow> bool \<Rightarrow> string \<Rightarrow> string \<Rightarrow> ('w, 'o, unit) comp" where
  "rotate_password c archived ns arg =
     (if \<not> archived then
        fail (Errorf (''refusing to rotate without --i-have-somewhere-to-archive-the-new-password: '' @
          ''the password is the only thing that can decrypt this repository'') [])
      else bind_go (resolveRunTarget c ns arg) (\<lambda>(sb, repo). runRotatePassword c sb repo))"

end
