(* ===== verification/RepairContracts.thy ===== *)
theory RepairContracts
  imports Repair DoctorContracts ResticContracts RepositoryContracts
begin

text \<open>
  What repairing promises: a rotated password reaches the credentials Secret only after the
  key was added and is not left behind anywhere else, and initializing again touches nothing
  but the Jobs of the repository and one flag.
\<close>

section \<open>Rotation\<close>

definition rotating :: "scheduled_backup \<Rightarrow> secret \<Rightarrow> 'o entry \<Rightarrow> bool" where
  "rotating sb temp = job_effect (made_for sb (rotate_options temp))"

text \<open>The key is in the repository: the Job that adds it was run to a good end, with these effects.\<close>

definition key_added :: "'w cli \<Rightarrow> scheduled_backup \<Rightarrow> secret \<Rightarrow> 'o entry list \<Rightarrow> bool" where
  "key_added c sb temp jobs \<longleftrightarrow>
     (\<exists>(v :: ('w, 'o) st) v'. Run c sb (rotate_options temp) defaultResticTimeout v = (Inr (), v') \<and>
        st_Log v' = st_Log v @ jobs)"

text \<open>The effects of adding the key and pointing the Secret at it.\<close>

definition key_steps ::
  "'w cli \<Rightarrow> scheduled_backup \<Rightarrow> secret \<Rightarrow> secret \<Rightarrow> string \<Rightarrow> bool \<Rightarrow> 'o entry list \<Rightarrow> bool" where
  "key_steps c sb current temp password done l \<longleftrightarrow>
     (\<not> done \<and> list_all (rotating sb temp) l) \<or>
     (\<exists>jobs patch. l = jobs @ [patch] \<and> list_all (rotating sb temp) jobs \<and> key_added c sb temp jobs \<and>
        en_Effect patch = PatchSecret current (point_at password current) \<and> (done \<longrightarrow> en_Error patch = None))"

lemma add_key_steps:
  "wp (add_key c sb repo current password temp)
     (\<lambda>_ t. \<exists>l. st_Log t = st_Log s @ l \<and> key_steps c sb current temp password True l)
     (\<lambda>_ t. \<exists>l. st_Log t = st_Log s @ l \<and> key_steps c sb current temp password False l) s"
proof -
  let ?run = "Run c sb (rotate_options temp) defaultResticTimeout"
  let ?E = "\<lambda>_ t. \<exists>l. st_Log t = st_Log s @ l \<and> key_steps c sb current temp password False l"
  let ?Q = "\<lambda>_ t. \<exists>l. st_Log t = st_Log s @ l \<and> key_steps c sb current temp password True l"
  have quiet: "?E e (s\<lparr>st_World := w\<rparr>)" for e :: goerr and w
    by (intro exI[of _ "[]"]) (simp add: key_steps_def)
  have tail: "wp (bind_go (print_lines c out ls newPrinter) p_Err) ?Q ?E (t\<lparr>st_World := w, st_Log := st_Log t @ [p]\<rparr>)"
    if "st_Log t = st_Log s @ jobs" "list_all (rotating sb temp) jobs" "key_added c sb temp jobs"
      "en_Effect p = PatchSecret current (point_at password current)" "en_Error p = None" for t w jobs p out ls
  proof (rule wp_silent, goal_cases)
    case 1
    show ?case by (intro quiet_rules)
  qed (use that in \<open>auto simp: key_steps_def intro!: exI[of _ "jobs @ [p]"]\<close>)
  show ?thesis
    unfolding add_key_def wp_bind wp_on_error wp_fail Let_def
  proof (rule wp_silent[OF silent_say], goal_cases)
    case (1 a w)
    show ?case
    proof (rule wp_footprint[where P="rotating sb temp"], goal_cases)
      case 1
      then show ?case unfolding rotating_def by (rule emits_Run)
    next
      case (2 a t l)
      then have "key_added c sb temp l"
        unfolding key_added_def by (intro exI[of _ "s\<lparr>st_World := w\<rparr>"] exI[of _ t]) simp
      obtain y u where patch: "c_PatchSecret c current (point_at password current) (st_World t) = (y, u)"
        by fastforce
      from 2 have t: "st_Log t = st_Log s @ l" "list_all (rotating sb temp) l" by simp_all
      show ?case
      proof (cases y)
        case (Inl e)
        with t \<open>key_added c sb temp l\<close> show ?thesis
          by (auto simp: wp_call patch key_steps_def intro!: exI[of _ "l @ [_]"])
      next
        case (Inr z)
        show ?thesis
          unfolding wp_call patch Inr prod.case sum.case
          by (rule tail[OF t \<open>key_added c sb temp l\<close>, unfolded wp_bind]) simp_all
      qed
    next
      case (3 e t l)
      then show ?case by (auto simp: key_steps_def)
    qed
  next
    case (2 e w)
    show ?case by (rule quiet)
  qed
qed

text \<open>The effects of a rotation, and whether it ended well.\<close>

definition rotation ::
  "'w cli \<Rightarrow> scheduled_backup \<Rightarrow> repository \<Rightarrow> ('w, 'o) st \<Rightarrow> bool \<Rightarrow> 'o entry list \<Rightarrow> bool" where
  "rotation c sb repo s done l \<longleftrightarrow>
     (if l = [] then \<not> done
      else \<exists>current v name password temp create steps remove.
        l = create # steps @ remove \<and>
        get_credentials c repo s = (Inr current, v) \<and> temp = key_secret repo name password \<and>
        length password = 128 \<and> set password \<subseteq> set alphabet \<and> en_Effect create = CreateSecret temp \<and>
        (if en_Error create = None
         then key_steps c sb current temp password done steps \<and>
           map en_Effect remove = [DeleteSecret (NN (rp_Namespace repo) name)]
         else \<not> done \<and> steps = [] \<and> remove = []))"

lemma rotationI:
  assumes "get_credentials c repo s = (Inr current, v)" "length password = 128" "set password \<subseteq> set alphabet"
    and "en_Effect create = CreateSecret (key_secret repo name password)"
    and "if en_Error create = None
         then key_steps c sb current (key_secret repo name password) password ok steps \<and>
           map en_Effect remove = [DeleteSecret (NN (rp_Namespace repo) name)]
         else \<not> ok \<and> steps = [] \<and> remove = []"
  shows "rotation c sb repo s ok (create # steps @ remove)"
  unfolding rotation_def
  by (subst if_not_P, simp, intro exI[of _ current] exI[of _ v] exI[of _ name] exI[of _ password]
      exI[of _ "key_secret repo name password"] exI[of _ create] exI[of _ steps] exI[of _ remove])
    (use assms in simp)

lemma wp_deferred:
  assumes "wp m (\<lambda>a t. Q a (snd (cleanup t))) (\<lambda>e t. E e (snd (cleanup t))) s"
  shows "wp (deferred False cleanup m) Q E s"
proof -
  obtain x t where m: "m s = (x, t)" by fastforce
  obtain y u where "cleanup t = (y, u)" by fastforce
  with m assms show ?thesis
    by (cases x) (auto simp: deferred_def wp_def bind_go_def attempt_def lift_def)
qed

lemma clean_up_key_log:
  "\<exists>r. st_Log (snd (clean_up_key c temp s)) = st_Log s @ [r] \<and> en_Effect r = DeleteSecret (key_of (sec_Meta temp))"
proof -
  have "wp (clean_up_key c temp) (\<lambda>_ t. \<exists>r. st_Log t = st_Log s @ [r] \<and> en_Effect r = DeleteSecret (key_of (sec_Meta temp)))
     (\<lambda>_ t. \<exists>r. st_Log t = st_Log s @ [r] \<and> en_Effect r = DeleteSecret (key_of (sec_Meta temp))) s"
    unfolding clean_up_key_def deleteTempKeySecret_def Let_def wp_bind wp_attempt wp_call
    by (auto split: prod.split sum.split if_split simp: wp_ret wp_fail wp_bind
        intro!: wp_silent[OF silent_print_lines] simp del: print_lines.simps)
  then show ?thesis unfolding wp_same .
qed

lemma rotation_finished:
  assumes u: "st_Log u = st_Log s @ [create]" "en_Effect create = CreateSecret temp" "en_Error create = None"
    and known: "get_credentials c repo s = (Inr current, v)" "temp = key_secret repo name password"
      "length password = 128" "set password \<subseteq> set alphabet"
  shows "wp (deferred False (clean_up_key c temp) (add_key c sb repo current password temp))
    (\<lambda>_ t. \<exists>l. st_Log t = st_Log s @ l \<and> rotation c sb repo s True l)
    (\<lambda>_ t. \<exists>l. st_Log t = st_Log s @ l \<and> rotation c sb repo s False l) u"
proof -
  have grow: "\<exists>k. st_Log (snd (clean_up_key c temp t)) = st_Log s @ k \<and> rotation c sb repo s ok k"
    if "st_Log t = st_Log u @ l" "key_steps c sb current temp password ok l" for ok t l
  proof -
    obtain r where "st_Log (snd (clean_up_key c temp t)) = st_Log t @ [r]"
      "en_Effect r = DeleteSecret (key_of (sec_Meta temp))" using clean_up_key_log by blast
    with that u known show ?thesis
      by (intro exI[of _ "create # l @ [r]"] conjI rotationI[of c repo s current v password create name])
        (simp_all add: key_of_def, simp_all add: key_secret_def)
  qed
  show ?thesis
    by (rule wp_deferred, rule wp_mono[OF add_key_steps]) (auto intro: grow)
qed

text \<open>The creation of the temporary Secret and what follows it.\<close>

lemma rotation_created:
  fixes c :: "'w cli" and s u :: "('w, 'o) st"
  assumes u: "st_Log u = st_Log s" and known: "get_credentials c repo s = (Inr current, v)" "temp = key_secret repo name password"
      "length password = 128" "set password \<subseteq> set alphabet"
  shows "wp (on_error (call (CreateSecret temp) (k_CreateSecret (c_Kube c) temp)) (\<lambda>e. fail (f e)))
    (\<lambda>a. wp (deferred False (clean_up_key c temp) (add_key c sb repo current password temp))
      (\<lambda>_ t. \<exists>l. st_Log t = st_Log s @ l \<and> rotation c sb repo s True l)
      (\<lambda>_ t. \<exists>l. st_Log t = st_Log s @ l \<and> rotation c sb repo s False l))
    (\<lambda>_ t. \<exists>l. st_Log t = st_Log s @ l \<and> rotation c sb repo s False l) u"
proof -
  obtain z w where create: "k_CreateSecret (c_Kube c) temp (st_World u) = (z, w)" by fastforce
  show ?thesis
  proof (cases z)
    case (Inl e)
    let ?e = "\<lparr>en_Effect = CreateSecret temp, en_Object = st_Object u, en_Error = Some e\<rparr>"
    have "rotation c sb repo s False (?e # [] @ [])"
      by (rule rotationI[OF known(1,3,4)]) (simp_all add: known(2))
    then show ?thesis using create Inl u by (auto simp: wp_on_error wp_call wp_fail intro!: exI[of _ "[?e]"])
  next
    case (Inr r)
    show ?thesis
      unfolding wp_on_error wp_call create Inr prod.case sum.case
      by (rule rotation_finished[where create="\<lparr>en_Effect = CreateSecret temp, en_Object = st_Object u, en_Error = None\<rparr>",
          OF _ _ _ known]) (simp_all add: u)
  qed
qed

text \<open>
  C26. Rotating the password. Either nothing is touched and the command fails, or it first
  creates the temporary Secret with a fresh password of 128 letters; if that fails it stops.
  From then on only the Job that adds the key runs; the credentials Secret is patched, in its
  password alone, only after that Job ran to a good end, and the command succeeds only if
  the patch did. Whatever happens in between, the last effect is the deletion of the
  temporary Secret.
\<close>

theorem new_password_follows_its_key:
  fixes c :: "'w cli" and s :: "('w, 'o) st"
  assumes "runRotatePassword c sb repo s = (x, t)"
  shows "\<exists>l. st_Log t = st_Log s @ l \<and> rotation c sb repo s (x = Inr ()) l"
proof -
  let ?Q = "\<lambda>ok (t :: ('w, 'o) st). \<exists>l. st_Log t = st_Log s @ l \<and> rotation c sb repo s ok l"
  have quiet: "?Q False u" if "st_Log u = st_Log s" for u
    using that by (intro exI[of _ "[]"]) (simp add: rotation_def)
  have "wp (runRotatePassword c sb repo) (\<lambda>_. ?Q True) (\<lambda>_. ?Q False) s"
  proof (cases "rt_Initialized (rp_Status repo)")
    case False
    then show ?thesis using quiet[of s] by (simp add: runRotatePassword_def wp_fail)
  next
    case True
    then have init: "(\<not> rt_Initialized (rp_Status repo)) = False" by simp
    show ?thesis
      unfolding runRotatePassword_def init if_False wp_bind Let_def
    proof (rule wp_footprint[where P="\<lambda>_. False", OF silent_emits[OF silent_get_credentials]], goal_cases)
      case (2 e t l)
      then show ?case by (intro quiet) (cases l; simp)
    next
      case (1 current v l)
      then have v: "st_Log v = st_Log s" "get_credentials c repo s = (Inr current, v)" by (cases l; simp)+
      obtain x w where gen: "run_generator (k_RandFuel (c_Kube c)) (k_Rand (c_Kube c)) (st_World v) = (x, w)" by fastforce
      show ?case
      proof (cases x)
        case (Inl e)
        with gen v show ?thesis by (simp add: wp_ask rotation_def)
      next
        case (Inr password)
        from generator.gen_password[OF gen[unfolded Inr]]
        have pw: "length password = 128" "set password \<subseteq> set alphabet" by (simp_all add: passwordLength_def)
        obtain suffix y where name: "c_RandString c 5 w = (suffix, y)" by fastforce
        define temp where "temp = key_secret repo (rp_Name repo @ ''-corg-newkey-'' @ suffix) password"
        have "wp (on_error (call (CreateSecret temp) (k_CreateSecret (c_Kube c) temp)) (\<lambda>e. fail (f e)))
            (\<lambda>a. wp (deferred False (clean_up_key c temp) (add_key c sb repo current password temp)) (\<lambda>_. ?Q True) (\<lambda>_. ?Q False))
            (\<lambda>_. ?Q False) (v\<lparr>st_World := w, st_World := y\<rparr>)" for f
          by (rule rotation_created[OF _ v(2) temp_def pw]) (simp add: v)
        then show ?thesis
          unfolding wp_ask gen Inr prod.case sum.case newKeySecretName_def wp_bind wp_tick wp_ret
          by (simp add: name temp_def)
      qed
    qed
  qed
  then show ?thesis using assms by (cases x) (auto simp: wp_def)
qed

text \<open>A cluster with credentials, but without the CronJob a Job is built from.\<close>

definition key_cli :: "unit cli" where
  "key_cli = plain_cli (empty_cluster\<lparr>k_GetSecret := (\<lambda>_. ret healthy_secret),
     k_CreateSecret := (\<lambda>_. ret ()), k_Rand := (\<lambda>w. (Inr (replicate 128 (CHR ''A'')), w)), k_RandFuel := 200\<rparr>)"

definition key_run :: "(goerr + unit) \<times> (unit, unit) st" where
  "key_run = runRotatePassword key_cli sample_backup healthy_repository (start () ())"

lemma key_run_log: "length (st_Log (snd key_run)) = 2 \<and> fst key_run \<noteq> Inr ()"
  by code_simp

theorem new_password_follows_its_key_witness:
  "\<exists>create remove name password. st_Log (snd key_run) = [create, remove] \<and>
     en_Effect create = CreateSecret (key_secret healthy_repository name password) \<and> length password = 128 \<and>
     en_Effect remove = DeleteSecret (NN ''app'' name)"
proof -
  have "runRotatePassword key_cli sample_backup healthy_repository (start () ()) = (fst key_run, snd key_run)"
    by (simp add: key_run_def)
  from new_password_follows_its_key[OF this] obtain l where
    l: "st_Log (snd key_run) = l" "rotation key_cli sample_backup healthy_repository (start () ()) False l"
    using key_run_log by (auto simp: start_log)
  have two: "length l = 2" using l(1) key_run_log by simp
  have ns: "rp_Namespace healthy_repository = ''app''" by (simp add: healthy_repository_def sample_repository_def)
  show ?thesis using l two unfolding rotation_def ns
    by (auto simp: length_Suc_conv key_steps_def split: if_splits)
qed

section \<open>Initializing again\<close>

definition controlled_jobs :: "'w cli \<Rightarrow> repository \<Rightarrow> job list \<Rightarrow> job list" where
  "controlled_jobs c repo jobs = filter (\<lambda>j. IsControlledBy (c_Lib c) (job_Meta j) (rp_Meta repo)) jobs"

definition gone :: "'o entry \<Rightarrow> bool" where
  "gone e \<longleftrightarrow> (case en_Error e of None \<Rightarrow> True | Some err \<Rightarrow> IsNotFound err)"

lemma delete_jobs_log:
  "wp (delete_jobs c repo jobs p)
     (\<lambda>_ t. \<exists>l. st_Log t = st_Log s @ l \<and> list_all gone l \<and>
        map en_Effect l = map DeleteJob (controlled_jobs c repo jobs))
     (\<lambda>_ t. \<exists>l n. st_Log t = st_Log s @ l \<and>
        map en_Effect l = map DeleteJob (take n (controlled_jobs c repo jobs))) s"
proof (induction jobs arbitrary: p s)
  case Nil
  show ?case by (simp add: wp_ret controlled_jobs_def)
next
  case (Cons j jobs)
  show ?case
  proof (cases "IsControlledBy (c_Lib c) (job_Meta j) (rp_Meta repo)")
    case False
    with Cons show ?thesis by (simp add: controlled_jobs_def)
  next
    case True
    obtain x w where del: "k_DeleteJob (c_Kube c) j (st_World s) = (x, w)" by fastforce
    let ?e = "\<lparr>en_Effect = DeleteJob j, en_Object = st_Object s, en_Error = error_of x\<rparr>"
    let ?s = "s\<lparr>st_World := w, st_Log := st_Log s @ [?e]\<rparr>"
    let ?E = "\<lambda>_ t. \<exists>l n. st_Log t = st_Log s @ l \<and>
      map en_Effect l = map DeleteJob (take n (j # controlled_jobs c repo jobs))"
    have stopped: "?E err (?s\<lparr>st_World := v\<rparr>)" for err :: goerr and v
      by (rule exI[of _ "[?e]"], rule exI[of _ 1]) simp
    have rest: "wp (p_printf c Out fmt args p) (\<lambda>p. wp (delete_jobs c repo jobs p)
        (\<lambda>_ t. \<exists>l. st_Log t = st_Log s @ l \<and> list_all gone l \<and>
           map en_Effect l = map DeleteJob (j # controlled_jobs c repo jobs))
        (\<lambda>_ t. \<exists>l n. st_Log t = st_Log s @ l \<and>
           map en_Effect l = map DeleteJob (take n (j # controlled_jobs c repo jobs)))) ?E ?s"
      if "gone ?e" for fmt args
    proof (rule wp_silent[OF silent_p_printf], goal_cases)
      case (1 q v)
      show ?case
      proof (rule wp_mono[OF Cons.IH[of q "?s\<lparr>st_World := v\<rparr>"]], goal_cases)
        case (1 a t)
        then obtain l where "st_Log t = st_Log s @ ?e # l" "list_all gone l"
          "map en_Effect l = map DeleteJob (controlled_jobs c repo jobs)" by auto
        with that show ?case by (intro exI[of _ "?e # l"]) simp
      next
        case (2 e t)
        then obtain l n where "st_Log t = st_Log s @ ?e # l"
          "map en_Effect l = map DeleteJob (take n (controlled_jobs c repo jobs))" by auto
        then show ?case by (intro exI[of _ "?e # l"] exI[of _ "Suc n"]) simp
      qed
    next
      case (2 e v)
      show ?case by (rule stopped)
    qed
    have step: "wp (delete_jobs c repo (j # jobs) p) Q E s =
        (if gone ?e
         then wp (p_printf c Out ''deleted job/%s'' [Str (om_Name (job_Meta j))] p) (\<lambda>p. wp (delete_jobs c repo jobs p) Q E) E ?s
         else E (case x of Inl e \<Rightarrow> Errorf ''deleting job/%s: %w'' [Str (om_Name (job_Meta j)), Err e]) ?s)" for Q E
      using del True by (cases x) (simp_all add: wp_bind wp_attempt wp_call wp_ret wp_fail error_of_def gone_def)
    have jobs: "controlled_jobs c repo (j # jobs) = j # controlled_jobs c repo jobs"
      using True by (simp add: controlled_jobs_def)
    show ?thesis
    proof (cases "gone ?e")
      case True
      show ?thesis unfolding step jobs if_P[OF True] by (rule rest[OF True])
    next
      case False
      show ?thesis unfolding step jobs if_not_P[OF False] using stopped[of w] by simp
    qed
  qed
qed

text \<open>The patch of the status, after the Jobs are gone.\<close>

lemma reinit_patched:
  assumes "st_Log t = st_Log s @ l" "map en_Effect l @ [PatchRepositoryStatus (uninitialized repo)] = plan" "list_all gone l"
  shows "wp (on_error (call (PatchRepositoryStatus (uninitialized repo)) (k_PatchRepositoryStatus (c_Kube c) (uninitialized repo) repo)) (\<lambda>e. fail (f e)))
    (\<lambda>a. wp (print_lines c Out (ls a) p) (\<lambda>p. wp (p_Err p)
        (\<lambda>_ t. \<exists>l. st_Log t = st_Log s @ l \<and> map en_Effect l = plan \<and> list_all gone l \<and> en_Error (last l) = None)
        (\<lambda>_ t. \<exists>l n. st_Log t = st_Log s @ l \<and> map en_Effect l = take n plan))
      (\<lambda>_ t. \<exists>l n. st_Log t = st_Log s @ l \<and> map en_Effect l = take n plan))
    (\<lambda>_ t. \<exists>l n. st_Log t = st_Log s @ l \<and> map en_Effect l = take n plan) t"
proof -
  obtain y u where patch: "k_PatchRepositoryStatus (c_Kube c) (uninitialized repo) repo (st_World t) = (y, u)" by fastforce
  let ?e = "\<lparr>en_Effect = PatchRepositoryStatus (uninitialized repo), en_Object = st_Object t, en_Error = error_of y\<rparr>"
  have all: "map en_Effect (l @ [?e]) = plan" using assms(2) by simp
  have stop: "\<exists>l n. st_Log (t\<lparr>st_World := v, st_Log := st_Log t @ [?e]\<rparr>) = st_Log s @ l \<and> map en_Effect l = take n plan" for v
    using assms(1) all by (intro exI[of _ "l @ [?e]"] exI[of _ "length plan"]) simp
  show ?thesis
  proof (cases y)
    case (Inl e)
    with stop[of u] show ?thesis by (simp add: wp_on_error wp_call wp_fail patch error_of_def)
  next
    case (Inr repo')
    have "\<exists>l. st_Log (t\<lparr>st_World := v, st_Log := st_Log t @ [?e]\<rparr>) = st_Log s @ l \<and> map en_Effect l = plan \<and> list_all gone l \<and>
        en_Error (last l) = None" for v
      using assms(1,3) all Inr by (intro exI[of _ "l @ [?e]"]) (simp add: gone_def error_of_def)
    with stop have "wp (bind_go (print_lines c Out (ls repo') p) p_Err)
      (\<lambda>_ t. \<exists>l. st_Log t = st_Log s @ l \<and> map en_Effect l = plan \<and> list_all gone l \<and> en_Error (last l) = None)
      (\<lambda>_ t. \<exists>l n. st_Log t = st_Log s @ l \<and> map en_Effect l = take n plan) (t\<lparr>st_World := u, st_Log := st_Log t @ [?e]\<rparr>)"
      by (intro wp_silent quiet_rules) simp_all
    with Inr show ?thesis by (simp add: wp_on_error wp_call wp_bind patch error_of_def del: print_lines.simps)
  qed
qed

text \<open>
  C27. Initializing again. Its effects are, in this order, the deletions of the Jobs the
  Repository controls, of those listed in its namespace, and the status patch that clears
  \<open>initialized\<close> and nothing else; a failure leaves out the end of that sequence. If the
  command succeeds, all of them were made, every Job was deleted or gone already, and the patch
  was accepted.
\<close>

theorem reinit_clears_one_flag:
  assumes "k_ListJobs (c_Kube c) (rp_Namespace repo) (st_World s) = (Inr jobs, w)"
    and "runReinit c repo s = (x, t)"
    and "plan = map DeleteJob (controlled_jobs c repo jobs) @ [PatchRepositoryStatus (uninitialized repo)]"
  shows "\<exists>l n. st_Log t = st_Log s @ l \<and> map en_Effect l = take n plan \<and>
    (x = Inr () \<longrightarrow> map en_Effect l = plan \<and> list_all gone l \<and> en_Error (last l) = None)"
proof -
  let ?E = "\<lambda>t. \<exists>l n. st_Log t = st_Log s @ l \<and> map en_Effect l = take n plan"
  let ?Q = "\<lambda>t. \<exists>l. st_Log t = st_Log s @ l \<and> map en_Effect l = plan \<and> list_all gone l \<and> en_Error (last l) = None"
  have "wp (runReinit c repo) (\<lambda>_. ?Q) (\<lambda>_. ?E) s"
    unfolding runReinit_def wp_bind wp_ask assms(1) prod.case sum.case Let_def
  proof (rule wp_mono[OF delete_jobs_log], goal_cases)
    case (2 e t)
    then obtain l n where "st_Log t = st_Log s @ l"
      "map en_Effect l = map DeleteJob (take n (controlled_jobs c repo jobs))" by auto
    then show ?case
      by (intro exI[of _ l] exI[of _ "min n (length (controlled_jobs c repo jobs))"])
        (simp add: assms(3) take_map min_def)
  next
    case (1 p t)
    then obtain l where l: "st_Log t = st_Log s @ l" "list_all gone l"
      "map en_Effect l = map DeleteJob (controlled_jobs c repo jobs)" by auto
    show ?case
      by (rule reinit_patched[OF l(1) _ l(2)]) (simp add: l(3) assms(3))
  qed
  then have ends: "case x of Inl e \<Rightarrow> ?E t | Inr _ \<Rightarrow> ?Q t"
    using assms(2) by (auto simp: wp_def split: sum.split)
  show ?thesis
  proof (cases x)
    case (Inl e)
    with ends show ?thesis by simp
  next
    case (Inr a)
    with ends obtain l where "st_Log t = st_Log s @ l" "map en_Effect l = plan" "list_all gone l"
      "en_Error (last l) = None" by auto
    then show ?thesis by (intro exI[of _ l] exI[of _ "length plan"]) simp
  qed
qed

text \<open>One Job of the Repository and one of nobody.\<close>

definition init_job :: job where
  "init_job = finished_job\<lparr>job_Meta := (job_Meta finished_job)\<lparr>om_OwnerReferences :=
     [\<lparr>or_Kind = ''Repository'', or_Name = ''backups'', or_UID = om_UID (rp_Meta healthy_repository),
       or_Controller = Some True\<rparr>]\<rparr>\<rparr>"

definition reinit_cli :: "unit cli" where
  "reinit_cli = plain_cli (empty_cluster\<lparr>k_ListJobs := (\<lambda>_. ret [finished_job, init_job]),
     k_DeleteJob := (\<lambda>_. ret ()), k_PatchRepositoryStatus := (\<lambda>new _. ret new)\<rparr>)"

theorem reinit_clears_one_flag_witness:
  "\<exists>l. st_Log (snd (runReinit reinit_cli healthy_repository (start () ()))) = l \<and>
     map en_Effect l = [DeleteJob init_job, PatchRepositoryStatus (uninitialized healthy_repository)]"
proof -
  let ?run = "runReinit reinit_cli healthy_repository (start () ())"
  have jobs: "controlled_jobs reinit_cli healthy_repository [finished_job, init_job] = [init_job]" by code_simp
  have "k_ListJobs (c_Kube reinit_cli) (rp_Namespace healthy_repository) (st_World (start () ())) =
      (Inr [finished_job, init_job], ())"
    by (simp add: reinit_cli_def plain_cli_def ret_def)
  from reinit_clears_one_flag[OF this prod.collapse[symmetric] refl]
  have "fst ?run = Inr () \<Longrightarrow> ?thesis" by (auto simp: jobs start_log)
  moreover have "fst ?run = Inr ()" by code_simp
  ultimately show ?thesis by blast
qed

end
