(* ===== verification/Develop.thy ===== *)
theory Develop
  imports Cli Migrate
begin

text \<open>
  The development tools (\<open>internal/cli/develop.go\<close>): rendering a manifest or a ScheduledBackup of
  the cluster, checking a manifest without a cluster, and comparing a generated backup with
  the HelmRelease it replaces.
\<close>

definition defaultTimeZone :: string where "defaultTimeZone = ''America/Chicago''"
definition ErrNoScheduledBackup :: goerr where "ErrNoScheduledBackup = Sentinel ''no ScheduledBackup found''"
definition ErrParityDiffers :: goerr where
  "ErrParityDiffers = Sentinel ''the generated backup differs from the original''"

section \<open>Manifests\<close>

text \<open>
  The local files and the YAML library: whether a path exists, the text of a file, a document
  decoded as a ScheduledBackup or a HelmRelease, and a CronJob encoded, its text without the
  line end it closes with, as every message of the output is a line.
\<close>

record manifests =
  mf_Stat :: "string \<Rightarrow> bool"
  mf_ReadFile :: "string \<Rightarrow> goerr + string"
  mf_Backup :: "string \<Rightarrow> goerr + scheduled_backup"
  mf_HelmRelease :: "string \<Rightarrow> goerr + helm_release"
  mf_CronJob :: "cronjob \<Rightarrow> goerr + string"

definition document_separator :: string where "document_separator = [nl] @ ''---'' @ [nl]"

fun first_backup :: "manifests \<Rightarrow> string \<Rightarrow> string list \<Rightarrow> goerr + scheduled_backup" where
  "first_backup mf path [] = Inl (Errorf ''%w in %s'' [Err ErrNoScheduledBackup, Str path])"
| "first_backup mf path (doc # docs) =
     (if \<not> Contains doc ''kind: ScheduledBackup'' then first_backup mf path docs
      else mf_Backup mf doc)"

definition readScheduledBackup :: "manifests \<Rightarrow> string \<Rightarrow> goerr + scheduled_backup" where
  "readScheduledBackup mf path =
     (case mf_ReadFile mf path of
        Inl e \<Rightarrow> Inl e
      | Inr raw \<Rightarrow> first_backup mf path (SplitText raw document_separator))"

definition readHelmRelease :: "manifests \<Rightarrow> string \<Rightarrow> goerr + helm_release" where
  "readHelmRelease mf path =
     (case mf_ReadFile mf path of
        Inl e \<Rightarrow> Inl e
      | Inr raw \<Rightarrow>
          (case mf_HelmRelease mf raw of
             Inl e \<Rightarrow> Inl (Errorf ''parsing %s: %w'' [Str path, Err e])
           | Inr hr \<Rightarrow> Inr hr))"

definition loadScheduledBackup :: "manifests \<Rightarrow> 'w cli \<Rightarrow> string \<Rightarrow> string \<Rightarrow> ('w, 'o, scheduled_backup) comp" where
  "loadScheduledBackup mf c ns arg =
     (if mf_Stat mf arg then lift (readScheduledBackup mf arg)
      else
        bind_go (Resolve c ns arg) (\<lambda>t.
        case t of
          RepositoryTarget _ \<Rightarrow> fail (Errorf ''render needs a ScheduledBackup, not a %s'' [Str (kind_text (tg_Kind t))])
        | BackupTarget sb \<Rightarrow> ret sb))"

section \<open>Rendering and checking\<close>

definition image_config :: "string \<Rightarrow> backup_config" where
  "image_config img =
     \<lparr>bc_Image = img,
      bc_Healthchecks = \<lparr>hcc_Enabled = False, hcc_APIURL = '''', hcc_AutoCreate = False\<rparr>,
      bc_CacheStorageClass = ''''\<rparr>"

definition referenced_repository :: "scheduled_backup \<Rightarrow> repository" where
  "referenced_repository sb = new_repository (sb_Namespace sb) (bs_RepositoryRef (sb_Spec sb))"

definition renderBackup :: "manifests \<Rightarrow> 'w cli \<Rightarrow> scheduled_backup \<Rightarrow> bool \<Rightarrow> ('w, 'o, unit) comp" where
  "renderBackup mf c sb asCronJob =
     (if \<not> asCronJob then
        bind_go (lift (Render (sb_Spec sb))) (\<lambda>script. say c Out ''%s'' [Str script])
      else
        bind_go (lift (BuildCronJob sb (referenced_repository sb) (image_config ''ghcr.io/clevyr/restic:latest''))) (\<lambda>cj.
        bind_go (lift (mf_CronJob mf cj)) (\<lambda>text.
        say c Out ''%s'' [Str text])))"

definition runRender :: "manifests \<Rightarrow> 'w cli \<Rightarrow> string \<Rightarrow> string \<Rightarrow> bool \<Rightarrow> ('w, 'o, unit) comp" where
  "runRender mf c ns arg asCronJob =
     bind_go (loadScheduledBackup mf c ns arg) (\<lambda>sb. renderBackup mf c sb asCronJob)"

text \<open>An error with its context.\<close>

definition wrapped :: "string \<Rightarrow> goerr + 'a \<Rightarrow> ('w, 'o, 'a) comp" where
  "wrapped fmt r = (case r of Inl e \<Rightarrow> fail (Errorf fmt [Err e]) | Inr a \<Rightarrow> ret a)"

definition validateBackup :: "'w cli \<Rightarrow> scheduled_backup \<Rightarrow> ('w, 'o, unit) comp" where
  "validateBackup c sb =
     bind_go (wrapped ''spec.schedule: %w''
         (ResolveSchedule (bs_Schedule (sb_Spec sb)) (sb_Namespace sb @ ''/'' @ sb_Name sb))) (\<lambda>schedule.
     bind_go (wrapped ''rendering the script: %w'' (Render (sb_Spec sb))) (\<lambda>_.
     bind_go (wrapped ''building the CronJob: %w''
         (BuildCronJob sb (referenced_repository sb) (image_config ''placeholder''))) (\<lambda>_.
     bind_go (print_lines c Out
       [(''scheduledbackup/%s is valid'', [Str (sb_Name sb)]),
        (''  schedule  %s'', [Str schedule]),
        (''  sources   %d'', [Num (int (length (bs_Sources (sb_Spec sb))))])] newPrinter) p_Err)))"

definition runValidate :: "manifests \<Rightarrow> 'w cli \<Rightarrow> string \<Rightarrow> ('w, 'o, unit) comp" where
  "runValidate mf c path = bind_go (lift (readScheduledBackup mf path)) (validateBackup c)"

section \<open>Comparing scripts\<close>

text \<open>A character of \<open>\\S\<close>, and the longest match of the pattern
  \<open> --(retry-lock|secret-mount)=\\S+\<close> at the beginning of a text: what follows it.\<close>

definition not_space :: "char \<Rightarrow> bool" where
  "not_space c \<longleftrightarrow> c \<notin> {CHR 0x09, CHR 0x0A, CHR 0x0C, CHR 0x0D, CHR '' ''}"

definition flag_rest :: "string \<Rightarrow> string \<Rightarrow> string option" where
  "flag_rest flag s =
     (case CutPrefix s flag of
        None \<Rightarrow> None
      | Some v \<Rightarrow> if takeWhile not_space v = [] then None else Some (dropWhile not_space v))"

definition ignored_flag :: "string \<Rightarrow> string option" where
  "ignored_flag s =
     (case flag_rest '' --retry-lock='' s of
        Some r \<Rightarrow> Some r
      | None \<Rightarrow> flag_rest '' --secret-mount='' s)"

lemma flag_rest_shorter: "flag_rest flag s = Some r \<Longrightarrow> length r < length s"
proof -
  assume "flag_rest flag s = Some r"
  then obtain v where v: "CutPrefix s flag = Some v" "takeWhile not_space v \<noteq> []" "r = dropWhile not_space v"
    by (auto simp: flag_rest_def split: option.splits if_splits)
  have "length v = length (takeWhile not_space v) + length r"
    unfolding v(3) length_append[symmetric] by (simp only: takeWhile_dropWhile_id)
  moreover have "length v \<le> length s" using v(1) by (induction s flag rule: CutPrefix.induct) (auto split: if_splits)
  moreover have "0 < length (takeWhile not_space v)" using v(2) by (rule length_greater_0_conv[THEN iffD2])
  ultimately show ?thesis by linarith
qed

lemma ignored_flag_shorter [termination_simp]: "ignored_flag (c # s) = Some r \<Longrightarrow> length r < Suc (length s)"
  using flag_rest_shorter[of _ "c # s" r] by (fastforce simp: ignored_flag_def split: option.splits)

text \<open>\<open>ignoredFlags.ReplaceAllString(line, "")\<close>.\<close>

fun drop_flags :: "string \<Rightarrow> string" where
  "drop_flags [] = []"
| "drop_flags (c # s) =
     (case ignored_flag (c # s) of
        Some r \<Rightarrow> drop_flags r
      | None \<Rightarrow> c # drop_flags s)"

definition normal_line :: "string \<Rightarrow> string" where
  "normal_line line =
     (let line = TrimRight line [CHR '' '', CHR 0x09, backslash];
          line = drop_flags line;
          line = (if Contains line ''--exclude='' then
              TrimSuffix (TrimRight (ReplaceAll (''--exclude='' @ [squote]) ''--exclude='' line) [CHR '' '', CHR 0x09]) [squote]
            else line)
      in TrimSpace line)"

definition normalizeScript :: "string \<Rightarrow> string" where
  "normalizeScript s = Join (filter (\<lambda>l. l \<noteq> '''') (map normal_line (SplitChar s nl))) [nl]"

section \<open>Comparing backups\<close>

record plan =
  pl_script :: string
  pl_schedule :: string
  pl_timeZone :: string

definition renderedPlan :: "manifests \<Rightarrow> string \<Rightarrow> goerr + plan" where
  "renderedPlan mf path =
     (case readScheduledBackup mf path of
        Inl e \<Rightarrow> Inl e
      | Inr sb \<Rightarrow>
        (case Render (sb_Spec sb) of
           Inl e \<Rightarrow> Inl e
         | Inr script \<Rightarrow>
           (case ResolveSchedule (bs_Schedule (sb_Spec sb)) (sb_Namespace sb @ ''/'' @ sb_Name sb) of
              Inl e \<Rightarrow> Inl e
            | Inr schedule \<Rightarrow>
                Inr \<lparr>pl_script = script, pl_schedule = schedule,
                  pl_timeZone = (if bs_TimeZone (sb_Spec sb) = '''' then defaultTimeZone
                    else bs_TimeZone (sb_Spec sb))\<rparr>)))"

definition originalPlan :: "manifests \<Rightarrow> string \<Rightarrow> goerr + plan" where
  "originalPlan mf path =
     (case readHelmRelease mf path of
        Inl e \<Rightarrow> Inl e
      | Inr hr \<Rightarrow>
        (case backupController hr of
           Inl e \<Rightarrow> Inl (Errorf ''%s: %w'' [Str path, Err e])
         | Inr (controller, container) \<Rightarrow>
           (case container_script container of
              Inl e \<Rightarrow> Inl (Errorf ''%s: %w'' [Str path, Err e])
            | Inr script \<Rightarrow>
                Inr \<lparr>pl_script = script, pl_schedule = hr_Schedule controller,
                  pl_timeZone = (if hr_TimeZone controller = '''' then defaultTimeZone
                    else hr_TimeZone controller)\<rparr>)))"

definition script_differs :: "plan \<Rightarrow> plan \<Rightarrow> bool" where
  "script_differs rendered original \<longleftrightarrow>
     normalizeScript (pl_script rendered) \<noteq> normalizeScript (pl_script original)"

text \<open>The differences and the notes of the comparison.\<close>

definition differences :: "plan \<Rightarrow> plan \<Rightarrow> cadence \<Rightarrow> cadence \<Rightarrow> message list" where
  "differences rendered original cr co =
     (if script_differs rendered original then [(''SCRIPT DIFFERS'', [])] else []) @
     (if \<not> cadence_equal cr co then
        [(''CADENCE DIFFERS: original %q runs %s, generated %q runs %s'',
          [Str (pl_schedule original), Str (cadence_String co), Str (pl_schedule rendered), Str (cadence_String cr)])]
      else []) @
     (if pl_timeZone rendered \<noteq> pl_timeZone original then
        [(''TIMEZONE DIFFERS: original %q, generated %q'', [Str (pl_timeZone original), Str (pl_timeZone rendered)])]
      else [])"

definition parity_notes :: "plan \<Rightarrow> plan \<Rightarrow> cadence \<Rightarrow> cadence \<Rightarrow> message list" where
  "parity_notes rendered original cr co =
     (if cadence_equal cr co \<and> pl_schedule rendered \<noteq> pl_schedule original then
        [(''RESCHEDULED: %q -> %q (%s either way; the operator jittered it)'',
          [Str (pl_schedule original), Str (pl_schedule rendered), Str (cadence_String cr)])]
      else [])"

definition runParity :: "manifests \<Rightarrow> 'w cli \<Rightarrow> string \<Rightarrow> string \<Rightarrow> ('w, 'o, unit) comp" where
  "runParity mf c generatedPath helmReleasePath =
     bind_go (wrapped ''rendering the generated resource: %w'' (renderedPlan mf generatedPath)) (\<lambda>rendered.
     bind_go (wrapped ''reading the original backup: %w'' (originalPlan mf helmReleasePath)) (\<lambda>original.
     bind_go (wrapped ''reading the generated schedule: %w'' (cadenceOf (pl_schedule rendered))) (\<lambda>cr.
     bind_go (wrapped ''reading the original schedule: %w'' (cadenceOf (pl_schedule original))) (\<lambda>co.
     let notes = parity_notes rendered original cr co; diffs = differences rendered original cr co
     in bind_go (print_lines c Out notes newPrinter) (\<lambda>p.
        if diffs = [] then
          bind_go (p_printf c Out (if notes = [] then ''IDENTICAL'' else ''EQUIVALENT'') [] p) p_Err
        else
          bind_go (print_lines c Out
            (diffs @
             (if script_differs rendered original then
                [(''--- original'', []), (''%s'', [Str (pl_script original)]),
                 (''--- rendered'', []), (''%s'', [Str (pl_script rendered)])] else [])) p) (\<lambda>p.
          bind_go (p_Err p) (\<lambda>_. fail ErrParityDiffers)))))))"

section \<open>Footprints\<close>

lemma silent_wrapped [quiet_rules]: "silent (wrapped fmt r)"
  unfolding wrapped_def by (auto intro!: quiet_rules)

lemma silent_runRender [quiet_rules]: "silent (runRender mf c ns arg asCronJob)"
  unfolding runRender_def loadScheduledBackup_def renderBackup_def
  by (auto intro!: quiet_rules split: target.split)

lemma silent_validateBackup [quiet_rules]: "silent (validateBackup c sb)"
  unfolding validateBackup_def by (intro quiet_rules)

lemma silent_runParity [quiet_rules]: "silent (runParity mf c generated original)"
  unfolding runParity_def Let_def by (auto intro!: quiet_rules)

end
