(* ===== verification/DevelopContracts.thy ===== *)
theory DevelopContracts
  imports Develop MigrateContracts ScriptRoundtrip RunnerContracts
begin

text \<open>
  What the development tools promise: validation foretells what the operator will say,
  parity is reported only for backups that do the same at the same pace, and what the
  migration generates passes the comparison with what it was generated from.
\<close>

section \<open>Validation\<close>

text \<open>The manifest does not leave it to the operator's configuration whether and where
  Healthchecks are reported to.\<close>

definition settled :: "scheduled_backup \<Rightarrow> backup_config \<Rightarrow> bool" where
  "settled sb cfg \<longleftrightarrow>
     (case bs_Healthchecks (sb_Spec sb) of
        None \<Rightarrow> \<not> hcc_Enabled (bc_Healthchecks cfg)
      | Some hc \<Rightarrow>
          (case hs_Enabled hc of
             None \<Rightarrow> \<not> hcc_Enabled (bc_Healthchecks cfg)
           | Some b \<Rightarrow> \<not> b \<or> hs_APIURL hc \<noteq> ''''))"

definition accepted :: "goerr + 'a \<Rightarrow> bool" where
  "accepted r \<longleftrightarrow> (\<exists>a. r = Inr a)"

lemma accepted_simps [simp]: "accepted (Inr a)" "\<not> accepted (Inl e)"
  by (simp_all add: accepted_def)

lemma accepted_Env:
  assumes "settled sb cfg" "settled sb cfg'"
  shows "accepted (Env (Reporter sb cfg)) \<longleftrightarrow> accepted (Env (Reporter sb cfg'))"
  using assms
  by (auto simp: settled_def Env_def Reporter_def Resolve_reporter_def no_overrides_def Let_def split: option.splits if_splits)

lemma accepted_buildEnv:
  assumes "settled sb cfg" "settled sb cfg'"
  shows "accepted (buildEnv sb cfg) \<longleftrightarrow> accepted (buildEnv sb cfg')"
  using accepted_Env[OF assms]
  by (auto simp: buildEnv_def Let_def accepted_def split: option.splits sum.splits)

lemma accepted_BuildCronJob:
  assumes "settled sb cfg" "settled sb cfg'" "bc_Image cfg \<noteq> ''''" "bc_Image cfg' \<noteq> ''''"
  shows "accepted (BuildCronJob sb repo cfg) \<longleftrightarrow> accepted (BuildCronJob sb repo' cfg')"
proof -
  have "accepted (BuildJobTemplate sb repo cfg) \<longleftrightarrow> accepted (BuildJobTemplate sb repo' cfg')"
    using accepted_buildEnv[OF assms(1,2)] assms(3,4)
    by (auto simp: BuildJobTemplate_def Let_def accepted_def split: sum.splits prod.splits)
  then show ?thesis
    by (auto simp: BuildCronJob_def accepted_def split: sum.splits)
qed

lemma wp_wrapped:
  "wp (wrapped fmt r) Q E s = (case r of Inl e \<Rightarrow> E (Errorf fmt [Err e]) s | Inr a \<Rightarrow> Q a s)"
  by (auto simp: wrapped_def wp_simps split: sum.split)

lemma BuildCronJob_needs:
  "accepted (BuildCronJob sb repo cfg) \<Longrightarrow>
   accepted (ResolveSchedule (bs_Schedule (sb_Spec sb)) (sb_Namespace sb @ ''/'' @ sb_Name sb)) \<and> accepted (Render (sb_Spec sb))"
  by (auto simp: BuildCronJob_def BuildJobTemplate_def accepted_def split: sum.splits)

text \<open>
  C32. Validation foretells the operator. For a manifest that settles its Healthchecks
  itself, \<open>corg validate\<close> succeeds exactly if the operator, with any image and any Repository,
  builds a CronJob from it.
\<close>

theorem validation_foretells_the_operator:
  assumes "settled sb cfg" "bc_Image cfg \<noteq> ''''"
    and print: "\<And>out m w. \<exists>w'. c_Print c out m w = (Inr (), w')"
  shows "fst (validateBackup c sb s) = Inr () \<longleftrightarrow> (\<exists>cj. BuildCronJob sb repo cfg = Inr cj)"
proof -
  let ?placeholder = "BuildCronJob sb (referenced_repository sb) (image_config ''placeholder'')"
  have "settled sb (image_config ''placeholder'')"
    using assms(1) by (auto simp: settled_def image_config_def split: option.splits)
  then have same: "accepted (BuildCronJob sb repo cfg) \<longleftrightarrow> accepted ?placeholder"
    by (rule accepted_BuildCronJob[OF assms(1)]) (use assms(2) in \<open>simp_all add: image_config_def\<close>)
  have "wp (validateBackup c sb) (\<lambda>_ _. accepted ?placeholder) (\<lambda>_ _. \<not> accepted ?placeholder) s"
    using BuildCronJob_needs[of sb "referenced_repository sb" "image_config ''placeholder''"]
    unfolding validateBackup_def wp_bind wp_wrapped newPrinter_def
    by (auto split: sum.split simp: p_Err_def wp_simps intro!: wp_print_lines[OF print] simp del: print_lines.simps)
  then have "fst (validateBackup c sb s) = Inr () \<longleftrightarrow> accepted ?placeholder"
    by (auto simp: wp_def split: prod.splits sum.splits)
  with same show ?thesis by (simp add: accepted_def)
qed

theorem validation_foretells_the_operator_witness:
  "fst (validateBackup (plain_cli empty_cluster) sample_backup (start () ())) = Inr ()"
proof -
  have "error_of (BuildCronJob sample_backup sample_repository sample_config) = None" by code_simp
  then have "\<exists>cj. BuildCronJob sample_backup sample_repository sample_config = Inr cj"
    by (auto simp: error_of_def split: sum.splits)
  moreover have "settled sample_backup sample_config" "bc_Image sample_config \<noteq> ''''"
    by (simp_all add: settled_def sample_backup_def sample_config_def)
  ultimately show ?thesis
    by (subst validation_foretells_the_operator[where cfg = sample_config and repo = sample_repository])
      (simp_all add: plain_cli_def ret_def)
qed

text \<open>A validated manifest that the operator turns down, and the other way round: Healthchecks
  left to the configuration.\<close>

definition with_healthchecks :: "bool option \<Rightarrow> scheduled_backup" where
  "with_healthchecks on = sample_backup\<lparr>sb_Spec := (sb_Spec sample_backup)\<lparr>bs_Healthchecks := Some
     \<lparr>hs_Enabled = on, hs_PingKeySecretRef = Some \<lparr>sel_Name = ''ping'', sel_Key = ''KEY''\<rparr>,
      hs_Slug = '''', hs_Create = None, hs_APIURL = '''', hs_UUIDSecretRef = None\<rparr>\<rparr>\<rparr>"

lemma validation_ignores_the_configuration:
  "\<not> accepted (BuildCronJob (with_healthchecks (Some True)) repo (image_config img))"
  "accepted (BuildCronJob (with_healthchecks (Some True)) sample_repository
     (sample_config\<lparr>bc_Healthchecks := \<lparr>hcc_Enabled = False, hcc_APIURL = ''https://hc'', hcc_AutoCreate = False\<rparr>\<rparr>))"
proof -
  let ?sb = "with_healthchecks (Some True)"
  have "mariadb ?sb = None" "Env (Reporter ?sb (image_config img)) = Inl (Errorf ''healthchecks is enabled but no API URL is configured'' [])"
    by (simp_all add: mariadb_def with_healthchecks_def sample_backup_def Env_def Reporter_def Resolve_reporter_def image_config_def)
  then show "\<not> accepted (BuildCronJob ?sb repo (image_config img))"
    by (auto simp: accepted_def BuildCronJob_def BuildJobTemplate_def buildEnv_def Let_def split: sum.splits)
  have "error_of (BuildCronJob ?sb sample_repository
     (sample_config\<lparr>bc_Healthchecks := \<lparr>hcc_Enabled = False, hcc_APIURL = ''https://hc'', hcc_AutoCreate = False\<rparr>\<rparr>)) = None"
    by code_simp
  then show "accepted (BuildCronJob ?sb sample_repository
     (sample_config\<lparr>bc_Healthchecks := \<lparr>hcc_Enabled = False, hcc_APIURL = ''https://hc'', hcc_AutoCreate = False\<rparr>\<rparr>))"
    by (auto simp: error_of_def accepted_def split: sum.splits)
qed

section \<open>Parity\<close>

lemma cadence_equal_eq [simp]: "cadence_equal a b \<longleftrightarrow> a = (b :: cadence)"
  by (cases a; cases b) (auto simp: cadence_equal_def)

lemma no_differences: "differences r ori cr co = [] \<longleftrightarrow>
   normalizeScript (pl_script r) = normalizeScript (pl_script ori) \<and> cr = co \<and> pl_timeZone r = pl_timeZone ori"
  by (auto simp: differences_def script_differs_def)

definition same_backup :: "plan \<Rightarrow> plan \<Rightarrow> bool" where
  "same_backup r ori \<longleftrightarrow>
     normalizeScript (pl_script r) = normalizeScript (pl_script ori) \<and>
     accepted (cadenceOf (pl_schedule r)) \<and> cadenceOf (pl_schedule r) = cadenceOf (pl_schedule ori) \<and>
     pl_timeZone r = pl_timeZone ori"

lemma runParity_ends_well:
  assumes print: "\<And>out m w. \<exists>w'. c_Print c out m w = (Inr (), w')"
  shows "fst (runParity mf c generated original s) = Inr () \<longleftrightarrow>
    (\<exists>r ori. renderedPlan mf generated = Inr r \<and> originalPlan mf original = Inr ori \<and> same_backup r ori)"
proof -
  let ?same = "\<exists>r ori. renderedPlan mf generated = Inr r \<and> originalPlan mf original = Inr ori \<and> same_backup r ori"
  have lines: "wp (print_lines c Out ls None) Q E t"
    if "\<And>w. Q None (t\<lparr>st_World := w\<rparr>)" for ls t Q E
    using that by (rule wp_print_lines[OF print])
  have line: "wp (p_printf c Out fmt args None) Q E t" if "\<And>w. Q None (t\<lparr>st_World := w\<rparr>)" for fmt args t Q E
  proof -
    have "(\<lambda>a. wp (ret a) Q E) = Q" by (intro ext) (simp add: wp_ret)
    then show ?thesis using lines[of Q t "[(fmt, args)]" E] that by (simp add: wp_bind)
  qed
  have "wp (runParity mf c generated original) (\<lambda>_ _. ?same) (\<lambda>_ _. \<not> ?same) s"
    unfolding runParity_def wp_bind wp_wrapped newPrinter_def Let_def
    by (auto split: sum.split simp: p_Err_def wp_simps no_differences same_backup_def simp del: print_lines.simps
        intro!: lines line)
  then show ?thesis by (auto simp: wp_def split: prod.splits sum.splits)
qed

text \<open>
  C31. When nothing keeps it from printing, \<open>corg parity\<close> succeeds exactly if both backups
  can be read and do the same: their scripts are equal after normalization, their schedules
  fire as often and at the same distances, and their time zones are equal.
\<close>

theorem parity_means_the_same_backup:
  assumes print: "\<And>out m w. \<exists>w'. c_Print c out m w = (Inr (), w')"
  shows "fst (runParity mf c generated original s) = Inr () \<longleftrightarrow>
    (\<exists>r ori. renderedPlan mf generated = Inr r \<and> originalPlan mf original = Inr ori \<and> same_backup r ori)"
  by (rule runParity_ends_well[OF print])

text \<open>A hand-written backup of one command, in the default time zone or in another.\<close>

definition hand_written :: "string \<Rightarrow> manifests" where
  "hand_written tz =
     \<lparr>mf_Stat = (\<lambda>_. True), mf_ReadFile = (\<lambda>_. Inr ''kind: ScheduledBackup''),
      mf_Backup = (\<lambda>_. Inr (sample_backup\<lparr>sb_Spec := (sb_Spec sample_backup)\<lparr>bs_Schedule := ''27 */6 * * *''\<rparr>\<rparr>)),
      mf_HelmRelease = (\<lambda>_. Inr \<lparr>hr_Namespace = ''app'',
        hr_Controllers = [(resticController,
          \<lparr>hr_Schedule = ''27 */6 * * *'', hr_ConcurrencyPolicy = '''', hr_TimeZone = tz,
           hr_Containers = [(resticController, \<lparr>hc_Command = [''sh'', ''-c'', unlines [preamble, ''true  '', postamble]], hc_WorkingDir = '''', hc_Env = []\<rparr>)]\<rparr>)],
        hr_Persistence = []\<rparr>),
      mf_CronJob = (\<lambda>_. Inr '''')\<rparr>"

theorem parity_means_the_same_backup_witness:
  "fst (runParity (hand_written '''') (plain_cli empty_cluster) ''new'' ''old'' (start () ())) = Inr () \<and>
   fst (runParity (hand_written ''UTC'') (plain_cli empty_cluster) ''new'' ''old'' (start () ())) \<noteq> Inr ()"
proof -
  let ?plan = "\<lambda>script tz. \<lparr>pl_script = script, pl_schedule = ''27 */6 * * *'', pl_timeZone = tz\<rparr>"
  have schedule: "ResolveSchedule ''27 */6 * * *'' ''app/nightly'' = Inr ''27 */6 * * *''" by code_simp
  have plans: "renderedPlan (hand_written tz) ''new'' = Inr (?plan (unlines [preamble, ''true'', postamble]) ''America/Chicago'')"
    "originalPlan (hand_written tz) ''old'' = Inr (?plan (unlines [preamble, ''true  '', postamble]) (if tz = '''' then ''America/Chicago'' else tz))" for tz
    by (simp_all add: renderedPlan_def originalPlan_def readScheduledBackup_def readHelmRelease_def hand_written_def
        SplitText_def document_separator_def Contains_def sample_backup_def Render_def TrimRightChar_def backupController_def container_script_def
        resticController_def defaultTimeZone_def schedule)
  have "normalizeScript (unlines [preamble, ''true  '', postamble]) = normalizeScript (unlines [preamble, ''true'', postamble])"
    by code_simp
  then have "fst (runParity (hand_written tz) (plain_cli empty_cluster) ''new'' ''old'' (start () ())) = Inr () \<longleftrightarrow>
      tz = '''' \<or> tz = ''America/Chicago''" for tz
    by (subst parity_means_the_same_backup) (auto simp: plain_cli_def ret_def plans same_backup_def six_hourly(1))
  then show ?thesis by simp
qed

text \<open>
  What the comparison does not see: a command that lost the backslash of its continuation
  is two commands to a shell, and the quotes of an exclude pattern keep it from being expanded.
\<close>

lemma parity_overlooks:
  "normalizeScript (''restic backup / '' @ [backslash, nl] @ '' --tag=a'') =
   normalizeScript (''restic backup /'' @ [nl] @ '' --tag=a'')"
  "normalizeScript (''  --exclude='' @ [squote] @ ''*.tmp'' @ [squote]) = normalizeScript (''  --exclude=*.tmp'')"
  by code_simp+

section \<open>Rendering again\<close>

text \<open>The flag of the retry lock sits between two fixed texts of a line.\<close>

definition lock_flag :: "string \<Rightarrow> bool" where
  "lock_flag lock \<longleftrightarrow> lock = '''' \<or>
     (\<exists>d. lock = '' --retry-lock='' @ d \<and> d \<noteq> '''' \<and> list_all not_space d \<and> nl \<notin> set d)"

lemma DurationString_text:
  "DurationString d \<noteq> ''''" "list_all not_space (DurationString d)" "nl \<notin> set (DurationString d)"
proof -
  show "DurationString d \<noteq> ''''" by (simp add: DurationString_def Let_def split: prod.split)
  have "not_space c \<and> c \<noteq> nl" if "duration_char c" for c
    using that by (auto simp: duration_char_def not_space_def is_digit_def digit_val_def)
  with DurationString_chars[of d] show "list_all not_space (DurationString d)" "nl \<notin> set (DurationString d)"
    by (auto simp: list_all_iff)
qed

lemma retryLockFlag_flag: "lock_flag (retryLockFlag spec)"
  using retryLockFlag_cases[of spec] DurationString_text by (auto simp: lock_flag_def)

lemma TrimRight_keeps:
  assumes "q \<noteq> ''''" "last q \<notin> set chars"
  shows "TrimRight (q @ r) chars = q @ TrimRight r chars"
proof -
  have "dropWhile (\<lambda>c. c \<in> set chars) (rev q) = rev q"
    using assms by (cases q rule: rev_cases) simp_all
  then have "dropWhile (\<lambda>c. c \<in> set chars) (rev r @ rev q) = dropWhile (\<lambda>c. c \<in> set chars) (rev r) @ rev q"
    unfolding dropWhile_append by simp
  then show ?thesis by (simp add: TrimRight_def)
qed

lemma drop_flags_lock:
  assumes "lock_flag lock" "q = CHR '' '' # q'"
  shows "drop_flags (lock @ q) = drop_flags q"
proof (cases "lock = ''''")
  case False
  then obtain d where d: "lock = '' --retry-lock='' @ d" "d \<noteq> ''''" "list_all not_space d"
    using assms(1) by (auto simp: lock_flag_def)
  have "\<not> not_space (CHR '' '')" by (simp add: not_space_def)
  with d have "ignored_flag (lock @ q) = Some q"
    using assms(2) by (simp add: ignored_flag_def flag_rest_def list_all_iff takeWhile_append2 dropWhile_append2)
  then show ?thesis using d(1) by (cases lock) simp_all
qed simp

definition head_text :: "string \<Rightarrow> bool" where
  "head_text p \<longleftrightarrow> (\<forall>t. drop_flags (p @ t) = p @ drop_flags t) \<and> nl \<notin> set p"

lemma head_texts: "head_text ''restic backup''" "head_text ''restic forget --prune''"
  by (simp_all add: head_text_def ignored_flag_def flag_rest_def)

lemma normal_line_lock:
  assumes "head_text p" "lock_flag lock" "q \<in> {'' --tag='', '' --keep-''}"
  shows "normal_line (p @ lock @ q @ r) = normal_line (p @ q @ r)"
proof -
  let ?cut = "[CHR '' '', CHR 0x09, backslash]"
  have q: "q \<noteq> ''''" "last q \<notin> set ?cut" "\<exists>q'. q = CHR '' '' # q'" using assms(3) by auto
  then have "TrimRight (p @ lock @ q @ r) ?cut = p @ lock @ q @ TrimRight r ?cut"
    "TrimRight (p @ q @ r) ?cut = p @ q @ TrimRight r ?cut"
    using TrimRight_keeps[of "p @ lock @ q" ?cut r] TrimRight_keeps[of "p @ q" ?cut r] by simp_all
  moreover have "drop_flags (p @ lock @ q @ t) = drop_flags (p @ q @ t)" for t
    using assms(1,2) q(3) drop_flags_lock[of lock "q @ t"] by (auto simp: head_text_def)
  ultimately show ?thesis by (simp add: normal_line_def)
qed

lemma SplitChar_prefix:
  "d \<notin> set w \<Longrightarrow> SplitChar (w @ s) d = (w @ hd (SplitChar s d)) # tl (SplitChar s d)"
  by (induction w) (auto split: list.splits)

lemma normal_lines_lock:
  assumes "head_text p" "lock_flag lock" "q \<in> {'' --tag='', '' --keep-''}"
  shows "map normal_line (SplitChar (p @ lock @ q @ r) nl) = map normal_line (SplitChar (p @ q @ r) nl)"
proof -
  have "nl \<notin> set (p @ lock @ q)" "nl \<notin> set (p @ q)"
    using assms by (auto simp: head_text_def lock_flag_def)
  from SplitChar_prefix[OF this(1), of r] SplitChar_prefix[OF this(2), of r] show ?thesis
    using normal_line_lock[OF assms] by simp
qed

definition alike :: "string \<Rightarrow> string \<Rightarrow> bool" where
  "alike l l' \<longleftrightarrow> map normal_line (SplitChar l nl) = map normal_line (SplitChar l' nl)"

lemma normalizeScript_alike:
  "list_all2 alike ls ls' \<Longrightarrow> normalizeScript (unlines ls) = normalizeScript (unlines ls')"
proof -
  assume "list_all2 alike ls ls'"
  then have "map normal_line (SplitChar (unlines ls) nl) = map normal_line (SplitChar (unlines ls') nl)"
    by (induction rule: list_all2_induct) (simp_all add: unlines_def alike_def SplitChar_line)
  then show ?thesis by (simp add: normalizeScript_def)
qed

lemma renderSource_alike:
  assumes "renderSource src lock = Inr line" "lock_flag lock"
  shows "\<exists>line'. renderSource src '''' = Inr line' \<and> alike line line'"
proof -
  have "\<exists>r. renderSource src k = Inr (''restic backup'' @ k @ '' --tag='' @ r) \<and>
      renderSource src '''' = Inr (''restic backup'' @ '' --tag='' @ r)" if "renderSource src k = Inr l" for k l
    using that by (cases "src_Exclude src") (auto simp: renderSource_def Let_def Join_concat split: if_splits)
  then obtain r where "line = ''restic backup'' @ lock @ '' --tag='' @ r"
    "renderSource src '''' = Inr (''restic backup'' @ '' --tag='' @ r)" using assms(1) by fastforce
  with normal_lines_lock[OF head_texts(1) assms(2), of "'' --tag=''" r] show ?thesis by (simp add: alike_def)
qed

lemma renderSources_alike:
  assumes "lock_flag lock" "renderSources srcs lock = Inr ls"
  shows "\<exists>ls'. renderSources srcs '''' = Inr ls' \<and> list_all2 alike ls ls'"
  using assms(2)
proof (induction srcs arbitrary: ls)
  case (Cons src srcs)
  then obtain line rest where "renderSource src lock = Inr line" "renderSources srcs lock = Inr rest" "ls = line # rest"
    by (auto split: sum.splits)
  with Cons.IH renderSource_alike[OF _ assms(1)] show ?case by fastforce
qed simp

lemma renderForget_alike:
  assumes "lock_flag lock"
  shows "if renderForget p lock = '''' then renderForget p '''' = ''''
    else renderForget p '''' \<noteq> '''' \<and> alike (renderForget p lock) (renderForget p '''')"
proof (cases "normal_retention p")
  case None
  then show ?thesis by (auto simp: normal_retention_def renderForget_def split: option.splits if_splits)
next
  case (Some r)
  then have r: "p = Some r" "keep_flags r \<noteq> []"
    by (auto simp: normal_retention_def split: option.splits if_splits)
  have "\<exists>t. hd (keep_flags r) = ''--keep-'' @ t"
    using r(2) by (auto simp: keep_flags_def split: option.splits)
  then obtain t where t: "'' '' @ Join (keep_flags r) '' '' = '' --keep-'' @ t"
    using r(2) by (cases "keep_flags r"; cases "tl (keep_flags r)") auto
  have "renderForget p k = ''restic forget --prune'' @ k @ '' --keep-'' @ t" for k
    unfolding t[symmetric] using r by (simp add: renderForget_def)
  with normal_lines_lock[OF head_texts(2) assms, of "'' --keep-''" t] show ?thesis by (simp add: alike_def)
qed

lemma rendered_alike:
  assumes "Render spec = Inr script" "bs_Script spec = ''''"
    and "bs_Script spec' = ''''" "bs_RetryLock spec' = None"
      "bs_Sources spec' = map normal_source (bs_Sources spec)"
      "bs_Retention spec' = normal_retention (bs_Retention spec)"
  shows "\<exists>script'. Render spec' = Inr script' \<and> normalizeScript script' = normalizeScript script"
proof -
  let ?lock = "retryLockFlag spec"
  from assms(1,2) obtain ls where ls: "renderSources (bs_Sources spec) ?lock = Inr ls"
    by (auto simp: Render_def split: sum.splits)
  have "list_all known_type (bs_Sources spec)" by (rule renderSources_known[OF ls])
  from renderSources_alike[OF retryLockFlag_flag ls] obtain ls' where
    ls': "renderSources (bs_Sources spec) '''' = Inr ls'" "list_all2 alike ls ls'" by blast
  have lock': "retryLockFlag spec' = ''''" using assms(4) by (simp add: retryLockFlag_def)
  let ?forget = "\<lambda>k. if renderForget (bs_Retention spec) k \<noteq> '''' then [renderForget (bs_Retention spec) k] else []"
  have "list_all2 alike ([preamble] @ ls @ ?forget ?lock @ [postamble]) ([preamble] @ ls' @ ?forget '''' @ [postamble])"
    using ls'(2) renderForget_alike[OF retryLockFlag_flag[of spec], of "bs_Retention spec"]
    by (intro list_all2_appendI) (auto simp: alike_def split: if_splits)
  from normalizeScript_alike[OF this] show ?thesis
    using assms ls ls'(1) \<open>list_all known_type _\<close>
    by (simp add: Render_def Let_def lock' normal_sources_render normal_retention_renders)
qed

section \<open>Migrating and comparing\<close>

lemma migrated_backup_fields:
  "bs_Script (sb_Spec (migrated_backup hr ct co parts)) = []"
  "bs_RetryLock (sb_Spec (migrated_backup hr ct co parts)) = None"
  "bs_Sources (sb_Spec (migrated_backup hr ct co parts)) = sp_Sources parts"
  "bs_Retention (sb_Spec (migrated_backup hr ct co parts)) = sp_Retention parts"
  "bs_Schedule (sb_Spec (migrated_backup hr ct co parts)) = shorthandSchedule (hr_Schedule ct)"
  "bs_TimeZone (sb_Spec (migrated_backup hr ct co parts)) = hr_TimeZone ct"
  by (simp_all add: migrated_backup_def new_backup_def Let_def)

text \<open>
  C30. Migrating and comparing. Let a HelmRelease fire by a cron expression and run, byte for
  byte, a script the operator renders from some spec (with any lock retry), without a script
  of its own, whose sources and retention the parser of the migration can read: no quote,
  newline or flag in a path or pattern, only safe characters in tags and arguments. If
  the schedule of the ScheduledBackup generated from it resolves, \<open>corg parity\<close> succeeds for
  the two: whatever lock retry, tags, defaults and minute the hand-written backup had, the
  generated one is found to do the same. (A schedule such as \<open>*/7\<close> is given an interval that
  does not resolve, and a script with the flags in another order is reported as different.)
\<close>

theorem migrated_backups_pass_parity:
  assumes original: "readHelmRelease mf original = Inr hr" "backupController hr = Inr (controller, container)"
      "container_script container = Inr script" "cadenceOf (hr_Schedule controller) = Inr cadence"
    and script: "bs_Script spec = ''''" "Render spec = Inr script" "list_all readable_source (bs_Sources spec)"
      "list_all storable_retention (case bs_Retention spec of None \<Rightarrow> [] | Some r \<Rightarrow> [r])"
    and generated: "migrateHelmRelease hr repositoryID = Inr (repo, sb)" "readScheduledBackup mf generated = Inr sb"
      "ResolveSchedule (bs_Schedule (sb_Spec sb)) (sb_Namespace sb @ ''/'' @ sb_Name sb) = Inr resolved"
    and print: "\<And>out m w. \<exists>w'. c_Print c out m w = (Inr (), w')"
  shows "fst (runParity mf c generated original s) = Inr ()"
proof -
  obtain parts where parts: "parseBackupScript script = Inr parts" "sb = migrated_backup hr controller container parts"
      "sp_Sources parts = map normal_source (bs_Sources spec)" "sp_Retention parts = normal_retention (bs_Retention spec)"
    using generated(1) original(2,3) rendered_script_parsed[OF script] by (auto simp: migrateHelmRelease_def split: sum.splits)
  obtain script' where script': "Render (sb_Spec sb) = Inr script'" "normalizeScript script' = normalizeScript script"
    using rendered_alike[OF script(2,1), of "sb_Spec sb"] parts(3,4)
    by (auto simp: parts(2) migrated_backup_fields)
  have "cadenceOf resolved = Inr cadence"
    using shorthand_cadence[OF original(4)] generated(3) by (simp add: parts(2) migrated_backup_fields)
  with original script' generated(2,3) show ?thesis
    unfolding runParity_ends_well[OF print]
    by (simp add: renderedPlan_def originalPlan_def same_backup_def)
      (simp add: parts(2) migrated_backup_fields)
qed

text \<open>A HelmRelease around the script of \<open>sample_spec\<close>, and the files the two commands read.\<close>

definition sample_script :: string where
  "sample_script = (case Render sample_spec of Inl _ \<Rightarrow> '''' | Inr s \<Rightarrow> s)"

definition sample_container :: hr_container where
  "sample_container = \<lparr>hc_Command = [''sh'', ''-c'', sample_script], hc_WorkingDir = '''', hc_Env = []\<rparr>"

definition sample_controller :: hr_controller where
  "sample_controller = \<lparr>hr_Schedule = ''27 */6 * * *'', hr_ConcurrencyPolicy = '''', hr_TimeZone = '''',
     hr_Containers = [(resticController, sample_container)]\<rparr>"

definition sample_release :: helm_release where
  "sample_release = \<lparr>hr_Namespace = ''app'', hr_Controllers = [(resticController, sample_controller)], hr_Persistence = []\<rparr>"

definition sample_migrated :: "goerr + repository \<times> scheduled_backup" where
  "sample_migrated = migrateHelmRelease sample_release ''abcd1234''"

definition sample_manifests :: manifests where
  "sample_manifests =
     \<lparr>mf_Stat = (\<lambda>_. True), mf_ReadFile = (\<lambda>_. Inr ''kind: ScheduledBackup''),
      mf_Backup = (\<lambda>_. case sample_migrated of Inl e \<Rightarrow> Inl e | Inr (_, sb) \<Rightarrow> Inr sb),
      mf_HelmRelease = (\<lambda>_. Inr sample_release), mf_CronJob = (\<lambda>_. Inr '''')\<rparr>"

theorem migrated_backups_pass_parity_witness:
  "fst (runParity sample_manifests (plain_cli empty_cluster) ''generated.yaml'' ''helmrelease.yaml'' (start () ())) = Inr ()"
proof -
  note sample = sample_container_def sample_controller_def sample_release_def
  obtain script where script: "Render sample_spec = Inr script" using sample_spec_readable(4) by blast
  then have command: "container_script sample_container = Inr script"
    by (simp add: container_script_def sample sample_script_def)
  have found: "backupController sample_release = Inr (sample_controller, sample_container)"
    by (simp add: backupController_def sample resticController_def)
  obtain repo sb where sb: "migrateHelmRelease sample_release ''abcd1234'' = Inr (repo, sb)"
    using found command rendered_script_parsed[OF sample_spec_readable(1) script sample_spec_readable(2,3)]
    by (simp add: migrateHelmRelease_def)
  then have fields: "sb_Namespace sb = ''app''" "sb_Name sb = ''restic''" "bs_Schedule (sb_Spec sb) = ''@every 6h''"
    using found command six_hourly(2)
    by (auto simp: migrateHelmRelease_def migrated_backup_fields migrated_backup_def new_backup_def Let_def
        sample migratedName_def split: sum.splits)
  obtain resolved where resolved: "ResolveSchedule ''@every 6h'' ''app/restic'' = Inr resolved"
    using six_hourly(3) by blast
  show ?thesis
  proof (rule migrated_backups_pass_parity)
    show "readHelmRelease sample_manifests ''helmrelease.yaml'' = Inr sample_release"
      by (simp add: readHelmRelease_def sample_manifests_def)
    show "cadenceOf (hr_Schedule sample_controller) = Inr (every_period 112 360)"
      using six_hourly(1) by (simp add: sample)
    show "readScheduledBackup sample_manifests ''generated.yaml'' = Inr sb"
      using sb by (simp add: readScheduledBackup_def sample_manifests_def sample_migrated_def SplitText_def
          document_separator_def Contains_def)
  qed (use found command sb script sample_spec_readable resolved in \<open>simp_all add: fields plain_cli_def ret_def\<close>)
qed

end
