(* ===== verification/Tables.thy ===== *)
theory Tables
  imports Cli
begin

text \<open>
  The tables of the command line: the part of Go's \<open>text/tabwriter\<close> that \<open>NewTabWriter\<close> and
  \<open>flushTable\<close> of \<open>internal/cli/output.go\<close> use, and the small texts of the same file that cells are
  made of. A line ends at a newline and its cells at tabs; the cells of a column are padded
  to the widest of the lines around them that have the column.
\<close>

definition htab :: char where "htab = CHR 0x09"
definition vtab :: char where "vtab = CHR 0x0B"
definition formfeed :: char where "formfeed = CHR 0x0C"
definition space :: char where "space = CHR 0x20"

text \<open>The layout of \<open>NewTabWriter\<close>; the width of a tab is not used, since it pads with spaces.\<close>

definition table_minwidth :: nat where "table_minwidth = 6"
definition table_padding :: nat where "table_padding = 3"

section \<open>The tab writer\<close>

text \<open>\<open>utf8.RuneCount\<close> of a valid text: the bytes that do not continue an encoding.\<close>

definition starts_rune :: "char \<Rightarrow> bool" where
  "starts_rune c \<longleftrightarrow> (let n = (of_char c :: nat) in n < 128 \<or> 192 \<le> n)"

definition rune_count :: "string \<Rightarrow> nat" where
  "rune_count s = length (filter starts_rune s)"

lemma rune_count_simps [simp]:
  "rune_count [] = 0" "rune_count (a @ b) = rune_count a + rune_count b"
  by (simp_all add: rune_count_def)

lemma rune_count_spaces [simp]: "rune_count (replicate n space) = n"
  by (simp add: rune_count_def starts_rune_def space_def)

text \<open>Every cell of a line but the last is ended by a tab of either kind.\<close>

definition line_cells :: "string \<Rightarrow> string list" where
  "line_cells line = SplitChar (map (\<lambda>c. if c = vtab then htab else c) line) htab"

definition column_width :: "nat \<Rightarrow> string list list \<Rightarrow> nat" where
  "column_width column block =
     foldr max (map (\<lambda>line. rune_count (line ! column) + table_padding) block) table_minwidth"

fun write_cells :: "nat list \<Rightarrow> string list \<Rightarrow> string" where
  "write_cells ws [] = []"
| "write_cells [] (c # cs) = c @ write_cells [] cs"
| "write_cells (w # ws) (c # cs) = c @ replicate (w - rune_count c) space @ write_cells ws cs"

text \<open>
  \<open>Writer.format\<close>: the lines up to the next that lacks the column make up a block of the
  column, with its width; \<open>ws\<close> are the widths of the columns to the left.
\<close>

definition has_column :: "nat list \<Rightarrow> string list \<Rightarrow> bool" where
  "has_column ws line \<longleftrightarrow> length ws + 1 < length line"

definition cells_left :: "nat list \<Rightarrow> string list list \<Rightarrow> nat" where
  "cells_left ws lines = (\<Sum>l\<leftarrow>lines. Suc (length l - length ws))"

lemma cells_left_simps [simp]:
  "cells_left ws [] = 0" "cells_left ws (l # ls) = Suc (length l - length ws) + cells_left ws ls"
  by (simp_all add: cells_left_def)

lemma cells_left_dropWhile: "cells_left ws (dropWhile P ls) \<le> cells_left ws ls"
  by (induction ls) auto

lemma cells_left_block: "cells_left (ws @ [w]) (takeWhile (has_column ws) ls) \<le> cells_left ws ls"
  by (induction ls) (auto simp: has_column_def)

function format_lines :: "nat list \<Rightarrow> string list list \<Rightarrow> string list" where
  "format_lines ws [] = []"
| "format_lines ws (line # lines) =
     (if has_column ws line then
        (let block = takeWhile (has_column ws) (line # lines)
         in format_lines (ws @ [column_width (length ws) block]) block @
            format_lines ws (dropWhile (has_column ws) lines))
      else write_cells ws line # format_lines ws lines)"
  by pat_completeness auto

termination
proof (relation "measure (\<lambda>(ws, ls). cells_left ws ls)", simp)
  fix ws :: "nat list" and line :: "string list" and lines block
  assume "has_column ws line" "block = takeWhile (has_column ws) (line # lines)"
  then show "((ws @ [column_width (length ws) block], block), (ws, line # lines)) \<in> measure (\<lambda>(ws, ls). cells_left ws ls)"
    using cells_left_block[of ws "column_width (length ws) block" lines] by (auto simp: has_column_def)
next
  fix ws :: "nat list" and line :: "string list" and lines
  show "((ws, dropWhile (has_column ws) lines), (ws, line # lines)) \<in> measure (\<lambda>(ws, ls). cells_left ws ls)"
    using cells_left_dropWhile[of ws "has_column ws" lines] by simp
qed (simp add: cells_left_def)

declare format_lines.simps [simp del]

text \<open>The lines of what the writer has written when it is flushed; a form feed ends all columns.\<close>

definition tabwriter :: "string \<Rightarrow> string list" where
  "tabwriter text =
     concat (map (\<lambda>part. format_lines [] (map line_cells (SplitChar part nl))) (SplitChar text formfeed))"

text \<open>A table as the lines of a printer. What is written to a table ends with a newline, so that
  the last line is empty.\<close>

definition table_lines :: "string \<Rightarrow> message list" where
  "table_lines text = map (\<lambda>line. (''%s'', [Str line])) (butlast (tabwriter text))"

section \<open>Columns line up\<close>

definition plain_cell :: "string \<Rightarrow> bool" where
  "plain_cell c \<longleftrightarrow> set c \<inter> {htab, vtab, nl, formfeed} = {}"

definition row_text :: "string list \<Rightarrow> string" where
  "row_text row = Join row [htab] @ [nl]"

lemma takeWhile_all: "list_all P xs \<Longrightarrow> takeWhile P xs = xs"
  by (simp add: takeWhile_eq_all_conv list_all_iff)

lemma dropWhile_all: "list_all P xs \<Longrightarrow> dropWhile P xs = []"
  by (simp add: dropWhile_eq_Nil_conv list_all_iff)

lemma format_lines_last: "list_all (\<lambda>r. length r = Suc (length ws)) rows \<Longrightarrow> format_lines ws rows = map (write_cells ws) rows"
  by (induction rows) (simp_all add: format_lines.simps has_column_def)

lemma format_lines_rows:
  assumes "list_all (\<lambda>r. length r = Suc (length ws + k)) rows"
  shows "format_lines ws rows = map (write_cells (ws @ map (\<lambda>j. column_width j rows) [length ws..<length ws + k])) rows"
  using assms
proof (induction k arbitrary: ws)
  case 0
  then show ?case by (simp add: format_lines_last)
next
  case (Suc k)
  show ?case
  proof (cases rows)
    case (Cons row rest)
    let ?w = "column_width (length ws) rows"
    have all: "list_all (has_column ws) rows" "list_all (\<lambda>r. length r = Suc (length (ws @ [?w]) + k)) rows"
      using Suc.prems by (simp_all add: list_all_iff has_column_def)
    have rest: "takeWhile (has_column ws) rest = rest" "dropWhile (has_column ws) rest = []"
      using all(1) unfolding Cons by (simp_all add: takeWhile_all dropWhile_all)
    have "format_lines ws rows = format_lines (ws @ [?w]) rows"
      using all(1) unfolding Cons by (simp add: format_lines.simps(1) format_lines.simps(2)[of ws row rest] rest Let_def)
    also have "\<dots> = map (write_cells (ws @ map (\<lambda>j. column_width j rows) [length ws..<length ws + Suc k])) rows"
      using Suc.IH[OF all(2)] by (simp add: upt_conv_Cons del: upt_Suc)
    finally show ?thesis .
  qed (simp add: format_lines.simps)
qed

lemma format_lines_snoc: "format_lines [] (rows @ [[[]]]) = format_lines [] rows @ [[]]"
proof (induction rows rule: length_induct)
  case (1 rows)
  have no: "\<not> has_column [] [[]]" by (simp add: has_column_def)
  show ?case
  proof (cases rows)
    case (Cons line lines)
    let ?rest = "dropWhile (has_column []) lines"
    have stop: "takeWhile (has_column []) (lines @ [[[]]]) = takeWhile (has_column []) lines"
      "dropWhile (has_column []) (lines @ [[[]]]) = ?rest @ [[[]]]"
      using no by (induction lines) auto
    have "length ?rest < length rows" using length_dropWhile_le[of "has_column []" lines] by (simp add: Cons)
    with 1 have IH: "format_lines [] (?rest @ [[[]]]) = format_lines [] ?rest @ [[]]"
      "format_lines [] (lines @ [[[]]]) = format_lines [] lines @ [[]]" by (auto simp: Cons)
    show ?thesis
      by (simp add: Cons format_lines.simps(2)[of "[]" line lines] format_lines.simps(2)[of "[]" line "lines @ [[[]]]"] stop IH Let_def)
  qed (simp add: format_lines.simps no)
qed

end
