(* ===== verification/Listing.thy ===== *)
theory Listing
  imports Tables
begin

text \<open>
  The commands that show what there is: \<open>corg get\<close> (\<open>internal/cli/get.go\<close>) and \<open>corg status\<close>
  (\<open>internal/cli/status.go\<close>), with the output formats of \<open>internal/cli/output.go\<close>.

  The libraries that make text are a parameter: \<open>fmt.Sprintf\<close> on the formats that the model
  keeps unexpanded, \<open>duration.HumanDuration\<close>, and the encodings of a list of objects. The
  clock is read once for a table.
\<close>

section \<open>Formats\<close>

definition OutputTable :: string where "OutputTable = ''''"
definition OutputWide :: string where "OutputWide = ''wide''"
definition OutputJSON :: string where "OutputJSON = ''json''"
definition OutputYAML :: string where "OutputYAML = ''yaml''"
definition OutputName :: string where "OutputName = ''name''"

definition outputFormats :: "string list" where
  "outputFormats = [OutputWide, OutputJSON, OutputYAML, OutputName]"

definition ValidateOutput :: "string \<Rightarrow> goerr + unit" where
  "ValidateOutput format =
     (if format \<in> {OutputTable, OutputWide, OutputJSON, OutputYAML, OutputName} then Inr ()
      else Inl (Errorf ''unsupported output format %q, expected one of: %s''
        [Str format, Str (Join outputFormats ''|'')]))"

definition IsMachineOutput :: "string \<Rightarrow> bool" where
  "IsMachineOutput format \<longleftrightarrow> format = OutputJSON \<or> format = OutputYAML"

text \<open>A list of objects with its API version and kind.\<close>

datatype object_list = RepositoryList "repository list" | ScheduledBackupList "scheduled_backup list"

record texts =
  tx_Sprintf :: "message \<Rightarrow> string"
  tx_HumanDuration :: "duration \<Rightarrow> string"
  tx_JSON :: "object_list \<Rightarrow> goerr + string"
  tx_YAML :: "object_list \<Rightarrow> goerr + string"

definition PrintObject :: "texts \<Rightarrow> 'w cli \<Rightarrow> string \<Rightarrow> object_list \<Rightarrow> ('w, 'o, unit) comp" where
  "PrintObject tx c format obj =
     (if format = OutputJSON then
        bind_go (lift (tx_JSON tx obj)) (\<lambda>data. say c Out ''%s'' [Str data])
      else if format = OutputYAML then
        bind_go (lift (tx_YAML tx obj)) (\<lambda>data. say c Out ''%s'' [Str data])
      else
        fail (Errorf ''%w'' (case ValidateOutput format of Inl e \<Rightarrow> [Err e] | Inr _ \<Rightarrow> [])))"

section \<open>Texts of cells\<close>

text \<open>Go's zero time, the first second of the year 1.\<close>

definition zero_time :: time where "zero_time = - 62135596800 * Second"

definition Age :: "texts \<Rightarrow> time \<Rightarrow> time \<Rightarrow> string" where
  "Age tx now t = (if t = zero_time then ''<unknown>'' else tx_HumanDuration tx (now - t))"

definition since_text :: "texts \<Rightarrow> time \<Rightarrow> time option \<Rightarrow> string" where
  "since_text tx now t =
     (case t of
        None \<Rightarrow> ''<none>''
      | Some t \<Rightarrow> if t = zero_time then ''<none>'' else tx_HumanDuration tx (now - t) @ '' ago'')"

definition status_text :: "cond_status \<Rightarrow> string" where
  "status_text st =
     (case st of ConditionTrue \<Rightarrow> ''True'' | ConditionFalse \<Rightarrow> ''False'' | ConditionUnknown \<Rightarrow> ''Unknown'')"

definition ConditionStatus :: "condition list \<Rightarrow> string \<Rightarrow> string" where
  "ConditionStatus conds condType =
     (case FindCondition conds condType of
        Some c \<Rightarrow> status_text (cond_Status c)
      | None \<Rightarrow> status_text ConditionUnknown)"

definition yesNo :: "bool \<Rightarrow> string" where "yesNo b = (if b then ''True'' else ''False'')"
definition orNone :: "string \<Rightarrow> string" where "orNone s = (if s = '''' then ''<none>'' else s)"

section \<open>Listing\<close>

definition kindsToList :: "string list \<Rightarrow> goerr + target_kind list" where
  "kindsToList args =
     (case args of
        [] \<Rightarrow> Inr [TargetRepository, TargetScheduledBackup]
      | arg # _ \<Rightarrow>
          (case map_of kindAliases arg of
             None \<Rightarrow> Inl (Errorf ''%w %q, expected \"repositories\" or \"backups\"'' [Err ErrUnknownKind, Str arg])
           | Some kind \<Rightarrow> Inr [kind]))"

definition header_text :: "bool \<Rightarrow> string \<Rightarrow> string list \<Rightarrow> string list \<Rightarrow> string" where
  "header_text allNamespaces output cols wideCols =
     (if allNamespaces then ''NAMESPACE'' @ [htab] else []) @ Join cols [htab] @
     (if output = OutputWide then concat (map (\<lambda>col. htab # col) wideCols) else []) @ [nl]"

definition namespace_text :: "bool \<Rightarrow> string \<Rightarrow> string" where
  "namespace_text allNamespaces ns = (if allNamespaces then ns @ [htab] else [])"

definition repository_row :: "texts \<Rightarrow> time \<Rightarrow> bool \<Rightarrow> string \<Rightarrow> repository \<Rightarrow> string" where
  "repository_row tx now allNamespaces output r =
     namespace_text allNamespaces (rp_Namespace r) @
     Join [rp_Name r, orNone (rt_RepositoryID (rp_Status r)),
       ConditionStatus (rt_Conditions (rp_Status r)) RepositoryConditionReady,
       yesNo (rt_Initialized (rp_Status r)), orNone (rt_CurrentUsage (rp_Status r)),
       orNone (rt_Quota (rp_Status r)), Age tx now (om_CreationTimestamp (rp_Meta r))] [htab] @
     (if output = OutputWide then
        htab # Join [orNone (rt_Server (rp_Status r)), orNone (rt_SecretName (rp_Status r)),
          yesNo (rt_Adopted (rp_Status r)), yesNo (rs_Suspend (rp_Spec r))] [htab]
      else []) @ [nl]"

definition repository_table :: "texts \<Rightarrow> time \<Rightarrow> bool \<Rightarrow> string \<Rightarrow> repository list \<Rightarrow> string" where
  "repository_table tx now allNamespaces output items =
     header_text allNamespaces output
       [''NAME'', ''REPO ID'', ''READY'', ''INITIALIZED'', ''USAGE'', ''QUOTA'', ''AGE'']
       [''SERVER'', ''SECRET'', ''ADOPTED'', ''SUSPENDED''] @
     concat (map (repository_row tx now allNamespaces output) items)"

definition backup_row :: "texts \<Rightarrow> time \<Rightarrow> bool \<Rightarrow> string \<Rightarrow> scheduled_backup \<Rightarrow> string" where
  "backup_row tx now allNamespaces output b =
     namespace_text allNamespaces (sb_Namespace b) @
     Join [sb_Name b, bs_RepositoryRef (sb_Spec b), orNone (bt_EffectiveSchedule (sb_Status b)),
       ConditionStatus (bt_Conditions (sb_Status b)) ScheduledBackupConditionReady,
       since_text tx now (bt_LastSuccessfulTime (sb_Status b)), yesNo (bs_Suspend (sb_Spec b)),
       Itoa (bt_Active (sb_Status b)), Age tx now (om_CreationTimestamp (sb_Meta b))] [htab] @
     (if output = OutputWide then
        htab # Join [orNone (bs_TimeZone (sb_Spec b)), orNone (bs_ConcurrencyPolicy (sb_Spec b))] [htab]
      else []) @ [nl]"

definition backup_table :: "texts \<Rightarrow> time \<Rightarrow> bool \<Rightarrow> string \<Rightarrow> scheduled_backup list \<Rightarrow> string" where
  "backup_table tx now allNamespaces output items =
     header_text allNamespaces output
       [''NAME'', ''REPOSITORY'', ''SCHEDULE'', ''READY'', ''LAST BACKUP'', ''SUSPENDED'', ''ACTIVE'', ''AGE'']
       [''TIMEZONE'', ''CONCURRENCY''] @
     concat (map (backup_row tx now allNamespaces output) items)"

definition printRepositories ::
  "texts \<Rightarrow> 'w cli \<Rightarrow> repository list \<Rightarrow> bool \<Rightarrow> string \<Rightarrow> ('w, 'o, unit) comp" where
  "printRepositories tx c items allNamespaces output =
     (if output = OutputName then
        bind_go (print_lines c Out
          (map (\<lambda>r. (''repository.borgbase.clevyr.com/%s'', [Str (rp_Name r)])) items) newPrinter) p_Err
      else
        bind_go (tick (k_Now (c_Kube c))) (\<lambda>now.
        bind_go (print_lines c Out (table_lines (repository_table tx now allNamespaces output items)) newPrinter) p_Err))"

definition printScheduledBackups ::
  "texts \<Rightarrow> 'w cli \<Rightarrow> scheduled_backup list \<Rightarrow> bool \<Rightarrow> string \<Rightarrow> ('w, 'o, unit) comp" where
  "printScheduledBackups tx c items allNamespaces output =
     (if output = OutputName then
        bind_go (print_lines c Out
          (map (\<lambda>b. (''scheduledbackup.borgbase.clevyr.com/%s'', [Str (sb_Name b)])) items) newPrinter) p_Err
      else
        bind_go (tick (k_Now (c_Kube c))) (\<lambda>now.
        bind_go (print_lines c Out (table_lines (backup_table tx now allNamespaces output items)) newPrinter) p_Err))"

fun list_kinds ::
  "'w cli \<Rightarrow> string \<Rightarrow> target_kind list \<Rightarrow> repository list \<times> scheduled_backup list \<Rightarrow>
   ('w, 'o, repository list \<times> scheduled_backup list) comp" where
  "list_kinds c ns [] found = ret found"
| "list_kinds c ns (kind # kinds) (repos, backups) =
     (if kind = TargetRepository then
        bind_go (ask (c_ListRepositories c ns)) (\<lambda>repos. list_kinds c ns kinds (repos, backups))
      else
        bind_go (ask (k_ListBackups (c_Kube c) ns)) (\<lambda>backups. list_kinds c ns kinds (repos, backups)))"

fun printGetObjects ::
  "texts \<Rightarrow> 'w cli \<Rightarrow> string \<Rightarrow> target_kind list \<Rightarrow> repository list \<Rightarrow> scheduled_backup list \<Rightarrow> ('w, 'o, unit) comp" where
  "printGetObjects tx c output [] repos backups = ret ()"
| "printGetObjects tx c output (kind # kinds) repos backups =
     bind_go (PrintObject tx c output
       (if kind = TargetRepository then RepositoryList repos else ScheduledBackupList backups)) (\<lambda>_.
     printGetObjects tx c output kinds repos backups)"

text \<open>The loop over the kinds: whether nothing was found yet, and the printer of the empty lines.\<close>

fun print_kinds ::
  "texts \<Rightarrow> 'w cli \<Rightarrow> bool \<Rightarrow> string \<Rightarrow> repository list \<Rightarrow> scheduled_backup list \<Rightarrow> target_kind list \<Rightarrow>
   bool \<Rightarrow> printer \<Rightarrow> ('w, 'o, bool \<times> printer) comp" where
  "print_kinds tx c allNamespaces output repos backups [] nothing p = ret (nothing, p)"
| "print_kinds tx c allNamespaces output repos backups (kind # kinds) nothing p =
     (if kind = TargetRepository then
        if repos \<noteq> [] then
          bind_go (printRepositories tx c repos allNamespaces output) (\<lambda>_.
          print_kinds tx c allNamespaces output repos backups kinds False p)
        else print_kinds tx c allNamespaces output repos backups kinds nothing p
      else
        if backups \<noteq> [] then
          bind_go (if \<not> nothing then p_printf c Out '''' [] p else ret p) (\<lambda>p.
          bind_go (printScheduledBackups tx c backups allNamespaces output) (\<lambda>_.
          print_kinds tx c allNamespaces output repos backups kinds False p))
        else print_kinds tx c allNamespaces output repos backups kinds nothing p)"

definition nothing_found :: "string \<Rightarrow> bool \<Rightarrow> message" where
  "nothing_found ns allNamespaces =
     (''No resources found %s.'',
      [if allNamespaces then Str ''in any namespace'' else Sprintf ''in namespace %q'' [Str ns]])"

definition runGet ::
  "texts \<Rightarrow> 'w cli \<Rightarrow> string \<Rightarrow> bool \<Rightarrow> string \<Rightarrow> target_kind list \<Rightarrow> ('w, 'o, unit) comp" where
  "runGet tx c ns allNamespaces output kinds =
     bind_go (list_kinds c ns kinds ([], [])) (\<lambda>(repos, backups).
     if IsMachineOutput output then printGetObjects tx c output kinds repos backups
     else
       bind_go (print_kinds tx c allNamespaces output repos backups kinds True newPrinter) (\<lambda>(nothing, p).
       bind_go (if nothing then print_lines c Out [nothing_found ns allNamespaces] p else ret p) p_Err))"

text \<open>The command: the format is checked before anything else, then the kinds.\<close>

definition get_command ::
  "texts \<Rightarrow> 'w cli \<Rightarrow> string \<Rightarrow> bool \<Rightarrow> string \<Rightarrow> string list \<Rightarrow> ('w, 'o, unit) comp" where
  "get_command tx c ns allNamespaces output args =
     bind_go (lift (ValidateOutput output)) (\<lambda>_.
     bind_go (lift (kindsToList args)) (\<lambda>kinds.
     runGet tx c ns allNamespaces output kinds))"

section \<open>One resource\<close>

definition defaultRunLimit :: int where "defaultRunLimit = 10"

definition usageOf :: "repository \<Rightarrow> string" where
  "usageOf repo =
     (let usage = rt_CurrentUsage (rp_Status repo); quota = rt_Quota (rp_Status repo)
      in if usage = '''' \<and> quota = '''' then ''<unknown>''
         else if quota = '''' then usage
         else if usage = '''' then ''? / '' @ quota
         else usage @ '' / '' @ quota)"

definition field_text :: "string \<Rightarrow> string \<Rightarrow> string" where
  "field_text name value = ''  '' @ name @ [htab] @ value @ [nl]"

definition condition_lines :: "texts \<Rightarrow> condition list \<Rightarrow> message list" where
  "condition_lines tx conds =
     (if conds = [] then []
      else ('''', []) # table_lines
        (Join [''CONDITION'', ''STATUS'', ''REASON'', ''MESSAGE''] [htab] @ [nl] @
         concat (map (\<lambda>c. Join [cond_Type c, status_text (cond_Status c), cond_Reason c,
           orNone (tx_Sprintf tx (cond_Message c))] [htab] @ [nl]) conds)))"

definition repository_status_lines :: "texts \<Rightarrow> time \<Rightarrow> repository \<Rightarrow> message list" where
  "repository_status_lines tx now repo =
     [(''repository/%s'', [Str (rp_Name repo)]), ('''', [])] @
     table_lines
       (field_text ''BorgBase ID'' (orNone (rt_RepositoryID (rp_Status repo))) @
        field_text ''Server'' (orNone (rt_Server (rp_Status repo))) @
        field_text ''Usage'' (usageOf repo) @
        field_text ''Initialized'' (yesNo (rt_Initialized (rp_Status repo))) @
        field_text ''Adopted'' (yesNo (rt_Adopted (rp_Status repo))) @
        field_text ''Suspended'' (yesNo (rs_Suspend (rp_Spec repo))) @
        field_text ''Secret'' (orNone (SecretName repo)) @
        field_text ''Age'' (Age tx now (om_CreationTimestamp (rp_Meta repo)))) @
     condition_lines tx (rt_Conditions (rp_Status repo))"

definition backup_status_lines ::
  "texts \<Rightarrow> time \<Rightarrow> scheduled_backup \<Rightarrow> goerr + repository \<Rightarrow> message list" where
  "backup_status_lines tx now sb repo =
     [(''scheduledbackup/%s'', [Str (sb_Name sb)]), ('''', [])] @
     table_lines
       (field_text ''Repository''
          (case repo of
             Inl e \<Rightarrow> bs_RepositoryRef (sb_Spec sb) @ '' (unreadable: '' @ tx_Sprintf tx (err_text e) @ '')''
           | Inr repo \<Rightarrow> rp_Name repo @ ''   '' @ usageOf repo) @
        field_text ''Schedule''
          (orNone (bt_EffectiveSchedule (sb_Status sb)) @ ''   '' @ orNone (bs_TimeZone (sb_Spec sb))) @
        field_text ''Suspended'' (yesNo (bs_Suspend (sb_Spec sb))) @
        field_text ''Active'' (Itoa (bt_Active (sb_Status sb))) @
        field_text ''Last scheduled'' (since_text tx now (bt_LastScheduleTime (sb_Status sb))) @
        field_text ''Last successful'' (since_text tx now (bt_LastSuccessfulTime (sb_Status sb))) @
        field_text ''Age'' (Age tx now (om_CreationTimestamp (sb_Meta sb)))) @
     condition_lines tx (bt_Conditions (sb_Status sb))"

definition runResult :: "job \<Rightarrow> string" where
  "runResult j =
     (if 0 < jst_Succeeded (job_Status j) then ''succeeded''
      else if 0 < jst_Failed (job_Status j) then ''failed''
      else if 0 < jst_Active (job_Status j) then ''running''
      else ''pending'')"

text \<open>\<open>Duration.Round(time.Second)\<close>: half a second is rounded away from zero.\<close>

definition round_second :: "duration \<Rightarrow> duration" where
  "round_second d =
     (if d < 0 then
        (let r = (- d) mod Second in if r + r < Second then d + r else d - Second + r)
      else
        (let r = d mod Second in if r + r < Second then d - r else d + Second - r))"

definition jobFailed :: string where "jobFailed = ''Failed''"

definition run_end :: "time \<Rightarrow> job \<Rightarrow> time" where
  "run_end now j =
     (case jst_CompletionTime (job_Status j) of
        Some t \<Rightarrow> t
      | None \<Rightarrow>
          if jst_Active (job_Status j) = 0 \<and> 0 < jst_Failed (job_Status j) then
            fold (\<lambda>jc t. if jc_Type jc = jobFailed then jc_LastTransitionTime jc else t)
              (jst_Conditions (job_Status j)) now
          else now)"

definition runDuration :: "time \<Rightarrow> job \<Rightarrow> string" where
  "runDuration now j =
     (case jst_StartTime (job_Status j) of
        None \<Rightarrow> ''-''
      | Some t \<Rightarrow>
          (let d = round_second (run_end now j - t)
           in if d < 0 then ''-'' else DurationString d))"

definition shown_runs :: "int \<Rightarrow> job list \<Rightarrow> job list" where
  "shown_runs limit jobs =
     (if 0 < limit \<and> limit < int (length jobs) then take (nat limit) jobs else jobs)"

definition run_lines :: "texts \<Rightarrow> time \<Rightarrow> job list \<Rightarrow> int \<Rightarrow> message list" where
  "run_lines tx now jobs limit =
     ('''', []) #
     (if jobs = [] then [(''No runs are still present in the cluster.'', [])]
      else table_lines
        (Join [''RESULT'', ''STARTED'', ''DURATION'', ''JOB''] [htab] @ [nl] @
         concat (map (\<lambda>j. Join [runResult j, since_text tx now (jst_StartTime (job_Status j)),
           runDuration now j, om_Name (job_Meta j)] [htab] @ [nl]) (shown_runs limit jobs))))"

definition runStatus ::
  "texts \<Rightarrow> 'w cli \<Rightarrow> string \<Rightarrow> string \<Rightarrow> int \<Rightarrow> ('w, 'o, unit) comp" where
  "runStatus tx c ns arg limit =
     bind_go (Resolve c ns arg) (\<lambda>t.
     case t of
       RepositoryTarget repo \<Rightarrow>
         bind_go (tick (k_Now (c_Kube c))) (\<lambda>now.
         bind_go (print_lines c Out (repository_status_lines tx now repo) newPrinter) p_Err)
     | BackupTarget sb \<Rightarrow>
         bind_go (attempt (RepositoryFor c sb)) (\<lambda>repo.
         bind_go (tick (k_Now (c_Kube c))) (\<lambda>now.
         bind_go (print_lines c Out (backup_status_lines tx now sb repo) newPrinter) (\<lambda>p.
         bind_go (BackupJobs c sb) (\<lambda>jobs.
         bind_go (tick (k_Now (c_Kube c))) (\<lambda>now.
         bind_go (print_lines c Out (run_lines tx now jobs limit) p) p_Err))))))"

section \<open>Footprints\<close>

lemma silent_PrintObject [quiet_rules]: "silent (PrintObject tx c format obj)"
  unfolding PrintObject_def by (auto intro!: quiet_rules)

lemma silent_list_kinds [quiet_rules]: "silent (list_kinds c ns kinds found)"
  by (induction c ns kinds found rule: list_kinds.induct) (auto intro!: quiet_rules)

lemma silent_printGetObjects [quiet_rules]: "silent (printGetObjects tx c output kinds repos backups)"
  by (induction kinds) (auto intro!: quiet_rules)

lemma silent_print_kinds [quiet_rules]: "silent (print_kinds tx c every output repos backups kinds nothing p)"
  by (induction kinds arbitrary: nothing p)
    (auto simp: printRepositories_def printScheduledBackups_def intro!: quiet_rules)

lemma silent_get_command [quiet_rules]: "silent (get_command tx c ns every output args)"
  unfolding get_command_def runGet_def by (auto intro!: quiet_rules)

lemma silent_runStatus [quiet_rules]: "silent (runStatus tx c ns arg limit)"
  unfolding runStatus_def by (auto intro!: quiet_rules split: target.split)

end
