(* ===== verification/ListingContracts.thy ===== *)
theory ListingContracts
  imports Listing RunnerContracts History
begin

text \<open>
  What the inspecting commands promise: the columns of their tables line up, \<open>get\<close> prints what
  the cluster holds and nothing else, and \<open>status\<close> calls a run what the operator calls it.
\<close>

section \<open>Columns line up\<close>

lemma plain_row_text:
  assumes "list_all plain_cell row"
  shows "set (Join row [htab]) \<inter> {vtab, nl, formfeed} = {}"
  using assms by (induction row "[htab]" rule: Join.induct)
    (auto simp: plain_cell_def htab_def vtab_def formfeed_def)

lemma line_cells_row:
  assumes "list_all plain_cell row" "row \<noteq> []"
  shows "line_cells (Join row [htab]) = row"
proof -
  have "map (\<lambda>c. if c = vtab then htab else c) (Join row [htab]) = Join row [htab]"
    using plain_row_text[OF assms(1)] by (auto intro!: map_idI)
  moreover have "\<forall>w\<in>set row. htab \<notin> set w" using assms(1) by (auto simp: list_all_iff plain_cell_def)
  ultimately show ?thesis using SplitChar_Join[OF assms(2), of htab] by (simp add: line_cells_def)
qed

lemma SplitChar_rows:
  assumes "\<forall>row\<in>set rows. list_all plain_cell row"
  shows "SplitChar (concat (map row_text rows)) nl = map (\<lambda>row. Join row [htab]) rows @ [[]]"
  using assms
proof (induction rows)
  case (Cons row rows)
  have "nl \<notin> set (Join row [htab])" using plain_row_text[of row] Cons.prems by auto
  with Cons show ?case by (simp add: row_text_def SplitChar_append)
qed simp

lemma rows_without_formfeed:
  assumes "\<forall>row\<in>set rows. list_all plain_cell row"
  shows "formfeed \<notin> set (concat (map row_text rows))"
proof -
  have "formfeed \<notin> set (row_text row)" if "row \<in> set rows" for row
    using plain_row_text[of row] assms that by (auto simp: row_text_def formfeed_def)
  then show ?thesis by auto
qed

definition row_widths :: "nat \<Rightarrow> string list list \<Rightarrow> nat list" where
  "row_widths k rows = map (\<lambda>j. column_width j rows) [0..<k]"

lemma tabwriter_rows:
  assumes "\<forall>row\<in>set rows. list_all plain_cell row" "\<forall>row\<in>set rows. length row = Suc k"
  shows "tabwriter (concat (map row_text rows)) = map (write_cells (row_widths k rows)) rows @ [[]]"
proof -
  have "map line_cells (map (\<lambda>row. Join row [htab]) rows) = rows"
    using assms line_cells_row by (fastforce intro!: map_idI)
  moreover have "line_cells [] = [[]]" by (simp add: line_cells_def)
  ultimately show ?thesis
    using assms format_lines_rows[of "[]" k rows]
    by (simp add: tabwriter_def SplitChar_single[OF rows_without_formfeed] SplitChar_rows format_lines_snoc
        row_widths_def list_all_iff)
qed

text \<open>In every line the cell of a column begins at the same place, behind at least three spaces.\<close>

definition lined_up :: "string list list \<Rightarrow> string list \<Rightarrow> bool" where
  "lined_up rows lines \<longleftrightarrow>
     length lines = length rows \<and>
     (\<exists>starts. \<forall>i < length rows. \<forall>j < length (rows ! i).
        \<exists>before after. lines ! i = before @ rows ! i ! j @ after \<and> rune_count before = starts j \<and>
          (if j = 0 then before = [] else \<exists>rest. before = rest @ replicate table_padding space))"

lemma write_cells_at:
  assumes "length row = Suc (length ws)" "\<forall>j < length ws. rune_count (row ! j) + table_padding \<le> ws ! j" "j < length row"
  shows "\<exists>before after. write_cells ws row = before @ row ! j @ after \<and> rune_count before = sum_list (take j ws) \<and>
    (if j = 0 then before = [] else \<exists>rest. before = rest @ replicate table_padding space)"
  using assms
proof (induction ws row arbitrary: j rule: write_cells.induct)
  case (2 c cs)
  then show ?case by (intro exI[of _ "[]"] exI[of _ "[]"]) simp
next
  case (3 w ws c cs)
  let ?pad = "replicate (w - rune_count c) space"
  have w: "rune_count c + table_padding \<le> w" using "3.prems"(2)[rule_format, of 0] by simp
  have wide: "\<forall>j < length ws. rune_count (cs ! j) + table_padding \<le> ws ! j"
    using "3.prems"(2)[rule_format, of "Suc _"] by auto
  show ?case
  proof (cases j)
    case 0
    then show ?thesis by (intro exI[of _ "[]"] exI[of _ "?pad @ write_cells ws cs"]) simp
  next
    case (Suc i)
    then obtain before after where at: "write_cells ws cs = before @ cs ! i @ after"
      "rune_count before = sum_list (take i ws)" "if i = 0 then before = [] else \<exists>rest. before = rest @ replicate table_padding space"
      using "3.IH"[of i] "3.prems" wide by auto
    have "\<exists>rest. c @ ?pad @ before = rest @ replicate table_padding space"
    proof (cases "i = 0")
      case True
      with at(3) have "before = []" by simp
      moreover have "?pad = replicate (w - rune_count c - table_padding) space @ replicate table_padding space"
        using w by (simp flip: replicate_add)
      ultimately show ?thesis by auto
    next
      case False
      with at(3) show ?thesis by auto
    qed
    with at w Suc show ?thesis
      by (intro exI[of _ "c @ ?pad @ before"] exI[of _ after]) simp
  qed
qed simp

lemma column_width_covers: "row \<in> set rows \<Longrightarrow> rune_count (row ! j) + table_padding \<le> column_width j rows"
  unfolding column_width_def by (induction rows) auto

lemma rows_lined_up:
  assumes "\<forall>row\<in>set rows. list_all plain_cell row" "\<forall>row\<in>set rows. length row = Suc k"
  shows "\<exists>lines. table_lines (concat (map row_text rows)) = map (\<lambda>line. (''%s'', [Str line])) lines \<and> lined_up rows lines"
proof (intro exI conjI)
  let ?ws = "row_widths k rows"
  show "table_lines (concat (map row_text rows)) = map (\<lambda>line. (''%s'', [Str line])) (map (write_cells ?ws) rows)"
    by (simp add: table_lines_def tabwriter_rows[OF assms] del: map_map)
  show "lined_up rows (map (write_cells ?ws) rows)"
    unfolding lined_up_def
  proof (intro conjI exI[of _ "\<lambda>j. sum_list (take j ?ws)"] allI impI)
    fix i j assume i: "i < length rows" and j: "j < length (rows ! i)"
    have row: "length (rows ! i) = Suc (length ?ws)" using assms(2) i by (simp add: row_widths_def)
    have "\<forall>j < length ?ws. rune_count (rows ! i ! j) + table_padding \<le> ?ws ! j"
      using column_width_covers[of "rows ! i" rows] i by (auto simp: row_widths_def)
    from write_cells_at[OF row this j] i show "\<exists>before after. map (write_cells ?ws) rows ! i = before @ rows ! i ! j @ after \<and>
        rune_count before = sum_list (take j ?ws) \<and> (if j = 0 then before = [] else \<exists>rest. before = rest @ replicate table_padding space)" by simp
  qed simp
qed

section \<open>The tables of get\<close>

definition header_cells :: "bool \<Rightarrow> string \<Rightarrow> string list \<Rightarrow> string list \<Rightarrow> string list" where
  "header_cells every output cols wideCols =
     (if every then [''NAMESPACE''] else []) @ cols @ (if output = OutputWide then wideCols else [])"

definition repository_cells :: "texts \<Rightarrow> time \<Rightarrow> bool \<Rightarrow> string \<Rightarrow> repository \<Rightarrow> string list" where
  "repository_cells tx now every output r =
     (if every then [rp_Namespace r] else []) @
     [rp_Name r, orNone (rt_RepositoryID (rp_Status r)),
      ConditionStatus (rt_Conditions (rp_Status r)) RepositoryConditionReady,
      yesNo (rt_Initialized (rp_Status r)), orNone (rt_CurrentUsage (rp_Status r)),
      orNone (rt_Quota (rp_Status r)), Age tx now (om_CreationTimestamp (rp_Meta r))] @
     (if output = OutputWide then
        [orNone (rt_Server (rp_Status r)), orNone (rt_SecretName (rp_Status r)),
         yesNo (rt_Adopted (rp_Status r)), yesNo (rs_Suspend (rp_Spec r))]
      else [])"

definition backup_cells :: "texts \<Rightarrow> time \<Rightarrow> bool \<Rightarrow> string \<Rightarrow> scheduled_backup \<Rightarrow> string list" where
  "backup_cells tx now every output b =
     (if every then [sb_Namespace b] else []) @
     [sb_Name b, bs_RepositoryRef (sb_Spec b), orNone (bt_EffectiveSchedule (sb_Status b)),
      ConditionStatus (bt_Conditions (sb_Status b)) ScheduledBackupConditionReady,
      since_text tx now (bt_LastSuccessfulTime (sb_Status b)), yesNo (bs_Suspend (sb_Spec b)),
      Itoa (bt_Active (sb_Status b)), Age tx now (om_CreationTimestamp (sb_Meta b))] @
     (if output = OutputWide then [orNone (bs_TimeZone (sb_Spec b)), orNone (bs_ConcurrencyPolicy (sb_Spec b))] else [])"

definition repository_rows :: "texts \<Rightarrow> time \<Rightarrow> bool \<Rightarrow> string \<Rightarrow> repository list \<Rightarrow> string list list" where
  "repository_rows tx now every output items =
     header_cells every output
       [''NAME'', ''REPO ID'', ''READY'', ''INITIALIZED'', ''USAGE'', ''QUOTA'', ''AGE'']
       [''SERVER'', ''SECRET'', ''ADOPTED'', ''SUSPENDED''] #
     map (repository_cells tx now every output) items"

definition backup_rows :: "texts \<Rightarrow> time \<Rightarrow> bool \<Rightarrow> string \<Rightarrow> scheduled_backup list \<Rightarrow> string list list" where
  "backup_rows tx now every output items =
     header_cells every output
       [''NAME'', ''REPOSITORY'', ''SCHEDULE'', ''READY'', ''LAST BACKUP'', ''SUSPENDED'', ''ACTIVE'', ''AGE'']
       [''TIMEZONE'', ''CONCURRENCY''] #
     map (backup_cells tx now every output) items"

lemma repository_table_rows:
  "repository_table tx now every output items = concat (map row_text (repository_rows tx now every output items))"
proof -
  have "repository_row tx now every output = row_text \<circ> repository_cells tx now every output"
    by (rule ext) (simp add: repository_row_def row_text_def repository_cells_def namespace_text_def)
  then show ?thesis
    by (simp add: repository_table_def repository_rows_def header_text_def header_cells_def row_text_def)
qed

lemma backup_table_rows:
  "backup_table tx now every output items = concat (map row_text (backup_rows tx now every output items))"
proof -
  have "backup_row tx now every output = row_text \<circ> backup_cells tx now every output"
    by (rule ext) (simp add: backup_row_def row_text_def backup_cells_def namespace_text_def)
  then show ?thesis
    by (simp add: backup_table_def backup_rows_def header_text_def header_cells_def row_text_def)
qed

lemma table_row_lengths:
  "\<forall>row\<in>set (repository_rows tx now every output repos).
     length row = Suc (6 + (if every then 1 else 0) + (if output = OutputWide then 4 else 0))"
  "\<forall>row\<in>set (backup_rows tx now every output backups).
     length row = Suc (7 + (if every then 1 else 0) + (if output = OutputWide then 2 else 0))"
  by (auto simp: repository_rows_def backup_rows_def header_cells_def repository_cells_def backup_cells_def)

text \<open>
  C35. The tables of \<open>corg get\<close>. Whatever is listed, in the narrow or the wide format, for one
  namespace or for all: as long as no text of the objects contains a tab or a line end, every
  object is one line, all lines have the cells of the header, and in all of them the cell of a
  column begins at the same place, at least three spaces behind the one before.
\<close>

theorem tables_line_up:
  assumes "\<forall>row\<in>set (repository_rows tx now every output repos). list_all plain_cell row"
    and "\<forall>row\<in>set (backup_rows tx now every output backups). list_all plain_cell row"
  shows "(\<exists>lines. table_lines (repository_table tx now every output repos) = map (\<lambda>line. (''%s'', [Str line])) lines \<and>
      lined_up (repository_rows tx now every output repos) lines) \<and>
    (\<exists>lines. table_lines (backup_table tx now every output backups) = map (\<lambda>line. (''%s'', [Str line])) lines \<and>
      lined_up (backup_rows tx now every output backups) lines)"
  unfolding repository_table_rows backup_table_rows
  by (intro conjI rows_lined_up[OF assms(1) table_row_lengths(1)] rows_lined_up[OF assms(2) table_row_lengths(2)])

definition plain_texts :: texts where
  "plain_texts =
     \<lparr>tx_Sprintf = fst, tx_HumanDuration = DurationString, tx_JSON = (\<lambda>_. Inr ''{}''), tx_YAML = (\<lambda>_. Inr ''{}'')\<rparr>"

theorem tables_line_up_witness:
  "\<exists>lines. table_lines (backup_table plain_texts 0 True OutputWide [sample_backup, sample_backup]) =
      map (\<lambda>line. (''%s'', [Str line])) lines \<and>
    lined_up (backup_rows plain_texts 0 True OutputWide [sample_backup, sample_backup]) lines"
proof -
  have "list_all (list_all plain_cell) (repository_rows plain_texts 0 True OutputWide [sample_repository])"
    "list_all (list_all plain_cell) (backup_rows plain_texts 0 True OutputWide [sample_backup, sample_backup])"
    by code_simp+
  then have "\<forall>row\<in>set (repository_rows plain_texts 0 True OutputWide [sample_repository]). list_all plain_cell row"
    "\<forall>row\<in>set (backup_rows plain_texts 0 True OutputWide [sample_backup, sample_backup]). list_all plain_cell row"
    by (simp_all only: list_all_iff[of "list_all plain_cell"])
  from tables_line_up[OF this] show ?thesis by blast
qed

section \<open>What get prints\<close>

text \<open>A way to read off the world what was printed, which the clock leaves alone.\<close>

definition recording :: "'w cli \<Rightarrow> ('w \<Rightarrow> message list) \<Rightarrow> bool" where
  "recording c printed \<longleftrightarrow>
     (\<forall>out m w. \<exists>w'. c_Print c out m w = (Inr (), w') \<and> printed w' = printed w @ [m]) \<and>
     (\<forall>w. printed (snd (k_Now (c_Kube c) w)) = printed w)"

lemma wp_recorded:
  assumes "recording c printed"
    and "\<And>w. printed w = printed (st_World s) @ ls \<Longrightarrow> Q None (s\<lparr>st_World := w\<rparr>)"
  shows "wp (print_lines c Out ls None) Q E s"
  using assms(2)
proof (induction ls arbitrary: s)
  case Nil
  then show ?case using Nil[of "st_World s"] by (simp add: wp_simps)
next
  case (Cons l ls)
  obtain w where w: "c_Print c Out l (st_World s) = (Inr (), w)" "printed w = printed (st_World s) @ [l]"
    using assms(1) unfolding recording_def by blast
  with Cons.prems Cons.IH[of "s\<lparr>st_World := w\<rparr>"] show ?case
    by (cases l) (simp add: p_printf_def wp_simps error_of_def)
qed

definition printed_repositories :: "texts \<Rightarrow> time \<Rightarrow> bool \<Rightarrow> string \<Rightarrow> repository list \<Rightarrow> message list" where
  "printed_repositories tx now every output repos =
     (if repos = [] then []
      else if output = OutputName then map (\<lambda>r. (''repository.borgbase.clevyr.com/%s'', [Str (rp_Name r)])) repos
      else table_lines (repository_table tx now every output repos))"

definition printed_backups :: "texts \<Rightarrow> time \<Rightarrow> bool \<Rightarrow> string \<Rightarrow> scheduled_backup list \<Rightarrow> message list" where
  "printed_backups tx now every output backups =
     (if backups = [] then []
      else if output = OutputName then map (\<lambda>b. (''scheduledbackup.borgbase.clevyr.com/%s'', [Str (sb_Name b)])) backups
      else table_lines (backup_table tx now every output backups))"

definition get_lines :: "texts \<Rightarrow> time \<Rightarrow> time \<Rightarrow> string \<Rightarrow> bool \<Rightarrow> string \<Rightarrow> repository list \<Rightarrow> scheduled_backup list \<Rightarrow> message list" where
  "get_lines tx now now' ns every output repos backups =
     (if repos = [] \<and> backups = [] then [nothing_found ns every]
      else printed_repositories tx now every output repos @
        (if repos \<noteq> [] \<and> backups \<noteq> [] then [('''', [])] else []) @
        printed_backups tx now' every output backups)"

lemma get_lines_nothing [simp]: "get_lines tx now now' ns every output [] [] = [nothing_found ns every]"
  by (simp add: get_lines_def)

lemma wp_printRepositories:
  assumes "recording c printed" "repos \<noteq> []"
    and "\<And>w now. printed w = printed (st_World s) @ printed_repositories tx now every output repos \<Longrightarrow> Q () (s\<lparr>st_World := w\<rparr>)"
  shows "wp (printRepositories tx c repos every output) Q E s"
proof (cases "output = OutputName")
  case True
  with assms show ?thesis
    by (auto simp: printRepositories_def newPrinter_def wp_bind p_Err_def wp_ret printed_repositories_def
        simp del: print_lines.simps intro!: wp_recorded[OF assms(1)])
next
  case False
  have "printed w = printed (st_World s)" if "k_Now (c_Kube c) (st_World s) = (now, w)" for now w
    using assms(1) that unfolding recording_def by (metis snd_conv)
  with False assms show ?thesis
    by (auto simp: printRepositories_def newPrinter_def wp_bind wp_tick p_Err_def wp_ret printed_repositories_def
        split: prod.split simp del: print_lines.simps intro!: wp_recorded[OF assms(1)])
qed

lemma wp_printScheduledBackups:
  assumes "recording c printed" "backups \<noteq> []"
    and "\<And>w now. printed w = printed (st_World s) @ printed_backups tx now every output backups \<Longrightarrow> Q () (s\<lparr>st_World := w\<rparr>)"
  shows "wp (printScheduledBackups tx c backups every output) Q E s"
proof (cases "output = OutputName")
  case True
  with assms show ?thesis
    by (auto simp: printScheduledBackups_def newPrinter_def wp_bind p_Err_def wp_ret printed_backups_def
        simp del: print_lines.simps intro!: wp_recorded[OF assms(1)])
next
  case False
  have "printed w = printed (st_World s)" if "k_Now (c_Kube c) (st_World s) = (now, w)" for now w
    using assms(1) that unfolding recording_def by (metis snd_conv)
  with False assms show ?thesis
    by (auto simp: printScheduledBackups_def newPrinter_def wp_bind wp_tick p_Err_def wp_ret printed_backups_def
        split: prod.split simp del: print_lines.simps intro!: wp_recorded[OF assms(1)])
qed

lemma wp_recorded_line:
  assumes "recording c printed"
    and "\<And>w. printed w = printed (st_World s) @ [(fmt, args)] \<Longrightarrow> Q None (s\<lparr>st_World := w\<rparr>)"
  shows "wp (p_printf c Out fmt args None) Q E s"
proof -
  have "(\<lambda>a. wp (ret a) Q E) = Q" by (intro ext) (simp add: wp_ret)
  then show ?thesis using wp_recorded[OF assms(1), of s "[(fmt, args)]" Q E] assms(2) by (simp add: wp_bind)
qed

lemma listed_kinds:
  assumes "kindsToList args = Inr kinds" "list_kinds c ns kinds ([], []) s = (Inr (repos, backups), t)"
  shows "kinds = [TargetRepository, TargetScheduledBackup] \<or>
    (kinds = [TargetRepository] \<and> backups = []) \<or> (kinds = [TargetScheduledBackup] \<and> repos = [])"
proof -
  have "kinds = [TargetRepository, TargetScheduledBackup] \<or> (\<exists>kind. kinds = [kind])"
    using assms(1) by (auto simp: kindsToList_def split: list.splits option.splits)
  with assms(2) show ?thesis
    by (auto simp: bind_go_def ret_def split: if_splits prod.splits sum.splits) (metis target_kind.exhaust)+
qed

lemma wp_print_kinds:
  assumes "recording c printed"
    and "kinds = [TargetRepository, TargetScheduledBackup] \<or>
      (kinds = [TargetRepository] \<and> backups = []) \<or> (kinds = [TargetScheduledBackup] \<and> repos = [])"
    and Q: "\<And>w nothing. nothing \<longleftrightarrow> repos = [] \<and> backups = [] \<Longrightarrow>
      (\<exists>now now'. printed w = printed (st_World s) @
        (if repos = [] \<and> backups = [] then [] else get_lines tx now now' ns every output repos backups)) \<Longrightarrow>
      Q (nothing, None) (s\<lparr>st_World := w\<rparr>)"
  shows "wp (print_kinds tx c every output repos backups kinds True None) Q E s"
proof -
  note prints = wp_printRepositories[OF assms(1)] wp_printScheduledBackups[OF assms(1)] wp_recorded_line[OF assms(1)]
  have none: "printed_repositories tx now every output [] = []" "printed_backups tx now every output [] = []" for now
    by (simp_all add: printed_repositories_def printed_backups_def)
  consider "repos = []" "backups = []" | "repos = []" "backups \<noteq> []" "TargetScheduledBackup \<in> set kinds"
    | "repos \<noteq> []" "backups = []" "TargetRepository \<in> set kinds"
    | "repos \<noteq> []" "backups \<noteq> []" "kinds = [TargetRepository, TargetScheduledBackup]"
    using assms(2) by (cases "repos = []"; cases "backups = []") auto
  then show ?thesis
  proof cases
    case 1
    then show ?thesis using assms(2) Q[of True "st_World s"] by (auto simp: wp_ret)
  next
    case 2
    then show ?thesis using assms(2) by (auto simp: wp_bind wp_ret none get_lines_def intro!: prints Q) blast+
  next
    case 3
    then show ?thesis using assms(2) by (auto simp: wp_bind wp_ret none get_lines_def intro!: prints Q) blast+
  next
    case 4
    then show ?thesis by (auto simp: wp_bind wp_ret get_lines_def intro!: prints Q) (blast+)?
  qed
qed

lemma bind_lift: "bind_go (lift (Inr a)) f = f a"
  by (rule ext) (simp add: bind_go_def lift_def)

text \<open>
  C34. What \<open>corg get\<close> prints. When the objects of the kinds asked for can be listed and output
  works, the command succeeds, and what it prints is the table, or the names, of the
  repositories and of the backups, with an empty line between the two, or the one line
  that says that there is nothing, exactly if there is neither.
\<close>

theorem get_prints_what_there_is:
  assumes "recording c printed" "kindsToList args = Inr kinds"
    and "list_kinds c ns kinds ([], []) s = (Inr (repos, backups), t)"
    and "output \<in> {OutputTable, OutputWide, OutputName}"
  shows "\<exists>now now' u. get_command tx c ns every output args s = (Inr (), u) \<and>
    printed (st_World u) = printed (st_World t) @ get_lines tx now now' ns every output repos backups"
proof -
  let ?printed = "\<lambda>s'. \<exists>now now'. printed (st_World s') = printed (st_World t) @ get_lines tx now now' ns every output repos backups"
  have "ValidateOutput output = Inr ()" "\<not> IsMachineOutput output"
    using assms(4) by (auto simp: ValidateOutput_def IsMachineOutput_def OutputTable_def OutputWide_def OutputName_def
        OutputJSON_def OutputYAML_def)
  then have "get_command tx c ns every output args s =
      bind_go (print_kinds tx c every output repos backups kinds True None) (\<lambda>(nothing, p).
        bind_go (if nothing then print_lines c Out [nothing_found ns every] p else ret p) p_Err) t"
    using assms(2,3) by (simp add: get_command_def runGet_def newPrinter_def bind_lift
        bind_go_def[of "list_kinds c ns kinds ([], [])"])
  moreover have "wp (bind_go (print_kinds tx c every output repos backups kinds True None) (\<lambda>(nothing, p).
        bind_go (if nothing then print_lines c Out [nothing_found ns every] p else ret p) p_Err))
      (\<lambda>_. ?printed) (\<lambda>_ _. False) t"
    unfolding wp_bind
    by (rule wp_print_kinds[OF assms(1) listed_kinds[OF assms(2,3)], where ns = ns])
      (auto simp: wp_bind wp_ret p_Err_def get_lines_nothing simp del: print_lines.simps intro!: wp_recorded[OF assms(1)], blast+)
  ultimately show ?thesis by (auto simp: wp_def split: prod.splits sum.splits)
qed

text \<open>A world that is what was printed, and a cluster with one Repository and one backup.\<close>

definition paper_cli :: "message list cli" where
  "paper_cli = (plain_cli (empty_cluster\<lparr>k_ListBackups := \<lambda>_. ret [sample_backup]\<rparr>))
     \<lparr>c_ListRepositories := \<lambda>_. ret [sample_repository], c_Print := \<lambda>_ m w. (Inr (), w @ [m])\<rparr>"

theorem get_prints_what_there_is_witness:
  "st_World (snd (get_command plain_texts paper_cli ''app'' False ''name'' [] (start () []))) =
    [(''repository.borgbase.clevyr.com/%s'', [Str ''backups'']), ('''', []),
     (''scheduledbackup.borgbase.clevyr.com/%s'', [Str ''nightly''])]"
proof -
  have "recording paper_cli id" by (simp add: recording_def paper_cli_def plain_cli_def empty_cluster_def)
  moreover have "list_kinds paper_cli ''app'' [TargetRepository, TargetScheduledBackup] ([], []) (start () []) =
      (Inr ([sample_repository], [sample_backup]), start () [])" by code_simp
  ultimately obtain now now' u where "get_command plain_texts paper_cli ''app'' False ''name'' [] (start () []) = (Inr (), u)"
    "id (st_World u) = id (st_World (start () [])) @ get_lines plain_texts now now' ''app'' False ''name'' [sample_repository] [sample_backup]"
    using get_prints_what_there_is[of paper_cli id "[]" "[TargetRepository, TargetScheduledBackup]" "''app''" "start () []"
        "[sample_repository]" "[sample_backup]" "start () []" "''name''" plain_texts False]
    by (auto simp: kindsToList_def OutputName_def)
  then show ?thesis
    by (simp add: get_lines_def printed_repositories_def printed_backups_def OutputName_def sample_repository_def
        sample_backup_def start_def)
qed

section \<open>The runs of status\<close>

text \<open>What \<open>status\<close> calls a run is what the operator records of it, with the running runs
  told apart by whether a pod is active.\<close>

lemma status_agrees_with_history:
  "runResult j =
     (case run_Result (obs_Run (runFromJob j)) of
        BackupRunSucceeded \<Rightarrow> ''succeeded''
      | BackupRunFailed \<Rightarrow> ''failed''
      | BackupRunRunning \<Rightarrow> if 0 < jst_Active (job_Status j) then ''running'' else ''pending'')"
  by (simp add: runResult_def runFromJob_def withResult_def Let_def)

lemma shown_runs_prefix: "\<exists>hidden. jobs = shown_runs limit jobs @ hidden"
  by (auto simp: shown_runs_def intro: exI[of _ "drop (nat limit) jobs"] simp flip: append_take_drop_id)

lemma shown_runs_newest:
  assumes "j \<in> set (shown_runs limit (SortStableFunc newest_first jobs))"
    and "h \<in> set jobs" "h \<notin> set (shown_runs limit (SortStableFunc newest_first jobs))"
  shows "jobStart h \<le> jobStart j"
proof -
  obtain hidden where all: "SortStableFunc newest_first jobs = shown_runs limit (SortStableFunc newest_first jobs) @ hidden"
    using shown_runs_prefix by blast
  have "set (SortStableFunc newest_first jobs) = set jobs" by (rule set_SortStableFunc)
  with all assms(2,3) have "h \<in> set hidden" by (metis Un_iff set_append)
  moreover have "sorted_wrt (\<lambda>a b. newest_first a b \<le> 0) (shown_runs limit (SortStableFunc newest_first jobs) @ hidden)"
    using jobs_newest.sorted_SortStableFunc[of jobs] all by metis
  ultimately have "newest_first j h \<le> 0" using assms(1) by (simp add: sorted_wrt_append)
  then show ?thesis by (auto simp: newest_first_def split: if_splits)
qed

end
