(* ===== verification/Wiring.thy ===== *)
theory Wiring
  imports Cli RepositoryController ScheduledBackupController
begin

text \<open>
  How the programs are put together: the flags of the operator and the reconcilers made from
  them (\<open>cmd/main.go\<close>), the map from a Repository to the backups to reconcile
  (\<open>SetupWithManager\<close> of \<open>scheduledbackup_controller.go\<close>), the clients of the command line
  (\<open>internal/cli/factory.go\<close>), its name and its commands (\<open>root.go\<close>, \<open>version.go\<close>) and its exit
  status (\<open>cmd/kubectl-corg/main.go\<close>).
\<close>

section \<open>The operator\<close>

definition defaultBackupImage :: string where "defaultBackupImage = ''ghcr.io/clevyr/restic:0.18.1''"

definition parseNamespacedName :: "string \<Rightarrow> string \<Rightarrow> goerr + nsname" where
  "parseNamespacedName s defaultNS =
     (case Cut s ''/'' of
        None \<Rightarrow>
          if defaultNS = '''' then
            Inl (Errorf ''%q has no namespace and POD_NAMESPACE is unset; use namespace/name'' [Str s])
          else Inr (NN defaultNS s)
      | Some (ns, name) \<Rightarrow>
          if ns = '''' \<or> name = '''' then Inl (Errorf ''expected namespace/name, got %q'' [Str s])
          else Inr (NN ns name))"

record operator_flags =
  fl_APITokenSecret :: string
  fl_APITokenKey :: string
  fl_BackupImage :: string
  fl_CacheStorageClass :: string
  fl_Endpoint :: string
  fl_HealthchecksEnabled :: bool
  fl_HealthchecksAPIURL :: string
  fl_HealthchecksAutoCreate :: bool

definition default_flags :: operator_flags where
  "default_flags =
     \<lparr>fl_APITokenSecret = ''borgbase-api'', fl_APITokenKey = ''token'',
      fl_BackupImage = defaultBackupImage, fl_CacheStorageClass = '''', fl_Endpoint = '''',
      fl_HealthchecksEnabled = True, fl_HealthchecksAPIURL = ''http://healthchecks.healthchecks:8000/ping'',
      fl_HealthchecksAutoCreate = True\<rparr>"

text \<open>The selector of the cache: of the Jobs and CronJobs of the cluster the client of the
  reconcilers sees those with the label.\<close>

definition managedByOperator :: "string gomap \<Rightarrow> bool" where
  "managedByOperator labels \<longleftrightarrow> map_of labels ''app.kubernetes.io/managed-by'' = Some ''borgbase-operator''"

definition repository_reconciler_of ::
  "operator_flags \<Rightarrow> nsname \<Rightarrow> 'w cluster \<Rightarrow> lib \<Rightarrow> 'w repository_reconciler" where
  "repository_reconciler_of fl tokenSecret k l =
     \<lparr>rr_Client = k, rr_Lib = l, rr_NewAPI = None, rr_DefaultTokenSecret = tokenSecret,
      rr_DefaultTokenKey = fl_APITokenKey fl, rr_BackupImage = fl_BackupImage fl,
      rr_HasAPIReader = True, rr_Endpoint = fl_Endpoint fl\<rparr>"

definition backup_config_of :: "operator_flags \<Rightarrow> backup_config" where
  "backup_config_of fl =
     \<lparr>bc_Image = fl_BackupImage fl,
      bc_Healthchecks = \<lparr>hcc_Enabled = fl_HealthchecksEnabled fl, hcc_APIURL = fl_HealthchecksAPIURL fl,
        hcc_AutoCreate = fl_HealthchecksAutoCreate fl\<rparr>,
      bc_CacheStorageClass = fl_CacheStorageClass fl\<rparr>"

definition operator_main ::
  "operator_flags \<Rightarrow> string \<Rightarrow> 'w cluster \<Rightarrow> lib \<Rightarrow> goerr + 'w repository_reconciler \<times> 'w backup_reconciler" where
  "operator_main fl podNamespace k l =
     (case parseNamespacedName (fl_APITokenSecret fl) podNamespace of
        Inl e \<Rightarrow> Inl e
      | Inr tokenSecret \<Rightarrow>
          Inr (repository_reconciler_of fl tokenSecret k l,
               \<lparr>br_Client = k, br_Lib = l, br_Config = backup_config_of fl\<rparr>))"

text \<open>The cache behind \<open>MatchingFields\<close>: the ScheduledBackups of a namespace whose index has the name.\<close>

definition indexed_backups :: "'w cluster \<Rightarrow> nsname \<Rightarrow> ('w, scheduled_backup list) go" where
  "indexed_backups k key =
     bind_go (k_ListBackups k (nn_Namespace key)) (\<lambda>items.
     ret (filter (\<lambda>b. nn_Name key \<in> set (repositoryRefIndex b)) items))"

section \<open>The clients of the command line\<close>

text \<open>What \<open>sync.Once\<close> guards: a value made at the first use and kept, with its error.\<close>

record ('cfg, 'cl, 'cs) factory =
  fa_restConfig :: "(goerr + 'cfg) option"
  fa_client :: "(goerr + 'cl) option"
  fa_clientset :: "(goerr + 'cs) option"
  fa_allNamespaces :: bool
  fa_interactive :: "bool option"

record ('w, 'cfg, 'cl, 'cs) connections =
  cn_RESTConfig :: "('w, 'cfg) go"
  cn_Client :: "'cfg \<Rightarrow> ('w, 'cl) go"
  cn_Clientset :: "'cfg \<Rightarrow> ('w, 'cs) go"
  cn_Namespace :: "('w, string) go"
  cn_IsTerminal :: bool

definition NewFactory :: "('cfg, 'cl, 'cs) factory" where
  "NewFactory = \<lparr>fa_restConfig = None, fa_client = None, fa_clientset = None, fa_allNamespaces = False,
     fa_interactive = None\<rparr>"

definition RESTConfig ::
  "('w, 'cfg, 'cl, 'cs) connections \<Rightarrow> (('cfg, 'cl, 'cs) factory \<times> 'w, 'cfg) go" where
  "RESTConfig cn = (\<lambda>(f, w).
     case fa_restConfig f of
       Some r \<Rightarrow> (r, (f, w))
     | None \<Rightarrow> (case cn_RESTConfig cn w of (r, v) \<Rightarrow> (r, (f\<lparr>fa_restConfig := Some r\<rparr>, v))))"

definition Client ::
  "('w, 'cfg, 'cl, 'cs) connections \<Rightarrow> (('cfg, 'cl, 'cs) factory \<times> 'w, 'cl) go" where
  "Client cn = (\<lambda>(f, w).
     case fa_client f of
       Some r \<Rightarrow> (r, (f, w))
     | None \<Rightarrow>
         (case RESTConfig cn (f, w) of
            (Inl e, (f, v)) \<Rightarrow> (Inl e, (f\<lparr>fa_client := Some (Inl e)\<rparr>, v))
          | (Inr cfg, (f, v)) \<Rightarrow>
              (case cn_Client cn cfg v of (r, u) \<Rightarrow> (r, (f\<lparr>fa_client := Some r\<rparr>, u)))))"

definition Clientset ::
  "('w, 'cfg, 'cl, 'cs) connections \<Rightarrow> (('cfg, 'cl, 'cs) factory \<times> 'w, 'cs) go" where
  "Clientset cn = (\<lambda>(f, w).
     case fa_clientset f of
       Some r \<Rightarrow> (r, (f, w))
     | None \<Rightarrow>
         (case RESTConfig cn (f, w) of
            (Inl e, (f, v)) \<Rightarrow> (Inl e, (f\<lparr>fa_clientset := Some (Inl e)\<rparr>, v))
          | (Inr cfg, (f, v)) \<Rightarrow>
              (case cn_Clientset cn cfg v of (r, u) \<Rightarrow> (r, (f\<lparr>fa_clientset := Some r\<rparr>, u)))))"

definition ListNamespace ::
  "('w, 'cfg, 'cl, 'cs) connections \<Rightarrow> (('cfg, 'cl, 'cs) factory \<times> 'w, string) go" where
  "ListNamespace cn = (\<lambda>(f, w).
     if fa_allNamespaces f then (Inr '''', (f, w))
     else (case cn_Namespace cn w of (r, v) \<Rightarrow> (r, (f, v))))"

definition Interactive :: "('w, 'cfg, 'cl, 'cs) connections \<Rightarrow> ('cfg, 'cl, 'cs) factory \<Rightarrow> bool" where
  "Interactive cn f = (case fa_interactive f of Some b \<Rightarrow> b | None \<Rightarrow> cn_IsTerminal cn)"

section \<open>The root command\<close>

text \<open>\<open>filepath.Base\<close>.\<close>

definition PathBase :: "string \<Rightarrow> string" where
  "PathBase path =
     (if path = '''' then ''.''
      else (let name = last (SplitChar (TrimRight path ''/'') (CHR ''/''))
            in if name = '''' then ''/'' else name))"

definition pluginPrefix :: string where "pluginPrefix = ''kubectl-''"

definition DisplayName :: "string \<Rightarrow> string" where
  "DisplayName argv0 =
     (case CutPrefix (TrimSuffix (PathBase argv0) ''.exe'') pluginPrefix of
        Some name \<Rightarrow> ''kubectl '' @ ReplaceAll ''_'' ''-'' name
      | None \<Rightarrow> ''corg'')"

definition root_use :: "string \<Rightarrow> string" where
  "root_use display = (case CutPrefix display ''kubectl '' of Some after \<Rightarrow> after | None \<Rightarrow> display)"

definition GroupInspect :: string where "GroupInspect = ''inspect''"
definition GroupRun :: string where "GroupRun = ''run''"
definition GroupSnapshots :: string where "GroupSnapshots = ''snapshots''"
definition GroupMaintenance :: string where "GroupMaintenance = ''maintenance''"
definition GroupLifecycle :: string where "GroupLifecycle = ''lifecycle''"
definition GroupEscape :: string where "GroupEscape = ''escape''"
definition GroupDevelopment :: string where "GroupDevelopment = ''development''"

text \<open>The subcommands in the order they are added, each with its group; \<open>version\<close> has none.\<close>

definition subcommands :: "(string \<times> string) list" where
  "subcommands =
     [(''backup'', GroupRun), (''cancel'', GroupRun), (''wait'', GroupRun),
      (''doctor'', GroupInspect), (''get'', GroupInspect), (''logs'', GroupInspect), (''status'', GroupInspect),
      (''suspend'', GroupLifecycle), (''resume'', GroupLifecycle), (''reinit'', GroupLifecycle),
      (''rotate-password'', GroupLifecycle), (''env'', GroupEscape),
      (''snapshots'', GroupSnapshots), (''restore'', GroupSnapshots),
      (''unlock'', GroupMaintenance), (''check'', GroupMaintenance), (''prune'', GroupMaintenance),
      (''stats'', GroupMaintenance), (''shell'', GroupEscape), (''exec'', GroupEscape),
      (''render'', GroupDevelopment), (''validate'', GroupDevelopment), (''migrate'', GroupDevelopment),
      (''parity'', GroupDevelopment), (''version'', '''')]"

definition groupOrder :: "(string \<times> string) list" where
  "groupOrder =
     [(GroupInspect, ''Inspect:''), (GroupRun, ''Run:''), (GroupSnapshots, ''Snapshots and restore:''),
      (GroupMaintenance, ''Maintenance:''), (GroupLifecycle, ''Lifecycle:''),
      (GroupEscape, ''Escape hatch:''), (GroupDevelopment, ''Development:'')]"

definition added_groups :: "(string \<times> string) list" where
  "added_groups =
     (let used = filter (\<lambda>g. g \<noteq> '''') (map snd subcommands)
      in filter (\<lambda>(g, _). g \<in> set used) groupOrder)"

text \<open>The version that was linked in, or that of the main module.\<close>

definition Version :: "string \<Rightarrow> string option \<Rightarrow> string" where
  "Version linked built =
     (if linked \<noteq> '''' then linked
      else (case built of
          Some v \<Rightarrow> if v \<noteq> '''' then v else ''unknown''
        | None \<Rightarrow> ''unknown''))"

text \<open>The exit status of \<open>corg\<close> and what it says on the error stream.\<close>

definition corg_exit :: "goerr + unit \<Rightarrow> int \<times> message list" where
  "corg_exit r =
     (case r of
        Inr _ \<Rightarrow> (0, [])
      | Inl e \<Rightarrow> if err_is e Canceled then (130, []) else (1, [(''error: %v'', [Err e])]))"

section \<open>What follows\<close>

text \<open>Kubectl finds the plugin by its name, whatever directory it lies in.\<close>

lemma PathBase_file:
  assumes "CHR ''/'' \<notin> set name" "name \<noteq> ''''"
  shows "PathBase (dir @ ''/'' @ name) = name" "PathBase name = name"
proof -
  have "last name \<noteq> CHR ''/''" using assms last_in_set by metis
  then have "TrimRight (dir @ ''/'' @ name) ''/'' = dir @ ''/'' @ name" "TrimRight name ''/'' = name"
    using assms(2) by (auto intro: TrimRight_same)
  then show "PathBase (dir @ ''/'' @ name) = name" "PathBase name = name"
    using assms by (simp_all add: PathBase_def SplitChar_line SplitChar_single)
qed

lemma plugin_name:
  assumes "CHR ''/'' \<notin> set name" "CutSuffix (''kubectl-'' @ name) ''.exe'' = None"
  shows "DisplayName (dir @ ''/kubectl-'' @ name) = ''kubectl '' @ ReplaceAll ''_'' ''-'' name"
  using PathBase_file(1)[of "''kubectl-'' @ name" dir] assms
  by (simp add: DisplayName_def TrimSuffix_def pluginPrefix_def)

text \<open>Every command finds its group, without which the command library gives up, and no two
  have the same name.\<close>

lemma every_command_has_its_group:
  "\<forall>(name, g) \<in> set subcommands. g = '''' \<or> g \<in> set (map fst added_groups)"
  "distinct (map fst subcommands)"
  by code_simp+

text \<open>The kubeconfig is read once for a command and its outcome stays the same.\<close>

lemma RESTConfig_once:
  "RESTConfig cn s = (r, (f, w)) \<Longrightarrow> RESTConfig cn (f, v) = (r, (f, v))"
  by (auto simp: RESTConfig_def split: prod.splits option.splits)

lemma Client_once: "Client cn s = (r, (f, w)) \<Longrightarrow> Client cn (f, v) = (r, (f, v))"
  by (auto simp: Client_def split: prod.splits option.splits sum.splits)

lemma clients_share_the_config:
  assumes "Client cn (NewFactory, w) = (r, (f, v))" "Clientset cn (f, v) = (r', (f', u))"
  shows "fa_restConfig f' = Some (fst (cn_RESTConfig cn w))"
  using assms
  by (auto simp: Client_def Clientset_def RESTConfig_def NewFactory_def split: prod.splits sum.splits option.splits)

end
