(* ===== verification/WiringContracts.thy ===== *)
theory WiringContracts
  imports Wiring RepositoryContracts BackupContracts RunnerContracts
begin

text \<open>
  What the parts promise each other once they are put together: the operator's client sees
  only the Jobs and CronJobs with a label, and everything the operator makes has it; a change
  of a Repository wakes exactly the backups that refer to it.
\<close>

section \<open>The operator sees what it makes\<close>

definition job_seen :: "'o entry \<Rightarrow> bool" where
  "job_seen e \<longleftrightarrow> (case en_Effect e of CreateJob j \<Rightarrow> managedByOperator (om_Labels (job_Meta j)) | _ \<Rightarrow> True)"

definition cronjob_seen :: "'o entry \<Rightarrow> bool" where
  "cronjob_seen e \<longleftrightarrow>
     (\<forall>c. en_Effect e \<in> {CreateCronJob c, UpdateCronJob c} \<longrightarrow>
        managedByOperator (om_Labels (cj_Meta c)) \<and> managedByOperator (jt_Labels (cs_JobTemplate (cj_Spec c))))"

abbreviation seen :: "'o entry \<Rightarrow> bool" where "seen e \<equiv> job_seen e \<and> cronjob_seen e"

lemma job_seen_other: "\<not> is_CreateJob (en_Effect e) \<Longrightarrow> job_seen e"
  by (auto simp: job_seen_def split: effect.splits)

lemma cronjob_seen_other:
  "\<not> is_CreateCronJob (en_Effect e) \<Longrightarrow> \<not> is_UpdateCronJob (en_Effect e) \<Longrightarrow> cronjob_seen e"
  by (auto simp: cronjob_seen_def)

lemma controlled_labels:
  assumes "controller_laws l" "SetControllerReference l owner m = Inr m'" "om_OwnerReferences m = []"
  shows "om_Labels m' = om_Labels m"
proof -
  obtain ref where "m' = m\<lparr>om_OwnerReferences := [ref]\<rparr>"
    using assms unfolding controller_laws_def by blast
  then show ?thesis by simp
qed

lemma managed_labels:
  "managedByOperator (commonLabels sb)" "managedByOperator (map_put LabelTrigger TriggerManual (commonLabels sb))"
  by (simp_all add: managedByOperator_def commonLabels_def map_put_def labelName_def backup_labelManagedBy_def
      backup_managedByValue_def LabelTrigger_def)

lemma template_labels: "BuildJobTemplate sb repo cfg = Inr tmpl \<Longrightarrow> jt_Labels tmpl = commonLabels sb"
  by (auto simp: BuildJobTemplate_def Let_def split: sum.splits prod.splits if_splits)

lemma manual_job_labels:
  "BuildManualJob sb repo cfg t = Inr j \<Longrightarrow>
   managedByOperator (om_Labels (job_Meta j)) \<and> om_OwnerReferences (job_Meta j) = []"
  using template_labels managed_labels(2)[of sb] by (auto simp: BuildManualJob_def split: sum.splits)

lemma cronjob_labels:
  "BuildCronJob sb repo cfg = Inr c \<Longrightarrow>
   managedByOperator (om_Labels (cj_Meta c)) \<and> managedByOperator (jt_Labels (cs_JobTemplate (cj_Spec c))) \<and>
   om_OwnerReferences (cj_Meta c) = []"
  using template_labels managed_labels(1)[of sb] by (auto simp: BuildCronJob_def split: sum.splits)

lemma init_job_labels:
  "managedByOperator (om_Labels (job_Meta (buildInitJob r repo name)))"
  "om_OwnerReferences (job_Meta (buildInitJob r repo name)) = []"
  by (simp_all add: buildInitJob_def managedByOperator_def labelManagedBy_def managedByValue_def)

lemma built_for_seen:
  assumes "controller_laws (br_Lib r)" "cronjob_ok r e"
  shows "cronjob_seen e"
proof -
  have "managedByOperator (om_Labels (cj_Meta c)) \<and> managedByOperator (jt_Labels (cs_JobTemplate (cj_Spec c)))"
    if "built_for r sb c" for sb c
    using that controlled_labels[OF assms(1)] cronjob_labels unfolding built_for_def by metis
  with assms(2) show ?thesis by (auto simp: cronjob_ok_def cronjob_seen_def split: effect.splits)
qed

lemma job_seen_startManualJob:
  assumes "controller_laws (br_Lib r)"
  shows "emits job_seen (startManualJob r repo t)"
proof -
  have "job_seen \<lparr>en_Effect = CreateJob (j\<lparr>job_Meta := m\<rparr>), en_Object = obj, en_Error = err\<rparr>"
    if "BuildManualJob sb repo cfg t = Inr j" "SetControllerReference (br_Lib r) owner (job_Meta j) = Inr m"
    for sb cfg j m obj err owner
    using controlled_labels[OF assms that(2)] manual_job_labels[OF that(1)] by (simp add: job_seen_def)
  then show ?thesis
    unfolding startManualJob_def record_trigger_def Let_def
    by (intro emits_bind[OF emits_get_obj] emits_bind_lift emits_bind[OF emits_attempt[OF emits_call]])
      (auto intro!: quiet_rules simp: job_seen_other)
qed

lemma job_seen_backup:
  assumes "controller_laws (br_Lib r)"
  shows "emits job_seen (Reconcile_backup r req)"
proof -
  note emits_reconcileTrigger [quiet_rules del] and emits_finish_schedule [quiet_rules del]
  have "emits job_seen (reconcileTrigger r repo runs)" for repo runs
    by (auto simp: reconcileTrigger_def record_trigger_def Let_def job_seen_other intro!: quiet_rules job_seen_startManualJob[OF assms])
  then have "emits job_seen (finish_schedule r repo uid schedule)" for repo uid schedule
    unfolding finish_schedule_def by (auto intro!: quiet_rules job_seen_other)
  then show ?thesis
    unfolding Reconcile_backup_def reconcile_backup_def reconcile_schedule_def Let_def
    by (auto intro!: quiet_rules job_seen_other)
qed

lemma job_seen_reconcileInitJob:
  assumes "controller_laws (rr_Lib r)"
  shows "emits job_seen (reconcileInitJob r)"
proof -
  have "job_seen \<lparr>en_Effect = CreateJob ((buildInitJob r repo name)\<lparr>job_Meta := m\<rparr>), en_Object = obj, en_Error = err\<rparr>"
    if "SetControllerReference (rr_Lib r) owner (job_Meta (buildInitJob r repo name)) = Inr m" for owner repo name m obj err
    using controlled_labels[OF assms that] init_job_labels[of r repo name] by (simp add: job_seen_def)
  then show ?thesis
    unfolding reconcileInitJob_def observeInitJob_def Let_def
    by (intro emits_bind[OF emits_get_obj] emits_bind[OF emits_attempt[OF emits_ask]] emits_sum emits_if emits_fail emits_bind_lift
        emits_bind[OF emits_attempt[OF emits_call]])
      (auto intro!: quiet_rules simp: job_seen_other)
qed

lemma job_seen_repository:
  assumes "controller_laws (rr_Lib r)"
  shows "emits job_seen (Reconcile_repository r req)"
proof -
  note emits_reconcileInitJob [quiet_rules del] and emits_reconcile_init [quiet_rules del] and
    emits_reconcile_repository [quiet_rules del] and emits_reconcile_live [quiet_rules del]
  have "emits job_seen (reconcile_init r)"
    unfolding reconcile_init_def by (auto intro!: quiet_rules job_seen_reconcileInitJob[OF assms] job_seen_other)
  then have "emits job_seen (reconcile_repository r api)" for api
    unfolding reconcile_repository_def Let_def by (auto intro!: quiet_rules emits_resolveRepo job_seen_other)
  then have "emits job_seen (reconcile_live r)"
    unfolding reconcile_live_def by (auto intro!: quiet_rules job_seen_other)
  moreover have "emits job_seen (reconcile_deleted r)"
    by (auto simp: reconcile_deleted_def finalize_def finalize_remote_def Let_def job_seen_other intro!: quiet_rules)
  ultimately show ?thesis
    unfolding Reconcile_repository_def by (auto intro!: quiet_rules)
qed

lemma operator_emits_seen:
  assumes "controller_laws (rr_Lib r)" "controller_laws (br_Lib b)"
  shows "emits seen (Reconcile_repository r req)" "emits seen (Reconcile_backup b breq)"
proof -
  have "emits cronjob_seen (Reconcile_repository r req)"
  proof -
    have "emits cronjob_seen (reconcile_live r)"
      by (auto intro!: quiet_rules emits_resolveRepo cronjob_seen_other)
    moreover have "emits cronjob_seen (reconcile_deleted r)"
      by (auto simp: reconcile_deleted_def finalize_def finalize_remote_def Let_def cronjob_seen_other intro!: quiet_rules)
        (auto intro!: cronjob_seen_other)
    ultimately show ?thesis unfolding Reconcile_repository_def by (auto intro!: quiet_rules)
  qed
  then show "emits seen (Reconcile_repository r req)" by (rule emits_conj[OF job_seen_repository[OF assms(1)]])
  have "emits cronjob_seen (Reconcile_backup b breq)"
    by (rule emits_mono[OF Reconcile_backup_cronjob built_for_seen[OF assms(2)]])
  then show "emits seen (Reconcile_backup b breq)" by (rule emits_conj[OF job_seen_backup[OF assms(2)]])
qed

text \<open>
  C33. The operator sees what it makes. Its client looks at no Job and no CronJob without the
  label of the cache's selector; in every run of either reconciler each Job that is created,
  and each CronJob that is created or updated with the template of its Jobs, has that
  label. So the reads on which the next run rests, whether the CronJob exists, whether
  the init Job has finished, whether a backup is running, find what the last one made.
\<close>

theorem operator_sees_what_it_makes:
  assumes "controller_laws (rr_Lib r)" "controller_laws (br_Lib b)"
    and "Reconcile_repository r req (start repo w) = (x, t)"
    and "Reconcile_backup b breq (start sb v) = (y, u)"
  shows "list_all seen (st_Log t) \<and> list_all seen (st_Log u)"
  by (intro conjI emits_run[OF operator_emits_seen(1)[OF assms(1,2)] assms(3)]
      emits_run[OF operator_emits_seen(2)[OF assms(1,2)] assms(4)]) (simp_all add: start_def)

theorem operator_sees_what_it_makes_witness:
  "\<exists>e. e \<in> set (st_Log (snd (Reconcile_backup (plain_backups creating_cluster) (NN ''app'' ''nightly'') (start sample_backup ())))) \<and>
     is_CreateCronJob (en_Effect e) \<and> seen e"
proof -
  let ?run = "Reconcile_backup (plain_backups creating_cluster) (NN ''app'' ''nightly'') (start sample_backup ())"
  have laws: "controller_laws (rr_Lib (sample_reconciler (sample_cluster sample_repository)))"
    "controller_laws (br_Lib (plain_backups creating_cluster))"
    by (simp_all add: sample_reconciler_def plain_backups_def plain_lib_laws)
  from operator_sees_what_it_makes[OF this, of "NN ''app'' ''backups''" sample_repository "()", OF prod.collapse[symmetric] prod.collapse[symmetric]]
  have "list_all seen (st_Log (snd ?run))" by blast
  with creating_run show ?thesis by (auto simp: list_all_iff)
qed

text \<open>The one-off Jobs of the command line are none of these: the operator does not see them.\<close>

lemma one_off_jobs_are_unseen:
  assumes "Build c sb opts s = (Inr j, t)"
  shows "\<not> managedByOperator (om_Labels (job_Meta j))"
proof -
  from Build_inverse[OF assms] obtain name labels where
    "job_Meta j = new_meta (sb_Namespace sb) name (one_off_labels labels)" by auto
  then show ?thesis
    by (auto simp: managedByOperator_def one_off_labels_def labelManagedBy_def ManagedByValue_def map_put_def Let_def
        split: option.splits)
qed

section \<open>Waking the backups\<close>

text \<open>A change of a Repository wakes the backups of its namespace that refer to it, and no other.\<close>

lemma repository_wakes_its_backups:
  assumes "k_ListBackups k (om_Namespace obj) w = (Inr items, v)" "om_Name obj \<noteq> ''''"
  shows "backupsForRepository (indexed_backups k) obj w =
    map (\<lambda>b. NN (sb_Namespace b) (sb_Name b)) (filter (\<lambda>b. bs_RepositoryRef (sb_Spec b) = om_Name obj) items)"
proof -
  have "om_Name obj \<in> set (repositoryRefIndex b) \<longleftrightarrow> bs_RepositoryRef (sb_Spec b) = om_Name obj" for b
    using assms(2) by (auto simp: repositoryRefIndex_def)
  with assms(1) show ?thesis by (simp add: backupsForRepository_def indexed_backups_def bind_go_def ret_def key_of_def)
qed

end
