(* ===== verification/Terminal.thy ===== *)
theory Terminal
  imports Prelude "HOL-Library.Word"
begin

text \<open>
  The plumbing of a session in a pod (\<open>internal/cli/kube/exec.go\<close>, \<open>tty.go\<close>): what is asked of the
  API server, and the queue that passes the sizes of the terminal on. Client-go and the
  terminal are parameters; raw mode is in \<open>Restic\<close>, with the shell that uses it.
\<close>

section \<open>Executing a command\<close>

definition ErrNoRESTConfig :: goerr where "ErrNoRESTConfig = Sentinel ''no REST client config''"

text \<open>The settings, with \<open>'io\<close> for the readers and writers and \<open>'q\<close> for the queue of sizes.\<close>

record ('io, 'q) exec_options =
  xo_Namespace :: string
  xo_Pod :: string
  xo_Container :: string
  xo_Command :: "string list"
  xo_Stdin :: "'io option"
  xo_Stdout :: "'io option"
  xo_Stderr :: "'io option"
  xo_TTY :: bool
  xo_SizeQueue :: "'q option"

text \<open>The request: the pod, and the parameters \<open>corev1.PodExecOptions\<close>.\<close>

record exec_request =
  xr_Namespace :: string
  xr_Name :: string
  xr_Command :: "string list"
  xr_Container :: string
  xr_Stdin :: bool
  xr_Stdout :: bool
  xr_Stderr :: bool
  xr_TTY :: bool

definition exec_request_of :: "('io, 'q) exec_options \<Rightarrow> exec_request" where
  "exec_request_of opts =
     \<lparr>xr_Namespace = xo_Namespace opts, xr_Name = xo_Pod opts, xr_Command = xo_Command opts,
      xr_Container = xo_Container opts, xr_Stdin = (xo_Stdin opts \<noteq> None),
      xr_Stdout = (xo_Stdout opts \<noteq> None), xr_Stderr = (xo_Stderr opts \<noteq> None), xr_TTY = xo_TTY opts\<rparr>"

text \<open>\<open>NewSPDYExecutor\<close> and \<open>StreamWithContext\<close>.\<close>

record ('w, 'cfg, 'x, 'io, 'q) executors =
  ex_New :: "'cfg \<Rightarrow> exec_request \<Rightarrow> goerr + 'x"
  ex_Stream :: "'x \<Rightarrow> 'io option \<Rightarrow> 'io option \<Rightarrow> 'io option \<Rightarrow> bool \<Rightarrow> 'q option \<Rightarrow> ('w, unit) go"

definition pod_exec ::
  "('w, 'cfg, 'x, 'io, 'q) executors \<Rightarrow> 'cfg option \<Rightarrow> ('io, 'q) exec_options \<Rightarrow> ('w, unit) go" where
  "pod_exec ex cfg opts =
     (case cfg of
        None \<Rightarrow> fail ErrNoRESTConfig
      | Some cfg \<Rightarrow>
          bind_go (lift (ex_New ex cfg (exec_request_of opts))) (\<lambda>executor.
          ex_Stream ex executor (xo_Stdin opts) (xo_Stdout opts) (xo_Stderr opts) (xo_TTY opts) (xo_SizeQueue opts)))"

section \<open>The sizes of the terminal\<close>

text \<open>
  \<open>sizeQueue.Next\<close> waits until the size differs from the last that it gave out; it may wait
  forever, so it is a partial function. \<open>get\<close> is \<open>term.GetSize\<close> on the descriptor and
  \<open>sleep\<close> lets the world go on for the polling interval. Sizes are converted to 16 bits.
\<close>

type_synonym terminal_size = "16 word \<times> 16 word"

definition size_of :: "int \<times> int \<Rightarrow> terminal_size" where
  "size_of wh = (word_of_int (fst wh), word_of_int (snd wh))"

partial_function (option) next_size ::
  "('w \<Rightarrow> (goerr + int \<times> int) \<times> 'w) \<Rightarrow> ('w \<Rightarrow> 'w) \<Rightarrow> terminal_size \<Rightarrow> 'w \<Rightarrow> (terminal_size option \<times> terminal_size \<times> 'w) option" where
  "next_size get sleep prev w =
     (case get w of
        (Inl e, v) \<Rightarrow> Some (None, prev, v)
      | (Inr wh, v) \<Rightarrow>
          if size_of wh \<noteq> prev then Some (Some (size_of wh), size_of wh, v)
          else next_size get sleep prev (sleep v))"

text \<open>It never gives out a size twice in a row, remembers what it gave out, and ends for good
  only when the terminal has no size any more.\<close>

definition new_size ::
  "('w \<Rightarrow> (goerr + int \<times> int) \<times> 'w) \<Rightarrow> terminal_size \<Rightarrow> terminal_size option \<times> terminal_size \<times> 'w \<Rightarrow> bool" where
  "new_size get prev out \<longleftrightarrow>
     (case out of
        (Some sz, prev', v) \<Rightarrow> sz \<noteq> prev \<and> prev' = sz
      | (None, prev', v) \<Rightarrow> prev' = prev \<and> (\<exists>u e. get u = (Inl e, v)))"

lemma next_size_is_new:
  assumes "next_size get sleep prev w = Some out"
  shows "new_size get prev out"
proof (rule next_size.raw_induct[where P = "\<lambda>get sleep prev w out. new_size get prev out", OF _ assms])
  fix f and get :: "'w \<Rightarrow> (goerr + int \<times> int) \<times> 'w" and sleep prev w out
  assume IH: "\<And>get sleep prev w out. f get sleep prev w = Some out \<Longrightarrow> new_size get prev out"
    and step: "(case get w of (Inl e, v) \<Rightarrow> Some (None, prev, v)
      | (Inr wh, v) \<Rightarrow> if size_of wh \<noteq> prev then Some (Some (size_of wh), size_of wh, v)
          else f get sleep prev (sleep v)) = Some out"
  obtain x v where x: "get w = (x, v)" by fastforce
  show "new_size get prev out"
  proof (cases x)
    case (Inl e)
    with step x have "out = (None, prev, v)" by simp
    then show ?thesis using x Inl unfolding new_size_def by (simp only: prod.case option.case) blast
  next
    case (Inr wh)
    show ?thesis
    proof (cases "size_of wh = prev")
      case True
      with step x Inr have "f get sleep prev (sleep v) = Some out" by simp
      then show ?thesis by (rule IH)
    next
      case False
      with step x Inr have "out = (Some (size_of wh), size_of wh, v)" by simp
      then show ?thesis using False unfolding new_size_def by (simp only: prod.case option.case) blast
    qed
  qed
qed

text \<open>It returns as soon as the size has changed or the terminal is gone.\<close>

lemma next_size_returns:
  assumes "\<And>i. i < n \<Longrightarrow> \<exists>wh v. get (f i) = (Inr wh, v) \<and> size_of wh = prev \<and> sleep v = f (Suc i)"
    and "case get (f n) of (Inl e, v) \<Rightarrow> True | (Inr wh, v) \<Rightarrow> size_of wh \<noteq> prev"
  shows "\<exists>r. next_size get sleep prev (f 0) = Some r"
  using assms
proof (induction n arbitrary: f)
  case 0
  then show ?case by (subst next_size.simps) (auto split: prod.splits sum.splits)
next
  case (Suc n)
  obtain wh v where first: "get (f 0) = (Inr wh, v)" "size_of wh = prev" "sleep v = f (Suc 0)"
    using Suc.prems(1)[of 0] by auto
  have "\<exists>r. next_size get sleep prev (f (Suc 0)) = Some r"
    using Suc.IH[of "\<lambda>i. f (Suc i)"] Suc.prems by simp
  with first show ?case by (subst next_size.simps) simp
qed

text \<open>A terminal of 65536 columns is passed on as one of none.\<close>

lemma size_of_wraps: "size_of (65536, 24) = (0, 24)"
  by (simp add: size_of_def)

end
