(* ===== verification/Spec2Isabelle.thy ===== *)
theory Spec2Isabelle
  imports RepositoryContracts BackupContracts Healthchecks Script Schedule Cadence Secrets BorgBase
    MigrateContracts ScriptRoundtrip Lifecycle
    RunnerContracts TimeFormat RunCommands RunCommandContracts ResticContracts RestoreContracts
    DoctorContracts RepairContracts DevelopContracts ListingContracts WiringContracts Terminal
begin

text \<open>
  A verification library for the BorgBase operator and its command line \<open>corg\<close>.

  \<^bold>\<open>The program.\<close> Two controllers run in a Kubernetes operator. One reconciles \<open>Repository\<close>
  objects: it finds or creates a repository in a BorgBase account, keeps its settings in line,
  writes the credentials Secret with a restic password that must never change again, and runs
  \<open>restic init\<close> once. The other reconciles \<open>ScheduledBackup\<close> objects into a CronJob and a cache
  claim, records the history of runs and starts a Job by hand when an annotation asks for it.
  The command line works beside them on the same objects: it sets that annotation and waits,
  runs one-off Jobs that are modelled on the CronJob (restic commands, shells, restores), and
  generates resources from hand-written backups. The parts meet in the cluster: the controllers
  through Secrets and statuses, the command line through annotations, Jobs and claims.

  \<^bold>\<open>The ground.\<close>
  \<^item> \<open>Prelude\<close>: Go errors, computations with errors as values and a rule for weakest
    preconditions, maps as association lists, stable sorting, the locales \<open>comparison\<close> and
    \<open>seniority\<close>.
  \<^item> \<open>GoStrings\<close>, \<open>GoTime\<close>, \<open>TimeFormat\<close>, \<open>FilePath\<close>: what the program uses of Go's \<open>strings\<close>,
    \<open>strconv\<close>, \<open>time\<close> and \<open>path/filepath\<close>. A string is a sequence of bytes.
  \<^item> \<open>KubeTypes\<close>, \<open>ApiTypes\<close>: the Kubernetes objects, and the custom resources of \<open>api/v1\<close>.
  \<^item> \<open>Cluster\<close>: the cluster as a record of operations over an arbitrary world, computations that
    carry the object in memory, the world and a log of effects, and three ways to speak of them:
    \<open>wp\<close>, \<open>emits P\<close> (every new log entry satisfies \<open>P\<close>) and \<open>silent\<close> (reads only).

  \<^bold>\<open>The operator.\<close>
  \<^item> \<open>BorgBase\<close>, \<open>Secrets\<close>, \<open>Healthchecks\<close>, \<open>Helpers\<close>: the GraphQL client
    (\<open>internal/borgbase\<close>), the password generator (\<open>internal/secrets\<close>), the reporter
    (\<open>internal/healthchecks\<close>), and \<open>helpers.go\<close> and \<open>predicate.go\<close> of \<open>internal/controller\<close>.
  \<^item> \<open>Schedule\<close>, \<open>Script\<close>, \<open>CronJob\<close>: \<open>internal/backup\<close>. \<open>Script\<close> also holds the reader of
    shell words against which quoting is proved.
  \<^item> \<open>RepositoryController\<close> with \<open>RepositorySafety\<close> and \<open>RepositoryContracts\<close>:
    \<open>repository_controller.go\<close>, what its runs never do and what its steps achieve.
  \<^item> \<open>ScheduledBackupController\<close>, \<open>History\<close> with \<open>BackupContracts\<close>:
    \<open>scheduledbackup_controller.go\<close> and \<open>trigger.go\<close>.
  \<^item> \<open>Lifecycle\<close>: histories of any number of runs of both controllers, interleaved with steps of
    others, as refinements of two abstract machines: a vault of passwords to which entries are
    only added, and an account in which no name comes to stand for two repositories unless two
    runs race for it; \<open>interrupted\<close> puts what others do between the calls of a run.

  \<^bold>\<open>The command line\<close> (\<open>internal/cli\<close>).
  \<^item> \<open>Cadence\<close>, \<open>Migrate\<close> with \<open>MigrateContracts\<close> and \<open>ScriptRoundtrip\<close>: \<open>cadence.go\<close>,
    \<open>helmrelease.go\<close>, \<open>migrate.go\<close> and the reading of \<open>sops.go\<close>; a migrated schedule keeps its
    cadence, and a rendered script is read back.
  \<^item> \<open>Cli\<close>: the world of a command, the printer of \<open>output.go\<close>, the polling loop, \<open>resolve.go\<close> and
    \<open>logs.go\<close>.
  \<^item> \<open>Runner\<close> with \<open>RunnerContracts\<close>: \<open>runner/runner.go\<close>, the one-off Jobs.
  \<^item> \<open>RunCommands\<close> with \<open>RunCommandContracts\<close>: \<open>backup.go\<close>, \<open>cancel.go\<close>, \<open>lifecycle.go\<close>; what the
    command writes and the operator reads, and the other way round.
  \<^item> \<open>Restic\<close> with \<open>ResticContracts\<close>: \<open>restic.go\<close>, \<open>maintenance.go\<close>, \<open>snapshots.go\<close>, \<open>shell.go\<close>.
  \<^item> \<open>Restore\<close> with \<open>RestoreContracts\<close>: \<open>restore.go\<close>, \<open>restore_targets.go\<close>.
  \<^item> \<open>Doctor\<close> with \<open>DoctorContracts\<close>: \<open>doctor.go\<close> and \<open>env.go\<close>; the exit code against a
    specification of the checks that count, and what is shown of the passwords.
  \<^item> \<open>Repair\<close> with \<open>RepairContracts\<close>: \<open>repair.go\<close>, rotation of the password and initializing again.
  \<^item> \<open>Develop\<close> with \<open>DevelopContracts\<close>: \<open>develop.go\<close>; validation against the operator's builder,
    the comparison of backups, and that what the migration generates passes it.
  \<^item> \<open>Tables\<close>, \<open>Listing\<close> with \<open>ListingContracts\<close>: \<open>output.go\<close>, \<open>get.go\<close> and \<open>status.go\<close>; the tab
    writer, what is printed, and that columns line up.
  \<^item> \<open>Wiring\<close> with \<open>WiringContracts\<close>: \<open>cmd\<close>, \<open>factory.go\<close>, \<open>root.go\<close> and \<open>version.go\<close>; the
    operator's flags and the selector of its cache, under which it sees all that it makes.
  \<^item> \<open>Terminal\<close>: \<open>kube/exec.go\<close> and \<open>tty.go\<close>; the sizes of the terminal wait for a change, possibly
    forever, so they are a partial function.

  \<^bold>\<open>How code becomes definitions.\<close> A struct is a record, a string enum a string (the code tests
  for other values), a pointer an option, an \<open>int32\<close> or \<open>int64\<close> an \<open>int\<close> where it cannot wrap and
  a word or an explicit \<open>mod\<close> where it can. A function that touches state is a computation with
  the source's branches in the source's order; a Go error is an \<open>Inl\<close>, \<open>defer\<close> runs the deferred
  part on either outcome, and a run-time panic is an error of its own name. Every call that
  changes the cluster, the account, a pod or the local file system is an effect in the log, with
  the object in memory and the error it ended with. The library is a parameter: the Kubernetes
  client, the BorgBase transport, the clock, the random source, the poll of the API machinery,
  the terminal, the local files, the stream of a command in a pod. What a property needs of
  them is a hypothesis that states their documented behaviour, and each has a witness that
  instantiates them with concrete functions. A printed line is its format, without the line
  end, and its arguments; ages stay times, but in tables they are texts, since columns depend on them.

  \<^bold>\<open>Bounds and fuel.\<close> The password generator gets fuel for its reads: with a productive source
  129 passes are enough, which is proved. The expansion of a cron field runs 64 passes, enough
  for every field because none has more than 60 values and a step is at least one. A poll is a
  relation (\<open>polled\<close>) without a bound; \<open>poll_upto n\<close>, a poll of \<open>n\<close> further tries, is used for
  liveness and in witnesses. Every other loop is structural or has a measure.

  \<^bold>\<open>Granularity.\<close> In the histories of \<open>Lifecycle\<close> a run is one step. Controller-runtime does not
  run two reconciliations of one object at a time, but both controllers reconcile up to four
  different objects at once (\<open>MaxConcurrentReconciles\<close>). For the account of repositories this
  matters, so there a run is interrupted: before each of its calls anything may happen, by
  other runs or other users, that does not create a repository of the name in question; two
  runs of Repositories with the same name that overlap do create two, which is proved as
  well. For the vault of passwords a run is taken as undisturbed in the Secret it writes, which
  belongs to its own object and is updated under the API server's optimistic lock. There is
  one BorgBase account.

  \<^bold>\<open>Not modelled.\<close> Registration with the API machinery and the generated deep copies, which
  have no logic of their own; the set-up of metrics, webhooks and the manager in \<open>cmd/main.go\<close>; the
  flags of the commands, whose values are arguments of the definitions; decoding and encoding
  YAML and JSON and running \<open>sops\<close>, which are parameters; the helpers of the end-to-end tests.
  What is left of the program's own code is of these kinds.
\<close>

end
